(* ===== verification/Prelude.thy ===== *)
theory Prelude
  imports Complex_Main "HOL-Library.Word"
begin

text \<open>
  Shared vocabulary of the development: results with an error side, Python's string and list
  primitives as far as the program uses them, the clock, and the generic lemmas that the
  component theories rely on.

  \<^item> Python's \<^verbatim>\<open>str\<close> and \<^verbatim>\<open>bytes\<close> are both \<^typ>\<open>string\<close>. Case folding and whitespace are the
    ASCII ones, which is what host names, header names and scheme names consist of.
  \<^item> A \<^verbatim>\<open>datetime\<close> is an \<^typ>\<open>int\<close>, in microseconds since the epoch.
  \<^item> A computation that may raise is a value of \<open>'e + 'a\<close>: \<^const>\<open>Inl\<close> is the exception.
\<close>

section \<open>Names of the model's types\<close>

type_synonym uuid = "128 word"
type_synonym datetime = int
type_synonym bytes = string
type_synonym headers = "(string \<times> string) list"

named_theorems py_str \<open>definitions of Python's string primitives\<close>
named_theorems result_simps \<open>rules that evaluate results with an error side\<close>

section \<open>Time\<close>

definition timedelta_s :: "int \<Rightarrow> int" where
  "timedelta_s s = s * 1000000"

definition timedelta_h :: "int \<Rightarrow> int" where
  "timedelta_h h = h * 3600 * 1000000"

lemma timedelta_s_mono [simp]: "timedelta_s a \<le> timedelta_s b \<longleftrightarrow> a \<le> b"
  by (simp add: timedelta_s_def)

lemma timedelta_s_less [simp]: "timedelta_s a < timedelta_s b \<longleftrightarrow> a < b"
  by (simp add: timedelta_s_def)

section \<open>Results with an error side\<close>

definition bindE :: "'e + 'a \<Rightarrow> ('a \<Rightarrow> 'e + 'b) \<Rightarrow> 'e + 'b" where
  "bindE r f = (case r of Inl e \<Rightarrow> Inl e | Inr x \<Rightarrow> f x)"

lemma bindE_simps [simp, result_simps]:
  "bindE (Inl e) f = Inl e"
  "bindE (Inr x) f = f x"
  by (simp_all add: bindE_def)

lemma bindE_Inr_iff: "bindE r f = Inr y \<longleftrightarrow> (\<exists>x. r = Inr x \<and> f x = Inr y)"
  by (cases r) auto

lemma bindE_Inl_iff:
  "bindE r f = Inl e \<longleftrightarrow> r = Inl e \<or> (\<exists>x. r = Inr x \<and> f x = Inl e)"
  by (cases r) auto

definition guardE :: "bool \<Rightarrow> 'e \<Rightarrow> 'e + unit" where
  "guardE ok e = (if ok then Inr () else Inl e)"

lemma guardE_simps [simp, result_simps]:
  "guardE True e = Inr ()"
  "guardE False e = Inl e"
  "guardE b e = Inr u \<longleftrightarrow> b"
  "guardE b e = Inl e' \<longleftrightarrow> \<not> b \<and> e' = e"
  by (auto simp: guardE_def)

definition of_option :: "'e \<Rightarrow> 'a option \<Rightarrow> 'e + 'a" where
  "of_option e x = (case x of None \<Rightarrow> Inl e | Some y \<Rightarrow> Inr y)"

lemma of_option_simps [simp, result_simps]:
  "of_option e None = Inl e"
  "of_option e (Some x) = Inr x"
  by (simp_all add: of_option_def)

lemma of_option_Inr_iff [simp]: "of_option e x = Inr y \<longleftrightarrow> x = Some y"
  by (cases x) auto

lemma of_option_Inl_iff [simp]: "of_option e x = Inl e' \<longleftrightarrow> x = None \<and> e' = e"
  by (cases x) auto

section \<open>Python indexing\<close>

text \<open>\<^verbatim>\<open>xs[i]\<close>: a negative index counts from the end, \<^const>\<open>None\<close> is IndexError.\<close>

definition py_index :: "'a list \<Rightarrow> int \<Rightarrow> 'a option" where
  "py_index xs i =
     (let n = int (length xs); j = (if i < 0 then n + i else i)
      in if 0 \<le> j \<and> j < n then Some (xs ! nat j) else None)"

lemma py_index_nonneg:
  "0 \<le> i \<Longrightarrow> i < int (length xs) \<Longrightarrow> py_index xs i = Some (xs ! nat i)"
  by (simp add: py_index_def)

lemma py_index_mem: "py_index xs i = Some x \<Longrightarrow> x \<in> set xs"
  by (auto simp: py_index_def Let_def split: if_splits)

text \<open>\<^verbatim>\<open>xs[:n]\<close> for a bound that is not negative.\<close>

fun prefix_to :: "int \<Rightarrow> 'a list \<Rightarrow> 'a list" where
  "prefix_to n [] = []"
| "prefix_to n (x # xs) = (if n \<le> 0 then [] else x # prefix_to (n - 1) xs)"

lemma prefix_to_take: "prefix_to n xs = take (nat n) xs"
  by (induction n xs rule: prefix_to.induct) (auto simp: take_Cons' nat_diff_distrib)

lemma prefix_to_map: "prefix_to n (map f xs) = map f (prefix_to n xs)"
  by (simp add: prefix_to_take take_map)

lemma prefix_to_idem [simp]: "prefix_to n (prefix_to n xs) = prefix_to n xs"
  by (simp add: prefix_to_take)

section \<open>Characters and strings\<close>

definition ord :: "char \<Rightarrow> int" where
  "ord c = of_char c"

definition lower_char :: "char \<Rightarrow> char" where
  "lower_char c = (if 65 \<le> ord c \<and> ord c \<le> 90 then char_of (ord c + 32) else c)"

definition upper_char :: "char \<Rightarrow> char" where
  "upper_char c = (if 97 \<le> ord c \<and> ord c \<le> 122 then char_of (ord c - 32) else c)"

definition lower :: "string \<Rightarrow> string" where
  "lower = map lower_char"

definition upper :: "string \<Rightarrow> string" where
  "upper = map upper_char"

definition is_digit :: "char \<Rightarrow> bool" where
  "is_digit c \<longleftrightarrow> 48 \<le> ord c \<and> ord c \<le> 57"

definition is_alpha :: "char \<Rightarrow> bool" where
  "is_alpha c \<longleftrightarrow> 65 \<le> ord c \<and> ord c \<le> 90 \<or> 97 \<le> ord c \<and> ord c \<le> 122"

text \<open>The whitespace of \<^verbatim>\<open>str.strip\<close> below 128.\<close>

definition is_space :: "char \<Rightarrow> bool" where
  "is_space c \<longleftrightarrow> 9 \<le> ord c \<and> ord c \<le> 13 \<or> 28 \<le> ord c \<and> ord c \<le> 32"

definition lstrip :: "string \<Rightarrow> string" where
  "lstrip = dropWhile is_space"

definition strip :: "string \<Rightarrow> string" where
  "strip s = rev (dropWhile is_space (rev (dropWhile is_space s)))"

definition startswith :: "string \<Rightarrow> string \<Rightarrow> bool" where
  "startswith p s \<longleftrightarrow> take (length p) s = p"

definition endswith :: "string \<Rightarrow> string \<Rightarrow> bool" where
  "endswith p s \<longleftrightarrow> length p \<le> length s \<and> drop (length s - length p) s = p"

definition removeprefix :: "string \<Rightarrow> string \<Rightarrow> string" where
  "removeprefix p s = (if startswith p s then drop (length p) s else s)"

definition contains :: "string \<Rightarrow> string \<Rightarrow> bool" where
  "contains p s \<longleftrightarrow> (\<exists>i \<in> set [0..<Suc (length s)]. startswith p (drop i s))"

text \<open>\<^verbatim>\<open>s.split(c)\<close> for one separator character: never empty.\<close>

fun split_on :: "char \<Rightarrow> string \<Rightarrow> string list" where
  "split_on c [] = [[]]"
| "split_on c (x # xs) =
     (if x = c then [] # split_on c xs
      else (case split_on c xs of [] \<Rightarrow> [[x]] | w # ws \<Rightarrow> (x # w) # ws))"

text \<open>\<^verbatim>\<open>s.partition(c)\<close>: the part before, whether the separator was found, the part after.\<close>

definition partition_on :: "char \<Rightarrow> string \<Rightarrow> string \<times> bool \<times> string" where
  "partition_on c s =
     (takeWhile (\<lambda>x. x \<noteq> c) s, c \<in> set s, drop 1 (dropWhile (\<lambda>x. x \<noteq> c) s))"

text \<open>The last component of \<^verbatim>\<open>s.rpartition(c)\<close>.\<close>

definition after_last :: "char \<Rightarrow> string \<Rightarrow> string" where
  "after_last c s = rev (takeWhile (\<lambda>x. x \<noteq> c) (rev s))"

text \<open>A value between single quotes, as the error messages print it.\<close>

definition sq :: "string \<Rightarrow> string" where
  "sq s = CHR 0x27 # s @ [CHR 0x27]"

lemmas [py_str] = lower_def upper_def lstrip_def strip_def startswith_def endswith_def
  removeprefix_def contains_def partition_on_def after_last_def

lemma ord_nonneg [simp]: "0 \<le> ord c"
  by (cases c) (simp add: ord_def)

lemma ord_char_of: "0 \<le> n \<Longrightarrow> n < 256 \<Longrightarrow> ord (char_of n) = n"
  by (simp add: ord_def)

lemma lower_char_idem [simp]: "lower_char (lower_char c) = lower_char c"
  by (auto simp: lower_char_def ord_char_of)

lemma lower_idem [simp]: "lower (lower s) = lower s"
  by (simp add: lower_def)

lemma length_lower [simp]: "length (lower s) = length s"
  by (simp add: lower_def)

lemma lower_Nil_iff [simp]: "lower s = [] \<longleftrightarrow> s = []"
  by (simp add: lower_def)

lemma length_upper [simp]: "length (upper s) = length s"
  by (simp add: upper_def)

lemma split_on_not_Nil [simp]: "split_on c s \<noteq> []"
  by (induction s) (auto split: list.splits)

lemma split_on_no_sep: "c \<notin> set s \<Longrightarrow> split_on c s = [s]"
  by (induction s) auto

lemma split_on_append: "c \<notin> set s \<Longrightarrow> split_on c (s @ c # r) = s # split_on c r"
  by (induction s) auto

lemma startswith_append [simp]: "startswith p (p @ s)"
  by (simp add: startswith_def)

section \<open>Decimal numerals\<close>

text \<open>\<^verbatim>\<open>int(s)\<close> for a string of ASCII digits and \<^verbatim>\<open>str(n)\<close> for a natural number.\<close>

definition digit_val :: "char \<Rightarrow> int" where
  "digit_val c = ord c - 48"

definition decimal :: "string \<Rightarrow> int" where
  "decimal s = foldl (\<lambda>acc c. acc * 10 + digit_val c) 0 s"

function nat_str :: "int \<Rightarrow> string" where
  "nat_str n = (if n < 10 then [char_of (48 + n)] else nat_str (n div 10) @ [char_of (48 + n mod 10)])"
  by pat_completeness auto
termination
  by (relation "measure nat") auto

declare nat_str.simps [simp del]

definition int_str :: "int \<Rightarrow> string" where
  "int_str i = (if i < 0 then CHR ''-'' # nat_str (- i) else nat_str i)"

lemma digit_val_char_of [simp]: "0 \<le> n \<Longrightarrow> n < 10 \<Longrightarrow> digit_val (char_of (48 + n)) = n"
  by (simp add: digit_val_def ord_char_of)

lemma decimal_snoc: "decimal (s @ [c]) = decimal s * 10 + digit_val c"
  by (simp add: decimal_def)

lemma decimal_nat_str [simp]: "0 \<le> n \<Longrightarrow> decimal (nat_str n) = n"
proof (induction n rule: nat_str.induct)
  case (1 n)
  show ?case
  proof (cases "n < 10")
    case True
    with 1(2) show ?thesis by (simp add: nat_str.simps [of n] decimal_def)
  next
    case False
    with 1 have "decimal (nat_str (n div 10)) = n div 10" by simp
    with False show ?thesis by (simp add: nat_str.simps [of n] decimal_snoc)
  qed
qed

lemma nat_str_inj: "0 \<le> m \<Longrightarrow> 0 \<le> n \<Longrightarrow> nat_str m = nat_str n \<longleftrightarrow> m = n"
  by (metis decimal_nat_str)

section \<open>Association lists as dictionaries\<close>

text \<open>\<^verbatim>\<open>{k.lower(): v for k, v in d.items()}\<close>: a later entry wins, as in a dict comprehension.\<close>

definition dict_get :: "(string \<times> 'v) list \<Rightarrow> string \<Rightarrow> 'v option" where
  "dict_get d k = map_of (rev d) k"

definition lower_keys :: "(string \<times> 'v) list \<Rightarrow> (string \<times> 'v) list" where
  "lower_keys d = map (\<lambda>(k, v). (lower k, v)) d"

definition has_key :: "(string \<times> 'v) list \<Rightarrow> string \<Rightarrow> bool" where
  "has_key d k \<longleftrightarrow> k \<in> fst ` set d"

lemma has_key_dict_get: "has_key d k \<longleftrightarrow> dict_get d k \<noteq> None"
  by (simp add: has_key_def dict_get_def map_of_eq_None_iff)

section \<open>Lists\<close>

lemma find_SomeD: "find P xs = Some x \<Longrightarrow> x \<in> set xs \<and> P x"
  by (induction xs) (auto split: if_splits)

lemma find_NoneD: "find P xs = None \<Longrightarrow> y \<in> set xs \<Longrightarrow> \<not> P y"
  by (induction xs) (auto split: if_splits)

end
