(* ===== verification/Redis.thy ===== *)
theory Redis
  imports Prelude
begin

text \<open>
  The Redis service as the program sees it. The service is not part of the program: it is a
  parameter, a record of commands on a state of unknown type. A command returns \<^const>\<open>None\<close> when
  the client raises (connection lost, wrong type) and may have changed its own key then.

  \<open>redis_laws R view\<close> states the documented effect of each command that returned, on the keyspace
  \<open>view\<close> of the moment; a key that expired is simply absent from the view. \<open>redis_up R view\<close> says
  that commands of the right type return. A keyspace held in a function satisfies both, so
  the laws are consistent (\<open>fun_redis\<close>).
\<close>

section \<open>Values and commands\<close>

text \<open>JSON texts are represented by the value they denote.\<close>

datatype json =
    JNull
  | JStr string
  | JNum int
  | JReal real
  | JBool bool
  | JList "json list"
  | JObj "(string \<times> json) list"

type_synonym zset = "(string \<times> int) list"

datatype rval =
    RStr string
  | RJson json
  | RInt int
  | RHash "string \<Rightarrow> int"
  | RZset zset

type_synonym keyspace = "string \<Rightarrow> rval option"

record 'r redis =
  r_get :: "string \<Rightarrow> 'r \<Rightarrow> rval option option \<times> 'r"
  r_set :: "string \<Rightarrow> rval \<Rightarrow> int option \<Rightarrow> 'r \<Rightarrow> unit option \<times> 'r"
  r_delete :: "string \<Rightarrow> 'r \<Rightarrow> unit option \<times> 'r"
  r_incr :: "string \<Rightarrow> 'r \<Rightarrow> int option \<times> 'r"
  r_expire :: "string \<Rightarrow> int \<Rightarrow> 'r \<Rightarrow> unit option \<times> 'r"
  r_hincrby :: "string \<Rightarrow> string \<Rightarrow> int \<Rightarrow> 'r \<Rightarrow> int option \<times> 'r"
  r_zremrangebyscore :: "string \<Rightarrow> int \<Rightarrow> 'r \<Rightarrow> unit option \<times> 'r"
  r_zcard :: "string \<Rightarrow> 'r \<Rightarrow> int option \<times> 'r"
  r_zrange_first :: "string \<Rightarrow> 'r \<Rightarrow> (string \<times> int) option option \<times> 'r"
  r_zadd :: "string \<Rightarrow> int \<Rightarrow> string \<Rightarrow> 'r \<Rightarrow> unit option \<times> 'r"

section \<open>Sequencing\<close>

text \<open>A block of commands: an exception ends it. \<open>try_or\<close> is \<^verbatim>\<open>try ... except Exception\<close>.\<close>

definition rbind :: "('r \<Rightarrow> 'a option \<times> 'r) \<Rightarrow> ('a \<Rightarrow> 'r \<Rightarrow> 'b option \<times> 'r) \<Rightarrow> 'r \<Rightarrow> 'b option \<times> 'r" where
  "rbind m f s = (case m s of (None, s') \<Rightarrow> (None, s') | (Some x, s') \<Rightarrow> f x s')"

definition rret :: "'a \<Rightarrow> 'r \<Rightarrow> 'a option \<times> 'r" where
  "rret x s = (Some x, s)"

definition try_or :: "'a \<Rightarrow> ('r \<Rightarrow> 'a option \<times> 'r) \<Rightarrow> 'r \<Rightarrow> 'a \<times> 'r" where
  "try_or d m s = (case m s of (None, s') \<Rightarrow> (d, s') | (Some x, s') \<Rightarrow> (x, s'))"

section \<open>Documented behaviour\<close>

definition zset_ok :: "zset \<Rightarrow> bool" where
  "zset_ok z \<longleftrightarrow> distinct (map fst z) \<and> sorted (map snd z)"

text \<open>The sorted set at a key: absent is empty, another type has none.\<close>

definition zset_at :: "keyspace \<Rightarrow> string \<Rightarrow> zset option" where
  "zset_at m k = (case m k of None \<Rightarrow> Some [] | Some (RZset z) \<Rightarrow> Some z | _ \<Rightarrow> None)"

definition int_at :: "keyspace \<Rightarrow> string \<Rightarrow> int option" where
  "int_at m k = (case m k of None \<Rightarrow> Some 0 | Some (RInt n) \<Rightarrow> Some n | _ \<Rightarrow> None)"

definition hash_at :: "keyspace \<Rightarrow> string \<Rightarrow> (string \<Rightarrow> int) option" where
  "hash_at m k = (case m k of None \<Rightarrow> Some (\<lambda>_. 0) | Some (RHash h) \<Rightarrow> Some h | _ \<Rightarrow> None)"

text \<open>An empty sorted set is an absent key.\<close>

definition put_zset :: "string \<Rightarrow> zset \<Rightarrow> keyspace \<Rightarrow> keyspace" where
  "put_zset k z m = m(k := if z = [] then None else Some (RZset z))"

definition string_laws :: "'r redis \<Rightarrow> ('r \<Rightarrow> keyspace) \<Rightarrow> bool" where
  "string_laws R view \<longleftrightarrow>
     (\<forall>k s v s'. r_get R k s = (Some v, s') \<longrightarrow> v = view s k \<and> view s' = view s)
   \<and> (\<forall>k v ex s u s'. r_set R k v ex s = (Some u, s') \<longrightarrow> view s' = (view s)(k \<mapsto> v))
   \<and> (\<forall>k s u s'. r_delete R k s = (Some u, s') \<longrightarrow> view s' = (view s)(k := None))
   \<and> (\<forall>k s n s'. r_incr R k s = (Some n, s') \<longrightarrow>
        (\<exists>i. int_at (view s) k = Some i \<and> n = i + 1) \<and> view s' = (view s)(k \<mapsto> RInt n))
   \<and> (\<forall>k ttl s u s'. r_expire R k ttl s = (Some u, s') \<and> 0 < ttl \<longrightarrow> view s' = view s)
   \<and> (\<forall>k f d s n s'. r_hincrby R k f d s = (Some n, s') \<longrightarrow>
        (\<exists>h. hash_at (view s) k = Some h \<and> n = h f + d \<and> view s' = (view s)(k \<mapsto> RHash (h(f := n)))))"

definition zset_laws :: "'r redis \<Rightarrow> ('r \<Rightarrow> keyspace) \<Rightarrow> bool" where
  "zset_laws R view \<longleftrightarrow>
     (\<forall>k c s u s'. r_zremrangebyscore R k c s = (Some u, s') \<longrightarrow>
        (\<exists>z. zset_at (view s) k = Some z \<and> view s' = put_zset k (filter (\<lambda>x. c < snd x) z) (view s)))
   \<and> (\<forall>k s n s'. r_zcard R k s = (Some n, s') \<longrightarrow>
        (\<exists>z. zset_at (view s) k = Some z \<and> n = int (length z)) \<and> view s' = view s)
   \<and> (\<forall>k s x s'. r_zrange_first R k s = (Some x, s') \<longrightarrow>
        (\<exists>z. zset_at (view s) k = Some z \<and> x = (case z of [] \<Rightarrow> None | y # _ \<Rightarrow> Some y))
        \<and> view s' = view s)
   \<and> (\<forall>k sc m s u s'. r_zadd R k sc m s = (Some u, s') \<longrightarrow>
        (\<exists>z z'. zset_at (view s) k = Some z \<and> (zset_ok z \<longrightarrow> zset_ok z')
          \<and> set z' = insert (m, sc) {x \<in> set z. fst x \<noteq> m} \<and> view s' = put_zset k z' (view s)))"

text \<open>A command that raises has touched no other key.\<close>

definition failure_laws :: "'r redis \<Rightarrow> ('r \<Rightarrow> keyspace) \<Rightarrow> bool" where
  "failure_laws R view \<longleftrightarrow>
     (\<forall>k s s' k'. k' \<noteq> k \<longrightarrow>
        (r_get R k s = (None, s') \<longrightarrow> view s' k' = view s k')
      \<and> (\<forall>v ex. r_set R k v ex s = (None, s') \<longrightarrow> view s' k' = view s k')
      \<and> (r_delete R k s = (None, s') \<longrightarrow> view s' k' = view s k')
      \<and> (r_incr R k s = (None, s') \<longrightarrow> view s' k' = view s k')
      \<and> (\<forall>ttl. r_expire R k ttl s = (None, s') \<longrightarrow> view s' k' = view s k')
      \<and> (\<forall>f d. r_hincrby R k f d s = (None, s') \<longrightarrow> view s' k' = view s k')
      \<and> (\<forall>c. r_zremrangebyscore R k c s = (None, s') \<longrightarrow> view s' k' = view s k')
      \<and> (r_zcard R k s = (None, s') \<longrightarrow> view s' k' = view s k')
      \<and> (r_zrange_first R k s = (None, s') \<longrightarrow> view s' k' = view s k')
      \<and> (\<forall>sc m. r_zadd R k sc m s = (None, s') \<longrightarrow> view s' k' = view s k'))"

definition redis_laws :: "'r redis \<Rightarrow> ('r \<Rightarrow> keyspace) \<Rightarrow> bool" where
  "redis_laws R view \<longleftrightarrow> string_laws R view \<and> zset_laws R view \<and> failure_laws R view"

definition redis_up :: "'r redis \<Rightarrow> ('r \<Rightarrow> keyspace) \<Rightarrow> bool" where
  "redis_up R view \<longleftrightarrow>
     (\<forall>k s. fst (r_get R k s) \<noteq> None)
   \<and> (\<forall>k v ex s. fst (r_set R k v ex s) \<noteq> None)
   \<and> (\<forall>k s. fst (r_delete R k s) \<noteq> None)
   \<and> (\<forall>k s. int_at (view s) k \<noteq> None \<longrightarrow> fst (r_incr R k s) \<noteq> None)
   \<and> (\<forall>k ttl s. fst (r_expire R k ttl s) \<noteq> None)
   \<and> (\<forall>k f d s. hash_at (view s) k \<noteq> None \<longrightarrow> fst (r_hincrby R k f d s) \<noteq> None)
   \<and> (\<forall>k c s. zset_at (view s) k \<noteq> None \<longrightarrow> fst (r_zremrangebyscore R k c s) \<noteq> None)
   \<and> (\<forall>k s. zset_at (view s) k \<noteq> None \<longrightarrow> fst (r_zcard R k s) \<noteq> None)
   \<and> (\<forall>k s. zset_at (view s) k \<noteq> None \<longrightarrow> fst (r_zrange_first R k s) \<noteq> None)
   \<and> (\<forall>k sc m s. zset_at (view s) k \<noteq> None \<longrightarrow> fst (r_zadd R k sc m s) \<noteq> None)"

section \<open>Reading the laws\<close>

lemma rbind_Some_iff:
  "rbind m f s = (Some y, s'') \<longleftrightarrow> (\<exists>x s'. m s = (Some x, s') \<and> f x s' = (Some y, s''))"
  by (auto simp: rbind_def split: prod.splits option.splits)

lemma rbind_eq: "m s = (Some x, s') \<Longrightarrow> rbind m f s = f x s'"
  by (simp add: rbind_def)

lemma rbind_None: "m s = (None, s') \<Longrightarrow> rbind m f s = (None, s')"
  by (simp add: rbind_def)

lemma rret_eq [simp]: "rret x s = (y, s') \<longleftrightarrow> y = Some x \<and> s' = s"
  by (auto simp: rret_def)

lemma r_getD: "redis_laws R view \<Longrightarrow> r_get R k s = (Some v, s') \<Longrightarrow> v = view s k \<and> view s' = view s"
  by (simp add: redis_laws_def string_laws_def)

lemma r_setD: "redis_laws R view \<Longrightarrow> r_set R k v ex s = (Some u, s') \<Longrightarrow> view s' = (view s)(k \<mapsto> v)"
  by (simp add: redis_laws_def string_laws_def)

lemma r_deleteD: "redis_laws R view \<Longrightarrow> r_delete R k s = (Some u, s') \<Longrightarrow> view s' = (view s)(k := None)"
  by (simp add: redis_laws_def string_laws_def)

lemma r_incrD: "redis_laws R view \<Longrightarrow> r_incr R k s = (Some n, s') \<Longrightarrow>
  int_at (view s) k = Some (n - 1) \<and> view s' = (view s)(k \<mapsto> RInt n)"
  unfolding redis_laws_def string_laws_def by (elim conjE) (metis add_diff_cancel_right')

lemma r_expireD: "redis_laws R view \<Longrightarrow> r_expire R k ttl s = (Some u, s') \<Longrightarrow> 0 < ttl \<Longrightarrow> view s' = view s"
  unfolding redis_laws_def string_laws_def by blast

lemma r_hincrbyD: "redis_laws R view \<Longrightarrow> r_hincrby R k f d s = (Some n, s') \<Longrightarrow>
  \<exists>h. hash_at (view s) k = Some h \<and> n = h f + d \<and> view s' = (view s)(k \<mapsto> RHash (h(f := n)))"
  by (auto simp: redis_laws_def string_laws_def)

lemma r_zremD: "redis_laws R view \<Longrightarrow> r_zremrangebyscore R k c s = (Some u, s') \<Longrightarrow>
  \<exists>z. zset_at (view s) k = Some z \<and> view s' = put_zset k (filter (\<lambda>x. c < snd x) z) (view s)"
  by (simp add: redis_laws_def zset_laws_def)

lemma r_zcardD: "redis_laws R view \<Longrightarrow> r_zcard R k s = (Some n, s') \<Longrightarrow>
  (\<exists>z. zset_at (view s) k = Some z \<and> n = int (length z)) \<and> view s' = view s"
  by (simp add: redis_laws_def zset_laws_def)

lemma r_zrangeD: "redis_laws R view \<Longrightarrow> r_zrange_first R k s = (Some x, s') \<Longrightarrow>
  (\<exists>z. zset_at (view s) k = Some z \<and> x = (case z of [] \<Rightarrow> None | y # _ \<Rightarrow> Some y)) \<and> view s' = view s"
  by (simp add: redis_laws_def zset_laws_def)

lemma r_zaddD: "redis_laws R view \<Longrightarrow> r_zadd R k sc m s = (Some u, s') \<Longrightarrow>
  \<exists>z z'. zset_at (view s) k = Some z \<and> (zset_ok z \<longrightarrow> zset_ok z') \<and> set z' = insert (m, sc) {x \<in> set z. fst x \<noteq> m}
    \<and> view s' = put_zset k z' (view s)"
  by (simp add: redis_laws_def zset_laws_def)

lemma zset_at_put [simp]: "zset_at (put_zset k z m) k = Some z"
  by (simp add: zset_at_def put_zset_def)

lemma put_zset_other [simp]: "k' \<noteq> k \<Longrightarrow> put_zset k z m k' = m k'"
  by (simp add: put_zset_def)

lemma r_get_up:
  assumes "redis_up R view" shows "\<exists>v s'. r_get R k s = (Some v, s')"
proof -
  have "fst (r_get R k s) \<noteq> None" using assms by (simp add: redis_up_def)
  then show ?thesis by (cases "r_get R k s") auto
qed

lemma r_set_up:
  assumes "redis_up R view" shows "\<exists>s'. r_set R k v ex s = (Some (), s')"
proof -
  have "fst (r_set R k v ex s) \<noteq> None" using assms by (simp add: redis_up_def)
  then show ?thesis by (cases "r_set R k v ex s") auto
qed

lemma r_delete_up:
  assumes "redis_up R view" shows "\<exists>s'. r_delete R k s = (Some (), s')"
proof -
  have "fst (r_delete R k s) \<noteq> None" using assms by (simp add: redis_up_def)
  then show ?thesis by (cases "r_delete R k s") auto
qed

lemma r_incr_up:
  assumes "redis_up R view" "int_at (view s) k = Some i" shows "\<exists>n s'. r_incr R k s = (Some n, s')"
proof -
  have "fst (r_incr R k s) \<noteq> None" using assms by (simp add: redis_up_def)
  then show ?thesis by (cases "r_incr R k s") auto
qed

lemma r_expire_up:
  assumes "redis_up R view" shows "\<exists>s'. r_expire R k ttl s = (Some (), s')"
proof -
  have "fst (r_expire R k ttl s) \<noteq> None" using assms by (simp add: redis_up_def)
  then show ?thesis by (cases "r_expire R k ttl s") auto
qed

lemma r_hincrby_up:
  assumes "redis_up R view" "hash_at (view s) k = Some h"
  shows "\<exists>n s'. r_hincrby R k f d s = (Some n, s')"
proof -
  have "fst (r_hincrby R k f d s) \<noteq> None" using assms by (simp add: redis_up_def)
  then show ?thesis by (cases "r_hincrby R k f d s") auto
qed

lemma r_zset_up:
  assumes "redis_up R view" "zset_at (view s) k = Some z"
  shows "\<exists>s'. r_zremrangebyscore R k c s = (Some (), s')" "\<exists>n s'. r_zcard R k s = (Some n, s')"
    "\<exists>x s'. r_zrange_first R k s = (Some x, s')" "\<exists>s'. r_zadd R k sc m s = (Some (), s')"
proof -
  have up: "fst (r_zremrangebyscore R k c s) \<noteq> None" "fst (r_zcard R k s) \<noteq> None"
    "fst (r_zrange_first R k s) \<noteq> None" "fst (r_zadd R k sc m s) \<noteq> None"
    using assms by (simp_all add: redis_up_def)
  show "\<exists>s'. r_zremrangebyscore R k c s = (Some (), s')"
    using up(1) by (cases "r_zremrangebyscore R k c s") auto
  show "\<exists>n s'. r_zcard R k s = (Some n, s')" using up(2) by (cases "r_zcard R k s") auto
  show "\<exists>x s'. r_zrange_first R k s = (Some x, s')"
    using up(3) by (cases "r_zrange_first R k s") auto
  show "\<exists>s'. r_zadd R k sc m s = (Some (), s')" using up(4) by (cases "r_zadd R k sc m s") auto
qed

section \<open>What a block of commands leaves alone\<close>

definition keeps :: "('r \<Rightarrow> keyspace) \<Rightarrow> string \<Rightarrow> ('r \<Rightarrow> 'a option \<times> 'r) \<Rightarrow> bool" where
  "keeps view k m \<longleftrightarrow> (\<forall>s u s'. m s = (u, s') \<longrightarrow> view s' k = view s k)"

lemma keepsD: "keeps view k m \<Longrightarrow> m s = (u, s') \<Longrightarrow> view s' k = view s k"
  by (simp add: keeps_def)

lemma keepsI: "(\<And>s s'. m s = (None, s') \<Longrightarrow> view s' k = view s k) \<Longrightarrow>
  (\<And>s x s'. m s = (Some x, s') \<Longrightarrow> view s' k = view s k) \<Longrightarrow> keeps view k m"
  unfolding keeps_def by (metis option.exhaust)

named_theorems keeps_intros \<open>commands and blocks that leave a key alone\<close>

lemma keeps_rret [keeps_intros]: "keeps view k (rret x)"
  by (simp add: keeps_def)

lemma keeps_rbind [keeps_intros]:
  assumes "keeps view k m" "\<And>x. keeps view k (f x)"
  shows "keeps view k (rbind m f)"
proof -
  have "view s' k = view s k" if run: "rbind m f s = (u, s')" for s u s'
  proof (cases "m s")
    case (Pair x s1)
    then have "view s1 k = view s k" by (rule keepsD [OF assms(1)])
    moreover have "view s' k = view s1 k"
      using run Pair assms(2) by (cases x) (auto simp: rbind_def dest: keepsD)
    ultimately show ?thesis by simp
  qed
  then show ?thesis by (simp add: keeps_def)
qed

lemma keeps_if [keeps_intros]:
  "(b \<Longrightarrow> keeps view k m) \<Longrightarrow> (\<not> b \<Longrightarrow> keeps view k m') \<Longrightarrow> keeps view k (if b then m else m')"
  by simp

lemma keeps_commands [keeps_intros]:
  assumes laws: "redis_laws R view" and k: "k' \<noteq> k"
  shows "keeps view k' (r_get R k)" "keeps view k' (r_set R k v ex)" "keeps view k' (r_delete R k)"
    "keeps view k' (r_incr R k)" "keeps view k' (r_hincrby R k f d)" "0 < ttl \<Longrightarrow> keeps view k' (r_expire R k ttl)"
    "keeps view k' (r_zremrangebyscore R k c)" "keeps view k' (r_zcard R k)" "keeps view k' (r_zrange_first R k)"
    "keeps view k' (r_zadd R k sc m)"
proof -
  have f: "failure_laws R view" using laws by (simp add: redis_laws_def)
  show "keeps view k' (r_get R k)"
  proof (rule keepsI)
    show "r_get R k s = (None, s') \<Longrightarrow> view s' k' = view s k'" for s s'
      using f k unfolding failure_laws_def by blast
    show "r_get R k s = (Some x, s') \<Longrightarrow> view s' k' = view s k'" for s x s'
      using r_getD [OF laws, of k s x s'] k by auto
  qed
  show "keeps view k' (r_set R k v ex)"
  proof (rule keepsI)
    show "r_set R k v ex s = (None, s') \<Longrightarrow> view s' k' = view s k'" for s s'
      using f k unfolding failure_laws_def by blast
    show "r_set R k v ex s = (Some x, s') \<Longrightarrow> view s' k' = view s k'" for s x s'
      using r_setD [OF laws, of k v ex s x s'] k by auto
  qed
  show "keeps view k' (r_delete R k)"
  proof (rule keepsI)
    show "r_delete R k s = (None, s') \<Longrightarrow> view s' k' = view s k'" for s s'
      using f k unfolding failure_laws_def by blast
    show "r_delete R k s = (Some x, s') \<Longrightarrow> view s' k' = view s k'" for s x s'
      using r_deleteD [OF laws, of k s x s'] k by auto
  qed
  show "keeps view k' (r_incr R k)"
  proof (rule keepsI)
    show "r_incr R k s = (None, s') \<Longrightarrow> view s' k' = view s k'" for s s'
      using f k unfolding failure_laws_def by blast
    show "r_incr R k s = (Some x, s') \<Longrightarrow> view s' k' = view s k'" for s x s'
      using r_incrD [OF laws, of k s x s'] k by auto
  qed
  show "keeps view k' (r_hincrby R k f d)"
  proof (rule keepsI)
    show "r_hincrby R k f d s = (None, s') \<Longrightarrow> view s' k' = view s k'" for s s'
      using f k unfolding failure_laws_def by blast
    show "r_hincrby R k f d s = (Some x, s') \<Longrightarrow> view s' k' = view s k'" for s x s'
      using r_hincrbyD [OF laws, of k f d s x s'] k by auto
  qed
  show "keeps view k' (r_expire R k ttl)" if "0 < ttl"
  proof (rule keepsI)
    show "r_expire R k ttl s = (None, s') \<Longrightarrow> view s' k' = view s k'" for s s'
      using f k unfolding failure_laws_def by blast
    show "r_expire R k ttl s = (Some x, s') \<Longrightarrow> view s' k' = view s k'" for s x s'
      using r_expireD [OF laws, of k ttl s x s'] k that by auto
  qed
  show "keeps view k' (r_zremrangebyscore R k c)"
  proof (rule keepsI)
    show "r_zremrangebyscore R k c s = (None, s') \<Longrightarrow> view s' k' = view s k'" for s s'
      using f k unfolding failure_laws_def by blast
    show "r_zremrangebyscore R k c s = (Some x, s') \<Longrightarrow> view s' k' = view s k'" for s x s'
      using r_zremD [OF laws, of k c s x s'] k by auto
  qed
  show "keeps view k' (r_zcard R k)"
  proof (rule keepsI)
    show "r_zcard R k s = (None, s') \<Longrightarrow> view s' k' = view s k'" for s s'
      using f k unfolding failure_laws_def by blast
    show "r_zcard R k s = (Some x, s') \<Longrightarrow> view s' k' = view s k'" for s x s'
      using r_zcardD [OF laws, of k s x s'] k by auto
  qed
  show "keeps view k' (r_zrange_first R k)"
  proof (rule keepsI)
    show "r_zrange_first R k s = (None, s') \<Longrightarrow> view s' k' = view s k'" for s s'
      using f k unfolding failure_laws_def by blast
    show "r_zrange_first R k s = (Some x, s') \<Longrightarrow> view s' k' = view s k'" for s x s'
      using r_zrangeD [OF laws, of k s x s'] k by auto
  qed
  show "keeps view k' (r_zadd R k sc m)"
  proof (rule keepsI)
    show "r_zadd R k sc m s = (None, s') \<Longrightarrow> view s' k' = view s k'" for s s'
      using f k unfolding failure_laws_def by blast
    show "r_zadd R k sc m s = (Some x, s') \<Longrightarrow> view s' k' = view s k'" for s x s'
      using r_zaddD [OF laws, of k sc m s x s'] k by auto
  qed
qed

lemma keeps_snd: "keeps view k m \<Longrightarrow> view (snd (m s)) k = view s k"
  by (metis keepsD surjective_pairing)

lemma keeps_try_or: "keeps view k m \<Longrightarrow> try_or d m s = (x, s') \<Longrightarrow> view s' k = view s k"
  by (auto simp: try_or_def split: prod.splits option.splits dest: keepsD)

section \<open>A keyspace that satisfies the laws\<close>

fun zinsert :: "string \<times> int \<Rightarrow> zset \<Rightarrow> zset" where
  "zinsert x [] = [x]"
| "zinsert x (y # z) = (if snd x \<le> snd y then x # y # z else y # zinsert x z)"

definition zadd :: "string \<Rightarrow> int \<Rightarrow> zset \<Rightarrow> zset" where
  "zadd m sc z = zinsert (m, sc) (filter (\<lambda>x. fst x \<noteq> m) z)"

definition fun_redis :: "keyspace redis" where
  "fun_redis =
    \<lparr>r_get = (\<lambda>k s. (Some (s k), s)),
     r_set = (\<lambda>k v ex s. (Some (), s(k \<mapsto> v))),
     r_delete = (\<lambda>k s. (Some (), s(k := None))),
     r_incr = (\<lambda>k s. case int_at s k of None \<Rightarrow> (None, s)
                 | Some i \<Rightarrow> (Some (i + 1), s(k \<mapsto> RInt (i + 1)))),
     r_expire = (\<lambda>k ttl s. (Some (), s)),
     r_hincrby = (\<lambda>k f d s. case hash_at s k of None \<Rightarrow> (None, s)
                 | Some h \<Rightarrow> (Some (h f + d), s(k \<mapsto> RHash (h(f := h f + d))))),
     r_zremrangebyscore = (\<lambda>k c s. case zset_at s k of None \<Rightarrow> (None, s)
                 | Some z \<Rightarrow> (Some (), put_zset k (filter (\<lambda>x. c < snd x) z) s)),
     r_zcard = (\<lambda>k s. case zset_at s k of None \<Rightarrow> (None, s) | Some z \<Rightarrow> (Some (int (length z)), s)),
     r_zrange_first = (\<lambda>k s. case zset_at s k of None \<Rightarrow> (None, s)
                 | Some z \<Rightarrow> (Some (case z of [] \<Rightarrow> None | y # _ \<Rightarrow> Some y), s)),
     r_zadd = (\<lambda>k sc m s. case zset_at s k of None \<Rightarrow> (None, s)
                 | Some z \<Rightarrow> (Some (), put_zset k (zadd m sc z) s))\<rparr>"

lemma set_zinsert [simp]: "set (zinsert x z) = insert x (set z)"
  by (induction z) auto

lemma zset_ok_zinsert: "zset_ok z \<Longrightarrow> fst x \<notin> fst ` set z \<Longrightarrow> zset_ok (zinsert x z)"
proof (induction z)
  case (Cons y z)
  then have "zset_ok (zinsert x z)" by (auto simp: zset_ok_def)
  with Cons.prems show ?case by (auto simp: zset_ok_def)
qed (simp add: zset_ok_def)

lemma zset_ok_filter: "zset_ok z \<Longrightarrow> zset_ok (filter P z)"
  by (simp add: zset_ok_def distinct_map_filter sorted_filter)

lemma zset_ok_zadd: "zset_ok z \<Longrightarrow> zset_ok (zadd m sc z)"
  unfolding zadd_def by (rule zset_ok_zinsert) (auto simp: zset_ok_filter)

lemma set_zadd: "set (zadd m sc z) = insert (m, sc) {x \<in> set z. fst x \<noteq> m}"
  by (simp add: zadd_def)

lemma fun_redis_laws [simp]: "redis_laws fun_redis id"
proof -
  have "string_laws fun_redis id"
    by (auto simp: string_laws_def fun_redis_def split: option.splits)
  moreover have "failure_laws fun_redis id"
    by (auto simp: failure_laws_def fun_redis_def split: option.splits)
  moreover have "zset_laws fun_redis id"
    by (auto simp: zset_laws_def fun_redis_def split: option.splits)
      (use set_zadd zset_ok_zadd in blast)
  ultimately show ?thesis by (simp add: redis_laws_def)
qed

lemma fun_redis_up [simp]: "redis_up fun_redis id"
  by (auto simp: redis_up_def fun_redis_def split: option.splits)

end
