(* ===== verification/Ip_Address.thy ===== *)
theory Ip_Address
  imports Prelude
begin

unbundle bit_operations_syntax

text \<open>
  The part of Python's \<^verbatim>\<open>ipaddress\<close> that the guards use: \<^verbatim>\<open>ip_address(s)\<close>, which reads a dotted
  quad or an IPv6 text, and membership of an address in a network. Addresses are machine words
  of 32 and 128 bits. The parsers follow the library's own steps and reject what it rejects
  (leading zeros, empty groups, more than one \<^verbatim>\<open>::\<close>, an empty scope identifier).
\<close>

datatype ip_addr = IPv4 "32 word" | IPv6 "128 word" "string option"

section \<open>IPv4 text\<close>

definition parse_octet :: "string \<Rightarrow> int option" where
  "parse_octet s =
     (if s = [] \<or> \<not> list_all is_digit s \<or> 3 < length s \<or> (s \<noteq> ''0'' \<and> hd s = CHR ''0'')
         \<or> 255 < decimal s
      then None else Some (decimal s))"

definition quad :: "int \<Rightarrow> int \<Rightarrow> int \<Rightarrow> int \<Rightarrow> int" where
  "quad a b c d = a * 16777216 + b * 65536 + c * 256 + d"

definition parse_ipv4 :: "string \<Rightarrow> (32 word) option" where
  "parse_ipv4 s =
     (case map parse_octet (split_on CHR ''.'' s) of
        [Some a, Some b, Some c, Some d] \<Rightarrow> Some (of_int (quad a b c d))
      | _ \<Rightarrow> None)"

section \<open>IPv6 text\<close>

definition hex_val :: "char \<Rightarrow> int option" where
  "hex_val c =
     (if is_digit c then Some (ord c - 48)
      else if 97 \<le> ord c \<and> ord c \<le> 102 then Some (ord c - 87)
      else if 65 \<le> ord c \<and> ord c \<le> 70 then Some (ord c - 55)
      else None)"

definition parse_hextet :: "string \<Rightarrow> int option" where
  "parse_hextet s =
     (if s = [] \<or> 4 < length s \<or> (\<exists>c \<in> set s. hex_val c = None) then None
      else Some (foldl (\<lambda>acc c. acc * 16 + the (hex_val c)) 0 s))"

fun parse_hextets :: "int \<Rightarrow> string list \<Rightarrow> int option" where
  "parse_hextets acc [] = Some acc"
| "parse_hextets acc (s # ss) =
     (case parse_hextet s of None \<Rightarrow> None | Some h \<Rightarrow> parse_hextets (acc * 65536 + h) ss)"

text \<open>A dotted-quad suffix becomes two groups; here the groups are given by their values.\<close>

definition hex_char :: "int \<Rightarrow> char" where
  "hex_char n = (if n < 10 then char_of (48 + n) else char_of (87 + n))"

function hex_str :: "int \<Rightarrow> string" where
  "hex_str n = (if n < 16 then [hex_char n] else hex_str (n div 16) @ [hex_char (n mod 16)])"
  by pat_completeness auto
termination
  by (relation "measure nat") auto

declare hex_str.simps [simp del]

definition expand_v4_suffix :: "string list \<Rightarrow> string list option" where
  "expand_v4_suffix parts =
     (if CHR ''.'' \<in> set (last parts)
      then (case parse_ipv4 (last parts) of
              None \<Rightarrow> None
            | Some w \<Rightarrow>
                Some (butlast parts @ [hex_str (uint w div 65536), hex_str (uint w mod 65536)]))
      else Some parts)"

text \<open>The indices, endpoints apart, of the empty groups, which mark \<^verbatim>\<open>::\<close>.\<close>

definition skip_indices :: "string list \<Rightarrow> nat list" where
  "skip_indices parts = filter (\<lambda>i. parts ! i = []) [1..<length parts - 1]"

definition ipv6_groups :: "string list \<Rightarrow> int option" where
  "ipv6_groups parts =
     (case skip_indices parts of
        [] \<Rightarrow>
          if length parts \<noteq> 8 \<or> hd parts = [] \<or> last parts = [] then None
          else parse_hextets 0 parts
      | [skip] \<Rightarrow>
          (let n = length parts;
               hi0 = skip; lo0 = n - skip - 1;
               hi = (if hd parts = [] then hi0 - 1 else hi0);
               lo = (if last parts = [] then lo0 - 1 else lo0)
           in if hd parts = [] \<and> hi \<noteq> 0 then None
              else if last parts = [] \<and> lo \<noteq> 0 then None
              else if 8 < hi + lo + 1 then None
              else (case parse_hextets 0 (take hi parts) of
                      None \<Rightarrow> None
                    | Some v \<Rightarrow>
                        parse_hextets (v * 65536 ^ (8 - (hi + lo))) (drop (n - lo) parts)))
      | _ \<Rightarrow> None)"

definition parse_ipv6_int :: "string \<Rightarrow> int option" where
  "parse_ipv6_int s =
     (let parts = split_on CHR '':'' s
      in if s = [] \<or> length parts < 3 then None
         else (case expand_v4_suffix parts of
                 None \<Rightarrow> None
               | Some ps \<Rightarrow> if 9 < length ps then None else ipv6_groups ps))"

definition split_scope_id :: "string \<Rightarrow> (string \<times> string option) option" where
  "split_scope_id s =
     (let (addr, sep, scope) = partition_on CHR ''%'' s
      in if \<not> sep then Some (addr, None)
         else if scope = [] \<or> CHR ''%'' \<in> set scope then None
         else Some (addr, Some scope))"

definition parse_ipv6 :: "string \<Rightarrow> ip_addr option" where
  "parse_ipv6 s =
     (if CHR ''/'' \<in> set s then None
      else (case split_scope_id s of
              None \<Rightarrow> None
            | Some (addr, scope) \<Rightarrow>
                map_option (\<lambda>n. IPv6 (of_int n) scope) (parse_ipv6_int addr)))"

text \<open>\<^verbatim>\<open>ip_address(s)\<close>: IPv4 first, then IPv6; \<^const>\<open>None\<close> is ValueError.\<close>

definition ip_address :: "string \<Rightarrow> ip_addr option" where
  "ip_address s = (case parse_ipv4 s of Some w \<Rightarrow> Some (IPv4 w) | None \<Rightarrow> parse_ipv6 s)"

section \<open>Networks\<close>

datatype ip_network = Net4 "32 word" nat | Net6 "128 word" nat

text \<open>\<^verbatim>\<open>_ALL_ONES ^ (_ALL_ONES >> prefixlen)\<close>.\<close>

definition netmask :: "nat \<Rightarrow> 'l::len word" where
  "netmask p = (- 1) XOR drop_bit p (- 1)"

text \<open>Membership: an address of the other version is in no network.\<close>

fun in_network :: "ip_addr \<Rightarrow> ip_network \<Rightarrow> bool" where
  "in_network (IPv4 a) (Net4 n p) = (a AND netmask p = n)"
| "in_network (IPv6 a _) (Net6 n p) = (a AND netmask p = n)"
| "in_network _ _ = False"

lemma bit_netmask:
  "bit (netmask p :: 'l::len word) i \<longleftrightarrow> i < LENGTH('l) \<and> LENGTH('l) \<le> i + p"
  by (auto simp: netmask_def bit_simps)

lemma and_netmask: "p \<le> LENGTH('l) \<Longrightarrow>
  a AND netmask p = push_bit (LENGTH('l) - p) (drop_bit (LENGTH('l) - p) (a :: 'l::len word))"
  by (rule bit_word_eqI) (auto simp: bit_simps bit_netmask)

lemma uint_and_netmask: "p \<le> LENGTH('l) \<Longrightarrow>
  uint (a AND netmask p :: 'l::len word) = uint a div 2 ^ (LENGTH('l) - p) * 2 ^ (LENGTH('l) - p)"
proof -
  let ?k = "LENGTH('l) - p"
  assume p: "p \<le> LENGTH('l)"
  have "uint (push_bit ?k (drop_bit ?k a)) = uint a div 2 ^ ?k * 2 ^ ?k"
  proof -
    have le: "uint a div 2 ^ ?k * 2 ^ ?k \<le> uint a"
      by (metis div_mult_mod_eq le_add_same_cancel1 pos_mod_sign zero_less_numeral zero_less_power)
    then have "uint a div 2 ^ ?k * 2 ^ ?k < 2 ^ LENGTH('l)"
      using uint_lt2p [of a] by linarith
    moreover have "0 \<le> uint a div 2 ^ ?k * 2 ^ ?k"
      by (simp add: pos_imp_zdiv_nonneg_iff)
    ultimately have "take_bit LENGTH('l) (uint a div 2 ^ ?k * 2 ^ ?k) = uint a div 2 ^ ?k * 2 ^ ?k"
      by (simp add: take_bit_eq_mod)
    moreover have "uint (push_bit ?k (drop_bit ?k a))
        = take_bit LENGTH('l) (push_bit ?k (drop_bit ?k (uint a)))"
      by (simp add: unsigned_push_bit_eq unsigned_drop_bit_eq take_bit_int_eq_self)
    ultimately show ?thesis
      by (simp add: drop_bit_eq_div push_bit_eq_mult)
  qed
  with p show ?thesis by (simp add: and_netmask)
qed

text \<open>Membership in terms of the address's leading bits.\<close>

lemma in_network4_iff:
  assumes "p \<le> 32" "uint n = m * 2 ^ (32 - p)"
  shows "in_network (IPv4 a) (Net4 n p) \<longleftrightarrow> uint a div 2 ^ (32 - p) = m"
  using assms uint_and_netmask [where 'l = 32, of p a] by (simp add: word_uint_eq_iff)

lemma in_network6_iff:
  assumes "p \<le> 128" "uint n = m * 2 ^ (128 - p)"
  shows "in_network (IPv6 a sc) (Net6 n p) \<longleftrightarrow> uint a div 2 ^ (128 - p) = m"
  using assms uint_and_netmask [where 'l = 128, of p a] by (simp add: word_uint_eq_iff)

section \<open>Dotted quads\<close>

text \<open>The text of an IPv4 address, and that the parser reads it back.\<close>

definition dotted :: "int \<Rightarrow> int \<Rightarrow> int \<Rightarrow> int \<Rightarrow> string" where
  "dotted a b c d = nat_str a @ ''.'' @ nat_str b @ ''.'' @ nat_str c @ ''.'' @ nat_str d"

lemma is_digit_char_of: "0 \<le> n \<Longrightarrow> n < 10 \<Longrightarrow> is_digit (char_of (48 + n :: int))"
  by (simp add: is_digit_def ord_char_of)

lemma nat_str_digits: "0 \<le> n \<Longrightarrow> list_all is_digit (nat_str n)"
proof (induction n rule: nat_str.induct)
  case (1 n)
  then show ?case
    by (cases "n < 10") (auto simp: nat_str.simps [of n] is_digit_char_of)
qed

lemma dot_not_digit: "list_all is_digit s \<Longrightarrow> CHR ''.'' \<notin> set s"
  by (auto simp: list_all_iff is_digit_def ord_def)

lemma nat_str_small:
  assumes "0 \<le> n" "n \<le> 255"
  shows "nat_str n \<noteq> [] \<and> length (nat_str n) \<le> 3 \<and> (nat_str n = ''0'' \<or> hd (nat_str n) \<noteq> CHR ''0'')"
proof -
  have c0: "char_of (48 + k :: int) = CHR ''0'' \<longleftrightarrow> k = 0" if "0 \<le> k" "k < 10" for k :: int
  proof
    assume "char_of (48 + k :: int) = CHR ''0''"
    then have "digit_val (char_of (48 + k)) = digit_val CHR ''0''" by simp
    with that show "k = 0" by (simp add: digit_val_def ord_def)
  next
    assume "k = 0"
    moreover have "char_of (48 :: int) = CHR ''0''" by code_simp
    ultimately show "char_of (48 + k :: int) = CHR ''0''" by simp
  qed
  consider "n < 10" | "10 \<le> n" "n < 100" | "100 \<le> n" by linarith
  then show ?thesis
  proof cases
    case 1
    with assms c0 [of n] show ?thesis by (auto simp: nat_str.simps [of n] ord_def)
  next
    case 2
    then have "0 < n div 10" "n div 10 < 10" by auto
    with 2 c0 [of "n div 10"] show ?thesis
      by (simp add: nat_str.simps [of n] nat_str.simps [of "n div 10"])
  next
    case 3
    with assms have "0 < n div 10 div 10" "n div 10 div 10 < 10" "10 \<le> n div 10" by auto
    with 3 c0 [of "n div 10 div 10"] show ?thesis
      by (simp add: nat_str.simps [of n] nat_str.simps [of "n div 10"]
          nat_str.simps [of "n div 10 div 10"])
  qed
qed

lemma parse_octet_nat_str: "0 \<le> n \<Longrightarrow> n \<le> 255 \<Longrightarrow> parse_octet (nat_str n) = Some n"
  using nat_str_small [of n] nat_str_digits [of n] by (auto simp: parse_octet_def)

lemma parse_ipv4_dotted:
  assumes "a \<in> {0..255}" "b \<in> {0..255}" "c \<in> {0..255}" "d \<in> {0..255}"
  shows "parse_ipv4 (dotted a b c d) = Some (of_int (quad a b c d))"
proof -
  have nodot: "CHR ''.'' \<notin> set (nat_str n)" if "0 \<le> n" for n
    using dot_not_digit [OF nat_str_digits [OF that]] .
  have "split_on CHR ''.'' (dotted a b c d) = [nat_str a, nat_str b, nat_str c, nat_str d]"
    using assms by (simp add: dotted_def split_on_append split_on_no_sep nodot)
  with assms show ?thesis by (simp add: parse_ipv4_def parse_octet_nat_str)
qed

end
