(* ===== verification/Uuid.thy ===== *)
theory Uuid
  imports Ip_Address
begin

text \<open>
  \<^verbatim>\<open>str(uuid)\<close> and \<^verbatim>\<open>UUID(text)\<close> of Python's \<^verbatim>\<open>uuid\<close> module: 32 hexadecimal digits in groups of
  8-4-4-4-12, and a reader that drops a \<^verbatim>\<open>urn:uuid:\<close> prefix, braces and hyphens and wants 32
  hexadecimal digits. Reading back what was printed gives the identifier.
\<close>

fun hex_fixed :: "nat \<Rightarrow> int \<Rightarrow> string" where
  "hex_fixed 0 n = []"
| "hex_fixed (Suc k) n = hex_fixed k (n div 16) @ [hex_char (n mod 16)]"

definition uuid_str :: "uuid \<Rightarrow> string" where
  "uuid_str u =
     (let h = hex_fixed 32 (uint u)
      in take 8 h @ ''-'' @ take 4 (drop 8 h) @ ''-'' @ take 4 (drop 12 h) @ ''-''
         @ take 4 (drop 16 h) @ ''-'' @ drop 20 h)"

definition hex_int :: "string \<Rightarrow> int" where
  "hex_int s = foldl (\<lambda>acc c. acc * 16 + the (hex_val c)) 0 s"

text \<open>\<^verbatim>\<open>replace(p, "")\<close>.\<close>

fun remove_all :: "nat \<Rightarrow> string \<Rightarrow> string \<Rightarrow> string" where
  "remove_all 0 p s = s"
| "remove_all (Suc n) p [] = []"
| "remove_all (Suc n) p (c # s) =
     (if startswith p (c # s) then remove_all n p (drop (length p) (c # s)) else c # remove_all n p s)"

definition py_remove :: "string \<Rightarrow> string \<Rightarrow> string" where
  "py_remove p s = remove_all (length s) p s"

definition strip_braces :: "string \<Rightarrow> string" where
  "strip_braces s = rev (dropWhile (\<lambda>c. c \<in> set ''{}'') (rev (dropWhile (\<lambda>c. c \<in> set ''{}'') s)))"

text \<open>\<^const>\<open>None\<close> is ValueError.\<close>

definition uuid_parse :: "string \<Rightarrow> uuid option" where
  "uuid_parse s =
     (let h = filter (\<lambda>c. c \<noteq> CHR ''-'') (strip_braces (py_remove ''uuid:'' (py_remove ''urn:'' s)))
      in if length h \<noteq> 32 \<or> (\<exists>c \<in> set h. hex_val c = None) then None
         else Some (of_int (hex_int h)))"

section \<open>Round trip\<close>

definition is_hex_digit :: "char \<Rightarrow> bool" where
  "is_hex_digit c \<longleftrightarrow> is_digit c \<or> 97 \<le> ord c \<and> ord c \<le> 102"

lemma hex_val_hex_char: "0 \<le> n \<Longrightarrow> n < 16 \<Longrightarrow> hex_val (hex_char n) = Some n"
  by (auto simp: hex_val_def hex_char_def is_digit_def ord_char_of)

lemma is_hex_digit_hex_char: "0 \<le> n \<Longrightarrow> n < 16 \<Longrightarrow> is_hex_digit (hex_char n)"
  by (auto simp: is_hex_digit_def hex_char_def is_digit_def ord_char_of)

lemma length_hex_fixed [simp]: "length (hex_fixed k n) = k"
  by (induction k n rule: hex_fixed.induct) auto

lemma hex_fixed_digits: "c \<in> set (hex_fixed k n) \<Longrightarrow> is_hex_digit c \<and> hex_val c \<noteq> None"
  by (induction k n rule: hex_fixed.induct)
    (auto simp: is_hex_digit_hex_char hex_val_hex_char)

lemma hex_int_hex_fixed: "0 \<le> n \<Longrightarrow> hex_int (hex_fixed k n) = n mod 16 ^ k"
proof (induction k n rule: hex_fixed.induct)
  case (2 k n)
  have "hex_int (hex_fixed (Suc k) n) = hex_int (hex_fixed k (n div 16)) * 16 + n mod 16"
    by (simp add: hex_int_def hex_val_hex_char)
  also have "\<dots> = (n div 16) mod 16 ^ k * 16 + n mod 16" using 2 by simp
  also have "\<dots> = n mod (16 * 16 ^ k)" by (simp add: zmod_zmult2_eq)
  finally show ?case by simp
qed (simp add: hex_int_def)

lemma remove_all_no_prefix:
  assumes "p \<noteq> []" "hd p \<notin> set s"
  shows "remove_all n p s = s"
  using assms
proof (induction n p s rule: remove_all.induct)
  case (3 n p c s)
  then have "\<not> startswith p (c # s)"
    by (cases p) (auto simp: startswith_def)
  with 3 show ?case by simp
qed auto

lemma strip_braces_id: "set s \<inter> set ''{}'' = {} \<Longrightarrow> strip_braces s = s"
proof -
  assume a: "set s \<inter> set ''{}'' = {}"
  have "dropWhile (\<lambda>c. c \<in> set ''{}'') xs = xs" if "set xs \<subseteq> set s" for xs
    using that a by (cases xs) auto
  then show ?thesis by (simp only: strip_braces_def set_rev subset_refl rev_rev_ident)
qed

lemma is_hex_digit_not: "is_hex_digit c \<Longrightarrow> c \<notin> set ''u-{}''"
  by (auto simp: is_hex_digit_def is_digit_def ord_def)

lemma uuid_parse_str [simp]: "uuid_parse (uuid_str u) = Some u"
proof -
  define h where "h = hex_fixed 32 (uint u)"
  have dig: "is_hex_digit c \<and> hex_val c \<noteq> None" if "c \<in> set h" for c
    using that by (auto simp: h_def dest: hex_fixed_digits)
  have str: "uuid_str u = take 8 h @ ''-'' @ take 4 (drop 8 h) @ ''-'' @ take 4 (drop 12 h) @ ''-''
      @ take 4 (drop 16 h) @ ''-'' @ drop 20 h"
    by (simp add: uuid_str_def h_def Let_def)
  have chars: "c = CHR ''-'' \<or> is_hex_digit c" if "c \<in> set (uuid_str u)" for c
    using that dig by (auto simp: str dest!: in_set_takeD in_set_dropD)
  have no: "CHR ''u'' \<notin> set (uuid_str u)" "set (uuid_str u) \<inter> set ''{}'' = {}"
    using chars is_hex_digit_not by fastforce+
  have keep: "filter (\<lambda>c. c \<noteq> CHR ''-'') xs = xs" if "set xs \<subseteq> set h" for xs
    using that dig is_hex_digit_not by (fastforce simp: filter_id_conv)
  have split: "drop k h = take 4 (drop k h) @ drop (k + 4) h" for k
    by (metis add.commute append_take_drop_id drop_drop)
  have parts: "take 8 h @ take 4 (drop 8 h) @ take 4 (drop 12 h) @ take 4 (drop 16 h) @ drop 20 h = h"
    using split [of 8] split [of 12] split [of 16] append_take_drop_id [of 8 h] by simp
  have "filter (\<lambda>c. c \<noteq> CHR ''-'') (uuid_str u) = h"
    using parts by (simp add: str keep set_take_subset set_drop_subset
        subset_trans [OF set_take_subset set_drop_subset])
  moreover have "py_remove p (uuid_str u) = uuid_str u" if "hd p = CHR ''u''" "p \<noteq> []" for p
    using that no(1) by (simp add: py_remove_def remove_all_no_prefix)
  moreover have "hex_int h = uint u"
  proof -
    have "hex_int h = uint u mod 16 ^ 32" unfolding h_def by (rule hex_int_hex_fixed) simp
    also have "\<dots> = uint u" using uint_lt2p [of u] by (intro mod_pos_pos_trivial) simp_all
    finally show ?thesis .
  qed
  ultimately show ?thesis
    using dig no(2) by (simp add: uuid_parse_def Let_def strip_braces_id h_def)
qed

lemma uuid_str_inj [simp]: "uuid_str u = uuid_str v \<longleftrightarrow> u = v"
  by (metis option.inject uuid_parse_str)

end
