(* ===== verification/Domain_Policy.thy ===== *)
theory Domain_Policy
  imports Prelude
begin

text \<open>
  The \<^verbatim>\<open>domain_policies\<close> row (\<^verbatim>\<open>app/models/domain_policy.py\<close>), the reasons for which a response
  counts as blocked (\<^verbatim>\<open>BlockReason\<close> of \<^verbatim>\<open>app/schemas/fetch.py\<close>) and the result of a fetch
  (\<^verbatim>\<open>FetchResult\<close> of \<^verbatim>\<open>app/services/fetchers/base.py\<close>).
\<close>

section \<open>The policy row\<close>

record DomainPolicy =
  dp_id :: uuid
  dp_domain :: string
  dp_proxy_pool_id :: "uuid option"
  dp_engine :: string
  dp_rate_limit_rps :: real
  dp_min_delay_ms :: int
  dp_max_delay_ms :: int
  dp_max_retries :: int
  dp_respect_robots :: bool
  dp_header_profile :: "headers option"
  dp_sticky_session :: bool
  dp_use_proxy :: bool
  dp_proxy_country :: "string option"
  dp_is_active :: bool
  dp_antibot_type :: "string option"
  dp_proxy_type :: "string option"
  dp_escalation_tier :: int
  dp_tier_locked :: bool
  dp_last_success_at :: "datetime option"
  dp_last_block_reason :: "string option"
  dp_consecutive_blocks :: int
  dp_max_escalation_attempts :: int

text \<open>A row with the column defaults of the model class.\<close>

definition new_policy :: "uuid \<Rightarrow> string \<Rightarrow> DomainPolicy" where
  "new_policy i d =
     \<lparr>dp_id = i, dp_domain = d, dp_proxy_pool_id = None, dp_engine = ''httpx'',
      dp_rate_limit_rps = 1, dp_min_delay_ms = 500, dp_max_delay_ms = 2000, dp_max_retries = 3,
      dp_respect_robots = True, dp_header_profile = None, dp_sticky_session = False,
      dp_use_proxy = False, dp_proxy_country = None, dp_is_active = True,
      dp_antibot_type = None, dp_proxy_type = None, dp_escalation_tier = 0,
      dp_tier_locked = False, dp_last_success_at = None, dp_last_block_reason = None,
      dp_consecutive_blocks = 0, dp_max_escalation_attempts = 12\<rparr>"

section \<open>Block reasons\<close>

datatype BlockReason =
    IP_BAN | CAPTCHA | CLOUDFLARE | RATE_LIMITED | WAF | OTHER
  | AKAMAI | DATADOME | KASADA | PERIMETERX | INCAPSULA | AWS_WAF

fun br_value :: "BlockReason \<Rightarrow> string" where
  "br_value IP_BAN = ''ip_ban''"
| "br_value CAPTCHA = ''captcha''"
| "br_value CLOUDFLARE = ''cloudflare''"
| "br_value RATE_LIMITED = ''rate_limited''"
| "br_value WAF = ''waf''"
| "br_value OTHER = ''other''"
| "br_value AKAMAI = ''akamai''"
| "br_value DATADOME = ''datadome''"
| "br_value KASADA = ''kasada''"
| "br_value PERIMETERX = ''perimeterx''"
| "br_value INCAPSULA = ''incapsula''"
| "br_value AWS_WAF = ''aws_waf''"

definition all_block_reasons :: "BlockReason list" where
  "all_block_reasons = [IP_BAN, CAPTCHA, CLOUDFLARE, RATE_LIMITED, WAF, OTHER,
     AKAMAI, DATADOME, KASADA, PERIMETERX, INCAPSULA, AWS_WAF]"

definition br_legacy :: "(string \<times> BlockReason) list" where
  "br_legacy =
    [(''bot_detection'', OTHER), (''bot_detected'', OTHER), (''forbidden'', IP_BAN),
     (''access_denied'', IP_BAN), (''too_many_requests'', RATE_LIMITED),
     (''cf_challenge'', CLOUDFLARE), (''akamai_bot_manager'', AKAMAI),
     (''dd_challenge'', DATADOME), (''px_challenge'', PERIMETERX), (''kp_challenge'', KASADA)]"

text \<open>\<^verbatim>\<open>_missing_\<close>, for a string that is not the value of a member.\<close>

definition br_missing :: "string \<Rightarrow> BlockReason" where
  "br_missing v = (case map_of br_legacy (lower (strip v)) of Some r \<Rightarrow> r | None \<Rightarrow> OTHER)"

text \<open>\<^verbatim>\<open>BlockReason(v)\<close>: the member with that value, else what \<^verbatim>\<open>_missing_\<close> returns.\<close>

definition br_of_str :: "string \<Rightarrow> BlockReason" where
  "br_of_str v =
     (case find (\<lambda>r. br_value r = v) all_block_reasons of Some r \<Rightarrow> r | None \<Rightarrow> br_missing v)"

definition normalize_block_reason :: "string option \<Rightarrow> BlockReason option" where
  "normalize_block_reason v =
     (case v of None \<Rightarrow> None
      | Some s \<Rightarrow> if s = [] then None else Some (br_of_str (lower (strip s))))"

lemma set_all_block_reasons [simp]: "r \<in> set all_block_reasons"
  by (cases r) (simp_all add: all_block_reasons_def)

lemma br_value_inj [simp]: "br_value r = br_value r' \<longleftrightarrow> r = r'"
  by (cases r; cases r') simp_all

lemma br_of_str_value [simp]: "br_of_str (br_value r) = r"
proof -
  have "find (\<lambda>r'. br_value r' = br_value r) all_block_reasons = Some r"
    by (cases r) (simp_all add: all_block_reasons_def)
  then show ?thesis by (simp add: br_of_str_def)
qed

section \<open>Fetch results\<close>

record FetchResult =
  fr_url :: string
  fr_status_code :: int
  fr_headers :: headers
  fr_body :: bytes
  fr_encoding :: string
  fr_elapsed_ms :: int
  fr_proxy_id :: "uuid option"
  fr_engine :: string
  fr_blocked :: bool
  fr_block_reason :: "string option"
  fr_retries_used :: int
  fr_trace_id :: "string option"
  fr_raw_body :: bytes
  fr_raw_headers :: headers
  fr_tier_used :: int

text \<open>The defaults of the dataclass.\<close>

definition fetch_result :: "string \<Rightarrow> int \<Rightarrow> FetchResult" where
  "fetch_result u c =
     \<lparr>fr_url = u, fr_status_code = c, fr_headers = [], fr_body = [], fr_encoding = ''utf-8'',
      fr_elapsed_ms = 0, fr_proxy_id = None, fr_engine = ''httpx'', fr_blocked = False,
      fr_block_reason = None, fr_retries_used = 0, fr_trace_id = None, fr_raw_body = [],
      fr_raw_headers = [], fr_tier_used = 0\<rparr>"

end
