(* ===== verification/Table.thy ===== *)
theory Table
  imports Prelude
begin

text \<open>
  Database tables as lists of rows, with the statements the program issues: a lookup by key, an
  UPDATE of the rows that satisfy a condition, an INSERT, a DELETE. The lemmas say what a key
  that is unique in a table stays under them.
\<close>

definition get_by :: "('row \<Rightarrow> 'k) \<Rightarrow> 'k \<Rightarrow> 'row list \<Rightarrow> 'row option" where
  "get_by key k tbl = find (\<lambda>r. key r = k) tbl"

definition update_where :: "('row \<Rightarrow> bool) \<Rightarrow> ('row \<Rightarrow> 'row) \<Rightarrow> 'row list \<Rightarrow> 'row list" where
  "update_where P f tbl = map (\<lambda>r. if P r then f r else r) tbl"

definition insert_row :: "'row \<Rightarrow> 'row list \<Rightarrow> 'row list" where
  "insert_row r tbl = tbl @ [r]"

definition delete_where :: "('row \<Rightarrow> bool) \<Rightarrow> 'row list \<Rightarrow> 'row list" where
  "delete_where P tbl = filter (\<lambda>r. \<not> P r) tbl"

definition unique_on :: "('row \<Rightarrow> 'k) \<Rightarrow> 'row list \<Rightarrow> bool" where
  "unique_on key tbl = distinct (map key tbl)"

lemma get_by_SomeD: "get_by key k tbl = Some r \<Longrightarrow> r \<in> set tbl \<and> key r = k"
  by (auto simp: get_by_def dest: find_SomeD)

lemma get_by_None_iff: "get_by key k tbl = None \<longleftrightarrow> (\<forall>r \<in> set tbl. key r \<noteq> k)"
  by (auto simp: get_by_def find_None_iff)

lemma get_by_unique:
  "unique_on key tbl \<Longrightarrow> get_by key k tbl = Some r \<longleftrightarrow> r \<in> set tbl \<and> key r = k"
  by (induction tbl) (auto simp: unique_on_def get_by_def)

lemma get_by_insert_row [simp]:
  "get_by key k (insert_row r tbl) =
     (case get_by key k tbl of Some x \<Rightarrow> Some x | None \<Rightarrow> if key r = k then Some r else None)"
  by (induction tbl) (auto simp: get_by_def insert_row_def)

lemma get_by_update_where:
  assumes "\<And>r. key (f r) = key r"
  shows "get_by key k (update_where P f tbl) =
    map_option (\<lambda>r. if P r then f r else r) (get_by key k tbl)"
  using assms by (induction tbl) (auto simp: get_by_def update_where_def)

lemma map_update_where:
  assumes "\<And>r. P r \<Longrightarrow> key (f r) = key r"
  shows "map key (update_where P f tbl) = map key tbl"
  using assms by (induction tbl) (auto simp: update_where_def)

lemma unique_on_update_where:
  "(\<And>r. P r \<Longrightarrow> key (f r) = key r) \<Longrightarrow> unique_on key (update_where P f tbl) = unique_on key tbl"
  by (simp add: unique_on_def map_update_where)

lemma unique_on_insert_row:
  "unique_on key (insert_row r tbl) \<longleftrightarrow> unique_on key tbl \<and> get_by key (key r) tbl = None"
  by (auto simp: unique_on_def insert_row_def get_by_None_iff image_iff)

lemma unique_on_delete_where: "unique_on key tbl \<Longrightarrow> unique_on key (delete_where P tbl)"
  by (simp add: unique_on_def delete_where_def distinct_map_filter)

lemma unique_on_Nil [simp]: "unique_on key []"
  by (simp add: unique_on_def)

lemma set_insert_row [simp]: "set (insert_row r tbl) = insert r (set tbl)"
  by (simp add: insert_row_def)

lemma set_update_where: "set (update_where P f tbl) = (\<lambda>r. if P r then f r else r) ` set tbl"
  by (simp add: update_where_def)

lemma set_delete_where [simp]: "set (delete_where P tbl) = {r \<in> set tbl. \<not> P r}"
  by (simp add: delete_where_def)

lemma ball_update_where:
  "(\<And>r. r \<in> set tbl \<Longrightarrow> Q r \<Longrightarrow> P r \<Longrightarrow> Q (f r)) \<Longrightarrow> \<forall>r \<in> set tbl. Q r \<Longrightarrow>
   \<forall>r \<in> set (update_where P f tbl). Q r"
  by (auto simp: set_update_where)

lemma length_update_where [simp]: "length (update_where P f tbl) = length tbl"
  by (simp add: update_where_def)

end
