(* ===== verification/Url.thy ===== *)
theory Url
  imports Ip_Address
begin

text \<open>
  The part of Python's \<^verbatim>\<open>urllib.parse\<close> that the program uses: \<^verbatim>\<open>urlparse(url)\<close> with the
  \<^verbatim>\<open>scheme\<close>, \<^verbatim>\<open>netloc\<close>, \<^verbatim>\<open>hostname\<close> and \<^verbatim>\<open>port\<close> attributes of its result. It follows the
  library's own steps: strip leading control characters and blanks, delete tabs and newlines,
  split off the scheme, cut the network location at the first of \<^verbatim>\<open>/?#\<close>, drop the user info,
  and read a bracketed or plain host and a port. The URLs are ASCII, as \<^verbatim>\<open>HttpUrl\<close> makes them,
  so the library's Unicode normalisation check of the network location does not apply.
\<close>

datatype url_error = UrlValueError

record parsed_url =
  pu_scheme :: string
  pu_netloc :: string
  pu_rest :: string

definition is_scheme_char :: "char \<Rightarrow> bool" where
  "is_scheme_char c \<longleftrightarrow> is_alpha c \<or> is_digit c \<or> c \<in> set ''+-.''"

definition is_c0_or_space :: "char \<Rightarrow> bool" where
  "is_c0_or_space c \<longleftrightarrow> ord c \<le> 32"

definition is_unsafe_byte :: "char \<Rightarrow> bool" where
  "is_unsafe_byte c \<longleftrightarrow> ord c = 9 \<or> ord c = 10 \<or> ord c = 13"

definition clean_url :: "string \<Rightarrow> string" where
  "clean_url u = filter (\<lambda>c. \<not> is_unsafe_byte c) (dropWhile is_c0_or_space u)"

text \<open>The scheme and what follows the colon; without a valid scheme the whole text is the rest.\<close>

definition split_scheme :: "string \<Rightarrow> string \<times> string" where
  "split_scheme u =
     (let (pre, found, post) = partition_on CHR '':'' u
      in if found \<and> pre \<noteq> [] \<and> is_alpha (hd pre) \<and> list_all is_scheme_char pre
         then (lower pre, post) else ([], u))"

definition is_delim :: "char \<Rightarrow> bool" where
  "is_delim c \<longleftrightarrow> c \<in> set ''/?#''"

definition split_netloc :: "string \<Rightarrow> string \<times> string" where
  "split_netloc r =
     (if startswith ''//'' r
      then (takeWhile (\<lambda>c. \<not> is_delim c) (drop 2 r), dropWhile (\<lambda>c. \<not> is_delim c) (drop 2 r))
      else ([], r))"

definition bracket_mismatch :: "string \<Rightarrow> bool" where
  "bracket_mismatch n \<longleftrightarrow> (CHR ''['' \<in> set n) \<noteq> (CHR '']'' \<in> set n)"

text \<open>
  \<^verbatim>\<open>_check_bracketed_host\<close>: what stands between brackets is an IPv6 address or an IPvFuture
  literal (\<^verbatim>\<open>v\<close>, hexadecimal digits, a dot, at least one more character).
\<close>

definition is_ipvfuture :: "string \<Rightarrow> bool" where
  "is_ipvfuture h =
     (let (pre, dot, post) = partition_on CHR ''.'' (drop 1 h)
      in startswith ''v'' h \<and> dot \<and> pre \<noteq> [] \<and> list_all (\<lambda>c. hex_val c \<noteq> None) pre \<and> post \<noteq> [])"

definition bracketed_host_ok :: "string \<Rightarrow> bool" where
  "bracketed_host_ok h =
     (if startswith ''v'' h then is_ipvfuture h
      else (case ip_address h of Some (IPv6 _ _) \<Rightarrow> True | _ \<Rightarrow> False))"

definition bracketed_host :: "string \<Rightarrow> string" where
  "bracketed_host n = fst (partition_on CHR '']'' (snd (snd (partition_on CHR ''['' n))))"

text \<open>An unbalanced bracket or a bad bracketed host raises ValueError.\<close>

definition urlparse :: "string \<Rightarrow> url_error + parsed_url" where
  "urlparse url =
     (let (sch, rest) = split_scheme (clean_url url);
          (netloc, path) = split_netloc rest
      in if bracket_mismatch netloc then Inl UrlValueError
         else if CHR ''['' \<in> set netloc \<and> \<not> bracketed_host_ok (bracketed_host netloc)
         then Inl UrlValueError
         else Inr \<lparr>pu_scheme = sch, pu_netloc = netloc, pu_rest = path\<rparr>)"

text \<open>\<^verbatim>\<open>_hostinfo\<close>: host text and port text, after the last \<^verbatim>\<open>@\<close>.\<close>

definition hostinfo :: "string \<Rightarrow> string \<times> string option" where
  "hostinfo netloc =
     (let hi = after_last CHR ''@'' netloc;
          (_, have_open_br, bracketed) = partition_on CHR ''['' hi
      in if have_open_br
         then (let (hostname, _, after) = partition_on CHR '']'' bracketed;
                   (_, _, port) = partition_on CHR '':'' after
               in (hostname, if port = [] then None else Some port))
         else (let (hostname, _, port) = partition_on CHR '':'' hi
               in (hostname, if port = [] then None else Some port)))"

text \<open>The \<^verbatim>\<open>hostname\<close> attribute: lower case up to a zone identifier, None when empty.\<close>

definition pu_hostname :: "parsed_url \<Rightarrow> string option" where
  "pu_hostname p =
     (let h = fst (hostinfo (pu_netloc p))
      in if h = [] then None
         else (let (host, percent, zone) = partition_on CHR ''%'' h
               in Some (lower host @ (if percent then ''%'' else []) @ zone)))"

text \<open>The \<^verbatim>\<open>port\<close> attribute: ValueError unless a decimal number up to 65535.\<close>

definition pu_port :: "parsed_url \<Rightarrow> url_error + int option" where
  "pu_port p =
     (case snd (hostinfo (pu_netloc p)) of
        None \<Rightarrow> Inr None
      | Some s \<Rightarrow>
          if list_all is_digit s \<and> decimal s \<le> 65535 then Inr (Some (decimal s))
          else Inl UrlValueError)"

definition url_hostname :: "string \<Rightarrow> url_error + string option" where
  "url_hostname u = bindE (urlparse u) (\<lambda>p. Inr (pu_hostname p))"

lemmas url_eval = urlparse_def pu_hostname_def pu_port_def hostinfo_def split_scheme_def
  split_netloc_def clean_url_def is_c0_or_space_def is_unsafe_byte_def is_scheme_char_def
  is_delim_def bracket_mismatch_def

lemma set_dropWhile_mono: "set (dropWhile P xs) \<subseteq> set xs"
  by (auto dest: set_dropWhileD)

lemma urlparse_no_delim:
  assumes "urlparse u = Inr p"
  shows "list_all (\<lambda>c. \<not> is_delim c) (pu_netloc p)"
  using assms
  by (auto simp: urlparse_def split_netloc_def list_all_iff Let_def dest: set_takeWhileD
      split: prod.splits if_splits)

end
