(* ===== verification/Api_Errors.thy ===== *)
theory Api_Errors
  imports Prelude
begin

text \<open>
  The exceptions of the program: the hierarchy of \<^verbatim>\<open>app/core/errors.py\<close>, which the API renders
  as a status code and an error code, the framework's \<^verbatim>\<open>HTTPException\<close>, and the exceptions of
  the fetch path (\<^verbatim>\<open>FetchError\<close>, cancellation, anything else). The detail text is kept; the
  em dash of some messages is written as a hyphen.
\<close>

datatype api_error =
    AuthenticationError
  | AuthorizationError string
  | KeyExpiredError
  | KeyRevokedError
  | ScopeError string
  | NotFoundError string
  | ConflictError string
  | ProxyPoolUnavailableError string
  | ProxyPoolExhaustedError string
  | HTTPException nat string
  | RuntimeError string

fun status_code :: "api_error \<Rightarrow> nat" where
  "status_code AuthenticationError = 401"
| "status_code (AuthorizationError _) = 403"
| "status_code KeyExpiredError = 401"
| "status_code KeyRevokedError = 401"
| "status_code (ScopeError _) = 403"
| "status_code (NotFoundError _) = 404"
| "status_code (ConflictError _) = 409"
| "status_code (ProxyPoolUnavailableError _) = 502"
| "status_code (ProxyPoolExhaustedError _) = 502"
| "status_code (HTTPException c _) = c"
| "status_code (RuntimeError _) = 500"

text \<open>Only the classes of \<^verbatim>\<open>errors.py\<close> carry an error code.\<close>

fun error_code :: "api_error \<Rightarrow> string option" where
  "error_code AuthenticationError = Some ''authentication_failed''"
| "error_code (AuthorizationError _) = Some ''forbidden''"
| "error_code KeyExpiredError = Some ''key_expired''"
| "error_code KeyRevokedError = Some ''key_revoked''"
| "error_code (ScopeError _) = Some ''insufficient_scope''"
| "error_code (NotFoundError _) = Some ''not_found''"
| "error_code (ConflictError _) = Some ''conflict''"
| "error_code (ProxyPoolUnavailableError _) = Some ''proxy_pool_unavailable''"
| "error_code (ProxyPoolExhaustedError _) = Some ''proxy_pool_exhausted''"
| "error_code (HTTPException _ _) = None"
| "error_code (RuntimeError _) = None"

text \<open>What a call on the fetch path may raise.\<close>

datatype exn =
    FetchError string
  | PoolUnavailable string
  | PoolExhausted string
  | CancelledError
  | OtherError string

text \<open>\<^verbatim>\<open>str(exc)\<close>.\<close>

fun exn_str :: "exn \<Rightarrow> string" where
  "exn_str (FetchError m) = m"
| "exn_str (PoolUnavailable m) = m"
| "exn_str (PoolExhausted m) = m"
| "exn_str CancelledError = []"
| "exn_str (OtherError m) = m"

end
