(* ===== verification/Policy_Resolver.thy ===== *)
theory Policy_Resolver
  imports Domain_Policy Table Url Api_Errors
begin

text \<open>
  \<^verbatim>\<open>app/services/policy_resolver.py\<close> and the domain-policy endpoints of
  \<^verbatim>\<open>app/api/v1/endpoints/admin.py\<close>, on the \<^verbatim>\<open>domain_policies\<close> table as a list of rows.

  \<^verbatim>\<open>tldextract\<close> is a parameter: \<open>rd host\<close> is the \<^verbatim>\<open>registered_domain\<close> it reports, empty when
  there is none. Identifiers that the database generates are arguments.
\<close>

type_synonym policy_table = "DomainPolicy list"

section \<open>Normalisation and lookup\<close>

definition normalize_domain :: "(string \<Rightarrow> string) \<Rightarrow> string \<Rightarrow> string" where
  "normalize_domain rd hostname =
     (let stripped = removeprefix ''www.'' (lower hostname);
          registered = rd stripped
      in if registered = [] then stripped else registered)"

text \<open>A URL without a host name, or one that \<^verbatim>\<open>urlparse\<close> rejects, raises ValueError.\<close>

definition parse_hostname :: "(string \<Rightarrow> string) \<Rightarrow> string \<Rightarrow> url_error + string" where
  "parse_hostname rd url =
     (case urlparse url of
        Inl e \<Rightarrow> Inl e
      | Inr p \<Rightarrow>
          (case pu_hostname p of
             None \<Rightarrow> Inl UrlValueError
           | Some host \<Rightarrow> Inr (normalize_domain rd host)))"

definition resolve_policy ::
  "(string \<Rightarrow> string) \<Rightarrow> string \<Rightarrow> policy_table \<Rightarrow> url_error + DomainPolicy option" where
  "resolve_policy rd url tbl =
     bindE (parse_hostname rd url) (\<lambda>domain.
       Inr (find (\<lambda>r. dp_domain r = domain \<and> dp_is_active r) tbl))"

section \<open>Creation and upsert\<close>

text \<open>The request body of a creation; every field but the domain has a default.\<close>

record DomainPolicyCreate =
  pc_domain :: string
  pc_proxy_pool_id :: "uuid option"
  pc_engine :: string
  pc_rate_limit_rps :: real
  pc_min_delay_ms :: int
  pc_max_delay_ms :: int
  pc_max_retries :: int
  pc_respect_robots :: bool
  pc_header_profile :: "headers option"
  pc_sticky_session :: bool
  pc_antibot_type :: "string option"
  pc_proxy_type :: "string option"
  pc_escalation_tier :: int
  pc_tier_locked :: bool
  pc_max_escalation_attempts :: int

definition ENGINE_TYPES :: "string list" where
  "ENGINE_TYPES = [''httpx'', ''curl_cffi'', ''playwright'', ''camoufox'']"

definition ANTIBOT_TYPES :: "string list" where
  "ANTIBOT_TYPES = [''none'', ''cloudflare'', ''akamai'', ''datadome'', ''kasada'', ''perimeterx'',
     ''incapsula'', ''aws_waf'', ''custom_sea'', ''custom_cn'']"

definition POLICY_PROXY_TYPES :: "string list" where
  "POLICY_PROXY_TYPES = [''datacenter'', ''residential'', ''mobile'', ''isp'']"

definition opt_in :: "'a list \<Rightarrow> 'a option \<Rightarrow> bool" where
  "opt_in xs v = (case v of None \<Rightarrow> True | Some x \<Rightarrow> x \<in> set xs)"

definition opt_range :: "'a::linorder \<Rightarrow> 'a \<Rightarrow> 'a option \<Rightarrow> bool" where
  "opt_range a b v = (case v of None \<Rightarrow> True | Some x \<Rightarrow> a \<le> x \<and> x \<le> b)"

text \<open>What the schema validation lets through.\<close>

definition valid_create :: "DomainPolicyCreate \<Rightarrow> bool" where
  "valid_create b \<longleftrightarrow>
     3 \<le> length (pc_domain b) \<and> length (pc_domain b) \<le> 253
     \<and> pc_engine b \<in> set ENGINE_TYPES
     \<and> 1 / 10 \<le> pc_rate_limit_rps b \<and> pc_rate_limit_rps b \<le> 100
     \<and> 0 \<le> pc_min_delay_ms b \<and> pc_min_delay_ms b \<le> 60000
     \<and> 0 \<le> pc_max_delay_ms b \<and> pc_max_delay_ms b \<le> 60000
     \<and> 0 \<le> pc_max_retries b \<and> pc_max_retries b \<le> 10
     \<and> opt_in ANTIBOT_TYPES (pc_antibot_type b) \<and> opt_in POLICY_PROXY_TYPES (pc_proxy_type b)
     \<and> 0 \<le> pc_escalation_tier b \<and> pc_escalation_tier b \<le> 6
     \<and> 1 \<le> pc_max_escalation_attempts b \<and> pc_max_escalation_attempts b \<le> 50"

text \<open>\<^verbatim>\<open>body.model_dump(exclude={"domain"})\<close>, as the assignment it makes to a row.\<close>

definition create_updates :: "DomainPolicyCreate \<Rightarrow> DomainPolicy \<Rightarrow> DomainPolicy" where
  "create_updates b r = r\<lparr>dp_proxy_pool_id := pc_proxy_pool_id b, dp_engine := pc_engine b,
     dp_rate_limit_rps := pc_rate_limit_rps b, dp_min_delay_ms := pc_min_delay_ms b,
     dp_max_delay_ms := pc_max_delay_ms b, dp_max_retries := pc_max_retries b,
     dp_respect_robots := pc_respect_robots b, dp_header_profile := pc_header_profile b,
     dp_sticky_session := pc_sticky_session b, dp_antibot_type := pc_antibot_type b,
     dp_proxy_type := pc_proxy_type b, dp_escalation_tier := pc_escalation_tier b,
     dp_tier_locked := pc_tier_locked b,
     dp_max_escalation_attempts := pc_max_escalation_attempts b\<rparr>"

text \<open>INSERT ... ON CONFLICT (domain) DO UPDATE; \<open>i\<close> is the identifier of a new row.\<close>

definition upsert_policy ::
  "(string \<Rightarrow> string) \<Rightarrow> uuid \<Rightarrow> string \<Rightarrow> (DomainPolicy \<Rightarrow> DomainPolicy) \<Rightarrow> policy_table \<Rightarrow> policy_table" where
  "upsert_policy rd i domain updates tbl =
     (let domain_norm = normalize_domain rd domain
      in if get_by dp_domain domain_norm tbl = None
         then insert_row (updates (new_policy i domain_norm)) tbl
         else update_where (\<lambda>r. dp_domain r = domain_norm) updates tbl)"

text \<open>\<^verbatim>\<open>scalar_one()\<close> raises when the row is missing; a 500 to the client.\<close>

definition create_domain_policy ::
  "(string \<Rightarrow> string) \<Rightarrow> uuid \<Rightarrow> DomainPolicyCreate \<Rightarrow> policy_table
   \<Rightarrow> (api_error + DomainPolicy) \<times> policy_table" where
  "create_domain_policy rd i body tbl =
     (let domain_norm = normalize_domain rd (pc_domain body);
          tbl' = upsert_policy rd i domain_norm (create_updates body) tbl
      in (of_option (RuntimeError ''NoResultFound'') (get_by dp_domain domain_norm tbl'), tbl'))"

section \<open>Reads, updates, deletion and pinning\<close>

definition policy_not_found :: api_error where
  "policy_not_found = NotFoundError ''Domain policy not found''"

definition get_domain_policy :: "uuid \<Rightarrow> policy_table \<Rightarrow> api_error + DomainPolicy" where
  "get_domain_policy pid tbl = of_option policy_not_found (get_by dp_id pid tbl)"

record DomainPolicyUpdate =
  pp_proxy_pool_id :: "uuid option"
  pp_engine :: "string option"
  pp_rate_limit_rps :: "real option"
  pp_min_delay_ms :: "int option"
  pp_max_delay_ms :: "int option"
  pp_max_retries :: "int option"
  pp_respect_robots :: "bool option"
  pp_header_profile :: "headers option"
  pp_sticky_session :: "bool option"
  pp_is_active :: "bool option"
  pp_antibot_type :: "string option"
  pp_proxy_type :: "string option"
  pp_escalation_tier :: "int option"
  pp_tier_locked :: "bool option"
  pp_max_escalation_attempts :: "int option"

definition valid_update :: "DomainPolicyUpdate \<Rightarrow> bool" where
  "valid_update b \<longleftrightarrow>
     opt_in ENGINE_TYPES (pp_engine b) \<and> opt_range (1 / 10) 100 (pp_rate_limit_rps b)
     \<and> opt_range 0 60000 (pp_min_delay_ms b) \<and> opt_range 0 60000 (pp_max_delay_ms b)
     \<and> opt_range 0 10 (pp_max_retries b)
     \<and> opt_in ANTIBOT_TYPES (pp_antibot_type b) \<and> opt_in POLICY_PROXY_TYPES (pp_proxy_type b)
     \<and> opt_range 0 6 (pp_escalation_tier b) \<and> opt_range 1 50 (pp_max_escalation_attempts b)"

text \<open>Only the fields whose value is not None are assigned, so a PATCH cannot clear a field.\<close>

definition or_keep :: "'a option \<Rightarrow> 'a \<Rightarrow> 'a" where
  "or_keep new old = (case new of None \<Rightarrow> old | Some v \<Rightarrow> v)"

definition or_keep_opt :: "'a option \<Rightarrow> 'a option \<Rightarrow> 'a option" where
  "or_keep_opt new old = (case new of None \<Rightarrow> old | Some v \<Rightarrow> Some v)"

definition patch_updates :: "DomainPolicyUpdate \<Rightarrow> DomainPolicy \<Rightarrow> DomainPolicy" where
  "patch_updates b r = r\<lparr>dp_proxy_pool_id := or_keep_opt (pp_proxy_pool_id b) (dp_proxy_pool_id r),
     dp_engine := or_keep (pp_engine b) (dp_engine r),
     dp_rate_limit_rps := or_keep (pp_rate_limit_rps b) (dp_rate_limit_rps r),
     dp_min_delay_ms := or_keep (pp_min_delay_ms b) (dp_min_delay_ms r),
     dp_max_delay_ms := or_keep (pp_max_delay_ms b) (dp_max_delay_ms r),
     dp_max_retries := or_keep (pp_max_retries b) (dp_max_retries r),
     dp_respect_robots := or_keep (pp_respect_robots b) (dp_respect_robots r),
     dp_header_profile := or_keep_opt (pp_header_profile b) (dp_header_profile r),
     dp_sticky_session := or_keep (pp_sticky_session b) (dp_sticky_session r),
     dp_is_active := or_keep (pp_is_active b) (dp_is_active r),
     dp_antibot_type := or_keep_opt (pp_antibot_type b) (dp_antibot_type r),
     dp_proxy_type := or_keep_opt (pp_proxy_type b) (dp_proxy_type r),
     dp_escalation_tier := or_keep (pp_escalation_tier b) (dp_escalation_tier r),
     dp_tier_locked := or_keep (pp_tier_locked b) (dp_tier_locked r),
     dp_max_escalation_attempts := or_keep (pp_max_escalation_attempts b) (dp_max_escalation_attempts r)\<rparr>"

definition update_domain_policy ::
  "uuid \<Rightarrow> DomainPolicyUpdate \<Rightarrow> policy_table \<Rightarrow> (api_error + DomainPolicy) \<times> policy_table" where
  "update_domain_policy pid body tbl =
     (case get_by dp_id pid tbl of
        None \<Rightarrow> (Inl policy_not_found, tbl)
      | Some row \<Rightarrow>
          (Inr (patch_updates body row),
           update_where (\<lambda>r. dp_id r = pid) (patch_updates body) tbl))"

definition delete_domain_policy ::
  "uuid \<Rightarrow> policy_table \<Rightarrow> (api_error + unit) \<times> policy_table" where
  "delete_domain_policy pid tbl =
     (if get_by dp_id pid tbl = None then (Inl policy_not_found, tbl)
      else (Inr (), delete_where (\<lambda>r. dp_id r = pid) tbl))"

definition pin_escalation_tier ::
  "uuid \<Rightarrow> int option \<Rightarrow> bool \<Rightarrow> policy_table \<Rightarrow> (api_error + DomainPolicy) \<times> policy_table" where
  "pin_escalation_tier pid tier locked tbl =
     (case get_by dp_id pid tbl of
        None \<Rightarrow> (Inl policy_not_found, tbl)
      | Some row \<Rightarrow>
          if (case tier of None \<Rightarrow> False | Some t \<Rightarrow> \<not> (0 \<le> t \<and> t \<le> 6))
          then (Inl (HTTPException 422 ''tier must be 0-6''), tbl)
          else (let pin = (\<lambda>r. r\<lparr>dp_escalation_tier := or_keep tier (dp_escalation_tier r),
                                dp_tier_locked := locked\<rparr>)
                in (Inr (pin row), update_where (\<lambda>r. dp_id r = pid) pin tbl)))"

text \<open>
  The listing with its filters. \<^verbatim>\<open>contains\<close> becomes a LIKE pattern around the text as it is, so the
  wildcards and the escape character keep their meaning in it; \<open>collate\<close> is the order of the database.
\<close>

fun like :: "string \<Rightarrow> string \<Rightarrow> bool" where
  "like [] s \<longleftrightarrow> s = []"
| "like (p # ps) [] \<longleftrightarrow> p = CHR ''%'' \<and> like ps []"
| "like (p # ps) (c # s) \<longleftrightarrow>
     (if p = CHR ''%'' then like ps (c # s) \<or> like (p # ps) s
      else if p = CHR ''_'' then like ps s
      else if p = CHR 0x5C then (case ps of [] \<Rightarrow> False | q # qs \<Rightarrow> c = q \<and> like qs s)
      else c = p \<and> like ps s)"

definition list_domain_policies ::
  "(string \<Rightarrow> 'k::linorder) \<Rightarrow> string option \<Rightarrow> bool option \<Rightarrow> policy_table \<Rightarrow> DomainPolicy list" where
  "list_domain_policies collate domain is_active tbl =
     sort_key (\<lambda>r. collate (dp_domain r))
       (filter (\<lambda>r. (case domain of None \<Rightarrow> True | Some d \<Rightarrow> like (''%'' @ d @ ''%'') (dp_domain r))
                  \<and> (case is_active of None \<Rightarrow> True | Some a \<Rightarrow> dp_is_active r = a)) tbl)"

text \<open>The defaults for a domain without a row, as the assignment of these fields to a row.\<close>

definition get_policy_defaults :: "DomainPolicy \<Rightarrow> DomainPolicy" where
  "get_policy_defaults r = r\<lparr>dp_engine := ''httpx'', dp_rate_limit_rps := 1, dp_min_delay_ms := 500,
     dp_max_delay_ms := 2000, dp_max_retries := 3, dp_respect_robots := True, dp_sticky_session := False,
     dp_use_proxy := False, dp_proxy_country := None, dp_header_profile := None, dp_proxy_pool_id := None\<rparr>"

section \<open>Facts\<close>

lemma defaults_match_columns: "get_policy_defaults (new_policy i d) = new_policy i d"
  by (simp add: get_policy_defaults_def new_policy_def)

lemma like_percent: "like (CHR ''%'' # ps) s \<longleftrightarrow> (\<exists>i \<le> length s. like ps (drop i s))"
proof (induction s)
  case (Cons c s)
  have "(\<exists>i \<le> length (c # s). like ps (drop i (c # s))) \<longleftrightarrow> like ps (c # s) \<or> (\<exists>i \<le> length s. like ps (drop i s))"
    by (metis Suc_le_mono drop0 drop_Suc_Cons length_Cons not0_implies_Suc zero_le)
  with Cons show ?case by simp
qed simp

lemma like_literal:
  "set d \<inter> {CHR ''%'', CHR ''_'', CHR 0x5C} = {} \<Longrightarrow>
     like (d @ ps) s \<longleftrightarrow> startswith d s \<and> like ps (drop (length d) s)"
proof (induction d arbitrary: s)
  case (Cons x d)
  then show ?case by (cases s) (auto simp: startswith_def)
qed (simp add: startswith_def)

text \<open>Without special characters the filter is the substring test.\<close>

lemma like_contains:
  assumes "set d \<inter> {CHR ''%'', CHR ''_'', CHR 0x5C} = {}"
  shows "like (''%'' @ d @ ''%'') s \<longleftrightarrow> contains d s"
proof -
  have all: "like ''%'' t = True" for t by (simp add: like_percent exI [of _ "length t"])
  have "like (''%'' @ d @ ''%'') s \<longleftrightarrow> (\<exists>i \<le> length s. like (d @ ''%'') (drop i s))"
    by (simp only: append_Cons append_Nil like_percent)
  also have "\<dots> \<longleftrightarrow> (\<exists>i \<le> length s. startswith d (drop i s))"
    by (simp only: like_literal [OF assms] all simp_thms)
  finally have "like (''%'' @ d @ ''%'') s \<longleftrightarrow> (\<exists>i \<le> length s. startswith d (drop i s))" .
  then show ?thesis by (simp add: contains_def Bex_def less_Suc_eq_le conj_commute del: upt_Suc)
qed

lemma updates_keep_keys [simp]:
  "dp_id (create_updates b r) = dp_id r" "dp_domain (create_updates b r) = dp_domain r"
  "dp_id (patch_updates u r) = dp_id r" "dp_domain (patch_updates u r) = dp_domain r"
  "dp_is_active (create_updates b r) = dp_is_active r"
  by (simp_all add: create_updates_def patch_updates_def)

lemma new_policy_keys [simp]:
  "dp_id (new_policy i d) = i" "dp_domain (new_policy i d) = d" "dp_is_active (new_policy i d)"
  by (simp_all add: new_policy_def)

text \<open>
  What \<^verbatim>\<open>tldextract\<close> is documented to do, as far as a normalised domain is looked up again: the
  registered domain of a registered domain is itself.
\<close>

definition tld_laws :: "(string \<Rightarrow> string) \<Rightarrow> bool" where
  "tld_laws rd \<longleftrightarrow> (\<forall>h. rd h \<noteq> [] \<longrightarrow> rd (rd h) = rd h \<and> lower (rd h) = rd h)"

lemma normalize_domain_idem:
  assumes "tld_laws rd" "\<not> startswith ''www.'' (normalize_domain rd h)"
  shows "normalize_domain rd (normalize_domain rd h) = normalize_domain rd h"
proof (cases "rd (removeprefix ''www.'' (lower h)) = []")
  case True
  have "lower (removeprefix ''www.'' (lower h)) = removeprefix ''www.'' (lower h)"
    by (simp add: removeprefix_def lower_def drop_map)
  with True assms(2) show ?thesis
    by (simp add: normalize_domain_def Let_def removeprefix_def)
next
  case False
  with assms show ?thesis
    by (simp add: tld_laws_def normalize_domain_def Let_def removeprefix_def)
qed

lemma upsert_get_domain:
  fixes b :: DomainPolicyCreate
  shows "\<exists>r. get_by dp_domain (normalize_domain rd d) (upsert_policy rd i d (create_updates b) tbl)
     = Some (create_updates b r) \<and> dp_domain r = normalize_domain rd d
     \<and> (get_by dp_domain (normalize_domain rd d) tbl = Some r
        \<or> get_by dp_domain (normalize_domain rd d) tbl = None \<and> r = new_policy i (normalize_domain rd d))"
proof (cases "get_by dp_domain (normalize_domain rd d) tbl")
  case None
  then show ?thesis by (auto simp: upsert_policy_def Let_def)
next
  case (Some r)
  then show ?thesis
    by (auto simp: upsert_policy_def Let_def get_by_update_where dest: get_by_SomeD)
qed

end
