(* ===== verification/Rate_Limiter.thy ===== *)
theory Rate_Limiter
  imports Redis Uuid Policy_Resolver "HOL-Library.Multiset"
begin

text \<open>
  \<^verbatim>\<open>app/services/rate_limiter.py\<close>: the sliding-window script that runs inside Redis, and the four
  layers that call it. Times are integers in milliseconds. The script's \<^verbatim>\<open>math.random\<close> and the
  clock are arguments: \<open>rnd i\<close> is the random number of the script's i-th iteration.
\<close>

section \<open>The script\<close>

definition member_name :: "int \<Rightarrow> int \<Rightarrow> int \<Rightarrow> string" where
  "member_name now i r = int_str now @ ''-'' @ int_str i @ ''-'' @ int_str r"

fun zadd_loop :: "'r redis \<Rightarrow> string \<Rightarrow> int \<Rightarrow> (int \<Rightarrow> int) \<Rightarrow> int list \<Rightarrow> 'r \<Rightarrow> unit option \<times> 'r" where
  "zadd_loop R key now rnd [] s = rret () s"
| "zadd_loop R key now rnd (i # is) s =
     rbind (r_zadd R key now (member_name now i (rnd i))) (\<lambda>_. zadd_loop R key now rnd is) s"

definition LUA_SLIDING_WINDOW ::
  "'r redis \<Rightarrow> (int \<Rightarrow> int) \<Rightarrow> string \<Rightarrow> int \<Rightarrow> int \<Rightarrow> int \<Rightarrow> int \<Rightarrow> 'r \<Rightarrow> (int \<times> int \<times> int) option \<times> 'r" where
  "LUA_SLIDING_WINDOW R rnd key now window limit cost =
     (let cutoff = now - window * 1000
      in rbind (r_zremrangebyscore R key cutoff) (\<lambda>_.
         rbind (r_zcard R key) (\<lambda>cnt.
         if cnt + cost > limit
         then rbind (r_zrange_first R key) (\<lambda>oldest.
                rret (0, cnt, case oldest of None \<Rightarrow> 0 | Some (_, sc) \<Rightarrow> sc + window * 1000))
         else rbind (zadd_loop R key now rnd [1..cost]) (\<lambda>_.
              rbind (r_expire R key (window + 1)) (\<lambda>_.
                rret (1, cnt + cost, now + window * 1000))))))"

section \<open>Results and layers\<close>

record RateLimitResult =
  rl_allowed :: bool
  rl_limit :: int
  rl_remaining :: int
  rl_reset_at_ms :: int
  rl_layer :: string
  rl_retry_after_s :: real

definition PERMISSIVE_RESULT :: RateLimitResult where
  "PERMISSIVE_RESULT = \<lparr>rl_allowed = True, rl_limit = 0, rl_remaining = 0, rl_reset_at_ms = 0,
     rl_layer = ''none'', rl_retry_after_s = 0\<rparr>"

definition rl_denied :: "real \<Rightarrow> int \<Rightarrow> int \<Rightarrow> int \<Rightarrow> string \<Rightarrow> RateLimitResult" where
  "rl_denied now_ms limit cnt reset_at_ms layer =
     \<lparr>rl_allowed = False, rl_limit = limit, rl_remaining = max 0 (limit - cnt),
      rl_reset_at_ms = reset_at_ms, rl_layer = layer,
      rl_retry_after_s = max (1 / 10) ((real_of_int reset_at_ms - now_ms) / 1000)\<rparr>"

definition rl_allow :: "int \<Rightarrow> int \<Rightarrow> int \<Rightarrow> string \<Rightarrow> RateLimitResult" where
  "rl_allow limit cnt reset_at_ms layer =
     \<lparr>rl_allowed = True, rl_limit = limit, rl_remaining = max 0 (limit - cnt),
      rl_reset_at_ms = reset_at_ms, rl_layer = layer, rl_retry_after_s = 0\<rparr>"

text \<open>
  One evaluation of the script: the clock reading in milliseconds (\<^verbatim>\<open>time.time() * 1000\<close>), again
  read for a denial, and the random numbers.
\<close>

record eval_env =
  ev_now :: real
  ev_now_denied :: real
  ev_rnd :: "int \<Rightarrow> int"

text \<open>Python's \<^verbatim>\<open>int(x)\<close> truncates towards zero.\<close>

definition trunc :: "real \<Rightarrow> int" where
  "trunc x = (if x < 0 then - \<lfloor>- x\<rfloor> else \<lfloor>x\<rfloor>)"

definition eval_lua ::
  "'r redis \<Rightarrow> eval_env \<Rightarrow> string \<Rightarrow> int \<Rightarrow> int \<Rightarrow> int \<Rightarrow> 'r \<Rightarrow> (int \<times> int \<times> int) option \<times> 'r" where
  "eval_lua R ev key window_s limit cost =
     LUA_SLIDING_WINDOW R (ev_rnd ev) key (trunc (ev_now ev)) window_s limit cost"

definition rl_check ::
  "'r redis \<Rightarrow> eval_env \<Rightarrow> string \<Rightarrow> int \<Rightarrow> int \<Rightarrow> string \<Rightarrow> int \<Rightarrow> 'r \<Rightarrow> RateLimitResult \<times> 'r" where
  "rl_check R ev key window_s limit layer cost =
     try_or PERMISSIVE_RESULT
       (rbind (eval_lua R ev key window_s limit cost) (\<lambda>(allowed_int, cnt, reset_at).
          rret (if allowed_int = 0 then rl_denied (ev_now_denied ev) limit cnt reset_at layer
                else rl_allow limit cnt reset_at layer)))"

definition check_key :: "'r redis \<Rightarrow> eval_env \<Rightarrow> string \<Rightarrow> int \<Rightarrow> 'r \<Rightarrow> RateLimitResult \<times> 'r" where
  "check_key R ev api_key_prefix limit =
     rl_check R ev (''rl:key:'' @ api_key_prefix) 60 limit ''key'' 1"

definition check_application :: "'r redis \<Rightarrow> eval_env \<Rightarrow> uuid \<Rightarrow> int \<Rightarrow> 'r \<Rightarrow> RateLimitResult \<times> 'r" where
  "check_application R ev application_id monthly_quota =
     rl_check R ev (''rl:app:'' @ uuid_str application_id) (30 * 24 * 3600) monthly_quota ''app'' 1"

definition check_domain ::
  "'r redis \<Rightarrow> (string \<Rightarrow> string) \<Rightarrow> eval_env \<Rightarrow> string \<Rightarrow> real \<Rightarrow> 'r \<Rightarrow> RateLimitResult \<times> 'r" where
  "check_domain R rd ev domain rps =
     rl_check R ev (''rl:dom:'' @ normalize_domain rd domain) 1 (max 1 (trunc rps)) ''domain'' 1"

definition check_proxy :: "'r redis \<Rightarrow> eval_env \<Rightarrow> uuid \<Rightarrow> real \<Rightarrow> 'r \<Rightarrow> RateLimitResult \<times> 'r" where
  "check_proxy R ev proxy_id rps =
     rl_check R ev (''rl:proxy:'' @ uuid_str proxy_id) 1 (max 1 (trunc rps)) ''proxy'' 1"

text \<open>
  \<^verbatim>\<open>asyncio.gather\<close> runs both coroutines to the end whatever they return; each issues one command,
  in the order of the list.
\<close>

definition check_all ::
  "'r redis \<Rightarrow> (string \<Rightarrow> string) \<Rightarrow> (nat \<Rightarrow> eval_env) \<Rightarrow> string \<Rightarrow> uuid \<Rightarrow> string \<Rightarrow> uuid option \<Rightarrow> real \<Rightarrow> int
   \<Rightarrow> 'r \<Rightarrow> RateLimitResult \<times> 'r" where
  "check_all R rd ev api_key_prefix application_id domain proxy_id domain_rps monthly_quota s0 =
     (let (r1, s1) = check_key R (ev 1) api_key_prefix 60 s0;
          (r2, s2) = check_application R (ev 2) application_id monthly_quota s1
      in case find (\<lambda>r. \<not> rl_allowed r) [r1, r2] of
           Some r \<Rightarrow> (r, s2)
         | None \<Rightarrow>
             (let (dom_result, s3) = check_domain R rd (ev 3) domain domain_rps s2
              in if \<not> rl_allowed dom_result then (dom_result, s3)
                 else (case proxy_id of
                         None \<Rightarrow> (dom_result, s3)
                       | Some p \<Rightarrow>
                           (let (proxy_result, s4) = check_proxy R (ev 4) p 2 s3
                            in if \<not> rl_allowed proxy_result then (proxy_result, s4)
                               else (dom_result, s4)))))"

section \<open>The window\<close>

text \<open>Entries inside the window that ends now.\<close>

definition live :: "int \<Rightarrow> int \<Rightarrow> zset \<Rightarrow> zset" where
  "live now window z = filter (\<lambda>x. now - window * 1000 < snd x) z"

lemma zset_ok_live: "zset_ok z \<Longrightarrow> zset_ok (live now window z)"
  by (simp add: live_def zset_ok_filter)

lemma zadd_fresh_mset:
  assumes "zset_ok z" "zset_ok z'" "set z' = insert (m, sc) {x \<in> set z. fst x \<noteq> m}" "m \<notin> fst ` set z"
  shows "mset z' = add_mset (m, sc) (mset z)"
proof -
  have d: "distinct z" "distinct z'" using assms(1,2) by (auto simp: zset_ok_def distinct_map)
  have "set z' = insert (m, sc) (set z)" using assms(3,4) by force
  moreover have "(m, sc) \<notin> set z" using assms(4) by force
  ultimately show ?thesis
    using d by (metis distinct.simps(2) list.simps(15) mset.simps(2) set_eq_iff_mset_eq_distinct)
qed

text \<open>One run of the script with cost one, read off the laws of the service.\<close>

lemma sliding_window_run:
  assumes laws: "redis_laws R view"
    and run: "LUA_SLIDING_WINDOW R rnd key now window limit 1 s = (Some (a, cnt, reset), s')"
    and w: "0 \<le> window"
  shows "\<exists>z. zset_at (view s) key = Some z \<and> cnt = int (length (live now window z)) + a
    \<and> (a = 0 \<and> limit < int (length (live now window z)) + 1
         \<and> reset = (case live now window z of [] \<Rightarrow> 0 | x # _ \<Rightarrow> snd x + window * 1000)
         \<and> zset_at (view s') key = Some (live now window z)
       \<or> a = 1 \<and> int (length (live now window z)) + 1 \<le> limit \<and> reset = now + window * 1000
         \<and> (zset_ok z \<longrightarrow> (\<exists>z'. zset_at (view s') key = Some z' \<and> zset_ok z'
             \<and> set z' = insert (member_name now 1 (rnd 1), now)
                 {x \<in> set (live now window z). fst x \<noteq> member_name now 1 (rnd 1)})))"
proof -
  obtain u s1 where rem: "r_zremrangebyscore R key (now - window * 1000) s = (Some u, s1)"
    and rest: "rbind (r_zcard R key) (\<lambda>cnt.
         if cnt + 1 > limit
         then rbind (r_zrange_first R key) (\<lambda>oldest.
                rret (0, cnt, case oldest of None \<Rightarrow> 0 | Some (_, sc) \<Rightarrow> sc + window * 1000))
         else rbind (zadd_loop R key now rnd [1..1]) (\<lambda>_.
              rbind (r_expire R key (window + 1)) (\<lambda>_.
                rret (1, cnt + 1, now + window * 1000)))) s1 = (Some (a, cnt, reset), s')"
    using run unfolding LUA_SLIDING_WINDOW_def Let_def rbind_Some_iff by blast
  from r_zremD [OF laws rem] obtain z where z: "zset_at (view s) key = Some z"
    and v1: "view s1 = put_zset key (live now window z) (view s)" by (auto simp: live_def)
  have z1: "zset_at (view s1) key = Some (live now window z)" by (simp add: v1)
  from rest obtain n s2 where card: "r_zcard R key s1 = (Some n, s2)"
    and rest2: "(if n + 1 > limit
         then rbind (r_zrange_first R key) (\<lambda>oldest.
                rret (0, n, case oldest of None \<Rightarrow> 0 | Some (_, sc) \<Rightarrow> sc + window * 1000))
         else rbind (zadd_loop R key now rnd [1..1]) (\<lambda>_.
              rbind (r_expire R key (window + 1)) (\<lambda>_.
                rret (1, n + 1, now + window * 1000)))) s2 = (Some (a, cnt, reset), s')"
    unfolding rbind_Some_iff by blast
  from r_zcardD [OF laws card] z1 have n: "n = int (length (live now window z))"
    and v2: "view s2 = view s1" by auto
  have z2: "zset_at (view s2) key = Some (live now window z)" by (simp add: v2 z1)
  show ?thesis
  proof (cases "n + 1 > limit")
    case True
    with rest2 obtain oldest where first: "r_zrange_first R key s2 = (Some oldest, s')"
      and res: "a = 0" "cnt = n" "reset = (case oldest of None \<Rightarrow> 0 | Some (_, sc) \<Rightarrow> sc + window * 1000)"
      by (auto simp: rbind_Some_iff)
    from r_zrangeD [OF laws first] z2 have
      "oldest = (case live now window z of [] \<Rightarrow> None | y # _ \<Rightarrow> Some y)" "view s' = view s2" by auto
    with True res n z z2 show ?thesis by (auto split: list.splits)
  next
    case False
    have up: "[1..1::int] = [1]" by simp
    from False rest2 obtain s3 u3 u4 where
        add: "r_zadd R key now (member_name now 1 (rnd 1)) s2 = (Some u3, s3)"
      and exp: "r_expire R key (window + 1) s3 = (Some u4, s')"
      and res: "a = 1" "cnt = n + 1" "reset = now + window * 1000"
      by (auto simp: rbind_Some_iff up)
    from r_zaddD [OF laws add] z2 obtain z' where
      z': "zset_ok (live now window z) \<longrightarrow> zset_ok z'"
        "set z' = insert (member_name now 1 (rnd 1), now)
          {x \<in> set (live now window z). fst x \<noteq> member_name now 1 (rnd 1)}"
      and v3: "view s3 = put_zset key z' (view s2)" by auto
    have "view s' = view s3" using r_expireD [OF laws exp] w by simp
    with v3 have "zset_at (view s') key = Some z'" by simp
    with False res n z z' show ?thesis by (auto intro: zset_ok_live)
  qed
qed

section \<open>A history of one window\<close>

text \<open>
  What can happen to a limiter key: calls of the script with a clock that does not go back and a
  member that is not yet in the set, the expiry of the key (its time to live is one second more
  than the window), and anything that leaves the key alone. The list holds the times of the
  admitted calls, newest first.
\<close>

inductive window_history ::
  "'r redis \<Rightarrow> ('r \<Rightarrow> keyspace) \<Rightarrow> string \<Rightarrow> int \<Rightarrow> int \<Rightarrow> 'r \<Rightarrow> int list \<Rightarrow> int \<Rightarrow> bool"
  for R :: "'r redis" and view :: "'r \<Rightarrow> keyspace" and key :: string and window limit :: int where
  start: "view s key = None \<Longrightarrow> window_history R view key window limit s [] t"
| call: "window_history R view key window limit s adm t \<Longrightarrow> t \<le> now \<Longrightarrow>
    LUA_SLIDING_WINDOW R rnd key now window limit 1 s = (Some (a, cnt, reset), s') \<Longrightarrow>
    (\<forall>z. zset_at (view s) key = Some z \<longrightarrow> member_name now 1 (rnd 1) \<notin> fst ` set z) \<Longrightarrow>
    window_history R view key window limit s' (if a = 1 then now # adm else adm) now"
| expiry: "window_history R view key window limit s adm t \<Longrightarrow> t \<le> t' \<Longrightarrow>
    (\<forall>x \<in> set adm. x + (window + 1) * 1000 \<le> t') \<Longrightarrow> view s' key = None \<Longrightarrow>
    window_history R view key window limit s' adm t'"
| other: "window_history R view key window limit s adm t \<Longrightarrow> t \<le> t' \<Longrightarrow> view s' key = view s key \<Longrightarrow>
    window_history R view key window limit s' adm t'"

definition in_window :: "int \<Rightarrow> int \<Rightarrow> int list \<Rightarrow> int list" where
  "in_window t window adm = filter (\<lambda>x. t - window * 1000 < x) adm"

lemma in_window_shrinks:
  assumes "t \<le> t'" "mset (in_window t w xs) = mset (in_window t w ys)"
  shows "mset (in_window t' w xs) = mset (in_window t' w ys)"
proof -
  have "in_window t' w xs = filter (\<lambda>x. t' - w * 1000 < x) (in_window t w xs)" for xs
    using assms(1) by (auto simp: in_window_def intro: filter_cong)
  then show ?thesis using assms(2) by (metis mset_filter)
qed

lemma length_in_window_mono: "t \<le> t' \<Longrightarrow> length (in_window t' w xs) \<le> length (in_window t w xs)"
  by (induction xs) (auto simp: in_window_def)

lemma window_history_inv:
  assumes "window_history R view key window limit s adm t" "redis_laws R view" "0 < window"
  shows "\<exists>z. zset_at (view s) key = Some z \<and> zset_ok z
    \<and> mset (in_window t window adm) = mset (in_window t window (map snd z))
    \<and> int (length (in_window t window adm)) \<le> max 0 limit"
  using assms(1)
proof (induction rule: window_history.induct)
  case (start s t)
  then show ?case by (simp add: zset_at_def zset_ok_def in_window_def)
next
  case (call s adm t now rnd a cnt reset s')
  then obtain z where z: "zset_at (view s) key = Some z" "zset_ok z"
    and eq: "mset (in_window t window adm) = mset (in_window t window (map snd z))"
    and bound: "int (length (in_window t window adm)) \<le> max 0 limit" by blast
  have eq': "mset (in_window now window adm) = mset (in_window now window (map snd z))"
    using in_window_shrinks [OF call.hyps(2) eq] .
  have live_snd: "in_window now window (map snd z) = map snd (live now window z)"
    by (simp add: in_window_def live_def filter_map comp_def)
  have idem: "in_window now window (map snd (live now window z)) = map snd (live now window z)"
    by (simp add: in_window_def live_def filter_map comp_def)
  have len: "length (live now window z) = length (in_window now window adm)"
    using eq' live_snd by (metis length_map size_mset)
  have fresh: "member_name now 1 (rnd 1) \<notin> fst ` set (live now window z)"
    using call.hyps(4) z(1) by (auto simp: live_def)
  from sliding_window_run [OF assms(2) call.hyps(3)] assms(3) z(1) consider
      (denied) "a = 0" "zset_at (view s') key = Some (live now window z)"
    | (admitted) z' where "a = 1" "int (length (live now window z)) + 1 \<le> limit"
        "zset_at (view s') key = Some z'" "zset_ok z'"
        "set z' = insert (member_name now 1 (rnd 1), now)
          {x \<in> set (live now window z). fst x \<noteq> member_name now 1 (rnd 1)}"
    using z(2) by auto
  then show ?case
  proof cases
    case denied
    have "length (in_window now window adm) \<le> length (in_window t window adm)"
      using call.hyps(2) by (rule length_in_window_mono)
    then show ?thesis
      using idem denied z(2) eq' live_snd bound by (auto simp: zset_ok_live)
  next
    case admitted
    have ms: "mset z' = add_mset (member_name now 1 (rnd 1), now) (mset (live now window z))"
      by (rule zadd_fresh_mset [OF zset_ok_live [OF z(2)] admitted(4,5) fresh])
    have "mset (in_window now window (map snd z'))
        = add_mset now (mset (map snd (live now window z)))"
    proof -
      have "mset (map snd z') = add_mset now (mset (map snd (live now window z)))"
        using ms by simp
      moreover have "filter_mset (\<lambda>x. now - window * 1000 < x) (mset (map snd (live now window z)))
          = mset (map snd (live now window z))"
        using idem by (metis in_window_def mset_filter)
      ultimately show ?thesis using assms(3) by (simp add: in_window_def)
    qed
    moreover have "in_window now window (now # adm) = now # in_window now window adm"
      using assms(3) by (simp add: in_window_def)
    ultimately show ?thesis using admitted eq' live_snd len by auto
  qed
next
  case (expiry s adm t t' s')
  have none: "in_window t' window adm = []"
    using expiry.hyps(3) assms(3) by (fastforce simp: in_window_def filter_empty_conv)
  show ?case
    using expiry.hyps(4) unfolding none by (simp add: zset_at_def zset_ok_def in_window_def)
next
  case (other s adm t t' s')
  then obtain z where z: "zset_at (view s) key = Some z" "zset_ok z"
    and eq: "mset (in_window t window adm) = mset (in_window t window (map snd z))"
    and bound: "int (length (in_window t window adm)) \<le> max 0 limit" by blast
  have "zset_at (view s') key = Some z" using z(1) other.hyps(3) by (simp add: zset_at_def)
  moreover have "length (in_window t' window adm) \<le> length (in_window t window adm)"
    using other.hyps(2) by (rule length_in_window_mono)
  ultimately show ?case
    using z(2) bound in_window_shrinks [OF other.hyps(2) eq] by auto
qed

section \<open>Properties\<close>

lemma sliding_window_returns:
  assumes "redis_laws R view" "redis_up R view" "zset_at (view s) key = Some z"
  shows "\<exists>r s'. LUA_SLIDING_WINDOW R rnd key now window limit 1 s = (Some r, s')"
proof -
  obtain s1 where rem: "r_zremrangebyscore R key (now - window * 1000) s = (Some (), s1)"
    using r_zset_up(1) [OF assms(2,3)] by blast
  then have z1: "\<exists>z. zset_at (view s1) key = Some z" using r_zremD [OF assms(1) rem] by auto
  then obtain n s2 where card: "r_zcard R key s1 = (Some n, s2)" using r_zset_up(2) [OF assms(2)] by blast
  with z1 obtain z2 where z2: "zset_at (view s2) key = Some z2" using r_zcardD [OF assms(1) card] by auto
  obtain old s3 where first: "r_zrange_first R key s2 = (Some old, s3)" using r_zset_up(3) [OF assms(2) z2] by blast
  obtain s4 where add: "r_zadd R key now (member_name now 1 (rnd 1)) s2 = (Some (), s4)"
    using r_zset_up(4) [OF assms(2) z2] by blast
  obtain s5 where exp: "r_expire R key (window + 1) s4 = (Some (), s5)" using r_expire_up [OF assms(2)] by blast
  have "[1..1::int] = [1]" by simp
  then show ?thesis
    by (cases "limit < n + 1") (simp_all add: LUA_SLIDING_WINDOW_def Let_def rbind_eq rem card first add exp rret_def)
qed



text \<open>
  One layer's decision: when the service works, a check always answers; it admits exactly when
  the live entries plus one fit into the limit, reports the remaining budget after the request,
  and a denial asks to wait at least a tenth of a second.
\<close>

lemma rl_check_decision:
  assumes "redis_laws R view" "redis_up R view" "0 \<le> window" "zset_at (view s) key = Some z"
  shows "\<exists>r s'. rl_check R ev key window limit layer 1 s = (r, s')
    \<and> (rl_allowed r \<longleftrightarrow> int (length (live (trunc (ev_now ev)) window z)) + 1 \<le> limit)
    \<and> rl_limit r = limit \<and> rl_layer r = layer
    \<and> rl_remaining r = max 0 (limit - int (length (live (trunc (ev_now ev)) window z)) - (if rl_allowed r then 1 else 0))
    \<and> (\<not> rl_allowed r \<longrightarrow> 1 / 10 \<le> rl_retry_after_s r)"
proof -
  obtain a c re s' where run:
    "LUA_SLIDING_WINDOW R (ev_rnd ev) key (trunc (ev_now ev)) window limit 1 s = (Some (a, c, re), s')"
    using sliding_window_returns [OF assms(1,2,4)] by (metis prod_cases3)
  have "rl_check R ev key window limit layer 1 s
      = (if a = 0 then rl_denied (ev_now_denied ev) limit c re layer else rl_allow limit c re layer, s')"
    by (simp add: rl_check_def try_or_def rbind_eq [of _ s] eval_lua_def run rret_def)
  then show ?thesis
    using sliding_window_run [OF assms(1) run assms(3)] assms(4)
    by (auto simp: rl_denied_def rl_allow_def)
qed

lemma rl_check_decision_witness:
  "\<exists>r s'. rl_check fun_redis \<lparr>ev_now = 5000, ev_now_denied = 5001, ev_rnd = (\<lambda>_. 3)\<rparr> ''k'' 60 1 ''key'' 1
      (\<lambda>_. Some (RZset [(''m'', 4000)])) = (r, s') \<and> \<not> rl_allowed r"
proof -
  have "zset_at (id (\<lambda>_. Some (RZset [(''m'', 4000)]))) ''k'' = Some [(''m'', 4000)]"
    by (simp add: zset_at_def)
  then show ?thesis
    using rl_check_decision [of fun_redis id 60 "\<lambda>_. Some (RZset [(''m'', 4000)])" "''k''" "[(''m'', 4000)]"
        "\<lparr>ev_now = 5000, ev_now_denied = 5001, ev_rnd = (\<lambda>_. 3)\<rparr>" 1 "''key''"]
    by (auto simp: live_def trunc_def)
qed

text \<open>
  Fail-open: when Redis fails the check admits, so with Redis down every request passes all
  four layers.
\<close>

lemma check_all_fail_open:
  assumes "\<forall>k c s. fst (r_zremrangebyscore R k c s) = None"
  shows "rl_allowed (fst (check_all R rd ev prefix app domain proxy rps quota s))"
proof -
  have chk: "fst (rl_check R e k w l lay c s) = PERMISSIVE_RESULT" for e k w l lay c s
  proof -
    obtain s' where "r_zremrangebyscore R k (trunc (ev_now e) - w * 1000) s = (None, s')"
      using assms by (metis prod.collapse)
    then show ?thesis
      by (simp add: rl_check_def try_or_def eval_lua_def LUA_SLIDING_WINDOW_def Let_def rbind_None rbind_def)
  qed
  have "rl_allowed PERMISSIVE_RESULT" by (simp add: PERMISSIVE_RESULT_def)
  then show ?thesis
    by (auto simp: check_all_def check_key_def check_application_def check_domain_def check_proxy_def
        Let_def split: prod.splits option.splits) (metis chk fst_conv)+
qed

lemma check_all_fail_open_witness:
  "rl_allowed (fst (check_all (fun_redis\<lparr>r_zremrangebyscore := (\<lambda>k c s. (None, s))\<rparr>) id
     (\<lambda>_. \<lparr>ev_now = 0, ev_now_denied = 0, ev_rnd = id\<rparr>) ''p'' 1 ''a.com'' (Some 2) 1 0 (\<lambda>_. None)))"
  by (rule check_all_fail_open) simp

text \<open>
  The layers are consulted in order and the first denial wins, but the per-key and the
  per-application windows are both charged before either answer is looked at: when the key layer
  denies, the state returned is the one after the application window was charged, so a rejected
  request uses up monthly quota.
\<close>

lemma key_denial_charges_application:
  assumes "check_key R (ev 1) prefix 60 s = (r1, s1)" "\<not> rl_allowed r1"
  shows "check_all R rd ev prefix app domain proxy rps quota s
    = (r1, snd (check_application R (ev 2) app quota s1))"
  using assms by (auto simp: check_all_def Let_def split: prod.splits)

lemma key_denial_charges_application_witness:
  "\<exists>r1 s1. check_all fun_redis id (\<lambda>_. \<lparr>ev_now = 5000, ev_now_denied = 5000, ev_rnd = (\<lambda>_. 3)\<rparr>) ''p'' 1 ''a.com'' None 1 10
      (\<lambda>k. if k = ''rl:key:p'' then Some (RZset (map (\<lambda>i. (int_str i, 4000)) [1..60])) else None)
    = (r1, snd (check_application fun_redis \<lparr>ev_now = 5000, ev_now_denied = 5000, ev_rnd = (\<lambda>_. 3)\<rparr> 1 10 s1))
    \<and> \<not> rl_allowed r1"
proof -
  let ?e = "\<lparr>ev_now = 5000, ev_now_denied = 5000, ev_rnd = (\<lambda>_. 3)\<rparr> :: eval_env"
  let ?s = "\<lambda>k. if k = ''rl:key:p'' then Some (RZset (map (\<lambda>i. (int_str i, 4000 :: int)) [1..60])) else None"
  have "\<not> rl_allowed (fst (check_key fun_redis ?e ''p'' 60 ?s))" by code_simp
  then obtain r1 s1 where "check_key fun_redis ?e ''p'' 60 ?s = (r1, s1)" "\<not> rl_allowed r1"
    by (metis prod.collapse)
  then show ?thesis
    using key_denial_charges_application [of fun_redis "\<lambda>_. ?e" "''p''" ?s r1 s1 id 1 "''a.com''" None 1 10]
    by blast
qed

end
