(* ===== verification/Datetime.thy ===== *)
theory Datetime
  imports Prelude
begin

text \<open>
  The part of Python's \<^verbatim>\<open>datetime\<close> that the program uses: the proleptic Gregorian calendar,
  \<^verbatim>\<open>isoformat\<close> and \<^verbatim>\<open>fromisoformat\<close> of instants in UTC, and \<^verbatim>\<open>date().replace(day=1)\<close>.

  An instant is a number of microseconds since 1970-01-01. \<^verbatim>\<open>fromisoformat\<close> is modelled on the
  texts that \<^verbatim>\<open>isoformat\<close> prints for an instant in UTC, which are the ones the program stores;
  any other text is unreadable here.
\<close>

section \<open>The calendar\<close>

type_synonym date = "int \<times> int \<times> int"

definition is_leap :: "int \<Rightarrow> bool" where
  "is_leap y \<longleftrightarrow> y mod 4 = 0 \<and> (y mod 100 \<noteq> 0 \<or> y mod 400 = 0)"

definition month_lengths :: "bool \<Rightarrow> int list" where
  "month_lengths leap = [31, if leap then 29 else 28, 31, 30, 31, 30, 31, 31, 30, 31, 30, 31]"

definition days_before_year :: "int \<Rightarrow> int" where
  "days_before_year y = (y - 1) * 365 + (y - 1) div 4 - (y - 1) div 100 + (y - 1) div 400"

fun month_of :: "int list \<Rightarrow> int \<Rightarrow> int \<Rightarrow> int \<times> int" where
  "month_of [] m n = (m, n + 1)"
| "month_of (l # ls) m n = (if n < l then (m, n + 1) else month_of ls (m + 1) (n - l))"

text \<open>The date with a given day number, counted from one on 0001-01-01 (\<^verbatim>\<open>date.fromordinal\<close>).\<close>

definition ord2ymd :: "int \<Rightarrow> date" where
  "ord2ymd ordinal =
     (let n = ordinal - 1; n400 = n div 146097; n = n mod 146097;
          n100 = n div 36524; n = n mod 36524;
          n4 = n div 1461; n = n mod 1461;
          n1 = n div 365; n = n mod 365;
          y = 400 * n400 + 100 * n100 + 4 * n4 + n1 + 1
      in if n1 = 4 \<or> n100 = 4 then (y - 1, 12, 31)
         else (let (m, d) = month_of (month_lengths (is_leap y)) 1 n in (y, m, d)))"

definition ymd2ord :: "date \<Rightarrow> int" where
  "ymd2ord = (\<lambda>(y, m, d). days_before_year y + sum_list (take (nat (m - 1)) (month_lengths (is_leap y))) + d)"

definition day_us :: int where
  "day_us = 86400000000"

definition date_of :: "datetime \<Rightarrow> date" where
  "date_of t = ord2ymd (t div day_us + 719163)"

definition replace_day_1 :: "date \<Rightarrow> date" where
  "replace_day_1 = (\<lambda>(y, m, d). (y, m, 1))"

section \<open>Texts\<close>

fun dec_fixed :: "nat \<Rightarrow> int \<Rightarrow> string" where
  "dec_fixed 0 n = []"
| "dec_fixed (Suc k) n = dec_fixed k (n div 10) @ [char_of (48 + n mod 10)]"

definition isoformat :: "datetime \<Rightarrow> string" where
  "isoformat t =
     (let (y, m, d) = date_of t; us = t mod day_us; s = us div 1000000; f = us mod 1000000
      in dec_fixed 4 y @ ''-'' @ dec_fixed 2 m @ ''-'' @ dec_fixed 2 d @ ''T''
         @ dec_fixed 2 (s div 3600) @ '':'' @ dec_fixed 2 (s div 60 mod 60) @ '':'' @ dec_fixed 2 (s mod 60)
         @ (if f = 0 then [] else ''.'' @ dec_fixed 6 f) @ ''+00:00'')"

definition field_at :: "nat \<Rightarrow> nat \<Rightarrow> string \<Rightarrow> int" where
  "field_at i n s = decimal (take n (drop i s))"

definition fromisoformat :: "string \<Rightarrow> datetime option" where
  "fromisoformat s =
     (let days = ymd2ord (field_at 0 4 s, field_at 5 2 s, field_at 8 2 s) - 719163;
          secs = field_at 11 2 s * 3600 + field_at 14 2 s * 60 + field_at 17 2 s;
          f = (if take 1 (drop 19 s) = ''.'' then field_at 20 6 s else 0);
          t = days * day_us + secs * 1000000 + f
      in if isoformat t = s then Some t else None)"

text \<open>The instants a \<^verbatim>\<open>datetime\<close> can hold: years 1 to 9999.\<close>

definition valid_datetime :: "datetime \<Rightarrow> bool" where
  "valid_datetime t \<longleftrightarrow> - 62135596800000000 \<le> t \<and> t < 253402300800000000"

section \<open>Day numbers round trip\<close>

lemma length_dec_fixed [simp]: "length (dec_fixed k n) = k"
  by (induction k n rule: dec_fixed.induct) auto

lemma decimal_dec_fixed: "decimal (dec_fixed k n) = n mod 10 ^ k"
proof (induction k n rule: dec_fixed.induct)
  case (1 n)
  show ?case by (simp add: decimal_def)
next
  case (2 k n)
  have "n mod (10 * 10 ^ k) = n div 10 mod 10 ^ k * 10 + n mod 10"
    by (simp add: mod_mult2_eq' mult.commute zmod_zmult2_eq)
  with 2 show ?case by (simp add: decimal_snoc)
qed

lemma month_of_sound:
  assumes "0 \<le> n" "n < sum_list ls" "month_of ls m n = (m', d)" "\<forall>l \<in> set ls. l \<le> 31"
  shows "m \<le> m' \<and> m' < m + int (length ls) \<and> 1 \<le> d \<and> d \<le> 31
    \<and> sum_list (take (nat (m' - m)) ls) + d = n + 1"
  using assms
proof (induction ls m n rule: month_of.induct)
  case (2 l ls m n)
  show ?case
  proof (cases "n < l")
    case True
    with 2 show ?thesis by auto
  next
    case False
    with 2 have "m + 1 \<le> m' \<and> m' < m + 1 + int (length ls) \<and> 1 \<le> d \<and> d \<le> 31
      \<and> sum_list (take (nat (m' - (m + 1))) ls) + d = n - l + 1" by simp
    moreover from this have "nat (m' - m) = Suc (nat (m' - (m + 1)))" by linarith
    ultimately show ?thesis by simp
  qed
qed simp

lemma div_block: "0 \<le> r \<Longrightarrow> r < k \<Longrightarrow> (k * q + r) div k = (q::int)" "0 \<le> r \<Longrightarrow> r < k \<Longrightarrow> (k * q + r) mod k = r"
  by simp_all

lemma days_before_cycles:
  assumes "0 \<le> b" "b \<le> 3" "0 \<le> c" "c \<le> 24" "0 \<le> d" "d \<le> 3"
  shows "days_before_year (400 * a + 100 * b + 4 * c + d + 1) = 146097 * a + 36524 * b + 1461 * c + 365 * d"
    "is_leap (400 * a + 100 * b + 4 * c + d + 1) \<longleftrightarrow> d = 3 \<and> (c \<noteq> 24 \<or> b = 3)"
proof -
  have "(400 * a + 100 * b + 4 * c + d) div 4 = 100 * a + 25 * b + c"
    using div_block(1) [of d 4 "100 * a + 25 * b + c"] assms by simp
  moreover have "(400 * a + 100 * b + 4 * c + d) div 100 = 4 * a + b"
    using div_block(1) [of "4 * c + d" 100 "4 * a + b"] assms by (simp add: add.assoc)
  moreover have "(400 * a + 100 * b + 4 * c + d) div 400 = a"
    using div_block(1) [of "100 * b + 4 * c + d" 400 a] assms by (simp add: add.assoc)
  ultimately show "days_before_year (400 * a + 100 * b + 4 * c + d + 1) = 146097 * a + 36524 * b + 1461 * c + 365 * d"
    by (simp add: days_before_year_def)
  let ?y = "400 * a + 100 * b + 4 * c + d + 1"
  have m4: "?y mod 4 = 0 \<longleftrightarrow> d = 3"
  proof (cases "d = 3")
    case True
    have "?y = 4 * (100 * a + 25 * b + c + 1)" using True by simp
    with True show ?thesis by simp
  next
    case False
    have "?y = 4 * (100 * a + 25 * b + c) + (d + 1)" by simp
    then have "?y mod 4 = d + 1"
      using False assms div_block(2) [of "d + 1" 4 "100 * a + 25 * b + c"] by (simp add: add.assoc)
    with assms show ?thesis using False by linarith
  qed
  have m100: "?y mod 100 = 0 \<longleftrightarrow> c = 24 \<and> d = 3"
  proof (cases "c = 24 \<and> d = 3")
    case True
    then have "?y = 100 * (4 * a + b + 1)" by simp
    with True show ?thesis by simp
  next
    case False
    have "?y = 100 * (4 * a + b) + (4 * c + d + 1)" by simp
    moreover have "4 * c + d + 1 < 100" using False assms by linarith
    ultimately have "?y mod 100 = 4 * c + d + 1"
      using assms div_block(2) [of "4 * c + d + 1" 100 "4 * a + b"] by (simp add: add.assoc)
    with False assms show ?thesis by linarith
  qed
  have m400: "?y mod 400 = 0 \<longleftrightarrow> b = 3 \<and> c = 24 \<and> d = 3"
  proof (cases "b = 3 \<and> c = 24 \<and> d = 3")
    case True
    then have "?y = 400 * (a + 1)" by simp
    with True show ?thesis by simp
  next
    case False
    have "?y = 400 * a + (100 * b + 4 * c + d + 1)" by simp
    moreover have "100 * b + 4 * c + d + 1 < 400" using False assms by linarith
    ultimately have "?y mod 400 = 100 * b + 4 * c + d + 1"
      using assms div_block(2) [of "100 * b + 4 * c + d + 1" 400 a] by (simp add: add.assoc)
    with False assms show ?thesis by linarith
  qed
  show "is_leap ?y \<longleftrightarrow> d = 3 \<and> (c \<noteq> 24 \<or> b = 3)" unfolding is_leap_def m4 m100 m400 by blast
qed

lemma sum_month_lengths: "sum_list (month_lengths leap) = (if leap then 366 else 365)"
  by (simp add: month_lengths_def)

lemma month_lengths_bound: "\<forall>l \<in> set (month_lengths leap). l \<le> 31"
  by (simp add: month_lengths_def)

lemma length_month_lengths [simp]: "length (month_lengths leap) = 12"
  by (simp add: month_lengths_def)

text \<open>The last day of a cycle of four or of four hundred years.\<close>

lemma ymd2ord_dec31: "ymd2ord (y, 12, 31) = days_before_year y + (if is_leap y then 366 else 365)"
  by (simp add: ymd2ord_def month_lengths_def)

lemma ymd2ord_ord2ymd:
  assumes "ord2ymd ordinal = (y, m, d)"
  shows "ymd2ord (y, m, d) = ordinal \<and> 1 \<le> m \<and> m \<le> 12 \<and> 1 \<le> d \<and> d \<le> 31 \<and> days_before_year y < ordinal"
proof -
  define n a where n: "n = ordinal - 1" and a: "a = n div 146097"
  define n' b where n': "n' = n mod 146097" and b: "b = n' div 36524"
  define n'' c where n'': "n'' = n' mod 36524" and c: "c = n'' div 1461"
  define n3 e where n3: "n3 = n'' mod 1461" and e: "e = n3 div 365"
  define r where r: "r = n3 mod 365"
  have parts: "n = 146097 * a + n'" "n' = 36524 * b + n''" "n'' = 1461 * c + n3" "n3 = 365 * e + r"
    by (simp_all add: a n' b n'' c n3 e r)
  from parts have split: "ordinal = 146097 * a + 36524 * b + 1461 * c + 365 * e + r + 1" using n by linarith
  have rng: "0 \<le> n'" "n' < 146097" "0 \<le> n''" "n'' < 36524" "0 \<le> n3" "n3 < 1461" "0 \<le> r" "r < 365"
    by (simp_all add: n' n'' n3 r)
  have "0 \<le> b" "b \<le> 4" "0 \<le> c" "c \<le> 24" "0 \<le> e" "e \<le> 4"
    using rng parts(2-4) by linarith+
  note bounds = this
  let ?y = "400 * a + 100 * b + 4 * c + e + 1"
  have def: "ord2ymd ordinal = (if e = 4 \<or> b = 4 then (?y - 1, 12, 31)
      else (let (m, d) = month_of (month_lengths (is_leap ?y)) 1 r in (?y, m, d)))"
    unfolding ord2ymd_def Let_def n [symmetric] a [symmetric] n' [symmetric] b [symmetric] n'' [symmetric]
      c [symmetric] n3 [symmetric] e [symmetric] r [symmetric] by simp
  show ?thesis
  proof (cases "e = 4 \<or> b = 4")
    case True
    then have ym: "y = ?y - 1" "m = 12" "d = 31" using def assms by simp_all
    show ?thesis
    proof (cases "b = 4")
      case True
      then have z: "c = 0" "e = 0" "r = 0" using rng parts(2-4) bounds by linarith+
      then have y: "y = 400 * a + 100 * 3 + 4 * 24 + 3 + 1" using ym True by simp
      show ?thesis
        using days_before_cycles [of 3 24 3 a] split True z ym(2,3)
        unfolding y by (simp add: ymd2ord_dec31)
    next
      case False
      with True have e4: "e = 4" by simp
      then have z: "r = 0" "c \<noteq> 24" "b \<le> 3" using rng parts(2-4) bounds False by linarith+
      have y: "y = 400 * a + 100 * b + 4 * c + 3 + 1" using ym e4 by simp
      show ?thesis
        using days_before_cycles [of b c 3 a] split e4 z bounds ym(2,3)
        unfolding y by (simp add: ymd2ord_dec31)
    qed
  next
    case False
    with bounds have be: "b \<le> 3" "e \<le> 3" by linarith+
    from False def assms have y: "y = ?y" and mo: "month_of (month_lengths (is_leap y)) 1 r = (m, d)"
      by (auto split: prod.splits)
    have "r < sum_list (month_lengths (is_leap y))" using rng by (simp add: sum_month_lengths)
    from month_of_sound [OF rng(7) this mo month_lengths_bound]
    have md: "1 \<le> m" "m \<le> 12" "1 \<le> d" "d \<le> 31"
      "sum_list (take (nat (m - 1)) (month_lengths (is_leap y))) + d = r + 1" by simp_all
    moreover have "days_before_year y = 146097 * a + 36524 * b + 1461 * c + 365 * e"
      unfolding y using be bounds by (intro days_before_cycles) simp_all
    ultimately show ?thesis using split rng by (simp add: ymd2ord_def)
  qed
qed

lemma div_diff_le: "a \<le> b \<Longrightarrow> b div 100 - a div 100 \<le> b - (a::int)"
proof -
  assume "a \<le> b"
  have "a = 100 * (a div 100) + a mod 100" "b = 100 * (b div 100) + b mod 100" by simp_all
  moreover have "0 \<le> a mod 100" "a mod 100 < 100" "0 \<le> b mod 100" "b mod 100 < 100" by simp_all
  ultimately show ?thesis using \<open>a \<le> b\<close> by linarith
qed

lemma year_bounds:
  assumes "ord2ymd ordinal = (y, m, d)" "1 \<le> ordinal" "ordinal \<le> 3652059"
  shows "1 \<le> y \<and> y \<le> 9999"
proof -
  from ymd2ord_ord2ymd [OF assms(1)] have f: "ymd2ord (y, m, d) = ordinal" "1 \<le> m" "m \<le> 12" "d \<le> 31"
    "days_before_year y < ordinal" by simp_all
  have le: "y' \<le> z \<Longrightarrow> (y' - 1) * 365 + (y' - 1) div 4 - (y' - 1) div 100 \<le> (z - 1) * 365 + (z - 1) div 4 - (z - 1) div 100"
    for y' z :: int
    using zdiv_mono1 [of "y' - 1" "z - 1" 4] div_diff_le [of "y' - 1" "z - 1"] by fastforce
  have "y \<le> 9999"
  proof (rule ccontr)
    assume "\<not> y \<le> 9999"
    then have "10000 \<le> y" by simp
    then have "days_before_year 10000 \<le> days_before_year y"
      using le [of 10000 y] zdiv_mono1 [of 9999 "y - 1" 400] by (simp add: days_before_year_def)
    then show False using f(5) assms(3) by (simp add: days_before_year_def)
  qed
  moreover have "1 \<le> y"
  proof (rule ccontr)
    assume "\<not> 1 \<le> y"
    then have "y \<le> 0" by simp
    have year: "days_before_year y \<le> days_before_year 0"
      using le [of y 0] zdiv_mono1 [of "y - 1" "-1" 400] \<open>y \<le> 0\<close> by (simp add: days_before_year_def)
    have "sum_list (take (nat (m - 1)) (month_lengths leap)) + 31 \<le> 366" for leap
    proof -
      have "nat (m - 1) \<le> 11" using f(3) by simp
      then have "nat (m - 1) \<in> set [0..<12]" by simp
      then show ?thesis by (auto simp: upt_rec month_lengths_def)
    qed
    from this [of "is_leap y"] have "ymd2ord (y, m, d) \<le> days_before_year 0 + 366"
      using f(4) year by (simp add: ymd2ord_def)
    then show False using f(1) assms(2) by (simp add: days_before_year_def)
  qed
  ultimately show ?thesis by simp
qed

section \<open>Texts round trip\<close>

lemma fromisoformat_isoformat:
  assumes "valid_datetime t"
  shows "fromisoformat (isoformat t) = Some t"
proof -
  define us s f where us: "us = t mod day_us" and s: "s = us div 1000000" and f: "f = us mod 1000000"
  obtain y m d where ymd: "date_of t = (y, m, d)" by (cases "date_of t")
  have days: "1 \<le> t div day_us + 719163" "t div day_us + 719163 \<le> 3652059"
    using assms by (simp_all add: valid_datetime_def day_us_def) linarith+
  from ymd2ord_ord2ymd [of "t div day_us + 719163" y m d] year_bounds [of "t div day_us + 719163" y m d] days ymd
  have c: "ymd2ord (y, m, d) = t div day_us + 719163" "1 \<le> m" "m \<le> 12" "1 \<le> d" "d \<le> 31" "1 \<le> y" "y \<le> 9999"
    by (simp_all add: date_of_def)
  have r: "0 \<le> us" "us < 86400000000" by (simp_all add: us day_us_def)
  have s_rng: "0 \<le> s" "s < 86400" and f_rng: "0 \<le> f" "f < 1000000" using r by (simp_all add: s f)
  have hms: "s div 3600 < 100" "0 \<le> s div 3600" using s_rng by simp_all
  have txt_t: "isoformat t = dec_fixed 4 y @ ''-'' @ dec_fixed 2 m @ ''-'' @ dec_fixed 2 d @ ''T''
      @ dec_fixed 2 (s div 3600) @ '':'' @ dec_fixed 2 (s div 60 mod 60) @ '':'' @ dec_fixed 2 (s mod 60)
      @ (if f = 0 then [] else ''.'' @ dec_fixed 6 f) @ ''+00:00''"
    by (simp add: isoformat_def ymd us s f Let_def)
  have fields: "field_at 0 4 (isoformat t) = y" "field_at 5 2 (isoformat t) = m" "field_at 8 2 (isoformat t) = d"
    "field_at 11 2 (isoformat t) = s div 3600" "field_at 14 2 (isoformat t) = s div 60 mod 60"
    "field_at 17 2 (isoformat t) = s mod 60"
    "(if take 1 (drop 19 (isoformat t)) = ''.'' then field_at 20 6 (isoformat t) else 0) = f"
    using c hms s_rng f_rng unfolding txt_t field_at_def
    by (simp_all add: decimal_dec_fixed) 
  have "s div 3600 * 3600 + s div 60 mod 60 * 60 + s mod 60 = s"
  proof -
    have "s div 3600 = s div 60 div 60" using zdiv_zmult2_eq [of 60 s 60] by simp
    then show ?thesis using div_mult_mod_eq [of "s div 60" 60] div_mult_mod_eq [of s 60] by linarith
  qed
  moreover have "s * 1000000 + f = us" by (simp add: s f)
  moreover have "t div day_us * day_us + us = t" by (simp add: us)
  ultimately have "(ymd2ord (y, m, d) - 719163) * day_us
      + (s div 3600 * 3600 + s div 60 mod 60 * 60 + s mod 60) * 1000000 + f = t"
    using c(1) by simp
  then show ?thesis unfolding fromisoformat_def Let_def fields by simp
qed

lemma isoformat_not_Nil [simp]: "isoformat t \<noteq> []"
  by (simp add: isoformat_def Let_def split: prod.split)

end
