(* ===== verification/Auth.thy ===== *)
theory Auth
  imports Table Api_Errors "HOL-Library.Product_Lexorder"
begin

text \<open>
  API keys: \<^verbatim>\<open>app/core/security.py\<close>, \<^verbatim>\<open>app/api/v1/dependencies.py\<close>, \<^verbatim>\<open>app/services/key_service.py\<close>
  and the key, tenant and application endpoints of \<^verbatim>\<open>app/api/v1/endpoints/auth_keys.py\<close>.

  Argon2 is a parameter: \<open>ar_hash salt key\<close> is the encoded hash and \<open>ar_verify hash key\<close> the
  verification, \<^const>\<open>None\<close> when it raises. The random tokens, the salts, the clock and the
  identifiers that the database generates are arguments.
\<close>

section \<open>Data\<close>

record ApiKey =
  k_id :: uuid
  k_application_id :: uuid
  k_prefix :: string
  k_hashed_key :: string
  k_scopes :: "string list"
  k_mode :: string
  k_is_active :: bool
  k_last_used_at :: "datetime option"
  k_expires_at :: "datetime option"
  k_created_at :: datetime
  k_revoked_at :: "datetime option"
  k_issuer_key_id :: "uuid option"

record Application =
  app_id :: uuid
  app_tenant_id :: uuid
  app_name :: string
  app_is_active :: bool
  app_created_at :: datetime
  app_owner_label :: "string option"

record Tenant =
  tn_id :: uuid
  tn_name :: string
  tn_is_active :: bool
  tn_created_at :: datetime

type_synonym key_table = "ApiKey list"

definition SCOPE_FETCH :: string where "SCOPE_FETCH = ''fetch''"

definition SCOPE_ARCHIVE :: string where "SCOPE_ARCHIVE = ''archive''"

definition SCOPE_ADMIN :: string where "SCOPE_ADMIN = ''admin''"

definition SCOPE_KEYS :: string where "SCOPE_KEYS = ''keys''"

definition ALL_SCOPES :: "string list" where
  "ALL_SCOPES = [SCOPE_FETCH, SCOPE_ARCHIVE, SCOPE_ADMIN, SCOPE_KEYS]"

section \<open>Hashing and generation (security.py)\<close>

record argon =
  ar_hash :: "string \<Rightarrow> string \<Rightarrow> string"
  ar_verify :: "string \<Rightarrow> string \<Rightarrow> bool option"

definition verify_api_key_hash :: "argon \<Rightarrow> string \<Rightarrow> string \<Rightarrow> bool" where
  "verify_api_key_hash ar raw_key stored_hash =
     (if stored_hash = [] then False
      else (case ar_verify ar stored_hash raw_key of None \<Rightarrow> False | Some b \<Rightarrow> b))"

text \<open>The randomness of one generated key: the two url-safe tokens and the hash's salt.\<close>

record key_rand =
  kr_token4 :: string
  kr_token28 :: string
  kr_salt :: string

definition generate_api_key :: "argon \<Rightarrow> key_rand \<Rightarrow> string \<Rightarrow> string \<times> string" where
  "generate_api_key ar rnd mode =
     (let tag = (if mode = ''live'' then ''l'' else ''t'');
          raw_key = ''crw'' @ tag @ kr_token4 rnd @ kr_token28 rnd
      in (raw_key, ar_hash ar (kr_salt rnd) raw_key))"

text \<open>The registry of the keys in the settings: prefix to hashes, in order.\<close>

definition build_registry :: "argon \<Rightarrow> (string \<times> string) list \<Rightarrow> (string \<times> string) list" where
  "build_registry ar salted_keys =
     map (\<lambda>(salt, raw_key). (take 8 raw_key, ar_hash ar salt raw_key)) salted_keys"

definition get_api_key ::
  "argon \<Rightarrow> (string \<times> string) list \<Rightarrow> string option \<Rightarrow> api_error + string" where
  "get_api_key ar salted_keys api_key =
     (if salted_keys = [] then Inr ''anonymous''
      else (case api_key of
              None \<Rightarrow> Inl (HTTPException 401 ''Invalid or missing API key'')
            | Some k \<Rightarrow>
                if k = [] then Inl (HTTPException 401 ''Invalid or missing API key'')
                else (let candidates = map snd (filter (\<lambda>(p, _). p = take 8 k) (build_registry ar salted_keys))
                      in if (\<exists>h \<in> set candidates. verify_api_key_hash ar k h) then Inr k
                         else Inl (HTTPException 401 ''Invalid or missing API key''))))"

section \<open>Authentication and scopes (dependencies.py)\<close>

definition resolve_api_key :: "argon \<Rightarrow> datetime \<Rightarrow> string \<Rightarrow> key_table \<Rightarrow> api_error + ApiKey" where
  "resolve_api_key ar now x_api_key keys =
     (if length x_api_key < 8 then Inl AuthenticationError
      else (case find (\<lambda>r. k_prefix r = take 8 x_api_key \<and> k_is_active r) keys of
              None \<Rightarrow> Inl AuthenticationError
            | Some row \<Rightarrow>
                if k_revoked_at row \<noteq> None then Inl KeyRevokedError
                else if (case k_expires_at row of None \<Rightarrow> False | Some t \<Rightarrow> t < now) then Inl KeyExpiredError
                else if \<not> verify_api_key_hash ar x_api_key (k_hashed_key row) then Inl AuthenticationError
                else Inr row))"

text \<open>The background task that follows a successful resolution; its failures are swallowed.\<close>

definition update_last_used :: "bool \<Rightarrow> datetime \<Rightarrow> uuid \<Rightarrow> key_table \<Rightarrow> key_table" where
  "update_last_used db_ok now key_id keys =
     (if db_ok then update_where (\<lambda>r. k_id r = key_id) (\<lambda>r. r\<lparr>k_last_used_at := Some now\<rparr>) keys else keys)"

definition require_scope ::
  "argon \<Rightarrow> string \<Rightarrow> datetime \<Rightarrow> string \<Rightarrow> key_table \<Rightarrow> api_error + ApiKey" where
  "require_scope ar scope now x_api_key keys =
     bindE (resolve_api_key ar now x_api_key keys) (\<lambda>k.
       if scope \<notin> set (k_scopes k) then Inl (ScopeError (''Scope '' @ sq scope @ '' required''))
       else Inr k)"

section \<open>Minting and rotation (key_service.py)\<close>

definition new_key ::
  "datetime \<Rightarrow> uuid \<Rightarrow> uuid \<Rightarrow> string \<Rightarrow> string \<Rightarrow> string list \<Rightarrow> string \<Rightarrow> uuid option
   \<Rightarrow> datetime option \<Rightarrow> ApiKey" where
  "new_key created i app prefix hashed scopes mode issuer expires =
     \<lparr>k_id = i, k_application_id = app, k_prefix = prefix, k_hashed_key = hashed, k_scopes = scopes,
      k_mode = mode, k_is_active = True, k_last_used_at = None, k_expires_at = expires, k_created_at = created,
      k_revoked_at = None, k_issuer_key_id = issuer\<rparr>"

definition key_collision :: string where
  "key_collision = ''Key prefix collision - retry''"

text \<open>The two attempts of the collision loop; \<open>rnd\<close> gives the randomness of each.\<close>

definition svc_create_api_key ::
  "argon \<Rightarrow> (nat \<Rightarrow> key_rand) \<Rightarrow> datetime \<Rightarrow> uuid \<Rightarrow> uuid \<Rightarrow> string list \<Rightarrow> string \<Rightarrow> uuid option \<Rightarrow> datetime option
   \<Rightarrow> key_table \<Rightarrow> (api_error + ApiKey \<times> string) \<times> key_table" where
  "svc_create_api_key ar rnd created i application_id scopes mode issuer_key_id expires_at keys =
     (case find (\<lambda>s. s \<notin> set ALL_SCOPES) scopes of
        Some s \<Rightarrow> (Inl (AuthorizationError (''Invalid scope: '' @ s)), keys)
      | None \<Rightarrow>
          (let mint = (\<lambda>(raw_key, hashed_key).
                 (let row = new_key created i application_id (take 8 raw_key) hashed_key scopes mode issuer_key_id expires_at
                  in (if raw_key = [] then Inl (RuntimeError ''generate_api_key returned an empty raw key'')
                      else Inr (row, raw_key), insert_row row keys)));
               g0 = generate_api_key ar (rnd 0) mode;
               g1 = generate_api_key ar (rnd 1) mode
           in if get_by k_prefix (take 8 (fst g0)) keys = None then mint g0
              else if get_by k_prefix (take 8 (fst g1)) keys = None then mint g1
              else (Inl (ConflictError key_collision), keys)))"

definition svc_rotate_api_key ::
  "argon \<Rightarrow> (nat \<Rightarrow> key_rand) \<Rightarrow> uuid \<Rightarrow> datetime \<Rightarrow> int \<Rightarrow> uuid \<Rightarrow> uuid \<Rightarrow> key_table
   \<Rightarrow> (api_error + ApiKey \<times> string) \<times> key_table" where
  "svc_rotate_api_key ar rnd i now overlap_hours key_id issuer_key_id keys =
     (case get_by k_id key_id keys of
        None \<Rightarrow> (Inl (NotFoundError ''API key not found''), keys)
      | Some old_key \<Rightarrow>
          if k_revoked_at old_key \<noteq> None then (Inl (ConflictError ''Cannot rotate a revoked key''), keys)
          else
            (let g0 = generate_api_key ar (rnd 0) (k_mode old_key);
                 g1 = generate_api_key ar (rnd 1) (k_mode old_key);
                 finish = (\<lambda>(raw_key, hashed_key).
                   (let successor = new_key now i (k_application_id old_key) (take 8 raw_key) hashed_key
                          (k_scopes old_key) (k_mode old_key) (Some issuer_key_id) None;
                        keys' = update_where (\<lambda>r. k_id r = key_id)
                          (\<lambda>r. r\<lparr>k_expires_at := Some (now + timedelta_h overlap_hours)\<rparr>) (insert_row successor keys)
                    in (if raw_key = [] then Inl (RuntimeError ''generate_api_key returned an empty raw key during rotation'')
                        else Inr (successor, raw_key), keys')))
             in if get_by k_prefix (take 8 (fst g0)) keys = None then finish g0
                else if get_by k_prefix (take 8 (fst g1)) keys = None then finish g1
                else (Inl (ConflictError key_collision), keys)))"

section \<open>Key endpoints (auth_keys.py)\<close>

definition admin_or_own_app :: "ApiKey \<Rightarrow> uuid \<Rightarrow> api_error + unit" where
  "admin_or_own_app api_key target_app_id =
     (if SCOPE_ADMIN \<in> set (k_scopes api_key) then Inr ()
      else guardE (k_application_id api_key = target_app_id)
             (AuthorizationError ''Cannot operate on another application's keys''))"

record ApiKeyCreate =
  akc_application_id :: uuid
  akc_scopes :: "string list"
  akc_mode :: string
  akc_expires_at :: "datetime option"

text \<open>The checks of the endpoint, in order, before the key is minted.\<close>

definition create_checks :: "ApiKeyCreate \<Rightarrow> ApiKey \<Rightarrow> Application list \<Rightarrow> api_error + unit" where
  "create_checks body api_key apps =
     (case find (\<lambda>s. s \<notin> set ALL_SCOPES) (akc_scopes body) of
        Some s \<Rightarrow> Inl (AuthorizationError (''Invalid scope: '' @ s))
      | None \<Rightarrow>
          if \<not> set (akc_scopes body) \<subseteq> set (k_scopes api_key)
          then Inl (AuthorizationError ''Cannot grant scopes you do not hold'')
          else if SCOPE_KEYS \<in> set (akc_scopes body) \<and> SCOPE_ADMIN \<notin> set (k_scopes api_key)
          then Inl (AuthorizationError ''admin scope required to grant keys scope'')
          else if akc_application_id body \<noteq> k_application_id api_key \<and> SCOPE_ADMIN \<notin> set (k_scopes api_key)
          then Inl (AuthorizationError ''Cannot issue keys for another application'')
          else (case get_by app_id (akc_application_id body) apps of
                  None \<Rightarrow> Inl (NotFoundError ''Application not found'')
                | Some a \<Rightarrow> guardE (app_is_active a) (AuthorizationError ''Application is deactivated'')))"

definition create_api_key ::
  "argon \<Rightarrow> (nat \<Rightarrow> key_rand) \<Rightarrow> datetime \<Rightarrow> uuid \<Rightarrow> ApiKeyCreate \<Rightarrow> ApiKey \<Rightarrow> Application list \<Rightarrow> key_table
   \<Rightarrow> (api_error + ApiKey \<times> string) \<times> key_table" where
  "create_api_key ar rnd created i body api_key apps keys =
     (case create_checks body api_key apps of
        Inl e \<Rightarrow> (Inl e, keys)
      | Inr _ \<Rightarrow> svc_create_api_key ar rnd created i (akc_application_id body) (akc_scopes body) (akc_mode body)
                  (Some (k_id api_key)) (akc_expires_at body) keys)"

definition revoke_api_key ::
  "datetime \<Rightarrow> uuid \<Rightarrow> ApiKey \<Rightarrow> key_table \<Rightarrow> (api_error + ApiKey) \<times> key_table" where
  "revoke_api_key now key_id api_key keys =
     (if key_id = k_id api_key
      then (Inl (AuthorizationError ''Cannot revoke the key used to authenticate this request''), keys)
      else (case get_by k_id key_id keys of
              None \<Rightarrow> (Inl (NotFoundError ''API key not found''), keys)
            | Some row \<Rightarrow>
                (case admin_or_own_app api_key (k_application_id row) of
                   Inl e \<Rightarrow> (Inl e, keys)
                 | Inr _ \<Rightarrow>
                     (let revoke = (\<lambda>r. r\<lparr>k_revoked_at := Some now, k_is_active := False\<rparr>)
                      in (Inr (revoke row), update_where (\<lambda>r. k_id r = key_id) revoke keys)))))"

definition rotate_api_key_endpoint ::
  "argon \<Rightarrow> (nat \<Rightarrow> key_rand) \<Rightarrow> uuid \<Rightarrow> datetime \<Rightarrow> int \<Rightarrow> uuid \<Rightarrow> ApiKey \<Rightarrow> key_table
   \<Rightarrow> (api_error + ApiKey \<times> string) \<times> key_table" where
  "rotate_api_key_endpoint ar rnd i now overlap_hours key_id api_key keys =
     (case get_by k_id key_id keys of
        None \<Rightarrow> (Inl (NotFoundError ''API key not found''), keys)
      | Some target \<Rightarrow>
          if SCOPE_ADMIN \<notin> set (k_scopes api_key) \<and> k_application_id api_key \<noteq> k_application_id target
          then (Inl (NotFoundError ''API key not found''), keys)
          else svc_rotate_api_key ar rnd i now overlap_hours key_id (k_id api_key) keys)"

text \<open>The order of rows with equal creation times is the database's; here it is the table's.\<close>

definition list_api_keys :: "ApiKey \<Rightarrow> key_table \<Rightarrow> ApiKey list" where
  "list_api_keys api_key keys =
     sort_key (\<lambda>r. - k_created_at r) (filter (\<lambda>r. k_application_id r = k_application_id api_key) keys)"

section \<open>Tenants and applications\<close>

definition create_tenant :: "datetime \<Rightarrow> uuid \<Rightarrow> string \<Rightarrow> Tenant list \<Rightarrow> (api_error + Tenant) \<times> Tenant list" where
  "create_tenant now i name tenants =
     (if get_by tn_name name tenants \<noteq> None then (Inl (ConflictError ''Tenant name already exists''), tenants)
      else (let row = \<lparr>tn_id = i, tn_name = name, tn_is_active = True, tn_created_at = now\<rparr> in (Inr row, insert_row row tenants)))"

definition create_application ::
  "datetime \<Rightarrow> uuid \<Rightarrow> uuid \<Rightarrow> string \<Rightarrow> Tenant list \<Rightarrow> Application list \<Rightarrow> (api_error + Application) \<times> Application list" where
  "create_application now i tenant_id name tenants apps =
     (case get_by tn_id tenant_id tenants of
        None \<Rightarrow> (Inl (NotFoundError ''Tenant not found''), apps)
      | Some tenant \<Rightarrow>
          if \<not> tn_is_active tenant then (Inl (AuthorizationError ''Tenant is deactivated''), apps)
          else if (\<exists>a \<in> set apps. app_tenant_id a = tenant_id \<and> app_name a = name)
          then (Inl (ConflictError ''Application name already exists for this tenant''), apps)
          else (let row = \<lparr>app_id = i, app_tenant_id = tenant_id, app_name = name, app_is_active = True,
                           app_created_at = now, app_owner_label = None\<rparr>
                in (Inr row, insert_row row apps)))"

definition get_application :: "uuid \<Rightarrow> ApiKey \<Rightarrow> Application list \<Rightarrow> api_error + Application" where
  "get_application aid api_key apps =
     (case get_by app_id aid apps of
        None \<Rightarrow> Inl (NotFoundError ''Application not found'')
      | Some row \<Rightarrow>
          if SCOPE_ADMIN \<notin> set (k_scopes api_key) \<and> app_id row \<noteq> k_application_id api_key
          then Inl (NotFoundError ''Application not found'') else Inr row)"

definition update_application ::
  "uuid \<Rightarrow> string option \<Rightarrow> string option \<Rightarrow> bool option \<Rightarrow> Application list
   \<Rightarrow> (api_error + Application) \<times> Application list" where
  "update_application aid name owner_label is_active apps =
     (case get_by app_id aid apps of
        None \<Rightarrow> (Inl (NotFoundError ''Application not found''), apps)
      | Some row \<Rightarrow>
          if (case name of None \<Rightarrow> False
              | Some n \<Rightarrow> (\<exists>a \<in> set apps. app_tenant_id a = app_tenant_id row \<and> app_name a = n \<and> app_id a \<noteq> aid))
          then (Inl (ConflictError ''Application name already exists for this tenant''), apps)
          else (let upd = (\<lambda>r. r\<lparr>app_name := (case name of None \<Rightarrow> app_name r | Some n \<Rightarrow> n),
                                app_owner_label := (case owner_label of None \<Rightarrow> app_owner_label r | Some l \<Rightarrow> Some l),
                                app_is_active := (case is_active of None \<Rightarrow> app_is_active r | Some b \<Rightarrow> b)\<rparr>)
                in (Inr (upd row), update_where (\<lambda>r. app_id r = aid) upd apps)))"

definition get_tenant :: "uuid \<Rightarrow> Tenant list \<Rightarrow> api_error + Tenant" where
  "get_tenant i tenants =
     (case get_by tn_id i tenants of None \<Rightarrow> Inl (NotFoundError ''Tenant not found'') | Some row \<Rightarrow> Inr row)"

text \<open>The page and the total of a listing; \<open>limit\<close> and \<open>offset\<close> are within the bounds of the query.\<close>

definition list_tenants :: "nat \<Rightarrow> nat \<Rightarrow> Tenant list \<Rightarrow> Tenant list \<times> nat" where
  "list_tenants limit offset tenants =
     (take limit (drop offset (sort_key (\<lambda>r. (- tn_created_at r, - uint (tn_id r))) tenants)), length tenants)"

definition list_applications :: "nat \<Rightarrow> nat \<Rightarrow> ApiKey \<Rightarrow> Application list \<Rightarrow> Application list \<times> nat" where
  "list_applications limit offset api_key apps =
     (let base = (if SCOPE_ADMIN \<in> set (k_scopes api_key) then apps
                  else filter (\<lambda>a. app_id a = k_application_id api_key) apps)
      in (take limit (drop offset (sort_key (\<lambda>r. (- app_created_at r, - uint (app_id r))) base)), length base))"

section \<open>Facts\<close>

lemma new_key_simps [simp]:
  "k_id (new_key created i a p h sc m iss ex) = i" "k_prefix (new_key created i a p h sc m iss ex) = p"
  "k_scopes (new_key created i a p h sc m iss ex) = sc" "k_is_active (new_key created i a p h sc m iss ex)"
  "k_revoked_at (new_key created i a p h sc m iss ex) = None" "k_expires_at (new_key created i a p h sc m iss ex) = ex"
  "k_hashed_key (new_key created i a p h sc m iss ex) = h" "k_application_id (new_key created i a p h sc m iss ex) = a"
  "k_issuer_key_id (new_key created i a p h sc m iss ex) = iss" "k_mode (new_key created i a p h sc m iss ex) = m"
  by (simp_all add: new_key_def)

lemma generate_nonempty: "fst (generate_api_key ar rnd mode) \<noteq> []"
  by (simp add: generate_api_key_def Let_def)

lemma resolve_InrD:
  assumes "resolve_api_key ar now x keys = Inr row"
  shows "row \<in> set keys \<and> k_prefix row = take 8 x \<and> 8 \<le> length x \<and> k_is_active row \<and> k_revoked_at row = None
    \<and> (\<forall>t. k_expires_at row = Some t \<longrightarrow> now \<le> t) \<and> verify_api_key_hash ar x (k_hashed_key row)"
  using assms
  by (auto simp: resolve_api_key_def dest: find_SomeD split: if_splits option.splits)

text \<open>What a successful creation did.\<close>

lemma svc_create_InrD:
  assumes "svc_create_api_key ar rnd created i app scopes mode issuer expires keys = (Inr (row, raw), keys')"
  shows "\<exists>n. (raw, k_hashed_key row) = generate_api_key ar (rnd n) mode
    \<and> row = new_key created i app (take 8 raw) (k_hashed_key row) scopes mode issuer expires
    \<and> keys' = insert_row row keys \<and> get_by k_prefix (take 8 raw) keys = None
    \<and> set scopes \<subseteq> set ALL_SCOPES"
proof -
  have "find (\<lambda>s. s \<notin> set ALL_SCOPES) scopes = None"
    using assms by (auto simp: svc_create_api_key_def split: option.splits)
  then have sc: "set scopes \<subseteq> set ALL_SCOPES" by (auto simp: find_None_iff)
  show ?thesis
    using assms sc
    by (auto simp: svc_create_api_key_def Let_def split: option.splits if_splits prod.splits) metis+
qed

lemma svc_create_InlD:
  assumes "svc_create_api_key ar rnd created i app scopes mode issuer expires keys = (Inl e, keys')"
  shows "keys' = keys"
  using assms generate_nonempty
  by (auto simp: svc_create_api_key_def Let_def split: option.splits if_splits prod.splits) (metis fst_conv)+

lemma svc_rotate_cases:
  assumes "svc_rotate_api_key ar rnd i now h key_id issuer keys = (res, keys')"
  shows "(\<exists>e. res = Inl e) \<and> keys' = keys \<or>
    (\<exists>old n raw hashed. get_by k_id key_id keys = Some old \<and> k_revoked_at old = None
      \<and> (raw, hashed) = generate_api_key ar (rnd n) (k_mode old)
      \<and> get_by k_prefix (take 8 raw) keys = None
      \<and> (let succ = new_key now i (k_application_id old) (take 8 raw) hashed (k_scopes old) (k_mode old) (Some issuer) None
         in res = Inr (succ, raw) \<and> keys' = update_where (\<lambda>r. k_id r = key_id)
              (\<lambda>r. r\<lparr>k_expires_at := Some (now + timedelta_h h)\<rparr>) (insert_row succ keys)))"
proof (cases "get_by k_id key_id keys")
  case None
  with assms show ?thesis by (auto simp: svc_rotate_api_key_def)
next
  case (Some old)
  obtain r0 h0 r1 h1 where g: "generate_api_key ar (rnd 0) (k_mode old) = (r0, h0)"
    "generate_api_key ar (rnd 1) (k_mode old) = (r1, h1)" by fastforce
  have "r0 \<noteq> []" "r1 \<noteq> []" using generate_nonempty g by (metis fst_conv)+
  with assms Some g show ?thesis
    by (auto simp: svc_rotate_api_key_def Let_def split: if_splits) (metis g)+
qed

section \<open>The life of a key table\<close>

text \<open>Argon2 as documented: a key verifies against its own hash and no other key does.\<close>

definition argon_laws :: "argon \<Rightarrow> bool" where
  "argon_laws ar \<longleftrightarrow> (\<forall>salt k. ar_hash ar salt k \<noteq> [] \<and> ar_verify ar (ar_hash ar salt k) k = Some True)
     \<and> (\<forall>salt k k'. k' \<noteq> k \<longrightarrow> ar_verify ar (ar_hash ar salt k) k' \<noteq> Some True)"

definition keys_ok :: "key_table \<Rightarrow> bool" where
  "keys_ok keys \<longleftrightarrow> unique_on k_id keys \<and> unique_on k_prefix keys
     \<and> (\<forall>r \<in> set keys. set (k_scopes r) \<subseteq> set ALL_SCOPES \<and> (k_revoked_at r \<noteq> None \<longrightarrow> \<not> k_is_active r))"

text \<open>Every operation of the program that writes the table; new identifiers are fresh.\<close>

inductive key_step :: "argon \<Rightarrow> key_table \<Rightarrow> key_table \<Rightarrow> bool" for ar :: argon where
  mint: "i \<notin> k_id ` set keys \<Longrightarrow>
    key_step ar keys (snd (svc_create_api_key ar rnd created i app scopes mode issuer expires keys))"
| create: "i \<notin> k_id ` set keys \<Longrightarrow> key_step ar keys (snd (create_api_key ar rnd created i body caller apps keys))"
| rotate: "i \<notin> k_id ` set keys \<Longrightarrow>
    key_step ar keys (snd (rotate_api_key_endpoint ar rnd i now h key_id caller keys))"
| revoke: "key_step ar keys (snd (revoke_api_key now key_id caller keys))"
| used: "key_step ar keys (update_last_used db_ok now key_id keys)"

lemma keys_ok_update_where:
  assumes "keys_ok keys" "\<And>r. k_id (f r) = k_id r" "\<And>r. k_prefix (f r) = k_prefix r"
    "\<And>r. k_scopes (f r) = k_scopes r"
    "\<And>r. (k_revoked_at r \<noteq> None \<longrightarrow> \<not> k_is_active r) \<Longrightarrow> k_revoked_at (f r) \<noteq> None \<longrightarrow> \<not> k_is_active (f r)"
  shows "keys_ok (update_where P f keys)"
proof -
  have "unique_on k_id (update_where P f keys)" "unique_on k_prefix (update_where P f keys)"
    using assms(1-3) unique_on_update_where [of P k_id f keys] unique_on_update_where [of P k_prefix f keys]
    by (auto simp: keys_ok_def)
  moreover have "\<forall>r \<in> set (update_where P f keys). set (k_scopes r) \<subseteq> set ALL_SCOPES
      \<and> (k_revoked_at r \<noteq> None \<longrightarrow> \<not> k_is_active r)"
    by (rule ball_update_where) (use assms in \<open>auto simp: keys_ok_def\<close>)
  ultimately show ?thesis by (simp add: keys_ok_def)
qed

lemma keys_ok_insert:
  assumes "keys_ok keys" "k_id r \<notin> k_id ` set keys" "get_by k_prefix (k_prefix r) keys = None"
    "set (k_scopes r) \<subseteq> set ALL_SCOPES" "k_revoked_at r = None"
  shows "keys_ok (insert_row r keys)"
proof -
  have "get_by k_id (k_id r) keys = None" using assms(2) by (auto simp: get_by_None_iff image_iff)
  with assms show ?thesis by (auto simp: keys_ok_def unique_on_insert_row)
qed

lemma keys_ok_mint:
  assumes "keys_ok keys" "i \<notin> k_id ` set keys"
  shows "keys_ok (snd (svc_create_api_key ar rnd created i app scopes mode issuer expires keys))"
proof (cases "svc_create_api_key ar rnd created i app scopes mode issuer expires keys")
  case (Pair res keys')
  show ?thesis
  proof (cases res)
    case (Inl e)
    with Pair svc_create_InlD [of ar rnd created i app scopes mode issuer expires keys e keys'] assms(1)
    show ?thesis by simp
  next
    case (Inr x)
    obtain row raw where x: "x = (row, raw)" by (cases x)
    from Pair Inr x have "svc_create_api_key ar rnd created i app scopes mode issuer expires keys = (Inr (row, raw), keys')"
      by simp
    from svc_create_InrD [OF this] have "row = new_key created i app (take 8 raw) (k_hashed_key row) scopes mode issuer expires"
      "keys' = insert_row row keys" "get_by k_prefix (take 8 raw) keys = None" "set scopes \<subseteq> set ALL_SCOPES"
      by blast+
    moreover from this(1) have "k_id row = i" "k_prefix row = take 8 raw" "k_scopes row = scopes" "k_revoked_at row = None"
      by (metis new_key_simps)+
    ultimately show ?thesis using assms Pair by (auto intro: keys_ok_insert)
  qed
qed

lemma keys_ok_rotate:
  assumes "keys_ok keys" "i \<notin> k_id ` set keys"
  shows "keys_ok (snd (svc_rotate_api_key ar rnd i now h key_id issuer keys))"
proof (cases "svc_rotate_api_key ar rnd i now h key_id issuer keys")
  case (Pair res keys')
  from svc_rotate_cases [OF Pair] consider "keys' = keys"
    | old raw hashed where "get_by k_id key_id keys = Some old" "get_by k_prefix (take 8 raw) keys = None"
      "keys' = update_where (\<lambda>r. k_id r = key_id) (\<lambda>r. r\<lparr>k_expires_at := Some (now + timedelta_h h)\<rparr>)
        (insert_row (new_key now i (k_application_id old) (take 8 raw) hashed (k_scopes old) (k_mode old) (Some issuer) None) keys)"
    by (auto simp: Let_def)
  then show ?thesis
  proof cases
    case 1
    with assms Pair show ?thesis by simp
  next
    case 2
    have "set (k_scopes old) \<subseteq> set ALL_SCOPES"
      using get_by_SomeD [OF 2(1)] assms(1) by (auto simp: keys_ok_def)
    then have "keys_ok (insert_row (new_key now i (k_application_id old) (take 8 raw) hashed (k_scopes old) (k_mode old)
        (Some issuer) None) keys)"
      using assms 2(2) by (intro keys_ok_insert) simp_all
    then have "keys_ok keys'" unfolding 2(3) by (rule keys_ok_update_where) simp_all
    with Pair show ?thesis by simp
  qed
qed

lemma keys_ok_step:
  assumes "key_step ar keys keys'" "keys_ok keys"
  shows "keys_ok keys'"
  using assms
proof cases
  case mint
  with assms show ?thesis by (simp add: keys_ok_mint)
next
  case create
  with assms show ?thesis by (auto simp: create_api_key_def keys_ok_mint split: sum.splits)
next
  case rotate
  with assms show ?thesis by (auto simp: rotate_api_key_endpoint_def keys_ok_rotate split: option.splits)
next
  case revoke
  with assms show ?thesis
    by (auto simp: revoke_api_key_def Let_def split: option.splits sum.splits intro: keys_ok_update_where)
next
  case used
  with assms show ?thesis by (auto simp: update_last_used_def intro: keys_ok_update_where)
qed

text \<open>Once revoked, a row stays revoked and inactive under the operations.\<close>

definition revoked_in :: "key_table \<Rightarrow> uuid \<Rightarrow> bool" where
  "revoked_in keys i \<longleftrightarrow> (\<exists>r \<in> set keys. k_id r = i \<and> k_revoked_at r \<noteq> None)"

lemma revoked_in_update_where:
  assumes "revoked_in keys i" "\<And>r. k_id (f r) = k_id r" "\<And>r. k_revoked_at r \<noteq> None \<Longrightarrow> k_revoked_at (f r) \<noteq> None"
  shows "revoked_in (update_where P f keys) i"
proof -
  from assms(1) obtain r where r: "r \<in> set keys" "k_id r = i" "k_revoked_at r \<noteq> None"
    by (auto simp: revoked_in_def)
  let ?r = "if P r then f r else r"
  have "?r \<in> set (update_where P f keys)" using r(1) by (auto simp: set_update_where)
  moreover have "k_id ?r = i" "k_revoked_at ?r \<noteq> None" using r assms(2,3) by auto
  ultimately show ?thesis unfolding revoked_in_def by blast
qed

lemma revoked_in_insert: "revoked_in keys i \<Longrightarrow> revoked_in (insert_row r keys) i"
  by (auto simp: revoked_in_def)

lemma revoked_in_mint:
  "revoked_in keys j \<Longrightarrow> revoked_in (snd (svc_create_api_key ar rnd created i app scopes mode issuer expires keys)) j"
  by (auto simp: svc_create_api_key_def Let_def revoked_in_insert split: option.splits prod.splits)

lemma revoked_in_rotate:
  assumes "revoked_in keys j"
  shows "revoked_in (snd (svc_rotate_api_key ar rnd i now h key_id issuer keys)) j"
proof (cases "svc_rotate_api_key ar rnd i now h key_id issuer keys")
  case (Pair res keys')
  from svc_rotate_cases [OF Pair] show ?thesis
    using assms Pair
    by (auto simp: Let_def intro!: revoked_in_update_where revoked_in_insert)
qed

lemma revoked_step:
  assumes "key_step ar keys keys'" "revoked_in keys j"
  shows "revoked_in keys' j"
  using assms
proof cases
  case mint
  with assms show ?thesis by (simp add: revoked_in_mint)
next
  case create
  with assms show ?thesis by (auto simp: create_api_key_def revoked_in_mint split: sum.splits)
next
  case rotate
  with assms show ?thesis by (auto simp: rotate_api_key_endpoint_def revoked_in_rotate split: option.splits)
next
  case revoke
  with assms show ?thesis
    by (auto simp: revoke_api_key_def Let_def split: option.splits sum.splits intro: revoked_in_update_where)
next
  case used
  with assms show ?thesis by (auto simp: update_last_used_def intro: revoked_in_update_where)
qed

lemma resolve_found:
  assumes "keys_ok keys" "row \<in> set keys" "k_prefix row = take 8 x" "8 \<le> length x" "k_is_active row"
    "k_revoked_at row = None" "\<forall>t. k_expires_at row = Some t \<longrightarrow> now \<le> t" "verify_api_key_hash ar x (k_hashed_key row)"
  shows "resolve_api_key ar now x keys = Inr row"
proof -
  obtain r where r: "find (\<lambda>r. k_prefix r = take 8 x \<and> k_is_active r) keys = Some r"
    using assms(2,3,5) by (cases "find (\<lambda>r. k_prefix r = take 8 x \<and> k_is_active r) keys") (auto simp: find_None_iff)
  then have "r = row"
    using find_SomeD [OF r] assms(1,2,3)
    by (auto simp: keys_ok_def unique_on_def distinct_map inj_on_def)
  with r assms(4-8) show ?thesis by (auto simp: resolve_api_key_def split: option.splits)
qed

section \<open>Concrete instances\<close>

definition ex_argon :: argon where
  "ex_argon = \<lparr>ar_hash = (\<lambda>salt k. CHR ''#'' # k), ar_verify = (\<lambda>h k. Some (h = CHR ''#'' # k))\<rparr>"

lemma ex_argon_laws [simp]: "argon_laws ex_argon"
  by (simp add: argon_laws_def ex_argon_def)

definition ex_rnd :: "nat \<Rightarrow> key_rand" where
  "ex_rnd n = \<lparr>kr_token4 = (if n = 0 then ''AbCd12'' else ''ZyXw98''), kr_token28 = ''secret'', kr_salt = ''s''\<rparr>"

definition ex_caller :: ApiKey where
  "ex_caller = new_key 0 1 7 ''crwlkeys'' ''#crwlkeys-raw'' [''keys'', ''fetch''] ''live'' None None"

definition ex_admin_key :: ApiKey where
  "ex_admin_key = new_key 0 2 7 ''crwladmi'' ''#crwladmi-raw'' [''admin'', ''keys''] ''live'' None (Some 100)"

section \<open>Properties\<close>

text \<open>
  C7. Authentication is sound: the key that a request resolves to is a row of the table with the
  request's prefix that is active, not revoked and not expired, and the presented key verifies
  against its hash; with a scope requirement it also holds the scope.
\<close>

theorem authentication_sound:
  assumes "require_scope ar scope now x keys = Inr row"
  shows "row \<in> set keys \<and> k_prefix row = take 8 x \<and> 8 \<le> length x \<and> k_is_active row \<and> k_revoked_at row = None
    \<and> (\<forall>t. k_expires_at row = Some t \<longrightarrow> now \<le> t) \<and> verify_api_key_hash ar x (k_hashed_key row)
    \<and> scope \<in> set (k_scopes row)"
proof -
  from assms have "resolve_api_key ar now x keys = Inr row" "scope \<in> set (k_scopes row)"
    by (auto simp: require_scope_def bindE_Inr_iff split: if_splits)
  with resolve_InrD show ?thesis by blast
qed

theorem authentication_sound_witness:
  "ex_caller \<in> set [ex_admin_key, ex_caller] \<and> verify_api_key_hash ex_argon ''crwlkeys-raw'' (k_hashed_key ex_caller)
   \<and> ''keys'' \<in> set (k_scopes ex_caller)"
proof -
  have "require_scope ex_argon ''keys'' 5 ''crwlkeys-raw'' [ex_admin_key, ex_caller] = Inr ex_caller" by code_simp
  from authentication_sound [OF this] show ?thesis by blast
qed

text \<open>
  C37. A freshly minted key works, and only it does: after a creation the returned raw key resolves
  to the new row until it expires, and no other text resolves to that row.
\<close>

theorem minted_key_authenticates:
  assumes "argon_laws ar" "keys_ok keys" "i \<notin> k_id ` set keys"
    "svc_create_api_key ar rnd created i app scopes mode issuer expires keys = (Inr (row, raw), keys')"
    "8 \<le> length raw" "\<forall>t. expires = Some t \<longrightarrow> now \<le> t"
  shows "resolve_api_key ar now raw keys' = Inr row
    \<and> (\<forall>x. x \<noteq> raw \<longrightarrow> resolve_api_key ar now x keys' \<noteq> Inr row)"
proof -
  from svc_create_InrD [OF assms(4)] obtain n where gen: "(raw, k_hashed_key row) = generate_api_key ar (rnd n) mode"
    and row: "row = new_key created i app (take 8 raw) (k_hashed_key row) scopes mode issuer expires"
    and keys': "keys' = insert_row row keys" by blast
  have hash: "k_hashed_key row = ar_hash ar (kr_salt (rnd n)) raw"
    using gen by (auto simp: generate_api_key_def Let_def)
  have fields: "k_prefix row = take 8 raw" "k_is_active row" "k_revoked_at row = None" "k_expires_at row = expires"
    by (subst row, simp)+
  have ver: "verify_api_key_hash ar x (k_hashed_key row) \<longleftrightarrow> x = raw" for x
  proof -
    have "ar_hash ar (kr_salt (rnd n)) raw \<noteq> []" "ar_verify ar (ar_hash ar (kr_salt (rnd n)) raw) raw = Some True"
      "x \<noteq> raw \<Longrightarrow> ar_verify ar (ar_hash ar (kr_salt (rnd n)) raw) x \<noteq> Some True"
      using assms(1) by (simp_all add: argon_laws_def)
    then show ?thesis by (cases "x = raw") (auto simp: hash verify_api_key_hash_def split: option.splits)
  qed
  have ok: "keys_ok keys'"
    using keys_ok_mint [OF assms(2,3), of ar rnd created app scopes mode issuer expires] assms(4) by simp
  have "resolve_api_key ar now raw keys' = Inr row"
    by (rule resolve_found [OF ok]) (use assms(5,6) fields ver keys' in auto)
  moreover have "resolve_api_key ar now x keys' \<noteq> Inr row" if "x \<noteq> raw" for x
    using resolve_InrD [of ar now x keys' row] ver that by blast
  ultimately show ?thesis by blast
qed

theorem minted_key_authenticates_witness:
  "\<exists>row. resolve_api_key ex_argon 0 ''crwlAbCd12secret''
     (snd (svc_create_api_key ex_argon ex_rnd 0 3 7 [''fetch''] ''live'' None None [ex_caller])) = Inr row"
proof -
  let ?r = "svc_create_api_key ex_argon ex_rnd 0 3 7 [''fetch''] ''live'' None None [ex_caller]"
  have r: "fst ?r = Inr (new_key 0 3 7 ''crwlAbCd'' ''#crwlAbCd12secret'' [''fetch''] ''live'' None None, ''crwlAbCd12secret'')"
    by code_simp
  have "keys_ok [ex_caller]"
    by (simp add: keys_ok_def unique_on_def ex_caller_def ALL_SCOPES_def SCOPE_FETCH_def SCOPE_KEYS_def)
  moreover have "(3::uuid) \<notin> k_id ` set [ex_caller]" by (simp add: ex_caller_def)
  moreover have "?r = (Inr (new_key 0 3 7 ''crwlAbCd'' ''#crwlAbCd12secret'' [''fetch''] ''live'' None None,
      ''crwlAbCd12secret''), snd ?r)" using r by (simp add: prod_eq_iff)
  ultimately show ?thesis
    using minted_key_authenticates [OF ex_argon_laws, of "[ex_caller]" 3 ex_rnd 0 7 "[''fetch'']" "''live''" None None]
    by fastforce
qed

text \<open>
  C10. No privilege is gained by creating a key: a creation that succeeds grants only scopes that the
  caller holds, grants the \<^verbatim>\<open>keys\<close> scope only for an admin, creates the key for the caller's own
  application unless the caller is an admin, in an existing active application, and records the
  issuer. A creation that fails leaves the table as it was.
\<close>

theorem creation_never_escalates:
  assumes "create_api_key ar rnd created i body caller apps keys = (res, keys')"
  shows "(\<forall>e. res = Inl e \<longrightarrow> keys' = keys)
    \<and> (\<forall>row raw. res = Inr (row, raw) \<longrightarrow>
        set (k_scopes row) \<subseteq> set (k_scopes caller)
        \<and> (SCOPE_KEYS \<in> set (k_scopes row) \<longrightarrow> SCOPE_ADMIN \<in> set (k_scopes caller))
        \<and> (k_application_id row = k_application_id caller \<or> SCOPE_ADMIN \<in> set (k_scopes caller))
        \<and> (\<exists>a \<in> set apps. app_id a = k_application_id row \<and> app_is_active a)
        \<and> k_issuer_key_id row = Some (k_id caller))"
proof (cases "create_checks body caller apps")
  case (Inl e)
  with assms show ?thesis by (auto simp: create_api_key_def)
next
  case (Inr u)
  then have checks: "set (akc_scopes body) \<subseteq> set (k_scopes caller)"
    "SCOPE_KEYS \<in> set (akc_scopes body) \<longrightarrow> SCOPE_ADMIN \<in> set (k_scopes caller)"
    "akc_application_id body = k_application_id caller \<or> SCOPE_ADMIN \<in> set (k_scopes caller)"
    "\<exists>a \<in> set apps. app_id a = akc_application_id body \<and> app_is_active a"
    by (auto simp: create_checks_def split: option.splits if_splits dest: get_by_SomeD)
  have run: "svc_create_api_key ar rnd created i (akc_application_id body) (akc_scopes body) (akc_mode body)
      (Some (k_id caller)) (akc_expires_at body) keys = (res, keys')"
    using assms Inr by (simp add: create_api_key_def)
  have "k_scopes row = akc_scopes body \<and> k_application_id row = akc_application_id body
      \<and> k_issuer_key_id row = Some (k_id caller)" if "res = Inr (row, raw)" for row raw
    using svc_create_InrD [OF run [unfolded that]] by (metis new_key_simps(3,8,9))
  moreover have "keys' = keys" if "res = Inl e" for e
    using svc_create_InlD [OF run [unfolded that]] .
  ultimately show ?thesis using checks by simp
qed

theorem creation_never_escalates_witness:
  "fst (create_api_key ex_argon ex_rnd 0 3 \<lparr>akc_application_id = 7, akc_scopes = [''admin''], akc_mode = ''live'', akc_expires_at = None\<rparr>
      ex_caller [\<lparr>app_id = 7, app_tenant_id = 1, app_name = ''a'', app_is_active = True, app_created_at = 0, app_owner_label = None\<rparr>] [ex_caller])
    = Inl (AuthorizationError ''Cannot grant scopes you do not hold'')
   \<and> snd (create_api_key ex_argon ex_rnd 0 3 \<lparr>akc_application_id = 7, akc_scopes = [''admin''], akc_mode = ''live'', akc_expires_at = None\<rparr>
      ex_caller [\<lparr>app_id = 7, app_tenant_id = 1, app_name = ''a'', app_is_active = True, app_created_at = 0, app_owner_label = None\<rparr>] [ex_caller])
    = [ex_caller]"
proof -
  let ?r = "create_api_key ex_argon ex_rnd 0 3 \<lparr>akc_application_id = 7, akc_scopes = [''admin''], akc_mode = ''live'', akc_expires_at = None\<rparr>
      ex_caller [\<lparr>app_id = 7, app_tenant_id = 1, app_name = ''a'', app_is_active = True, app_created_at = 0, app_owner_label = None\<rparr>] [ex_caller]"
  have f: "fst ?r = Inl (AuthorizationError ''Cannot grant scopes you do not hold'')" by code_simp
  have p: "?r = (fst ?r, snd ?r)" by simp
  from creation_never_escalates [OF p] f show ?thesis by blast
qed

text \<open>
  C9. Revocation is final: whatever keys are minted, rotated, revoked or used afterwards, no
  presented text ever again resolves to a key that was revoked; and over every history from the
  empty table identifiers and prefixes stay unique, so at most one row answers a prefix.
\<close>

theorem revoked_key_never_authenticates:
  assumes "(key_step ar)\<^sup>*\<^sup>* [] keys" "revoked_in keys i" "(key_step ar)\<^sup>*\<^sup>* keys keys'"
    "resolve_api_key ar now x keys' = Inr row"
  shows "k_id row \<noteq> i \<and> unique_on k_prefix keys'"
proof -
  have ok: "keys_ok b" if "(key_step ar)\<^sup>*\<^sup>* a b" "keys_ok a" for a b
    using that by (induction rule: rtranclp_induct) (auto intro: keys_ok_step)
  have "revoked_in keys' i"
    using assms(3,2) by (induction rule: rtranclp_induct) (auto intro: revoked_step)
  moreover have "keys_ok keys'"
    using ok [OF assms(3) ok [OF assms(1)]] by (simp add: keys_ok_def)
  ultimately show ?thesis
    using resolve_InrD [OF assms(4)]
    by (auto simp: revoked_in_def keys_ok_def unique_on_def distinct_map inj_on_def) 
qed

theorem revoked_key_never_authenticates_witness:
  "\<exists>keys row. revoked_in keys 3 \<and> resolve_api_key ex_argon 0 ''crwlZyXw98secret'' keys = Inr row
     \<and> k_id row \<noteq> 3"
proof -
  let ?k1 = "snd (svc_create_api_key ex_argon ex_rnd 0 3 7 [''fetch''] ''live'' None None [])"
  let ?k2 = "snd (revoke_api_key 5 3 ex_caller ?k1)"
  let ?k3 = "snd (svc_create_api_key ex_argon ex_rnd 0 4 7 [''fetch''] ''live'' None None ?k2)"
  let ?row = "new_key 0 4 7 ''crwlZyXw'' ''#crwlZyXw98secret'' [''fetch''] ''live'' None None"
  have "key_step ex_argon [] ?k1" by (rule key_step.mint) simp
  moreover have "key_step ex_argon ?k1 ?k2" by (rule key_step.revoke)
  moreover have ids: "map k_id ?k2 = [3]" by code_simp
  have "(4::uuid) \<notin> set (map k_id ?k2)" unfolding ids by simp
  then have "key_step ex_argon ?k2 ?k3" by (intro key_step.mint) simp
  moreover have "map (\<lambda>r. (k_id r, k_revoked_at r)) ?k2 = [(3, Some 5)]" by code_simp
  then have "revoked_in ?k2 3" by (auto simp: revoked_in_def)
  moreover have "map (\<lambda>r. (k_id r, k_revoked_at r)) ?k3 = [(3, Some 5), (4, None)]" by code_simp
  then have "revoked_in ?k3 3" by (auto simp: revoked_in_def)
  moreover have res: "resolve_api_key ex_argon 0 ''crwlZyXw98secret'' ?k3 = Inr ?row" by code_simp
  ultimately show ?thesis
    using revoked_key_never_authenticates [of ex_argon ?k2 3 ?k3 0 "''crwlZyXw98secret''" ?row]
    by (meson converse_rtranclp_into_rtranclp rtranclp.rtrancl_refl r_into_rtranclp)
qed

text \<open>
  Rotation does not respect the bound on scopes: a caller without the admin scope that rotates
  an admin key of its own application gets a fresh raw key with the admin scope, which its own
  scopes do not allow it to create.
\<close>

lemma rotation_escalates:
  assumes "get_by k_id key_id keys = Some target" "k_revoked_at target = None"
    "k_application_id caller = k_application_id target"
    "SCOPE_ADMIN \<in> set (k_scopes target)" "SCOPE_ADMIN \<notin> set (k_scopes caller)"
    "get_by k_prefix (take 8 (fst (generate_api_key ar (rnd 0) (k_mode target)))) keys = None"
  shows "\<exists>row raw keys'. rotate_api_key_endpoint ar rnd i now h key_id caller keys = (Inr (row, raw), keys')
    \<and> SCOPE_ADMIN \<in> set (k_scopes row) \<and> \<not> set (k_scopes row) \<subseteq> set (k_scopes caller)"
proof -
  obtain raw hashed where g: "generate_api_key ar (rnd 0) (k_mode target) = (raw, hashed)" by fastforce
  then have "raw \<noteq> []" using generate_nonempty by (metis fst_conv)
  with assms g show ?thesis
    by (auto simp: rotate_api_key_endpoint_def svc_rotate_api_key_def Let_def)
qed

lemma rotation_escalates_witness:
  "\<exists>row raw keys'. rotate_api_key_endpoint ex_argon ex_rnd 9 5 24 2 ex_caller [ex_caller, ex_admin_key] = (Inr (row, raw), keys')
    \<and> SCOPE_ADMIN \<in> set (k_scopes row) \<and> \<not> set (k_scopes row) \<subseteq> set (k_scopes ex_caller)"
proof (rule rotation_escalates)
  show "get_by k_id 2 [ex_caller, ex_admin_key] = Some ex_admin_key"
    by (simp add: get_by_def ex_caller_def ex_admin_key_def)
  show "get_by k_prefix (take 8 (fst (generate_api_key ex_argon (ex_rnd 0) (k_mode ex_admin_key)))) [ex_caller, ex_admin_key] = None"
    by code_simp
qed (simp_all add: ex_caller_def ex_admin_key_def SCOPE_ADMIN_def)

text \<open>
  Rotation revives an expired key: the old key's expiry is set to the end of the overlap window
  whatever it was, so a key that had expired authenticates again afterwards.
\<close>

lemma rotation_revives_expired:
  assumes "keys_ok keys" "i \<notin> k_id ` set keys" "old \<in> set keys" "k_is_active old" "k_expires_at old = Some t" "t < now"
    "k_prefix old = take 8 x" "8 \<le> length x" "verify_api_key_hash ar x (k_hashed_key old)" "0 \<le> h"
    "svc_rotate_api_key ar rnd i now h (k_id old) issuer keys = (Inr r, keys')"
  shows "resolve_api_key ar now x keys = Inl KeyExpiredError
    \<and> (\<exists>row. resolve_api_key ar now x keys' = Inr row \<and> k_id row = k_id old)"
proof -
  have get: "get_by k_id (k_id old) keys = Some old"
    using assms(1,3) by (simp add: keys_ok_def get_by_unique)
  from svc_rotate_cases [OF assms(11)] obtain succ where rev: "k_revoked_at old = None"
    and keys': "keys' = update_where (\<lambda>r. k_id r = k_id old)
      (\<lambda>r. r\<lparr>k_expires_at := Some (now + timedelta_h h)\<rparr>) (insert_row succ keys)"
    using get by (auto simp: Let_def)
  have find: "find (\<lambda>r. k_prefix r = take 8 x \<and> k_is_active r) keys = Some old"
  proof -
    obtain r where r: "find (\<lambda>r. k_prefix r = take 8 x \<and> k_is_active r) keys = Some r"
      using assms(3,4,7) by (cases "find (\<lambda>r. k_prefix r = take 8 x \<and> k_is_active r) keys") (auto simp: find_None_iff)
    with find_SomeD [OF r] assms(1,3,7) show ?thesis
      by (auto simp: keys_ok_def unique_on_def distinct_map inj_on_def)
  qed
  have ok': "keys_ok keys'"
    using keys_ok_rotate [OF assms(1,2), of ar rnd now h "k_id old" issuer] assms(11) by simp
  let ?old = "old\<lparr>k_expires_at := Some (now + timedelta_h h)\<rparr>"
  have "?old \<in> set keys'" using assms(3) by (force simp: keys' set_update_where)
  then have "resolve_api_key ar now x keys' = Inr ?old"
    by (rule resolve_found [OF ok']) (use assms rev in \<open>auto simp: timedelta_h_def\<close>)
  moreover have "resolve_api_key ar now x keys = Inl KeyExpiredError"
    using find rev assms(5,6,8) by (simp add: resolve_api_key_def)
  ultimately show ?thesis by force
qed

lemma rotation_revives_expired_witness:
  "\<exists>row. resolve_api_key ex_argon 200 ''crwladmi-raw''
      (snd (svc_rotate_api_key ex_argon ex_rnd 9 200 24 2 1 [ex_caller, ex_admin_key])) = Inr row \<and> k_id row = 2"
proof -
  let ?r = "svc_rotate_api_key ex_argon ex_rnd 9 200 24 2 1 [ex_caller, ex_admin_key]"
  have ok: "keys_ok [ex_caller, ex_admin_key]"
    by (simp add: keys_ok_def unique_on_def ex_caller_def ex_admin_key_def ALL_SCOPES_def SCOPE_FETCH_def
        SCOPE_KEYS_def SCOPE_ADMIN_def)
  have "case fst ?r of Inl _ \<Rightarrow> False | Inr _ \<Rightarrow> True" by code_simp
  then obtain x where x: "svc_rotate_api_key ex_argon ex_rnd 9 200 24 (k_id ex_admin_key) 1 [ex_caller, ex_admin_key] = (Inr x, snd ?r)"
    by (cases ?r) (auto simp: ex_admin_key_def split: sum.splits)
  have "(9::uuid) \<notin> k_id ` set [ex_caller, ex_admin_key]" by (simp add: ex_caller_def ex_admin_key_def)
  then show ?thesis
    using rotation_revives_expired [OF ok, of 9 ex_admin_key 100 200 "''crwladmi-raw''" ex_argon 24 ex_rnd 1 x "snd ?r"] x
    by (auto simp: ex_admin_key_def verify_api_key_hash_def ex_argon_def)
qed

end
