(* ===== verification/Escalation.thy ===== *)
theory Escalation
  imports Domain_Policy
begin

text \<open>
  The escalation ladder of \<^verbatim>\<open>app/services/escalation.py\<close>: its tiers, the vendor floors, which
  block reasons move a fetch up the ladder, and the tier a policy starts at.
\<close>

section \<open>The ladder\<close>

record Tier =
  t_engine :: string
  t_proxy_type :: "string option"
  t_use_proxy :: bool

definition MAX_ATTEMPTS_PER_TIER :: int where
  "MAX_ATTEMPTS_PER_TIER = 2"

definition LADDER :: "Tier list" where
  "LADDER =
    [\<lparr>t_engine = ''httpx'', t_proxy_type = None, t_use_proxy = False\<rparr>,
     \<lparr>t_engine = ''httpx'', t_proxy_type = Some ''datacenter'', t_use_proxy = True\<rparr>,
     \<lparr>t_engine = ''curl_cffi'', t_proxy_type = Some ''datacenter'', t_use_proxy = True\<rparr>,
     \<lparr>t_engine = ''curl_cffi'', t_proxy_type = Some ''residential'', t_use_proxy = True\<rparr>,
     \<lparr>t_engine = ''playwright'', t_proxy_type = Some ''residential'', t_use_proxy = True\<rparr>,
     \<lparr>t_engine = ''camoufox'', t_proxy_type = Some ''residential'', t_use_proxy = True\<rparr>,
     \<lparr>t_engine = ''camoufox'', t_proxy_type = Some ''mobile'', t_use_proxy = True\<rparr>]"

definition is_premium :: "Tier \<Rightarrow> bool" where
  "is_premium t \<longleftrightarrow> t_proxy_type t = Some ''residential'' \<or> t_proxy_type t = Some ''mobile''"

text \<open>\<^verbatim>\<open>next(i for i, t in enumerate(xs) if P(t))\<close>; \<^const>\<open>None\<close> is StopIteration.\<close>

fun first_index :: "('a \<Rightarrow> bool) \<Rightarrow> 'a list \<Rightarrow> int option" where
  "first_index P [] = None"
| "first_index P (x # xs) = (if P x then Some 0 else map_option (\<lambda>i. i + 1) (first_index P xs))"

definition FIRST_PREMIUM_TIER :: int where
  "FIRST_PREMIUM_TIER = the (first_index is_premium LADDER)"

definition ANTIBOT_FLOOR :: "(string \<times> int) list" where
  "ANTIBOT_FLOOR =
    [(''cloudflare'', 2), (''akamai'', 3), (''datadome'', 3), (''kasada'', 4),
     (''perimeterx'', 4), (''incapsula'', 2), (''aws_waf'', 1), (''custom_sea'', 6),
     (''custom_cn'', 5), (''none'', 0)]"

definition ESCALATABLE :: "BlockReason list" where
  "ESCALATABLE = [CLOUDFLARE, WAF, CAPTCHA]"

section \<open>Operations\<close>

definition is_escalatable :: "string option \<Rightarrow> bool" where
  "is_escalatable reason =
     (case reason of None \<Rightarrow> False
      | Some s \<Rightarrow>
          (let non_escalatable_values =
             set (map br_value all_block_reasons) - set (map br_value ESCALATABLE)
           in if s \<in> non_escalatable_values then False else True))"

definition initial_tier :: "DomainPolicy option \<Rightarrow> int" where
  "initial_tier policy =
     (case policy of None \<Rightarrow> 0
      | Some p \<Rightarrow>
          (let learned = dp_escalation_tier p;
               flr = (case dp_antibot_type p of None \<Rightarrow> 0
                      | Some a \<Rightarrow> if a = [] then 0
                          else (case map_of ANTIBOT_FLOOR a of None \<Rightarrow> 0 | Some t \<Rightarrow> t))
           in max learned flr))"

definition next_tier :: "int \<Rightarrow> int option" where
  "next_tier current =
     (let nxt = current + 1 in if nxt \<ge> int (length LADDER) then None else Some nxt)"

definition effective_max_tier :: "bool \<Rightarrow> int" where
  "effective_max_tier enable_premium =
     (if enable_premium then int (length LADDER) - 1 else FIRST_PREMIUM_TIER - 1)"

text \<open>\<^verbatim>\<open>LADDER[idx]\<close> after the clamp; \<^const>\<open>None\<close> would be an IndexError.\<close>

definition tier_for :: "DomainPolicy option \<Rightarrow> bool \<Rightarrow> Tier option" where
  "tier_for policy enable_premium =
     (let idx = initial_tier policy; max_idx = effective_max_tier enable_premium
      in py_index LADDER (if idx > max_idx then max_idx else idx))"

section \<open>Facts about the ladder\<close>

lemma length_LADDER [simp]: "length LADDER = 7"
  by (simp add: LADDER_def)

lemma FIRST_PREMIUM_TIER_eq [simp]: "FIRST_PREMIUM_TIER = 3"
  by (simp add: FIRST_PREMIUM_TIER_def LADDER_def is_premium_def)

lemma effective_max_tier_simps [simp]:
  "effective_max_tier True = 6"
  "effective_max_tier False = 2"
  by (simp_all add: effective_max_tier_def)

lemma effective_max_tier_bounds: "2 \<le> effective_max_tier e" "effective_max_tier e \<le> 6"
  by (cases e; simp)+

lemma next_tier_Some_iff [simp]: "next_tier t = Some n \<longleftrightarrow> n = t + 1 \<and> t < 6"
  by (auto simp: next_tier_def Let_def)

lemma next_tier_None_iff [simp]: "next_tier t = None \<longleftrightarrow> 6 \<le> t"
  by (auto simp: next_tier_def Let_def)

lemma map_of_ANTIBOT_FLOOR_bounds: "map_of ANTIBOT_FLOOR a = Some t \<Longrightarrow> 0 \<le> t \<and> t \<le> 6"
  by (auto simp: ANTIBOT_FLOOR_def split: if_splits)

lemma initial_tier_nonneg: "0 \<le> initial_tier p"
  by (auto simp: initial_tier_def Let_def le_max_iff_disj
      dest: map_of_ANTIBOT_FLOOR_bounds split: option.splits)

text \<open>A statement about every tier is checked tier by tier.\<close>

lemma all_tiers:
  assumes "0 \<le> t" "t < 7" "\<And>i. i \<in> {0, 1, 2, 3, 4, 5, 6 :: nat} \<Longrightarrow> P (int i) (LADDER ! i)"
  shows "P t (LADDER ! nat t)"
proof -
  from assms(1,2) have "nat t \<in> {0, 1, 2, 3, 4, 5, 6 :: nat}" by auto
  then have "P (int (nat t)) (LADDER ! nat t)" by (rule assms(3))
  with assms(1) show ?thesis by simp
qed

lemma ladder_premium_iff:
  "0 \<le> t \<Longrightarrow> t < 7 \<Longrightarrow> is_premium (LADDER ! nat t) \<longleftrightarrow> effective_max_tier False < t"
  by (rule all_tiers [where P = "\<lambda>t x. is_premium x \<longleftrightarrow> effective_max_tier False < t"])
    (auto simp: LADDER_def is_premium_def)

lemma ladder_index:
  "0 \<le> t \<Longrightarrow> t < 7 \<Longrightarrow> py_index LADDER t = Some (LADDER ! nat t)"
  by (simp add: py_index_nonneg)

section \<open>Properties\<close>

text \<open>
  The tier chosen for a policy always exists (the clamp keeps the index inside the ladder,
  whatever tier was learned or whatever vendor was recorded), it is the ladder's entry at the
  smaller of the starting tier and the highest reachable tier, and with premium tiers disabled
  it never needs a residential or mobile proxy.
\<close>

lemma tier_for_total:
  "tier_for p e = Some (LADDER ! nat (min (initial_tier p) (effective_max_tier e)))
   \<and> (\<not> e \<longrightarrow> \<not> is_premium (LADDER ! nat (min (initial_tier p) (effective_max_tier e))))"
proof -
  let ?t = "min (initial_tier p) (effective_max_tier e)"
  have t: "0 \<le> ?t" "?t < 7"
    using initial_tier_nonneg [of p] effective_max_tier_bounds [of e] by auto
  have "tier_for p e = py_index LADDER ?t"
    by (simp add: tier_for_def Let_def min_def)
  then show ?thesis
    using ladder_index [OF t] ladder_premium_iff [OF t] by (cases e) auto
qed

lemma tier_for_total_witness:
  "tier_for (Some ((new_policy 1 ''shopee.sg'')\<lparr>dp_antibot_type := Some ''custom_sea''\<rparr>)) False
     = Some (LADDER ! 2) \<and> \<not> is_premium (LADDER ! 2)"
proof -
  let ?p = "Some ((new_policy 1 ''shopee.sg'')\<lparr>dp_antibot_type := Some ''custom_sea''\<rparr>)"
  have "initial_tier ?p = 6"
    by (simp add: initial_tier_def new_policy_def ANTIBOT_FLOOR_def)
  then show ?thesis using tier_for_total [of ?p False] by simp
qed

text \<open>
  Which block reasons move a fetch up the ladder: no reason does not, each of the program's
  known reasons does exactly when it is a Cloudflare, firewall or captcha challenge (so none of
  the vendor reasons akamai, datadome, kasada, perimeterx, incapsula and aws_waf does), and any
  other text does.
\<close>

lemma is_escalatable_spec:
  "\<not> is_escalatable None
   \<and> (\<forall>r. is_escalatable (Some (br_value r)) \<longleftrightarrow> r = CLOUDFLARE \<or> r = WAF \<or> r = CAPTCHA)
   \<and> (\<forall>s. (\<forall>r. s \<noteq> br_value r) \<longrightarrow> is_escalatable (Some s))"
proof (intro conjI allI impI)
  show "\<not> is_escalatable None" by (simp add: is_escalatable_def)
next
  fix r
  show "is_escalatable (Some (br_value r)) \<longleftrightarrow> r = CLOUDFLARE \<or> r = WAF \<or> r = CAPTCHA"
    by (cases r) (simp_all add: is_escalatable_def all_block_reasons_def ESCALATABLE_def)
next
  fix s :: string
  assume "\<forall>r. s \<noteq> br_value r"
  then show "is_escalatable (Some s)" by (auto simp: is_escalatable_def)
qed

lemma is_escalatable_spec_witness:
  "is_escalatable (Some ''some_future_vendor'') \<and> \<not> is_escalatable (Some (br_value AKAMAI))"
proof -
  have "\<forall>r. ''some_future_vendor'' \<noteq> br_value r"
  proof
    fix r show "''some_future_vendor'' \<noteq> br_value r" by (cases r) simp_all
  qed
  then show ?thesis using is_escalatable_spec by blast
qed

end
