(* ===== verification/Proxy_Health.thy ===== *)
theory Proxy_Health
  imports Table
begin

text \<open>
  The \<^verbatim>\<open>proxies\<close> row (\<^verbatim>\<open>app/models/proxy.py\<close>) and \<^verbatim>\<open>app/services/proxy_health.py\<close>: health score,
  failure counter and cooldown. Scores are real numbers: the rounding of binary floating point is
  not modelled.
\<close>

record Proxy =
  px_id :: uuid
  px_pool_id :: uuid
  px_provider :: string
  px_url :: string
  px_country :: "string option"
  px_city :: "string option"
  px_proxy_type :: string
  px_health_score :: real
  px_consecutive_failures :: int
  px_cooldown_until :: "datetime option"
  px_total_requests :: int
  px_total_errors :: int
  px_is_active :: bool

text \<open>A row with the column defaults.\<close>

definition new_proxy :: "uuid \<Rightarrow> uuid \<Rightarrow> string \<Rightarrow> Proxy" where
  "new_proxy i pool url =
     \<lparr>px_id = i, px_pool_id = pool, px_provider = ''webshare'', px_url = url, px_country = None,
      px_city = None, px_proxy_type = ''datacenter'', px_health_score = 1, px_consecutive_failures = 0,
      px_cooldown_until = None, px_total_requests = 0, px_total_errors = 0, px_is_active = True\<rparr>"

type_synonym proxy_table = "Proxy list"

definition HEALTH_DECAY :: real where
  "HEALTH_DECAY = 15 / 100"

definition HEALTH_RECOVER :: real where
  "HEALTH_RECOVER = 5 / 100"

definition COOLDOWN_BASE_S :: int where
  "COOLDOWN_BASE_S = 60"

definition COOLDOWN_MAX_S :: int where
  "COOLDOWN_MAX_S = 3600"

definition success_row :: "Proxy \<Rightarrow> Proxy" where
  "success_row r = r\<lparr>px_health_score := min (px_health_score r + HEALTH_RECOVER) 1,
     px_consecutive_failures := 0, px_cooldown_until := None,
     px_total_requests := px_total_requests r + 1\<rparr>"

definition record_success :: "uuid \<Rightarrow> proxy_table \<Rightarrow> proxy_table" where
  "record_success pid tbl = update_where (\<lambda>r. px_id r = pid) success_row tbl"

definition cooldown_s :: "int \<Rightarrow> int" where
  "cooldown_s new_failures = min (COOLDOWN_BASE_S * 2 ^ nat (new_failures - 1)) COOLDOWN_MAX_S"

definition failure_row :: "int \<Rightarrow> datetime \<Rightarrow> Proxy \<Rightarrow> Proxy" where
  "failure_row new_failures cd r = r\<lparr>px_health_score := max (px_health_score r - HEALTH_DECAY) 0,
     px_consecutive_failures := new_failures, px_cooldown_until := Some cd,
     px_total_errors := px_total_errors r + 1, px_total_requests := px_total_requests r + 1\<rparr>"

text \<open>The failure counter is read first; a missing row counts as zero and is not written.\<close>

definition record_failure :: "uuid \<Rightarrow> datetime \<Rightarrow> proxy_table \<Rightarrow> proxy_table" where
  "record_failure pid now tbl =
     (let current_failures = (case get_by px_id pid tbl of None \<Rightarrow> 0 | Some row \<Rightarrow> px_consecutive_failures row);
          new_failures = current_failures + 1;
          cooldown_until = now + timedelta_s (cooldown_s new_failures)
      in update_where (\<lambda>r. px_id r = pid) (failure_row new_failures cooldown_until) tbl)"

definition is_on_cooldown :: "datetime \<Rightarrow> Proxy \<Rightarrow> bool" where
  "is_on_cooldown now p = (case px_cooldown_until p of None \<Rightarrow> False | Some t \<Rightarrow> now < t)"

section \<open>The invariant of a row\<close>

definition proxy_ok :: "Proxy \<Rightarrow> bool" where
  "proxy_ok r \<longleftrightarrow> 0 \<le> px_health_score r \<and> px_health_score r \<le> 1 \<and> 0 \<le> px_consecutive_failures r
     \<and> 0 \<le> px_total_errors r \<and> px_total_errors r \<le> px_total_requests r
     \<and> (px_cooldown_until r = None \<longleftrightarrow> px_consecutive_failures r = 0)"

lemma row_keys [simp]:
  "px_id (success_row r) = px_id r" "px_id (failure_row n cd r) = px_id r"
  by (simp_all add: success_row_def failure_row_def)

lemma proxy_ok_success: "proxy_ok r \<Longrightarrow> proxy_ok (success_row r)"
  by (auto simp: proxy_ok_def success_row_def HEALTH_RECOVER_def)

lemma proxy_ok_failure: "proxy_ok r \<Longrightarrow> 0 < n \<Longrightarrow> proxy_ok (failure_row n cd r)"
  by (auto simp: proxy_ok_def failure_row_def HEALTH_DECAY_def)

lemma get_record_success:
  "get_by px_id i (record_success pid tbl) =
     map_option (\<lambda>r. if px_id r = pid then success_row r else r) (get_by px_id i tbl)"
  by (simp add: record_success_def get_by_update_where)

lemma get_record_failure:
  assumes "get_by px_id pid tbl = Some row"
  shows "get_by px_id i (record_failure pid now tbl) =
     map_option (\<lambda>r. if px_id r = pid
       then failure_row (px_consecutive_failures row + 1)
              (now + timedelta_s (cooldown_s (px_consecutive_failures row + 1))) r
       else r) (get_by px_id i tbl)"
  using assms by (simp add: record_failure_def Let_def get_by_update_where)

lemma cooldown_s_bounds: "1 \<le> n \<Longrightarrow> 60 \<le> cooldown_s n \<and> cooldown_s n \<le> 3600"
  by (auto simp: cooldown_s_def COOLDOWN_BASE_S_def COOLDOWN_MAX_S_def)

lemma cooldown_s_mono:
  assumes "1 \<le> m" "m \<le> n"
  shows "cooldown_s m \<le> cooldown_s n"
proof -
  have "(2::int) ^ nat (m - 1) \<le> 2 ^ nat (n - 1)" using assms by (intro power_increasing) auto
  then have "COOLDOWN_BASE_S * 2 ^ nat (m - 1) \<le> COOLDOWN_BASE_S * 2 ^ nat (n - 1)"
    by (simp add: COOLDOWN_BASE_S_def)
  then show ?thesis unfolding cooldown_s_def by (rule min.mono) simp
qed

text \<open>The cap is reached with the seventh failure.\<close>

lemma cooldown_s_cap: "7 \<le> n \<Longrightarrow> cooldown_s n = 3600"
proof -
  assume "7 \<le> n"
  then have "cooldown_s 7 \<le> cooldown_s n" by (intro cooldown_s_mono) auto
  moreover have "cooldown_s 7 = 3600" by (simp add: cooldown_s_def COOLDOWN_BASE_S_def COOLDOWN_MAX_S_def)
  ultimately show ?thesis by (simp add: cooldown_s_def COOLDOWN_MAX_S_def)
qed

text \<open>A run of failures and successes of one proxy, at the given times.\<close>

fun replay :: "uuid \<Rightarrow> (bool \<times> datetime) list \<Rightarrow> proxy_table \<Rightarrow> proxy_table" where
  "replay pid [] tbl = tbl"
| "replay pid ((ok, now) # es) tbl =
     replay pid es (if ok then record_success pid tbl else record_failure pid now tbl)"

definition proxies_ok :: "proxy_table \<Rightarrow> bool" where
  "proxies_ok tbl \<longleftrightarrow> unique_on px_id tbl \<and> (\<forall>r \<in> set tbl. proxy_ok r)"

lemma proxies_ok_success: "proxies_ok tbl \<Longrightarrow> proxies_ok (record_success pid tbl)"
proof -
  assume ok: "proxies_ok tbl"
  have "\<forall>r \<in> set (record_success pid tbl). proxy_ok r"
    unfolding record_success_def
    by (intro ball_update_where) (use ok in \<open>auto simp: proxies_ok_def intro: proxy_ok_success\<close>)
  moreover have "unique_on px_id (record_success pid tbl)"
    using ok by (simp add: proxies_ok_def record_success_def unique_on_update_where)
  ultimately show ?thesis by (simp add: proxies_ok_def)
qed

lemma proxies_ok_failure: "proxies_ok tbl \<Longrightarrow> proxies_ok (record_failure pid now tbl)"
proof -
  assume ok: "proxies_ok tbl"
  let ?n = "(case get_by px_id pid tbl of None \<Rightarrow> 0 | Some row \<Rightarrow> px_consecutive_failures row) + 1"
  have "0 < ?n"
    using ok by (auto simp: proxies_ok_def proxy_ok_def split: option.splits dest!: get_by_SomeD)
  then have "\<forall>r \<in> set (record_failure pid now tbl). proxy_ok r"
    unfolding record_failure_def Let_def
    by (intro ball_update_where) (use ok in \<open>auto simp: proxies_ok_def intro: proxy_ok_failure\<close>)
  moreover have "unique_on px_id (record_failure pid now tbl)"
    using ok by (simp add: proxies_ok_def record_failure_def Let_def unique_on_update_where)
  ultimately show ?thesis by (simp add: proxies_ok_def)
qed

lemma proxies_ok_replay: "proxies_ok tbl \<Longrightarrow> proxies_ok (replay pid es tbl)"
  by (induction pid es tbl rule: replay.induct) (auto simp: proxies_ok_success proxies_ok_failure)

section \<open>Properties\<close>

text \<open>
  C30. The health invariant: whatever outcomes are recorded, in whatever order, every proxy's
  score stays in [0, 1], its error count never exceeds its request count, and it has a cooldown
  exactly while its run of failures is not broken.
\<close>

theorem proxy_health_invariant:
  assumes "proxies_ok tbl"
  shows "\<forall>r \<in> set (replay pid es tbl). 0 \<le> px_health_score r \<and> px_health_score r \<le> 1
    \<and> px_total_errors r \<le> px_total_requests r
    \<and> (px_cooldown_until r = None \<longleftrightarrow> px_consecutive_failures r = 0)"
  using proxies_ok_replay [OF assms, of pid es] by (auto simp: proxies_ok_def proxy_ok_def)

theorem proxy_health_invariant_witness:
  "\<exists>r. get_by px_id 1 (replay 1 [(False, 0), (True, 5)] [new_proxy 1 2 ''http://p'']) = Some r
    \<and> px_health_score r \<le> 1 \<and> px_total_errors r \<le> px_total_requests r"
proof -
  let ?tbl = "replay 1 [(False, 0), (True, 5)] [new_proxy 1 2 ''http://p'']"
  obtain r where r: "get_by px_id 1 ?tbl = Some r"
    by (auto simp: get_record_success record_failure_def get_by_update_where get_by_def [of _ _ "[_]"] new_proxy_def Let_def)
  have "proxies_ok [new_proxy 1 2 ''http://p'']"
    by (simp add: proxies_ok_def unique_on_def proxy_ok_def new_proxy_def)
  from proxy_health_invariant [OF this, of 1 "[(False, 0), (True, 5)]"] get_by_SomeD [OF r] r
  show ?thesis by blast
qed

lemma failures_run:
  assumes "get_by px_id pid tbl = Some r" "px_consecutive_failures r = int k" "nows \<noteq> []"
  shows "\<exists>r'. get_by px_id pid (replay pid (map (\<lambda>t. (False, t)) nows) tbl) = Some r'
    \<and> px_consecutive_failures r' = int (k + length nows)
    \<and> px_cooldown_until r' = Some (last nows + timedelta_s (cooldown_s (int (k + length nows))))
    \<and> px_health_score r' = (if nows = [] then px_health_score r
        else max (px_health_score r - real (length nows) * HEALTH_DECAY) 0)"
  using assms
proof (induction nows arbitrary: tbl r k)
  case (Cons t ts)
  let ?tbl = "record_failure pid t tbl"
  have id: "px_id r = pid" using Cons.prems(1) by (auto dest: get_by_SomeD)
  define r1 where "r1 = failure_row (int k + 1) (t + timedelta_s (cooldown_s (int k + 1))) r"
  have get: "get_by px_id pid ?tbl = Some r1"
    using Cons.prems(1,2) id by (simp add: get_record_failure r1_def)
  have r1: "px_consecutive_failures r1 = int (Suc k)"
    "px_cooldown_until r1 = Some (t + timedelta_s (cooldown_s (int (Suc k))))"
    "px_health_score r1 = max (px_health_score r - HEALTH_DECAY) 0"
    by (simp_all add: r1_def failure_row_def add.commute)
  show ?case
  proof (cases "ts = []")
    case True
    with get r1 show ?thesis by simp
  next
    case False
    have "max (max (px_health_score r - HEALTH_DECAY) 0 - real (length ts) * HEALTH_DECAY) 0
        = max (px_health_score r - real (Suc (length ts)) * HEALTH_DECAY) 0"
      by (auto simp: max_def HEALTH_DECAY_def algebra_simps)
    with False Cons.IH [OF get r1(1) False] r1(3) show ?thesis by (auto simp: add.commute add.left_commute)
  qed
qed simp

text \<open>
  Exponential backoff with a cap: n failures in a row of a proxy that had none leave it on a
  cooldown of \<^verbatim>\<open>min(60 * 2^(n-1), 3600)\<close> seconds from the last failure, between one minute and one
  hour, constant from the seventh failure on, with the score reduced by 0.15 for each.
\<close>

lemma backoff_after_failures:
  assumes "get_by px_id pid tbl = Some r" "px_consecutive_failures r = 0" "nows \<noteq> []"
  shows "\<exists>r'. get_by px_id pid (replay pid (map (\<lambda>t. (False, t)) nows) tbl) = Some r'
    \<and> px_cooldown_until r' = Some (last nows + timedelta_s (min (60 * 2 ^ (length nows - 1)) 3600))
    \<and> (7 \<le> length nows \<longrightarrow> px_cooldown_until r' = Some (last nows + timedelta_s 3600))
    \<and> (\<forall>now. is_on_cooldown now r' \<longleftrightarrow> now < last nows + timedelta_s (min (60 * 2 ^ (length nows - 1)) 3600))
    \<and> px_health_score r' = max (px_health_score r - real (length nows) * (15 / 100)) 0"
proof -
  have "cooldown_s (int (length nows)) = min (60 * 2 ^ (length nows - 1)) 3600"
    by (simp add: cooldown_s_def COOLDOWN_BASE_S_def COOLDOWN_MAX_S_def nat_diff_distrib')
  moreover have "7 \<le> length nows \<Longrightarrow> cooldown_s (int (length nows)) = 3600"
    by (rule cooldown_s_cap) simp
  ultimately show ?thesis
    using failures_run [OF assms(1) _ assms(3), of 0] assms(2,3)
    by (auto simp: HEALTH_DECAY_def is_on_cooldown_def)
qed

lemma backoff_after_failures_witness:
  "\<exists>r'. get_by px_id 1 (replay 1 (map (\<lambda>t. (False, t)) [10, 20, 30]) [new_proxy 1 2 ''http://p'']) = Some r'
    \<and> px_cooldown_until r' = Some (30 + 240000000) \<and> px_health_score r' = 55 / 100"
  using backoff_after_failures [of 1 "[new_proxy 1 2 ''http://p'']" "new_proxy 1 2 ''http://p''" "[10, 20, 30]"]
  by (auto simp: get_by_def new_proxy_def timedelta_s_def)

end
