(* ===== verification/Proxy_Manager.thy ===== *)
theory Proxy_Manager
  imports Proxy_Health Redis Uuid Api_Errors "HOL-Library.Product_Lexorder"
begin

text \<open>
  \<^verbatim>\<open>app/services/proxy_manager.py\<close>: the circuit breaker per domain, sticky sessions, weighted
  selection of a proxy and the reporting of outcomes. The manager's state is the Redis state, the
  \<^verbatim>\<open>proxies\<close> table and the \<^verbatim>\<open>proxy_events\<close> table. The clock, the random ordering of the query and the
  random number of \<^verbatim>\<open>random.choices\<close> are arguments.
\<close>

record breaker_cfg =
  cb_threshold :: int
  cb_timeout_s :: int

definition default_breaker :: breaker_cfg where
  "default_breaker = \<lparr>cb_threshold = 5, cb_timeout_s = 300\<rparr>"

definition WEIGHT_FLOOR :: real where
  "WEIGHT_FLOOR = 1 / 100"

section \<open>Circuit breaker\<close>

definition is_open_state :: "rval option \<Rightarrow> bool" where
  "is_open_state v \<longleftrightarrow> v = Some (RStr ''open'')"

definition cb_key :: "string \<Rightarrow> string" where
  "cb_key domain = ''cb:domain:'' @ domain"

definition cb_state_key :: "string \<Rightarrow> string" where
  "cb_state_key domain = ''cb:domain:'' @ domain @ '':state''"

definition increment_circuit_breaker ::
  "'r redis \<Rightarrow> breaker_cfg \<Rightarrow> string \<Rightarrow> 'r \<Rightarrow> bool \<times> 'r" where
  "increment_circuit_breaker R cfg domain =
     try_or False
       (rbind (r_incr R (cb_key domain)) (\<lambda>cnt.
        rbind (r_expire R (cb_key domain) (cb_timeout_s cfg * 2)) (\<lambda>_.
        if cnt \<ge> cb_threshold cfg
        then rbind (r_get R (cb_state_key domain)) (\<lambda>st.
             rbind (r_set R (cb_state_key domain) (RStr ''open'') None) (\<lambda>_.
             rbind (r_expire R (cb_state_key domain) (cb_timeout_s cfg * 2)) (\<lambda>_.
             rret (\<not> is_open_state st))))
        else rret False)))"

definition reset_circuit_breaker :: "'r redis \<Rightarrow> string \<Rightarrow> 'r \<Rightarrow> bool \<times> 'r" where
  "reset_circuit_breaker R domain =
     try_or False
       (rbind (r_get R (cb_state_key domain)) (\<lambda>st.
        rbind (r_delete R (cb_key domain)) (\<lambda>_.
        rbind (r_delete R (cb_state_key domain)) (\<lambda>_.
        rret (is_open_state st)))))"

definition is_circuit_open :: "'r redis \<Rightarrow> string \<Rightarrow> 'r \<Rightarrow> bool \<times> 'r" where
  "is_circuit_open R domain =
     try_or False (rbind (r_get R (cb_state_key domain)) (\<lambda>st. rret (is_open_state st)))"

section \<open>Sticky sessions\<close>

definition sticky_redis_key :: "string \<Rightarrow> string \<Rightarrow> string" where
  "sticky_redis_key domain sticky_key = ''sticky:'' @ domain @ '':'' @ sticky_key"

text \<open>A value that is not the text of a UUID raises inside the try block.\<close>

definition get_sticky :: "'r redis \<Rightarrow> string \<Rightarrow> string \<Rightarrow> 'r \<Rightarrow> uuid option \<times> 'r" where
  "get_sticky R domain sticky_key =
     try_or None
       (rbind (r_get R (sticky_redis_key domain sticky_key)) (\<lambda>raw.
        rret (case raw of Some (RStr t) \<Rightarrow> uuid_parse t | _ \<Rightarrow> None)))"

definition set_sticky :: "'r redis \<Rightarrow> string \<Rightarrow> string \<Rightarrow> uuid \<Rightarrow> int \<Rightarrow> 'r \<Rightarrow> 'r" where
  "set_sticky R domain sticky_key proxy_id ttl s =
     snd (r_set R (sticky_redis_key domain sticky_key) (RStr (uuid_str proxy_id)) (Some ttl) s)"

definition delete_sticky :: "'r redis \<Rightarrow> string \<Rightarrow> string \<Rightarrow> 'r \<Rightarrow> 'r" where
  "delete_sticky R domain sticky_key s = snd (r_delete R (sticky_redis_key domain sticky_key) s)"

section \<open>Selection\<close>

record proxy_request =
  rq_pool_id :: "uuid option"
  rq_tenant_id :: "uuid option"
  rq_domain :: string
  rq_sticky_key :: "string option"
  rq_sticky_ttl_s :: int
  rq_exclude_ids :: "uuid list"
  rq_country :: "string option"
  rq_city :: "string option"
  rq_proxy_type :: "string option"

text \<open>The inputs of one selection that are not the caller's: clock and randomness.\<close>

record pick_env =
  pe_now :: datetime
  pe_order :: "uuid \<Rightarrow> int"
  pe_random :: real

definition effective_pool :: "proxy_request \<Rightarrow> uuid option" where
  "effective_pool rq = (case rq_tenant_id rq of Some t \<Rightarrow> Some t | None \<Rightarrow> rq_pool_id rq)"

definition opt_matches :: "'a option \<Rightarrow> 'a option \<Rightarrow> bool" where
  "opt_matches wanted actual = (case wanted of None \<Rightarrow> True | Some w \<Rightarrow> actual = Some w)"

text \<open>The WHERE clause of the query.\<close>

definition query_matches :: "proxy_request \<Rightarrow> Proxy \<Rightarrow> bool" where
  "query_matches rq p \<longleftrightarrow>
     opt_matches (effective_pool rq) (Some (px_pool_id p)) \<and> px_is_active p
     \<and> opt_matches (map_option (\<lambda>c. take 2 (upper c)) (rq_country rq)) (px_country p)
     \<and> opt_matches (rq_city rq) (px_city p)
     \<and> opt_matches (rq_proxy_type rq) (Some (px_proxy_type p))"

definition eligible_proxies :: "pick_env \<Rightarrow> proxy_request \<Rightarrow> proxy_table \<Rightarrow> Proxy list" where
  "eligible_proxies e rq tbl =
     (let all_proxies = sort_key (\<lambda>p. (- px_health_score p, pe_order e (px_id p)))
                          (filter (query_matches rq) tbl)
      in filter (\<lambda>p. \<not> is_on_cooldown (pe_now e) p \<and> px_id p \<notin> set (rq_exclude_ids rq)) all_proxies)"

definition weight :: "Proxy \<Rightarrow> real" where
  "weight p = max WEIGHT_FLOOR (px_health_score p)"

fun accumulate :: "real \<Rightarrow> real list \<Rightarrow> real list" where
  "accumulate acc [] = []"
| "accumulate acc (w # ws) = (acc + w) # accumulate (acc + w) ws"

text \<open>
  \<^verbatim>\<open>random.choices(xs, weights=ws, k=1)[0]\<close>: bisect the cumulative weights at \<^verbatim>\<open>random() * total\<close>,
  with the last index as the upper bound.
\<close>

definition choices_index :: "real list \<Rightarrow> real \<Rightarrow> nat" where
  "choices_index ws u =
     (let cum = accumulate 0 ws; x = u * last cum
      in length (takeWhile (\<lambda>c. c \<le> x) (butlast cum)))"

definition choices :: "'a list \<Rightarrow> real list \<Rightarrow> real \<Rightarrow> 'a" where
  "choices xs ws u = xs ! choices_index ws u"

definition get_proxy ::
  "'r redis \<Rightarrow> pick_env \<Rightarrow> proxy_request \<Rightarrow> proxy_table \<Rightarrow> 'r \<Rightarrow> Proxy option \<times> 'r" where
  "get_proxy R e rq tbl s0 =
     (let (is_open, s1) = is_circuit_open R (rq_domain rq) s0
      in if is_open then (None, s1)
         else
           (let (pinned, s2) =
              (case rq_sticky_key rq of
                 None \<Rightarrow> (None, s1)
               | Some k \<Rightarrow>
                   (let (sticky_id, s') = get_sticky R (rq_domain rq) k s1
                    in case sticky_id of
                         None \<Rightarrow> (None, s')
                       | Some i \<Rightarrow>
                           if i \<in> set (rq_exclude_ids rq) then (None, s')
                           else (case get_by px_id i tbl of
                                   Some p \<Rightarrow>
                                     if px_is_active p \<and> \<not> is_on_cooldown (pe_now e) p then (Some p, s')
                                     else (None, delete_sticky R (rq_domain rq) k s')
                                 | None \<Rightarrow> (None, delete_sticky R (rq_domain rq) k s'))))
            in case pinned of
                 Some p \<Rightarrow> (Some p, s2)
               | None \<Rightarrow>
                   (let eligible = eligible_proxies e rq tbl
                    in if eligible = [] then (None, s2)
                       else (let selected = choices eligible (map weight eligible) (pe_random e)
                             in (Some selected,
                                 case rq_sticky_key rq of
                                   None \<Rightarrow> s2
                                 | Some k \<Rightarrow> set_sticky R (rq_domain rq) k (px_id selected)
                                               (rq_sticky_ttl_s rq) s2)))))"

section \<open>Reporting\<close>

record ProxyEvent =
  ev_proxy_id :: uuid
  ev_type :: string
  ev_detail :: "(string \<times> string) list"

definition daily_key :: "uuid \<Rightarrow> string \<Rightarrow> string" where
  "daily_key proxy_id date_key = ''proxy:daily:'' @ uuid_str proxy_id @ '':'' @ date_key"

definition record_daily_aggregate :: "'r redis \<Rightarrow> uuid \<Rightarrow> bool \<Rightarrow> string \<Rightarrow> 'r \<Rightarrow> 'r" where
  "record_daily_aggregate R proxy_id success date_key s =
     snd (try_or ()
       (rbind (r_hincrby R (daily_key proxy_id date_key) ''requests'' 1) (\<lambda>requests_count.
        rbind (if \<not> success then rbind (r_hincrby R (daily_key proxy_id date_key) ''errors'' 1) (\<lambda>_. rret ())
               else rret ()) (\<lambda>_.
        if requests_count = 1 then r_expire R (daily_key proxy_id date_key) 172800 else rret ()))) s)"

text \<open>The session's pending changes: the \<^verbatim>\<open>proxies\<close> rows and the new events.\<close>

definition report_result ::
  "'r redis \<Rightarrow> breaker_cfg \<Rightarrow> datetime \<Rightarrow> string \<Rightarrow> uuid \<Rightarrow> string \<Rightarrow> bool \<Rightarrow> string option
   \<Rightarrow> proxy_table \<Rightarrow> ProxyEvent list \<Rightarrow> 'r \<Rightarrow> proxy_table \<times> ProxyEvent list \<times> 'r" where
  "report_result R cfg now date_key proxy_id domain success reason tbl evs s0 =
     (if success
      then (let tbl' = record_success proxy_id tbl;
                (circuit_closed, s1) = reset_circuit_breaker R domain s0;
                evs' = (if circuit_closed
                        then evs @ [\<lparr>ev_proxy_id = proxy_id, ev_type = ''circuit_close'',
                                     ev_detail = [(''domain'', domain)]\<rparr>]
                        else evs)
            in (tbl', evs', record_daily_aggregate R proxy_id success date_key s1))
      else (let reason_literal = (case reason of None \<Rightarrow> ''http_error'' | Some r \<Rightarrow> r);
                tbl' = record_failure proxy_id now tbl;
                (circuit_opened, s1) = increment_circuit_breaker R cfg domain s0;
                evs' = (if circuit_opened
                        then evs @ [\<lparr>ev_proxy_id = proxy_id, ev_type = ''circuit_open'',
                                     ev_detail = [(''domain'', domain), (''reason'', reason_literal)]\<rparr>]
                        else evs)
            in (tbl', evs', record_daily_aggregate R proxy_id success date_key s1)))"

text \<open>The counts of \<^verbatim>\<open>get_pool_stats\<close>: total, active, on cooldown, average health.\<close>

definition pool_health_stats :: "datetime \<Rightarrow> uuid \<Rightarrow> proxy_table \<Rightarrow> int \<times> int \<times> int \<times> real" where
  "pool_health_stats now pool_id tbl =
     (let proxies = filter (\<lambda>p. px_pool_id p = pool_id) tbl;
          total = int (length proxies);
          on_cooldown = int (length (filter (is_on_cooldown now) proxies));
          avg = (if total > 0 then sum_list (map px_health_score proxies) / real_of_int total else 0)
      in (total, total - on_cooldown, on_cooldown, avg))"

section \<open>Selection: facts\<close>

lemma length_accumulate [simp]: "length (accumulate a ws) = length ws"
  by (induction ws arbitrary: a) auto

lemma choices_index_less: "ws \<noteq> [] \<Longrightarrow> choices_index ws u < length ws"
proof -
  assume "ws \<noteq> []"
  have "length (takeWhile (\<lambda>c. c \<le> u * last (accumulate 0 ws)) (butlast (accumulate 0 ws)))
      \<le> length (butlast (accumulate 0 ws))" by (rule length_takeWhile_le)
  also have "\<dots> < length ws" using \<open>ws \<noteq> []\<close> by (simp del: accumulate.simps)
  finally show ?thesis by (simp add: choices_index_def Let_def)
qed

lemma choices_mem: "xs \<noteq> [] \<Longrightarrow> choices xs (map weight xs) u \<in> set xs"
  using choices_index_less [of "map weight xs" u] by (simp add: choices_def)

lemma eligible_iff:
  "p \<in> set (eligible_proxies e rq tbl) \<longleftrightarrow> p \<in> set tbl \<and> query_matches rq p
     \<and> \<not> is_on_cooldown (pe_now e) p \<and> px_id p \<notin> set (rq_exclude_ids rq)"
  by (auto simp: eligible_proxies_def Let_def)

lemma get_proxy_cases:
  assumes "get_proxy R e rq tbl s = (Some p, s')"
  shows "p \<in> set tbl \<and> px_is_active p \<and> \<not> is_on_cooldown (pe_now e) p
    \<and> px_id p \<notin> set (rq_exclude_ids rq)
    \<and> (query_matches rq p \<or> (\<exists>k s1 s2. rq_sticky_key rq = Some k
         \<and> get_sticky R (rq_domain rq) k s1 = (Some (px_id p), s2)))"
proof -
  have "p \<in> set (eligible_proxies e rq tbl) \<or>
     (\<exists>k s1 s2. rq_sticky_key rq = Some k \<and> get_sticky R (rq_domain rq) k s1 = (Some (px_id p), s2)
        \<and> get_by px_id (px_id p) tbl = Some p \<and> px_is_active p \<and> \<not> is_on_cooldown (pe_now e) p
        \<and> px_id p \<notin> set (rq_exclude_ids rq))"
    using assms
    by (auto simp: get_proxy_def Let_def choices_mem dest: get_by_SomeD
        split: prod.splits if_splits option.splits)
  then show ?thesis by (auto simp: eligible_iff query_matches_def dest: get_by_SomeD)
qed

text \<open>Cumulative weights, and where the bisection stops.\<close>

lemma nth_accumulate: "i < length ws \<Longrightarrow> accumulate a ws ! i = a + sum_list (take (Suc i) ws)"
proof (induction ws arbitrary: a i)
  case (Cons w ws)
  then show ?case by (cases i) (auto simp: algebra_simps)
qed simp

lemma last_accumulate: "ws \<noteq> [] \<Longrightarrow> last (accumulate a ws) = a + sum_list ws"
proof (induction ws arbitrary: a)
  case (Cons w ws)
  then show ?case by (cases ws) (auto simp: algebra_simps)
qed simp

lemma length_takeWhile_eq_iff:
  "i \<le> length xs \<Longrightarrow> length (takeWhile P xs) = i
     \<longleftrightarrow> (\<forall>j < i. P (xs ! j)) \<and> (i < length xs \<longrightarrow> \<not> P (xs ! i))"
proof (induction xs arbitrary: i)
  case (Cons x xs)
  show ?case
  proof (cases i)
    case (Suc k)
    with Cons show ?thesis by (auto simp: less_Suc_eq_0_disj)
  qed auto
qed simp

lemma sum_take_mono:
  fixes ws :: "real list"
  assumes "\<forall>w \<in> set ws. 0 < w" "i \<le> j"
  shows "sum_list (take i ws) \<le> sum_list (take j ws)"
proof -
  have "take j ws = take i ws @ take (j - i) (drop i ws)"
    using assms(2) by (metis le_add_diff_inverse take_add)
  moreover have "0 \<le> sum_list (take (j - i) (drop i ws))"
    using assms(1) by (intro sum_list_nonneg) (auto dest!: in_set_takeD in_set_dropD)
  ultimately show ?thesis by simp
qed

lemma choices_index_iff:
  assumes "\<forall>w \<in> set ws. 0 < w" "i < length ws" "0 \<le> u" "u < 1"
  shows "choices_index ws u = i
    \<longleftrightarrow> sum_list (take i ws) \<le> u * sum_list ws \<and> u * sum_list ws < sum_list (take (Suc i) ws)"
proof -
  let ?x = "u * sum_list ws" and ?cum = "butlast (accumulate 0 ws)"
  have ne: "ws \<noteq> []" using assms(2) by auto
  then have pos: "0 < sum_list ws" using assms(1) by (cases ws) (auto intro!: add_pos_nonneg sum_list_nonneg)
  have top: "?x < sum_list ws" using pos assms(4) by simp
  have len: "length ?cum = length ws - 1" by simp
  have nth: "?cum ! j = sum_list (take (Suc j) ws)" if "j < length ws - 1" for j
    using that by (simp add: nth_butlast nth_accumulate)
  have "choices_index ws u = i \<longleftrightarrow> (\<forall>j < i. ?cum ! j \<le> ?x) \<and> (i < length ?cum \<longrightarrow> \<not> ?cum ! i \<le> ?x)"
    unfolding choices_index_def Let_def last_accumulate [OF ne] add_0
    by (rule length_takeWhile_eq_iff) (use assms(2) len in linarith)
  also have "(\<forall>j < i. ?cum ! j \<le> ?x) \<longleftrightarrow> sum_list (take i ws) \<le> ?x"
  proof
    assume all: "\<forall>j < i. ?cum ! j \<le> ?x"
    show "sum_list (take i ws) \<le> ?x"
    proof (cases i)
      case 0
      then show ?thesis using pos assms(3) by simp
    next
      case (Suc k)
      with all assms(2) nth [of k] show ?thesis by auto
    qed
  next
    assume le: "sum_list (take i ws) \<le> ?x"
    show "\<forall>j < i. ?cum ! j \<le> ?x"
    proof (intro allI impI)
      fix j assume "j < i"
      then have "?cum ! j = sum_list (take (Suc j) ws)" using assms(2) by (intro nth) linarith
      also have "\<dots> \<le> sum_list (take i ws)" using \<open>j < i\<close> by (intro sum_take_mono assms(1)) simp
      finally show "?cum ! j \<le> ?x" using le by simp
    qed
  qed
  also have "(i < length ?cum \<longrightarrow> \<not> ?cum ! i \<le> ?x) \<longleftrightarrow> ?x < sum_list (take (Suc i) ws)"
  proof (cases "i < length ws - 1")
    case True
    then show ?thesis using nth [of i] len by auto
  next
    case False
    then have "take (Suc i) ws = ws" using assms(2) by simp
    with False top len show ?thesis by simp
  qed
  finally show ?thesis .
qed

section \<open>The breaker: facts\<close>

lemma cb_keys_distinct [simp]: "cb_state_key d \<noteq> cb_key d" "cb_key d \<noteq> cb_state_key d"
  by (simp_all add: cb_key_def cb_state_key_def)

fun fail_times :: "'r redis \<Rightarrow> breaker_cfg \<Rightarrow> string \<Rightarrow> nat \<Rightarrow> 'r \<Rightarrow> bool list \<times> 'r" where
  "fail_times R cfg d 0 s = ([], s)"
| "fail_times R cfg d (Suc n) s =
     (let (bs, s') = fail_times R cfg d n s; (b, s'') = increment_circuit_breaker R cfg d s'
      in (bs @ [b], s''))"

lemma increment_effect:
  assumes laws: "redis_laws R view" and up: "redis_up R view" and ttl: "0 < cb_timeout_s cfg"
    and int: "int_at (view s) (cb_key d) = Some k"
  shows "\<exists>s'. increment_circuit_breaker R cfg d s
      = (k + 1 \<ge> cb_threshold cfg \<and> \<not> is_open_state (view s (cb_state_key d)), s')
    \<and> view s' = (if k + 1 \<ge> cb_threshold cfg
        then (view s)(cb_key d \<mapsto> RInt (k + 1), cb_state_key d \<mapsto> RStr ''open'')
        else (view s)(cb_key d \<mapsto> RInt (k + 1)))"
proof -
  obtain n s1 where 1: "r_incr R (cb_key d) s = (Some n, s1)" using r_incr_up [OF up int] by blast
  from r_incrD [OF laws 1] int have n: "n = k + 1" and v1: "view s1 = (view s)(cb_key d \<mapsto> RInt (k + 1))" by auto
  obtain s2 where 2: "r_expire R (cb_key d) (cb_timeout_s cfg * 2) s1 = (Some (), s2)"
    using r_expire_up [OF up] by blast
  have v2: "view s2 = view s1" using r_expireD [OF laws 2] ttl by simp
  show ?thesis
  proof (cases "n \<ge> cb_threshold cfg")
    case True
    obtain st s3 where 3: "r_get R (cb_state_key d) s2 = (Some st, s3)" using r_get_up [OF up] by blast
    from r_getD [OF laws 3] have st: "st = view s2 (cb_state_key d)" and v3: "view s3 = view s2" by auto
    obtain s4 where 4: "r_set R (cb_state_key d) (RStr ''open'') None s3 = (Some (), s4)"
      using r_set_up [OF up] by blast
    obtain s5 where 5: "r_expire R (cb_state_key d) (cb_timeout_s cfg * 2) s4 = (Some (), s5)"
      using r_expire_up [OF up] by blast
    have v5: "view s5 = (view s3)(cb_state_key d \<mapsto> RStr ''open'')"
      using r_expireD [OF laws 5] r_setD [OF laws 4] ttl by simp
    show ?thesis
      using True n st v1 v2 v3 v5
      by (simp add: increment_circuit_breaker_def try_or_def rbind_eq 1 2 3 4 5 rret_def)
  next
    case False
    then show ?thesis
      using n v1 v2 by (simp add: increment_circuit_breaker_def try_or_def rbind_eq 1 2 rret_def)
  qed
qed

lemma fail_times_effect:
  assumes laws: "redis_laws R view" and up: "redis_up R view" and ttl: "0 < cb_timeout_s cfg"
    and thr: "0 < cb_threshold cfg"
    and start: "view s (cb_key d) = None" "view s (cb_state_key d) = None"
  shows "\<exists>s'. fail_times R cfg d n s = (map (\<lambda>i. int (Suc i) = cb_threshold cfg) [0..<n], s')
    \<and> int_at (view s') (cb_key d) = Some (int n)
    \<and> (is_open_state (view s' (cb_state_key d)) \<longleftrightarrow> cb_threshold cfg \<le> int n)"
proof (induction n)
  case 0
  then show ?case using start thr by (simp add: int_at_def is_open_state_def)
next
  case (Suc n)
  then obtain s1 where s1: "fail_times R cfg d n s = (map (\<lambda>i. int (Suc i) = cb_threshold cfg) [0..<n], s1)"
    "int_at (view s1) (cb_key d) = Some (int n)"
    "is_open_state (view s1 (cb_state_key d)) \<longleftrightarrow> cb_threshold cfg \<le> int n" by blast
  from increment_effect [OF laws up ttl s1(2)] obtain s2 where s2:
    "increment_circuit_breaker R cfg d s1
      = (int n + 1 \<ge> cb_threshold cfg \<and> \<not> is_open_state (view s1 (cb_state_key d)), s2)"
    "view s2 = (if int n + 1 \<ge> cb_threshold cfg
        then (view s1)(cb_key d \<mapsto> RInt (int n + 1), cb_state_key d \<mapsto> RStr ''open'')
        else (view s1)(cb_key d \<mapsto> RInt (int n + 1)))" by blast
  have "int_at (view s2) (cb_key d) = Some (int (Suc n))" by (simp add: s2(2) int_at_def)
  moreover have "is_open_state (view s2 (cb_state_key d)) \<longleftrightarrow> cb_threshold cfg \<le> int (Suc n)"
    using s1(3) by (auto simp: s2(2) is_open_state_def)
  moreover have "(int n + 1 \<ge> cb_threshold cfg \<and> \<not> is_open_state (view s1 (cb_state_key d)))
      \<longleftrightarrow> int (Suc n) = cb_threshold cfg" using s1(3) by auto
  ultimately show ?case using s1(1) s2(1) by simp
qed

lemma is_circuit_open_effect:
  assumes "redis_laws R view" "redis_up R view"
  shows "\<exists>s'. is_circuit_open R d s = (is_open_state (view s (cb_state_key d)), s') \<and> view s' = view s"
proof -
  obtain v s' where g: "r_get R (cb_state_key d) s = (Some v, s')" using r_get_up [OF assms(2)] by blast
  with r_getD [OF assms(1) g] show ?thesis
    by (simp add: is_circuit_open_def try_or_def rbind_eq rret_def)
qed

lemma reset_effect:
  assumes "redis_laws R view" "redis_up R view"
  shows "\<exists>s'. reset_circuit_breaker R d s = (is_open_state (view s (cb_state_key d)), s')
    \<and> view s' = (view s)(cb_key d := None, cb_state_key d := None)"
proof -
  obtain v s1 where g: "r_get R (cb_state_key d) s = (Some v, s1)" using r_get_up [OF assms(2)] by blast
  obtain s2 where d1: "r_delete R (cb_key d) s1 = (Some (), s2)" using r_delete_up [OF assms(2)] by blast
  obtain s3 where d2: "r_delete R (cb_state_key d) s2 = (Some (), s3)" using r_delete_up [OF assms(2)] by blast
  from r_getD [OF assms(1) g] r_deleteD [OF assms(1) d1] r_deleteD [OF assms(1) d2] show ?thesis
    by (simp add: reset_circuit_breaker_def try_or_def rbind_eq g d1 d2 rret_def)
qed

section \<open>Properties\<close>


text \<open>A request and inputs for concrete instances.\<close>

definition example_request :: proxy_request where
  "example_request = \<lparr>rq_pool_id = None, rq_tenant_id = None, rq_domain = ''a.com'', rq_sticky_key = None,
     rq_sticky_ttl_s = 1800, rq_exclude_ids = [1], rq_country = None, rq_city = None, rq_proxy_type = None\<rparr>"

definition example_env :: pick_env where
  "example_env = \<lparr>pe_now = 0, pe_order = (\<lambda>_. 0), pe_random = 1 / 2\<rparr>"

lemma example_pick:
  "get_proxy fun_redis example_env example_request [new_proxy 1 9 ''u'', new_proxy 2 9 ''v''] (\<lambda>_. None)
     = (Some (new_proxy 2 9 ''v''), \<lambda>_. None)"
  by (simp add: get_proxy_def is_circuit_open_def try_or_def rbind_def rret_def fun_redis_def
      is_open_state_def example_request_def example_env_def eligible_proxies_def query_matches_def
      opt_matches_def effective_pool_def new_proxy_def is_on_cooldown_def choices_def choices_index_def
      Let_def sort_key_def insort_key.simps)


text \<open>
  Weighted selection: with the random number uniform in [0, 1), proxy number i of the eligible
  list is chosen exactly when the number, scaled by the total weight, falls into the i-th interval
  of the cumulative weights, an interval as long as the proxy's weight; every eligible proxy has a
  weight of at least 0.01, so each keeps a positive chance.
\<close>

lemma weighted_choice:
  assumes "i < length ps" "0 \<le> u" "u < 1"
  shows "(choices_index (map weight ps) u = i \<longleftrightarrow>
      sum_list (map weight (take i ps)) \<le> u * sum_list (map weight ps)
      \<and> u * sum_list (map weight ps) < sum_list (map weight (take i ps)) + weight (ps ! i))
    \<and> 1 / 100 \<le> weight (ps ! i)"
proof -
  have pos: "\<forall>w \<in> set (map weight ps). 0 < w" by (auto simp: weight_def WEIGHT_FLOOR_def)
  have "take (Suc i) ps = take i ps @ [ps ! i]" using assms(1) by (rule take_Suc_conv_app_nth)
  then show ?thesis
    using choices_index_iff [OF pos, of i u] assms by (simp add: take_map weight_def WEIGHT_FLOOR_def)
qed

lemma weighted_choice_witness:
  "choices_index (map weight [new_proxy 1 9 ''u'', new_proxy 2 9 ''v'']) (3 / 4) = 1"
  using weighted_choice [of 1 "[new_proxy 1 9 ''u'', new_proxy 2 9 ''v'']" "3 / 4"]
  by (simp add: weight_def WEIGHT_FLOOR_def new_proxy_def)

text \<open>
  C26. The circuit breaker: starting closed, n recorded failures of a domain leave the breaker open
  if and only if n has reached the threshold; exactly the failure that reaches it is reported as the
  transition; while it is open no proxy is handed out; and a success closes it again.
\<close>

theorem breaker_trips_at_threshold:
  assumes "redis_laws R view" "redis_up R view" "0 < cb_timeout_s cfg" "0 < cb_threshold cfg"
    "view s (cb_key d) = None" "view s (cb_state_key d) = None"
  shows "\<exists>s'. fail_times R cfg d n s = (map (\<lambda>i. int (Suc i) = cb_threshold cfg) [0..<n], s')
    \<and> (fst (is_circuit_open R d s') \<longleftrightarrow> cb_threshold cfg \<le> int n)
    \<and> (rq_domain rq = d \<and> cb_threshold cfg \<le> int n \<longrightarrow> fst (get_proxy R e rq tbl s') = None)
    \<and> \<not> fst (is_circuit_open R d (snd (reset_circuit_breaker R d s')))"
proof -
  from fail_times_effect [OF assms, of n] obtain s' where s':
    "fail_times R cfg d n s = (map (\<lambda>i. int (Suc i) = cb_threshold cfg) [0..<n], s')"
    "is_open_state (view s' (cb_state_key d)) \<longleftrightarrow> cb_threshold cfg \<le> int n" by blast
  from is_circuit_open_effect [OF assms(1,2), of d s'] obtain s1 where
    open1: "is_circuit_open R d s' = (cb_threshold cfg \<le> int n, s1)" using s'(2) by auto
  from reset_effect [OF assms(1,2), of d s'] obtain b s2 where
    reset: "reset_circuit_breaker R d s' = (b, s2)" "view s2 (cb_state_key d) = None" by auto
  from is_circuit_open_effect [OF assms(1,2), of d s2] reset(2) have
    "\<not> fst (is_circuit_open R d s2)" by (auto simp: is_open_state_def)
  with s'(1) open1 reset(1) show ?thesis by (auto simp: get_proxy_def)
qed

theorem breaker_trips_at_threshold_witness:
  "\<exists>s'. fail_times fun_redis default_breaker ''a.com'' 5 (\<lambda>_. None) = ([False, False, False, False, True], s')
    \<and> fst (is_circuit_open fun_redis ''a.com'' s')"
proof -
  have five: "[0..<5] = [0, 1, 2, 3, 4 :: nat]" by (simp add: upt_rec)
  show ?thesis
    using breaker_trips_at_threshold [OF fun_redis_laws fun_redis_up, of default_breaker "\<lambda>_. None" "''a.com''" 5
        example_request example_env "[]"]
    by (auto simp: default_breaker_def five)
qed

section \<open>Sticky sessions: facts\<close>

definition sticky_of :: "keyspace \<Rightarrow> string \<Rightarrow> string \<Rightarrow> uuid option" where
  "sticky_of m d k = (case m (sticky_redis_key d k) of Some (RStr t) \<Rightarrow> uuid_parse t | _ \<Rightarrow> None)"

lemma sticky_key_distinct [simp]: "cb_state_key d \<noteq> sticky_redis_key d' k" "sticky_redis_key d' k \<noteq> cb_state_key d"
  by (simp_all add: cb_state_key_def sticky_redis_key_def)

lemma get_sticky_effect:
  assumes "redis_laws R view" "redis_up R view"
  shows "\<exists>s'. get_sticky R d k s = (sticky_of (view s) d k, s') \<and> view s' = view s"
proof -
  obtain v s' where g: "r_get R (sticky_redis_key d k) s = (Some v, s')" using r_get_up [OF assms(2)] by blast
  with r_getD [OF assms(1) g] show ?thesis
    by (simp add: get_sticky_def sticky_of_def try_or_def rbind_eq rret_def)
qed

lemma set_sticky_effect:
  assumes "redis_laws R view" "redis_up R view"
  shows "sticky_of (view (set_sticky R d k i ttl s)) d k = Some i
    \<and> view (set_sticky R d k i ttl s) (cb_state_key d) = view s (cb_state_key d)"
proof -
  obtain s' where g: "r_set R (sticky_redis_key d k) (RStr (uuid_str i)) (Some ttl) s = (Some (), s')"
    using r_set_up [OF assms(2)] by blast
  with r_setD [OF assms(1) g] show ?thesis by (simp add: set_sticky_def sticky_of_def)
qed

lemma delete_sticky_effect:
  assumes "redis_laws R view" "redis_up R view"
  shows "view (delete_sticky R d k s) (cb_state_key d) = view s (cb_state_key d)"
proof -
  obtain s' where g: "r_delete R (sticky_redis_key d k) s = (Some (), s')"
    using r_delete_up [OF assms(2)] by blast
  with r_deleteD [OF assms(1) g] show ?thesis by (simp add: delete_sticky_def)
qed

lemma get_proxy_pins:
  assumes laws: "redis_laws R view" "redis_up R view" and k: "rq_sticky_key rq = Some k"
    and got: "get_proxy R e rq tbl s = (Some p, s1)"
  shows "sticky_of (view s1) (rq_domain rq) k = Some (px_id p)
    \<and> \<not> is_open_state (view s1 (cb_state_key (rq_domain rq)))"
proof -
  let ?d = "rq_domain rq"
  obtain sa where a: "is_circuit_open R ?d s = (is_open_state (view s (cb_state_key ?d)), sa)" "view sa = view s"
    using is_circuit_open_effect [OF laws] by blast
  obtain sb where b: "get_sticky R ?d k sa = (sticky_of (view s) ?d k, sb)" "view sb = view s"
    using get_sticky_effect [OF laws, of ?d k sa] a(2) by auto
  have closed: "\<not> is_open_state (view s (cb_state_key ?d))"
    using got by (auto simp: get_proxy_def a split: if_splits)
  note set = set_sticky_effect [OF laws] and del = delete_sticky_effect [OF laws]
  show ?thesis
    using got closed b(2)
    by (auto simp: get_proxy_def a b(1) k Let_def set del dest: get_by_SomeD split: option.splits if_splits)
qed

text \<open>
  Sticky sessions: after a proxy was handed out for a sticky key, the next request of the same
  domain and key gets that proxy again, as it now stands in the table, as long as it is active, off
  cooldown and not excluded. Its country, pool and type are not compared with the new request's
  filters, so a request for another proxy type still gets the pinned proxy.
\<close>

lemma sticky_session_kept:
  assumes "redis_laws R view" "redis_up R view"
    "get_proxy R e rq tbl s = (Some p, s1)" "rq_sticky_key rq = Some k"
    "rq_sticky_key rq' = Some k" "rq_domain rq' = rq_domain rq"
    "get_by px_id (px_id p) tbl' = Some p'" "px_is_active p'" "\<not> is_on_cooldown (pe_now e') p'"
    "px_id p \<notin> set (rq_exclude_ids rq')"
  shows "fst (get_proxy R e' rq' tbl' s1) = Some p'"
proof -
  let ?d = "rq_domain rq"
  have pin: "sticky_of (view s1) ?d k = Some (px_id p)" "\<not> is_open_state (view s1 (cb_state_key ?d))"
    using get_proxy_pins [OF assms(1,2,4,3)] by auto
  obtain sa where a: "is_circuit_open R ?d s1 = (False, sa)" "view sa = view s1"
    using is_circuit_open_effect [OF assms(1,2), of ?d s1] pin(2) by auto
  obtain sb where b: "get_sticky R ?d k sa = (Some (px_id p), sb)"
    using get_sticky_effect [OF assms(1,2), of ?d k sa] a(2) pin(1) by auto
  show ?thesis using assms(5-10) by (simp add: get_proxy_def a b)
qed

lemma sticky_session_kept_witness:
  "\<exists>s1. fst (get_proxy fun_redis example_env
      (example_request\<lparr>rq_sticky_key := Some ''k'', rq_proxy_type := Some ''residential''\<rparr>)
      [new_proxy 1 9 ''u'', new_proxy 2 9 ''v''] s1) = Some (new_proxy 2 9 ''v'')"
proof -
  let ?rq = "example_request\<lparr>rq_sticky_key := Some ''k''\<rparr>"
  let ?tbl = "[new_proxy 1 9 ''u'', new_proxy 2 9 ''v'']"
  have "fst (get_proxy fun_redis example_env ?rq ?tbl (\<lambda>_. None)) = Some (new_proxy 2 9 ''v'')"
    by (simp add: get_proxy_def is_circuit_open_def try_or_def rbind_def rret_def fun_redis_def
      is_open_state_def example_request_def example_env_def eligible_proxies_def query_matches_def
      opt_matches_def effective_pool_def new_proxy_def is_on_cooldown_def choices_def choices_index_def
      Let_def sort_key_def get_sticky_def)
  then obtain s1 where "get_proxy fun_redis example_env ?rq ?tbl (\<lambda>_. None) = (Some (new_proxy 2 9 ''v''), s1)"
    by (metis prod.collapse)
  then have "fst (get_proxy fun_redis example_env (?rq\<lparr>rq_proxy_type := Some ''residential''\<rparr>) ?tbl s1)
      = Some (new_proxy 2 9 ''v'')"
    by (rule sticky_session_kept [OF fun_redis_laws fun_redis_up, where k = "''k''"])
      (simp_all add: example_request_def example_env_def get_by_def new_proxy_def is_on_cooldown_def)
  then show ?thesis by auto
qed

end
