(* ===== verification/Fetch_Retry.thy ===== *)
theory Fetch_Retry
  imports Escalation Proxy_Manager Policy_Resolver
begin

text \<open>
  \<^verbatim>\<open>app/services/fetchers/base.py\<close>: the retry loop with proxy selection, tier escalation and
  backoff, with \<^verbatim>\<open>headers.py\<close> and the fetcher factory of \<^verbatim>\<open>fetchers/__init__.py\<close>.

  The loop's collaborators are a record of operations on a world \<open>'w\<close>: the proxy manager's two
  operations, the network fetch of an engine, the sleep and the random source. Each may raise.
  The loop is a recursion on the number of attempts left. Beside its result it returns the list of
  the attempts it made, which the program counts in its metric of attempts by tier.
\<close>

section \<open>Headers\<close>

definition UA_PROFILES :: "headers" where
  "UA_PROFILES =
    [(''chrome_win'', ''Mozilla/5.0 (Windows NT 10.0; Win64; x64) AppleWebKit/537.36 (KHTML, like Gecko) Chrome/125.0.0.0 Safari/537.36''),
     (''chrome_mac'', ''Mozilla/5.0 (Macintosh; Intel Mac OS X 10_15_7) AppleWebKit/537.36 (KHTML, like Gecko) Chrome/125.0.0.0 Safari/537.36''),
     (''firefox_win'', ''Mozilla/5.0 (Windows NT 10.0; Win64; x64; rv:126.0) Gecko/20100101 Firefox/126.0''),
     (''chrome_mobile'', ''Mozilla/5.0 (Linux; Android 13; Pixel 7) AppleWebKit/537.36 (KHTML, like Gecko) Chrome/125.0.0.0 Mobile Safari/537.36'')]"

definition BASE_HEADERS :: headers where
  "BASE_HEADERS =
    [(''Accept'', ''text/html,application/xhtml+xml,application/xml;q=0.9,*/*;q=0.8''),
     (''Accept-Language'', ''en-US,en;q=0.9''),
     (''Accept-Encoding'', ''gzip, deflate, br''),
     (''Connection'', ''keep-alive''),
     (''Upgrade-Insecure-Requests'', ''1'')]"

text \<open>\<^verbatim>\<open>d[k] = v\<close>: an existing key keeps its place.\<close>

fun dict_set :: "string \<Rightarrow> 'v \<Rightarrow> (string \<times> 'v) list \<Rightarrow> (string \<times> 'v) list" where
  "dict_set k v [] = [(k, v)]"
| "dict_set k v ((k', v') # d) = (if k' = k then (k, v) # d else (k', v') # dict_set k v d)"

definition dict_update :: "(string \<times> 'v) list \<Rightarrow> (string \<times> 'v) list \<Rightarrow> (string \<times> 'v) list" where
  "dict_update d new = fold (\<lambda>(k, v). dict_set k v) new d"

lemma map_of_dict_set: "map_of (dict_set k v d) k' = (if k' = k then Some v else map_of d k')"
  by (induction k v d rule: dict_set.induct) auto

lemma keys_dict_set: "fst ` set (dict_set k v d) = insert k (fst ` set d)"
  by (induction k v d rule: dict_set.induct) auto

lemma distinct_dict_set: "distinct (map fst d) \<Longrightarrow> distinct (map fst (dict_set k v d))"
proof (induction k v d rule: dict_set.induct)
  case (2 k v k' v' d)
  then show ?case by (auto simp: keys_dict_set)
qed simp

lemma map_of_dict_update:
  "map_of (dict_update d new) k = (case dict_get new k of Some v \<Rightarrow> Some v | None \<Rightarrow> map_of d k)"
  unfolding dict_update_def dict_get_def
  by (induction new arbitrary: d) (auto simp: map_of_dict_set map_add_def split: option.splits prod.splits)

lemma distinct_dict_update: "distinct (map fst d) \<Longrightarrow> distinct (map fst (dict_update d new))"
  by (induction new rule: rev_induct) (auto simp: dict_update_def distinct_dict_set)

text \<open>\<^verbatim>\<open>random.choice\<close> of a list for a random number in [0, 1).\<close>

definition random_choice :: "real \<Rightarrow> 'a list \<Rightarrow> 'a" where
  "random_choice u xs = xs ! min (length xs - 1) (nat \<lfloor>u * real (length xs)\<rfloor>)"

definition random_ua :: "real \<Rightarrow> string" where
  "random_ua u = random_choice u (map snd UA_PROFILES)"

definition headers_for_domain :: "real \<Rightarrow> DomainPolicy option \<Rightarrow> headers" where
  "headers_for_domain u policy =
     (let profile = (case policy of None \<Rightarrow> [] | Some p \<Rightarrow>
                       (case dp_header_profile p of None \<Rightarrow> [] | Some h \<Rightarrow> h));
          ua = (case map_of profile ''User-Agent'' of Some v \<Rightarrow> v | None \<Rightarrow> random_ua u)
      in dict_update (dict_set ''User-Agent'' ua BASE_HEADERS) profile)"

section \<open>Delays and fetchers\<close>

text \<open>\<^verbatim>\<open>getattr(policy, name, None) or default\<close> for a number: zero counts as unset.\<close>

definition or_default :: "int option \<Rightarrow> int \<Rightarrow> int" where
  "or_default v d = (case v of None \<Rightarrow> d | Some n \<Rightarrow> if n = 0 then d else n)"

text \<open>\<^verbatim>\<open>random.uniform(a, b)\<close> is \<^verbatim>\<open>a + (b - a) * random()\<close>.\<close>

definition jittered_delay :: "real \<Rightarrow> DomainPolicy option \<Rightarrow> real" where
  "jittered_delay u policy =
     (let min_ms = or_default (map_option dp_min_delay_ms policy) 500;
          max_ms = or_default (map_option dp_max_delay_ms policy) 2000
      in (real_of_int min_ms + (real_of_int max_ms - real_of_int min_ms) * u) / 1000)"

definition normalize_domain_from_url :: "(string \<Rightarrow> string) \<Rightarrow> string \<Rightarrow> url_error + string" where
  "normalize_domain_from_url rd url =
     (case urlparse url of
        Inl e \<Rightarrow> Inl e
      | Inr p \<Rightarrow> Inr (normalize_domain rd (case pu_hostname p of None \<Rightarrow> url | Some h \<Rightarrow> h)))"

text \<open>
  A fetcher: the engine it drives, and the \<^verbatim>\<open>_engine_name\<close> attribute that the loop looks for. No
  fetcher class defines that attribute.
\<close>

record fetcher =
  f_engine :: string
  f_engine_name :: "string option"

definition get_fetcher :: "string \<Rightarrow> exn + fetcher" where
  "get_fetcher engine =
     (if engine \<in> {''httpx'', ''curl_cffi'', ''playwright'', ''camoufox''}
      then Inr \<lparr>f_engine = engine, f_engine_name = None\<rparr>
      else Inl (OtherError (''Unknown engine: '' @ sq engine)))"

section \<open>The state of the loop\<close>

record 'w services =
  sv_manager :: bool
  sv_get_proxy :: "proxy_request \<Rightarrow> 'w \<Rightarrow> (exn + Proxy option) \<times> 'w"
  sv_report :: "uuid \<Rightarrow> string \<Rightarrow> bool \<Rightarrow> string option \<Rightarrow> 'w \<Rightarrow> (exn + unit) \<times> 'w"
  sv_fetch :: "string \<Rightarrow> string \<Rightarrow> Proxy option \<Rightarrow> headers \<Rightarrow> 'w \<Rightarrow> (exn + FetchResult) \<times> 'w"
  sv_sleep :: "real \<Rightarrow> 'w \<Rightarrow> (exn + unit) \<times> 'w"
  sv_random :: "'w \<Rightarrow> real \<times> 'w"

record fetch_cfg =
  c_url :: string
  c_domain :: string
  c_policy :: "DomainPolicy option"
  c_sticky_key :: "string option"
  c_trace_id :: "string option"
  c_use_proxy :: "bool option"
  c_country :: "string option"
  c_city :: "string option"
  c_proxy_type :: "string option"
  c_requested_engine :: "string option"
  c_max_tier :: int
  c_max_attempts :: int
  c_attempts_per_tier :: int

record loop_state =
  ls_tier :: int
  ls_attempts_at_tier :: int
  ls_fetcher :: "fetcher option"
  ls_last_result :: "FetchResult option"
  ls_last_error :: "exn option"
  ls_failed :: "uuid list"
  ls_total :: int

text \<open>One attempt: its tier, engine and proxy settings, and the proxy of the fetch if one was made.\<close>

record attempt_log =
  at_tier :: int
  at_engine :: string
  at_use_proxy :: bool
  at_proxy_type :: "string option"
  at_fetch :: "Proxy option option"

datatype action = Return FetchResult | Next

section \<open>One iteration\<close>

definition tier_use_proxy :: "fetch_cfg \<Rightarrow> bool \<Rightarrow> Tier \<Rightarrow> bool" where
  "tier_use_proxy cfg bypassed t =
     (case c_use_proxy cfg of
        Some b \<Rightarrow> b
      | None \<Rightarrow>
          if bypassed then False
          else if t_use_proxy t then True
          else (case c_policy cfg of Some p \<Rightarrow> dp_use_proxy p | None \<Rightarrow> False))"

definition tier_proxy_type :: "fetch_cfg \<Rightarrow> bool \<Rightarrow> Tier \<Rightarrow> string option" where
  "tier_proxy_type cfg bypassed t =
     (case c_proxy_type cfg of
        Some x \<Rightarrow> Some x
      | None \<Rightarrow>
          if bypassed then None
          else (case t_proxy_type t of
                  Some x \<Rightarrow> Some x
                | None \<Rightarrow> (case c_policy cfg of Some p \<Rightarrow> dp_proxy_type p | None \<Rightarrow> None)))"

text \<open>\<^verbatim>\<open>x or 'ANY'\<close>.\<close>

definition or_any :: "string option \<Rightarrow> string" where
  "or_any x = (case x of None \<Rightarrow> ''ANY'' | Some s \<Rightarrow> if s = [] then ''ANY'' else s)"

definition exhausted_msg :: "fetch_cfg \<Rightarrow> string" where
  "exhausted_msg cfg = ''PROXY_POOL_EXHAUSTED: all eligible '' @ or_any (c_country cfg)
     @ (case c_city cfg of None \<Rightarrow> [] | Some s \<Rightarrow> if s = [] then [] else ''/'' @ s)
     @ '' proxies were blocked or unhealthy for domain='' @ c_domain cfg"

definition pool_empty_msg :: "fetch_cfg \<Rightarrow> string" where
  "pool_empty_msg cfg = ''PROXY_POOL_EMPTY: no healthy proxy for domain='' @ c_domain cfg
     @ '', country='' @ or_any (c_country cfg) @ '', city='' @ or_any (c_city cfg)"

definition pick_request :: "fetch_cfg \<Rightarrow> loop_state \<Rightarrow> string option \<Rightarrow> proxy_request" where
  "pick_request cfg st ptype =
     \<lparr>rq_pool_id = (case c_policy cfg of None \<Rightarrow> None | Some p \<Rightarrow> dp_proxy_pool_id p),
      rq_tenant_id = None, rq_domain = c_domain cfg,
      rq_sticky_key = (if ls_total st = 1 then c_sticky_key cfg else None),
      rq_sticky_ttl_s = 1800, rq_exclude_ids = ls_failed st,
      rq_country = c_country cfg, rq_city = c_city cfg, rq_proxy_type = ptype\<rparr>"

definition pick_phase ::
  "fetch_cfg \<Rightarrow> 'w services \<Rightarrow> bool \<Rightarrow> string option \<Rightarrow> loop_state \<Rightarrow> 'w \<Rightarrow> (exn + Proxy option) \<times> 'w" where
  "pick_phase cfg sv use_p ptype st w =
     (if use_p \<and> sv_manager sv
      then (case sv_get_proxy sv (pick_request cfg st ptype) w of
              (Inl e, w') \<Rightarrow> (Inl e, w')
            | (Inr (Some p), w') \<Rightarrow> (Inr (Some p), w')
            | (Inr None, w') \<Rightarrow>
                (Inl (if ls_failed st \<noteq> [] then PoolExhausted (exhausted_msg cfg)
                      else PoolUnavailable (pool_empty_msg cfg)), w'))
      else (Inr None, w))"

text \<open>Reporting needs a manager and a proxy.\<close>

definition report_if ::
  "fetch_cfg \<Rightarrow> 'w services \<Rightarrow> Proxy option \<Rightarrow> bool \<Rightarrow> string option \<Rightarrow> 'w \<Rightarrow> (exn + unit) \<times> 'w" where
  "report_if cfg sv proxy success reason w =
     (case proxy of
        Some p \<Rightarrow> if sv_manager sv then sv_report sv (px_id p) (c_domain cfg) success reason w else (Inr (), w)
      | None \<Rightarrow> (Inr (), w))"

definition add_failed :: "'w services \<Rightarrow> Proxy option \<Rightarrow> loop_state \<Rightarrow> loop_state" where
  "add_failed sv proxy st =
     (case proxy of
        Some p \<Rightarrow> if sv_manager sv then st\<lparr>ls_failed := px_id p # ls_failed st\<rparr> else st
      | None \<Rightarrow> st)"

definition sleep_phase :: "fetch_cfg \<Rightarrow> 'w services \<Rightarrow> 'w \<Rightarrow> (exn + unit) \<times> 'w" where
  "sleep_phase cfg sv w =
     (let (u, w') = sv_random sv w in sv_sleep sv (jittered_delay u (c_policy cfg)) w')"

text \<open>\<^verbatim>\<open>result.block_reason or "http_error"\<close>.\<close>

definition reason_or_http_error :: "FetchResult \<Rightarrow> string" where
  "reason_or_http_error r =
     (case fr_block_reason r of None \<Rightarrow> ''http_error'' | Some s \<Rightarrow> if s = [] then ''http_error'' else s)"

definition bump :: "int \<Rightarrow> loop_state \<Rightarrow> loop_state" where
  "bump nxt st = st\<lparr>ls_tier := nxt, ls_attempts_at_tier := 0, ls_fetcher := None\<rparr>"

text \<open>What a blocked result leads to, after the proxy was reported.\<close>

definition after_block ::
  "fetch_cfg \<Rightarrow> 'w services \<Rightarrow> Proxy option \<Rightarrow> FetchResult \<Rightarrow> loop_state \<Rightarrow> 'w
   \<Rightarrow> (exn + action) \<times> loop_state \<times> 'w" where
  "after_block cfg sv proxy result st w =
     (if ls_attempts_at_tier st \<ge> c_attempts_per_tier cfg \<and> is_escalatable (fr_block_reason result)
      then (case next_tier (ls_tier st) of
              None \<Rightarrow> (Inr (Return (result\<lparr>fr_tier_used := ls_tier st\<rparr>)), st, w)
            | Some nxt \<Rightarrow>
                if nxt > c_max_tier cfg
                then (Inr (Return (result\<lparr>fr_tier_used := ls_tier st\<rparr>)), st, w)
                else (Inr Next, (bump nxt st)\<lparr>ls_failed := []\<rparr>, w))
      else if proxy = None \<and> c_use_proxy cfg \<noteq> Some True
      then (case next_tier (ls_tier st) of
              Some nxt \<Rightarrow>
                if nxt \<le> c_max_tier cfg then (Inr Next, bump nxt st, w)
                else (Inr (Return result), st, w)
            | None \<Rightarrow> (Inr (Return result), st, w))
      else if ls_total st < c_max_attempts cfg
      then (case sleep_phase cfg sv w of
              (Inl e, w') \<Rightarrow> (Inl e, st, w')
            | (Inr _, w') \<Rightarrow> (Inr Next, st, w'))
      else (Inr (Return result), st, w))"

definition blocked_phase ::
  "fetch_cfg \<Rightarrow> 'w services \<Rightarrow> Proxy option \<Rightarrow> FetchResult \<Rightarrow> loop_state \<Rightarrow> 'w
   \<Rightarrow> (exn + action) \<times> loop_state \<times> 'w" where
  "blocked_phase cfg sv proxy result st w =
     (let st = st\<lparr>ls_last_result := Some result, ls_attempts_at_tier := ls_attempts_at_tier st + 1\<rparr>
      in case report_if cfg sv proxy False (Some (reason_or_http_error result)) w of
           (Inl e, w') \<Rightarrow> (Inl e, st, w')
         | (Inr _, w') \<Rightarrow> after_block cfg sv proxy result (add_failed sv proxy st) w')"

text \<open>The body of the try block after the proxy was picked.\<close>

definition fetch_phase ::
  "fetch_cfg \<Rightarrow> 'w services \<Rightarrow> string \<Rightarrow> Proxy option \<Rightarrow> loop_state \<Rightarrow> 'w
   \<Rightarrow> (exn + action) \<times> loop_state \<times> 'w" where
  "fetch_phase cfg sv engine proxy st w =
     (let (u, w1) = sv_random sv w
      in case sv_fetch sv engine (c_url cfg) proxy (headers_for_domain u (c_policy cfg)) w1 of
           (Inl e, w2) \<Rightarrow> (Inl e, st, w2)
         | (Inr r, w2) \<Rightarrow>
             (let result = r\<lparr>fr_retries_used := ls_total st - 1, fr_trace_id := c_trace_id cfg,
                             fr_tier_used := ls_tier st\<rparr>
              in if fr_blocked result then blocked_phase cfg sv proxy result st w2
                 else (case report_if cfg sv proxy True None w2 of
                         (Inl e, w3) \<Rightarrow> (Inl e, st, w3)
                       | (Inr _, w3) \<Rightarrow> (Inr (Return result), st, w3))))"

text \<open>The except clauses. Cancellation is not an \<^verbatim>\<open>Exception\<close> and passes through.\<close>

definition handle_exn ::
  "fetch_cfg \<Rightarrow> 'w services \<Rightarrow> Proxy option \<Rightarrow> exn \<Rightarrow> loop_state \<Rightarrow> 'w \<Rightarrow> (exn + action) \<times> loop_state \<times> 'w" where
  "handle_exn cfg sv proxy e st w =
     (case e of
        PoolUnavailable m \<Rightarrow> (Inl e, st, w)
      | PoolExhausted m \<Rightarrow> (Inl e, st, w)
      | CancelledError \<Rightarrow> (Inl e, st, w)
      | FetchError m \<Rightarrow>
          (let st = st\<lparr>ls_last_error := Some e\<rparr>
           in case report_if cfg sv proxy False (Some ''http_error'') w of
                (Inl e', w') \<Rightarrow> (Inl e', st, w')
              | (Inr _, w') \<Rightarrow>
                  (let st = add_failed sv proxy st
                   in if ls_total st < c_max_attempts cfg
                      then (case sleep_phase cfg sv w' of
                              (Inl e', w'') \<Rightarrow> (Inl e', st, w'')
                            | (Inr _, w'') \<Rightarrow> (Inr Next, st, w''))
                      else (Inl e, st, w')))
      | OtherError m \<Rightarrow>
          (let st = add_failed sv proxy (st\<lparr>ls_last_error := Some e\<rparr>)
           in if ls_total st < c_max_attempts cfg
              then (case sleep_phase cfg sv w of
                      (Inl e', w'') \<Rightarrow> (Inl e', st, w'')
                    | (Inr _, w'') \<Rightarrow> (Inr Next, st, w''))
              else (Inl (FetchError (exn_str e)), st, w)))"

definition renew_fetcher :: "loop_state \<Rightarrow> Tier \<Rightarrow> exn + fetcher" where
  "renew_fetcher st t =
     (case ls_fetcher st of
        Some f \<Rightarrow> if f_engine_name f \<noteq> Some (t_engine t) then get_fetcher (t_engine t) else Inr f
      | None \<Rightarrow> get_fetcher (t_engine t))"

definition attempt ::
  "fetch_cfg \<Rightarrow> 'w services \<Rightarrow> bool \<Rightarrow> Tier \<Rightarrow> fetcher \<Rightarrow> loop_state \<Rightarrow> 'w
   \<Rightarrow> (exn + action) \<times> loop_state \<times> attempt_log \<times> 'w" where
  "attempt cfg sv bypassed t f st w =
     (let use_p = tier_use_proxy cfg bypassed t;
          ptype = tier_proxy_type cfg bypassed t;
          log = (\<lambda>x. \<lparr>at_tier = ls_tier st, at_engine = f_engine f, at_use_proxy = use_p,
                       at_proxy_type = ptype, at_fetch = x\<rparr>)
      in case pick_phase cfg sv use_p ptype st w of
           (Inl e, w1) \<Rightarrow>
             (let (r, st', w2) = handle_exn cfg sv None e st w1 in (r, st', log None, w2))
         | (Inr proxy, w1) \<Rightarrow>
             (case fetch_phase cfg sv (f_engine f) proxy st w1 of
                (Inl e, st', w2) \<Rightarrow>
                  (let (r, st'', w3) = handle_exn cfg sv proxy e st' w2 in (r, st'', log (Some proxy), w3))
              | (Inr a, st', w2) \<Rightarrow> (Inr a, st', log (Some proxy), w2)))"

section \<open>The loop\<close>

text \<open>\<^verbatim>\<open>str(last_error)\<close>.\<close>

definition err_str :: "exn option \<Rightarrow> string" where
  "err_str e = (case e of None \<Rightarrow> ''None'' | Some x \<Rightarrow> exn_str x)"

definition index_error :: exn where
  "index_error = OtherError ''list index out of range''"

text \<open>
  The premium gate at the head of an iteration: \<open>Some b\<close> goes on (\<open>b\<close>: the gate was bypassed for
  the requested engine), \<^const>\<open>None\<close> stops the loop.
\<close>

definition premium_gate :: "fetch_cfg \<Rightarrow> loop_state \<Rightarrow> bool option" where
  "premium_gate cfg st =
     (if ls_tier st > c_max_tier cfg
      then (case (c_requested_engine cfg, py_index LADDER (ls_tier st)) of
              (Some e, Some t) \<Rightarrow> if t_engine t = e then Some True else None
            | _ \<Rightarrow> None)
      else Some False)"

fun retry_loop ::
  "fetch_cfg \<Rightarrow> 'w services \<Rightarrow> nat \<Rightarrow> loop_state \<Rightarrow> 'w \<Rightarrow> (exn + FetchResult) \<times> attempt_log list \<times> 'w" where
  "retry_loop cfg sv 0 st w = (Inl (FetchError (err_str (ls_last_error st))), [], w)"
| "retry_loop cfg sv (Suc n) st w =
     (case premium_gate cfg st of
        None \<Rightarrow>
          (case ls_last_result st of
             Some r \<Rightarrow> (Inr r, [], w)
           | None \<Rightarrow> (Inl (FetchError (err_str (ls_last_error st))), [], w))
      | Some bypassed \<Rightarrow>
          (case py_index LADDER (ls_tier st) of
             None \<Rightarrow> (Inl index_error, [], w)
           | Some t \<Rightarrow>
               (case renew_fetcher st t of
                  Inl e \<Rightarrow> (Inl e, [], w)
                | Inr f \<Rightarrow>
                    (case attempt cfg sv bypassed t f
                            (st\<lparr>ls_fetcher := Some f, ls_total := ls_total st + 1\<rparr>) w of
                       (Inl e, st', a, w') \<Rightarrow> (Inl e, [a], w')
                     | (Inr (Return r), st', a, w') \<Rightarrow> (Inr r, [a], w')
                     | (Inr Next, st', a, w') \<Rightarrow>
                         (let (res, as, w'') = retry_loop cfg sv n st' w' in (res, a # as, w''))))))"

text \<open>The arguments of a call; a missing value is None.\<close>

record fetch_args =
  fa_url :: string
  fa_policy :: "DomainPolicy option"
  fa_sticky_key :: "string option"
  fa_trace_id :: "string option"
  fa_use_proxy :: "bool option"
  fa_proxy_country :: "string option"
  fa_proxy_city :: "string option"
  fa_proxy_type :: "string option"
  fa_requested_engine :: "string option"

definition max_attempts_of :: "DomainPolicy option \<Rightarrow> int" where
  "max_attempts_of policy = or_default (map_option dp_max_escalation_attempts policy) 12"

definition attempts_per_tier_of :: "DomainPolicy option \<Rightarrow> int" where
  "attempts_per_tier_of policy =
     (case policy of
        Some p \<Rightarrow> if dp_max_retries p > 0 then dp_max_retries p else MAX_ATTEMPTS_PER_TIER
      | None \<Rightarrow> MAX_ATTEMPTS_PER_TIER)"

definition effective_country :: "fetch_args \<Rightarrow> string option" where
  "effective_country a =
     map_option (\<lambda>c. upper (strip c))
       (case fa_proxy_country a of
          Some c \<Rightarrow> Some c
        | None \<Rightarrow> (case fa_policy a of Some p \<Rightarrow> dp_proxy_country p | None \<Rightarrow> None))"

text \<open>A requested engine that is not on the ladder ends in StopIteration inside a coroutine.\<close>

definition start_tier :: "fetch_args \<Rightarrow> int \<Rightarrow> exn + int" where
  "start_tier a max_tier =
     (case fa_requested_engine a of
        Some e \<Rightarrow> of_option (OtherError ''coroutine raised StopIteration'')
                    (first_index (\<lambda>t. t_engine t = e) LADDER)
      | None \<Rightarrow> Inr (min (initial_tier (fa_policy a)) max_tier))"

definition make_cfg :: "fetch_args \<Rightarrow> string \<Rightarrow> bool \<Rightarrow> fetch_cfg" where
  "make_cfg a domain enable_premium =
     \<lparr>c_url = fa_url a, c_domain = domain, c_policy = fa_policy a, c_sticky_key = fa_sticky_key a,
      c_trace_id = fa_trace_id a, c_use_proxy = fa_use_proxy a, c_country = effective_country a,
      c_city = map_option strip (fa_proxy_city a), c_proxy_type = fa_proxy_type a,
      c_requested_engine = fa_requested_engine a, c_max_tier = effective_max_tier enable_premium,
      c_max_attempts = max_attempts_of (fa_policy a),
      c_attempts_per_tier = attempts_per_tier_of (fa_policy a)\<rparr>"

definition fetch_with_retry ::
  "(string \<Rightarrow> string) \<Rightarrow> bool \<Rightarrow> 'w services \<Rightarrow> fetcher \<Rightarrow> fetch_args \<Rightarrow> 'w
   \<Rightarrow> (exn + FetchResult) \<times> attempt_log list \<times> 'w" where
  "fetch_with_retry rd enable_premium sv f a w =
     (case normalize_domain_from_url rd (fa_url a) of
        Inl _ \<Rightarrow> (Inl (OtherError ''ValueError''), [], w)
      | Inr domain \<Rightarrow>
          (let cfg = make_cfg a domain enable_premium
           in case start_tier a (c_max_tier cfg) of
                Inl e \<Rightarrow> (Inl e, [], w)
              | Inr t \<Rightarrow>
                  retry_loop cfg sv (nat (c_max_attempts cfg))
                    \<lparr>ls_tier = t, ls_attempts_at_tier = 0, ls_fetcher = Some f, ls_last_result = None,
                     ls_last_error = None, ls_failed = [], ls_total = 0\<rparr> w))"

end
