(* ===== verification/Job_Service.thy ===== *)
theory Job_Service
  imports Rate_Limiter Datetime Auth Fetch_Retry
begin

text \<open>
  Fetch jobs as the API sees them: \<^verbatim>\<open>app/services/job_service.py\<close> (enqueue, status, result,
  idempotency), the status writes of the worker (\<^verbatim>\<open>_set_status\<close> and \<^verbatim>\<open>_set_error\<close> of
  \<^verbatim>\<open>app/worker/tasks/fetch_task.py\<close>), the endpoints of \<^verbatim>\<open>app/api/v1/endpoints/jobs.py\<close>.

  The state is a pair: the Redis service and the arq queue. arq is a parameter like Redis, a record
  of commands with its documented effect on the list of tasks that wait (\<open>arq_laws\<close>). The clock,
  generated identifiers and what other processes do while a request sleeps are arguments.
\<close>

section \<open>Computations that raise and change a state\<close>

type_synonym ('s, 'e, 'a) eff = "'s \<Rightarrow> ('e + 'a) \<times> 's"

definition sret :: "'a \<Rightarrow> ('s, 'e, 'a) eff" where
  "sret x s = (Inr x, s)"

definition sraise :: "'e \<Rightarrow> ('s, 'e, 'a) eff" where
  "sraise e s = (Inl e, s)"

definition sbind :: "('s, 'e, 'a) eff \<Rightarrow> ('a \<Rightarrow> ('s, 'e, 'b) eff) \<Rightarrow> ('s, 'e, 'b) eff" where
  "sbind m f s = (case m s of (Inl e, s') \<Rightarrow> (Inl e, s') | (Inr x, s') \<Rightarrow> f x s')"

definition of_sum :: "'e + 'a \<Rightarrow> ('s, 'e, 'a) eff" where
  "of_sum r s = (r, s)"

text \<open>A command on one half of the state; \<open>e\<close> is the exception of a command that fails.\<close>

definition on_redis :: "'e \<Rightarrow> ('r \<Rightarrow> 'a option \<times> 'r) \<Rightarrow> ('r \<times> 'q, 'e, 'a) eff" where
  "on_redis e m = (\<lambda>(r, q). case m r of (None, r') \<Rightarrow> (Inl e, (r', q)) | (Some x, r') \<Rightarrow> (Inr x, (r', q)))"

definition on_queue :: "'e \<Rightarrow> ('q \<Rightarrow> 'a option \<times> 'q) \<Rightarrow> ('r \<times> 'q, 'e, 'a) eff" where
  "on_queue e m = (\<lambda>(r, q). case m q of (None, q') \<Rightarrow> (Inl e, (r, q')) | (Some x, q') \<Rightarrow> (Inr x, (r, q')))"

section \<open>Data\<close>

datatype JobStatus = PENDING | RUNNING | COMPLETED | FAILED

fun js_value :: "JobStatus \<Rightarrow> string" where
  "js_value PENDING = ''pending''"
| "js_value RUNNING = ''running''"
| "js_value COMPLETED = ''completed''"
| "js_value FAILED = ''failed''"

text \<open>\<^verbatim>\<open>JobStatus(v)\<close>; \<^const>\<open>None\<close> is ValueError.\<close>

definition js_of_str :: "string \<Rightarrow> JobStatus option" where
  "js_of_str v = find (\<lambda>s. js_value s = v) [PENDING, RUNNING, COMPLETED, FAILED]"

record JobCreate =
  jc_url :: string
  jc_mode :: string
  jc_callback_url :: "string option"
  jc_idempotency_key :: "string option"
  jc_use_proxy :: "bool option"
  jc_proxy_country :: "string option"
  jc_proxy_city :: "string option"
  jc_proxy_type :: "string option"
  jc_session_key :: "string option"
  jc_options :: "(string \<times> json) list"

record JobResultResponse =
  jr_job_id :: string
  jr_status :: JobStatus
  jr_result :: json
  jr_error :: "string option"
  jr_created_at :: datetime
  jr_completed_at :: "datetime option"

text \<open>The keyword arguments of a queued \<^verbatim>\<open>fetch_task\<close>.\<close>

record task_args =
  ta_job_id :: string
  ta_url :: string
  ta_mode :: string
  ta_api_key_prefix :: string
  ta_application_id :: string
  ta_domain :: string
  ta_proxy_pool_id :: "string option"
  ta_callback_url :: "string option"
  ta_options :: "(string \<times> json) list"
  ta_trace_id :: "string option"

record 'q arq =
  aq_create_pool :: "'q \<Rightarrow> unit option \<times> 'q"
  aq_enqueue :: "task_args \<Rightarrow> 'q \<Rightarrow> unit option \<times> 'q"

section \<open>JSON payloads\<close>

fun json_truth :: "json \<Rightarrow> bool" where
  "json_truth JNull = False"
| "json_truth (JStr s) = (s \<noteq> [])"
| "json_truth (JNum n) = (n \<noteq> 0)"
| "json_truth (JReal x) = (x \<noteq> 0)"
| "json_truth (JBool b) = b"
| "json_truth (JList xs) = (xs \<noteq> [])"
| "json_truth (JObj d) = (d \<noteq> [])"

text \<open>\<^verbatim>\<open>d.get(k)\<close> and \<^verbatim>\<open>a or b\<close>.\<close>

definition jget :: "(string \<times> json) list \<Rightarrow> string \<Rightarrow> json" where
  "jget d k = (case dict_get d k of None \<Rightarrow> JNull | Some v \<Rightarrow> v)"

definition json_or :: "json \<Rightarrow> json \<Rightarrow> json" where
  "json_or a b = (if json_truth a then a else b)"

definition internal :: api_error where
  "internal = RuntimeError ''Internal Server Error''"

text \<open>\<^verbatim>\<open>json.loads(raw)\<close> of a truthy value, for a value that is an object; anything else raises.\<close>

definition loads_obj :: "rval \<Rightarrow> (string \<times> json) list option" where
  "loads_obj v = (case v of RJson (JObj d) \<Rightarrow> Some d | _ \<Rightarrow> None)"

definition rval_truth :: "rval option \<Rightarrow> bool" where
  "rval_truth v = (case v of None \<Rightarrow> False | Some (RStr s) \<Rightarrow> s \<noteq> [] | Some _ \<Rightarrow> True)"

definition parse_dt :: "json \<Rightarrow> datetime option" where
  "parse_dt value = (case value of JStr s \<Rightarrow> if s = [] then None else fromisoformat s | _ \<Rightarrow> None)"

definition status_key :: "string \<Rightarrow> string" where
  "status_key job_id = ''job:'' @ job_id @ '':status''"

definition error_key :: "string \<Rightarrow> string" where
  "error_key job_id = ''job:'' @ job_id @ '':error''"

definition idempotency_key :: "uuid \<Rightarrow> string \<Rightarrow> string" where
  "idempotency_key application_id key = ''idempotency:'' @ uuid_str application_id @ '':'' @ take 128 key"

section \<open>JobService\<close>

text \<open>The depth gauge that is observed after the enqueue changes nothing and never raises.\<close>

definition enqueue ::
  "'r redis \<Rightarrow> 'q arq \<Rightarrow> int \<Rightarrow> datetime \<Rightarrow> task_args \<Rightarrow> ('r \<times> 'q, api_error, string) eff" where
  "enqueue R A ttl now task =
     sbind (on_queue internal (aq_create_pool A)) (\<lambda>_.
     sbind (on_redis internal (r_set R (status_key (ta_job_id task))
        (RJson (JObj [(''status'', JStr ''pending''), (''created_at'', JStr (isoformat now))])) (Some ttl))) (\<lambda>_.
     sbind (on_queue internal (aq_enqueue A task)) (\<lambda>_.
     sret (ta_job_id task))))"

definition get_status_data :: "'r redis \<Rightarrow> string \<Rightarrow> ('r \<times> 'q, api_error, (string \<times> json) list) eff" where
  "get_status_data R job_id =
     sbind (on_redis internal (r_get R (status_key job_id))) (\<lambda>raw.
       case raw of
         None \<Rightarrow> sraise (NotFoundError ''Job not found'')
       | Some v \<Rightarrow>
           if \<not> rval_truth raw then sraise (NotFoundError ''Job not found'')
           else of_sum (of_option internal (loads_obj v)))"

text \<open>\<^verbatim>\<open>JobStatus(data["status"])\<close>, with its KeyError and ValueError.\<close>

definition status_of :: "(string \<times> json) list \<Rightarrow> api_error + JobStatus" where
  "status_of data =
     (case dict_get data ''status'' of
        Some (JStr s) \<Rightarrow> of_option internal (js_of_str s)
      | _ \<Rightarrow> Inl internal)"

definition get_status :: "'r redis \<Rightarrow> string \<Rightarrow> ('r \<times> 'q, api_error, JobStatus) eff" where
  "get_status R job_id = sbind (get_status_data R job_id) (\<lambda>data. of_sum (status_of data))"

text \<open>A value of the error key that is not text raises in the response model.\<close>

definition error_text :: "rval option \<Rightarrow> api_error + string option" where
  "error_text v = (case v of None \<Rightarrow> Inr None | Some (RStr s) \<Rightarrow> Inr (Some s) | Some _ \<Rightarrow> Inl internal)"

definition get_result :: "'r redis \<Rightarrow> datetime \<Rightarrow> string \<Rightarrow> ('r \<times> 'q, api_error, JobResultResponse) eff" where
  "get_result R now job_id =
     sbind (get_status_data R job_id) (\<lambda>status_data.
     sbind (on_redis internal (r_get R (error_key job_id))) (\<lambda>raw_error.
     sbind (of_sum (status_of status_data)) (\<lambda>status.
     sbind (of_sum (error_text raw_error)) (\<lambda>error.
     sret \<lparr>jr_job_id = job_id, jr_status = status, jr_result = jget status_data ''result'', jr_error = error,
           jr_created_at =
             (case parse_dt (json_or (json_or (jget status_data ''created_at'') (jget status_data ''enqueue_time''))
                               (jget status_data ''updated_at'')) of
                Some t \<Rightarrow> t | None \<Rightarrow> now),
           jr_completed_at =
             (if status = COMPLETED \<or> status = FAILED
              then parse_dt (json_or (jget status_data ''updated_at'') (jget status_data ''completed_at''))
              else None)\<rparr>))))"

definition handle_idempotency ::
  "'r redis \<Rightarrow> string \<Rightarrow> uuid \<Rightarrow> ('r \<times> 'q, api_error, string option) eff" where
  "handle_idempotency R key application_id =
     sbind (on_redis internal (r_get R (idempotency_key application_id key))) (\<lambda>existing.
       of_sum (error_text existing))"

definition store_idempotency ::
  "'r redis \<Rightarrow> int \<Rightarrow> string \<Rightarrow> string \<Rightarrow> uuid \<Rightarrow> ('r \<times> 'q, api_error, unit) eff" where
  "store_idempotency R ttl key job_id application_id =
     on_redis internal (r_set R (idempotency_key application_id key) (RStr job_id) (Some ttl))"

section \<open>Status writes of the worker\<close>

text \<open>
  The creation time that a status write keeps: the one of the payload that is there, else now. A text
  that is not JSON is ignored, a JSON value that is not an object raises.
\<close>

definition kept_created_at :: "rval option \<Rightarrow> datetime \<Rightarrow> json option" where
  "kept_created_at raw now =
     (if \<not> rval_truth raw then Some (JStr (isoformat now))
      else (case raw of
              Some (RJson (JObj d)) \<Rightarrow> Some (case dict_get d ''created_at'' of None \<Rightarrow> JStr (isoformat now) | Some v \<Rightarrow> v)
            | Some (RStr _) \<Rightarrow> Some (JStr (isoformat now))
            | _ \<Rightarrow> None))"

definition status_payload :: "string \<Rightarrow> datetime \<Rightarrow> json \<Rightarrow> json option \<Rightarrow> rval" where
  "status_payload status now created result_data =
     RJson (JObj ([(''status'', JStr status), (''updated_at'', JStr (isoformat now)), (''created_at'', created)]
       @ (case result_data of None \<Rightarrow> [] | Some r \<Rightarrow> [(''result'', r)])))"

definition rraise :: "'r \<Rightarrow> 'a option \<times> 'r" where
  "rraise s = (None, s)"

definition set_status ::
  "'r redis \<Rightarrow> string \<Rightarrow> string \<Rightarrow> int \<Rightarrow> json option \<Rightarrow> datetime \<Rightarrow> 'r \<Rightarrow> unit option \<times> 'r" where
  "set_status R job_id status ttl result_data now =
     rbind (r_get R (status_key job_id)) (\<lambda>raw.
       case kept_created_at raw now of
         None \<Rightarrow> rraise
       | Some created \<Rightarrow> r_set R (status_key job_id) (status_payload status now created result_data) (Some ttl))"

definition set_error ::
  "'r redis \<Rightarrow> string \<Rightarrow> string \<Rightarrow> int \<Rightarrow> datetime \<Rightarrow> 'r \<Rightarrow> unit option \<times> 'r" where
  "set_error R job_id error ttl now =
     rbind (r_get R (status_key job_id)) (\<lambda>raw.
       case kept_created_at raw now of
         None \<Rightarrow> rraise
       | Some created \<Rightarrow>
           rbind (r_set R (status_key job_id) (status_payload ''failed'' now created None) (Some ttl)) (\<lambda>_.
             r_set R (error_key job_id) (RStr error) (Some ttl)))"

section \<open>Endpoints\<close>

text \<open>
  What a request depends on besides its body: the services, the policies, the settings, the clock
  readings in the order they are taken, the generated identifier, and what other processes (the
  worker) do to the state during each sleep of the polling loop.
\<close>

record ('r, 'q) api_env =
  ae_redis :: "'r redis"
  ae_arq :: "'q arq"
  ae_rd :: "string \<Rightarrow> string"
  ae_policies :: policy_table
  ae_ttl :: int
  ae_quota :: int
  ae_rate :: "nat \<Rightarrow> eval_env"
  ae_now :: "nat \<Rightarrow> datetime"
  ae_uuid :: uuid
  ae_tick :: "nat \<Rightarrow> 'r \<times> 'q \<Rightarrow> 'r \<times> 'q"
  ae_trace_id :: "string option"

datatype fetch_exn =
    FeApi api_error
  | RateLimited real string

datatype fetch_response =
    Replayed string JobStatus datetime string
  | SyncDone JobResultResponse
  | SyncTimeout string datetime "string option"
  | Accepted string datetime "string option" RateLimitResult

definition set_opt :: "string \<Rightarrow> json option \<Rightarrow> (string \<times> json) list \<Rightarrow> (string \<times> json) list" where
  "set_opt k v d = (case v of None \<Rightarrow> d | Some x \<Rightarrow> dict_set k x d)"

definition merged_options :: "JobCreate \<Rightarrow> (string \<times> json) list" where
  "merged_options body =
     set_opt ''session_key'' (map_option JStr (jc_session_key body))
     (set_opt ''proxy_type'' (map_option JStr (jc_proxy_type body))
     (set_opt ''proxy_city'' (map_option JStr (jc_proxy_city body))
     (set_opt ''proxy_country'' (map_option (\<lambda>c. JStr (upper c)) (jc_proxy_country body))
     (set_opt ''use_proxy'' (map_option JBool (jc_use_proxy body)) (jc_options body)))))"

definition with_api_error :: "('s, api_error, 'a) eff \<Rightarrow> ('s, fetch_exn, 'a) eff" where
  "with_api_error m s = (case m s of (Inl e, s') \<Rightarrow> (Inl (FeApi e), s') | (Inr x, s') \<Rightarrow> (Inr x, s'))"

text \<open>The polling loop: at most \<open>n\<close> readings of the status, a sleep after each that is not final.\<close>

fun poll ::
  "('r, 'q) api_env \<Rightarrow> string \<Rightarrow> nat \<Rightarrow> nat \<Rightarrow> ('r \<times> 'q, api_error, JobResultResponse option) eff" where
  "poll E job_id i 0 s = sret None s"
| "poll E job_id i (Suc n) s =
     sbind (get_status (ae_redis E) job_id) (\<lambda>status s'.
       if status = COMPLETED \<or> status = FAILED
       then sbind (get_result (ae_redis E) (ae_now E (2 + i)) job_id) (\<lambda>r. sret (Some r)) s'
       else poll E job_id (Suc i) n (ae_tick E i s')) s"

definition domain_rps :: "DomainPolicy option \<Rightarrow> real" where
  "domain_rps policy =
     (case policy of None \<Rightarrow> 1 | Some p \<Rightarrow> if dp_rate_limit_rps p = 0 then 1 else dp_rate_limit_rps p)"

definition rate_check :: "('r, 'q) api_env \<Rightarrow> JobCreate \<Rightarrow> ApiKey \<Rightarrow> ('r \<times> 'q, fetch_exn, RateLimitResult) eff" where
  "rate_check E body api_key =
     (\<lambda>(r, q).
       case resolve_policy (ae_rd E) (jc_url body) (ae_policies E) of
         Inl _ \<Rightarrow> (Inl (FeApi internal), (r, q))
       | Inr policy \<Rightarrow>
           (let (result, r') = check_all (ae_redis E) (ae_rd E) (ae_rate E) (k_prefix api_key) (k_application_id api_key)
                  (jc_url body) None (domain_rps policy) (ae_quota E) r
            in if \<not> rl_allowed result
               then (Inl (RateLimited (rl_retry_after_s result) (rl_layer result)), (r', q))
               else (Inr result, (r', q))))"

definition replay_of ::
  "('r, 'q) api_env \<Rightarrow> JobCreate \<Rightarrow> ApiKey \<Rightarrow> ('r \<times> 'q, api_error, fetch_response option) eff" where
  "replay_of E body api_key =
     (case jc_idempotency_key body of
        None \<Rightarrow> sret None
      | Some key \<Rightarrow>
          if key = [] then sret None
          else sbind (handle_idempotency (ae_redis E) key (k_application_id api_key)) (\<lambda>existing.
                 case existing of
                   None \<Rightarrow> sret None
                 | Some job_id \<Rightarrow>
                     if job_id = [] then sret None
                     else sbind (get_result (ae_redis E) (ae_now E 0) job_id) (\<lambda>cached.
                            sret (Some (Replayed job_id (jr_status cached) (jr_created_at cached) key)))))"

definition make_task :: "('r, 'q) api_env \<Rightarrow> JobCreate \<Rightarrow> ApiKey \<Rightarrow> string \<Rightarrow> task_args" where
  "make_task E body api_key domain =
     \<lparr>ta_job_id = uuid_str (ae_uuid E), ta_url = jc_url body, ta_mode = jc_mode body,
      ta_api_key_prefix = k_prefix api_key, ta_application_id = uuid_str (k_application_id api_key),
      ta_domain = domain, ta_proxy_pool_id = None, ta_callback_url = jc_callback_url body,
      ta_options = merged_options body, ta_trace_id = ae_trace_id E\<rparr>"

text \<open>Steps 5 to 7 of the endpoint.\<close>

definition submit ::
  "('r, 'q) api_env \<Rightarrow> JobCreate \<Rightarrow> ApiKey \<Rightarrow> string \<Rightarrow> RateLimitResult \<Rightarrow> ('r \<times> 'q, api_error, fetch_response) eff" where
  "submit E body api_key domain result =
     sbind (enqueue (ae_redis E) (ae_arq E) (ae_ttl E) (ae_now E 0) (make_task E body api_key domain)) (\<lambda>job_id.
     sbind (case jc_idempotency_key body of
              None \<Rightarrow> sret ()
            | Some key \<Rightarrow> if key = [] then sret ()
                          else store_idempotency (ae_redis E) (ae_ttl E) key job_id (k_application_id api_key)) (\<lambda>_.
     if dict_get (merged_options body) ''sync'' = Some (JBool True)
     then sbind (poll E job_id 0 300) (\<lambda>done.
            sret (case done of
                    Some r \<Rightarrow> SyncDone r
                  | None \<Rightarrow> SyncTimeout job_id (ae_now E 1) (jc_idempotency_key body)))
     else sret (Accepted job_id (ae_now E 1) (jc_idempotency_key body) result)))"

definition create_fetch ::
  "('r, 'q) api_env \<Rightarrow> JobCreate \<Rightarrow> ApiKey \<Rightarrow> ('r \<times> 'q, fetch_exn, fetch_response) eff" where
  "create_fetch E body api_key =
     (case normalize_domain_from_url (ae_rd E) (jc_url body) of
        Inl _ \<Rightarrow> sraise (FeApi internal)
      | Inr domain \<Rightarrow>
          sbind (rate_check E body api_key) (\<lambda>result.
          with_api_error
            (sbind (replay_of E body api_key) (\<lambda>replay.
               case replay of
                 Some resp \<Rightarrow> sret resp
               | None \<Rightarrow> submit E body api_key domain result))))"

definition get_job :: "'r redis \<Rightarrow> datetime \<Rightarrow> string \<Rightarrow> ('r \<times> 'q, api_error, JobResultResponse) eff" where
  "get_job R now job_id = get_result R now job_id"

section \<open>Reading computations\<close>

lemma sret_eq [simp]: "sret x s = (y, s') \<longleftrightarrow> y = Inr x \<and> s' = s"
  by (auto simp: sret_def)

lemma sraise_eq [simp]: "sraise e s = (y, s') \<longleftrightarrow> y = Inl e \<and> s' = s"
  by (auto simp: sraise_def)

lemma of_sum_eq [simp]: "of_sum r s = (y, s') \<longleftrightarrow> y = r \<and> s' = s"
  by (auto simp: of_sum_def)

lemma sbind_Inr_iff:
  "sbind m f s = (Inr y, s'') \<longleftrightarrow> (\<exists>x s'. m s = (Inr x, s') \<and> f x s' = (Inr y, s''))"
  by (auto simp: sbind_def split: prod.splits sum.splits)

lemma sbind_Inl_iff:
  "sbind m f s = (Inl e, s'') \<longleftrightarrow> m s = (Inl e, s'') \<or> (\<exists>x s'. m s = (Inr x, s') \<and> f x s' = (Inl e, s''))"
  by (auto simp: sbind_def split: prod.splits sum.splits)

lemma sbind_eq: "m s = (Inr x, s') \<Longrightarrow> sbind m f s = f x s'"
  by (simp add: sbind_def)

lemma on_redis_Inr_iff:
  "on_redis e m s = (Inr x, s') \<longleftrightarrow> m (fst s) = (Some x, fst s') \<and> snd s' = snd s"
  by (cases s; cases s') (auto simp: on_redis_def split: prod.splits option.splits)

lemma on_queue_Inr_iff:
  "on_queue e m s = (Inr x, s') \<longleftrightarrow> m (snd s) = (Some x, snd s') \<and> fst s' = fst s"
  by (cases s; cases s') (auto simp: on_queue_def split: prod.splits option.splits)

lemma with_api_error_Inr_iff: "with_api_error m s = (Inr x, s') \<longleftrightarrow> m s = (Inr x, s')"
  by (auto simp: with_api_error_def split: prod.splits sum.splits)

lemma js_of_str_value [simp]: "js_of_str (js_value st) = Some st"
  by (cases st) (simp_all add: js_of_str_def)

section \<open>Documented behaviour of the queue\<close>

definition arq_laws :: "'q arq \<Rightarrow> ('q \<Rightarrow> task_args list) \<Rightarrow> bool" where
  "arq_laws A tasks \<longleftrightarrow>
     (\<forall>q u q'. aq_create_pool A q = (u, q') \<longrightarrow> tasks q' = tasks q)
   \<and> (\<forall>t q u q'. aq_enqueue A t q = (Some u, q') \<longrightarrow> tasks q' = tasks q @ [t])"

definition arq_up :: "'q arq \<Rightarrow> bool" where
  "arq_up A \<longleftrightarrow> (\<forall>q. fst (aq_create_pool A q) \<noteq> None) \<and> (\<forall>t q. fst (aq_enqueue A t q) \<noteq> None)"

definition list_arq :: "task_args list arq" where
  "list_arq = \<lparr>aq_create_pool = (\<lambda>q. (Some (), q)), aq_enqueue = (\<lambda>t q. (Some (), q @ [t]))\<rparr>"

lemma list_arq_laws [simp]: "arq_laws list_arq id" "arq_up list_arq"
  by (simp_all add: arq_laws_def arq_up_def list_arq_def)

end
