(* ===== verification/Content_Decoder.thy ===== *)
theory Content_Decoder
  imports Fetch_Retry
begin

text \<open>
  \<^verbatim>\<open>app/services/content_decoder.py\<close>: decoding of response bodies by declared or sniffed encoding,
  and the headers and integrity fields that go with the decoded body.

  The decompressors and SHA-256 are compiled libraries and hence parameters; a decompressor returns
  \<^const>\<open>Inl\<close> the text of its exception or \<^const>\<open>Inr\<close> the bytes.
\<close>

record codecs =
  cd_brotli :: "bytes \<Rightarrow> string + bytes"
  cd_gzip :: "bytes \<Rightarrow> string + bytes"
  cd_zlib :: "bytes \<Rightarrow> string + bytes"
  cd_inflate_raw :: "bytes \<Rightarrow> string + bytes"
  cd_zstd :: "bytes \<Rightarrow> string + bytes"
  cd_sha256 :: "bytes \<Rightarrow> string"

datatype decode_error =
    UnsupportedContentEncoding string
  | ContentDecodingFailed string

definition SUPPORTED :: "string list" where
  "SUPPORTED = [''br'', ''gzip'', ''x-gzip'', ''deflate'', ''zstd'', ''identity'', []]"

definition sniff :: "bytes \<Rightarrow> string option" where
  "sniff raw =
     (if map ord (take 2 raw) = [0x1f, 0x8b] then Some ''gzip''
      else if map ord (take 4 raw) = [0x28, 0xb5, 0x2f, 0xfd] then Some ''zstd''
      else if 2 \<le> length raw \<and> ord (raw ! 0) mod 16 = 8 \<and> (ord (raw ! 0) * 256 + ord (raw ! 1)) mod 31 = 0
      then Some ''deflate''
      else None)"

text \<open>\<^verbatim>\<open>bytes.lstrip()\<close> drops ASCII whitespace only.\<close>

definition bytes_lstrip :: "bytes \<Rightarrow> bytes" where
  "bytes_lstrip = dropWhile (\<lambda>c. 9 \<le> ord c \<and> ord c \<le> 13 \<or> ord c = 32)"

definition looks_like_text :: "bytes \<Rightarrow> bool" where
  "looks_like_text b \<longleftrightarrow>
     (let head = lower (bytes_lstrip (prefix_to 512 b))
      in (\<exists>p \<in> set [''<!doctype'', ''<html'', ''<?xml'', ''{'', ''['']. startswith p head)
         \<or> CHR 0x00 \<notin> set (prefix_to 512 b))"

text \<open>The decoder for one named encoding, with the encoding it reports.\<close>

definition decode_as :: "codecs \<Rightarrow> string \<Rightarrow> bytes \<Rightarrow> decode_error + bytes \<times> string option" where
  "decode_as cd enc raw =
     (let failed = (\<lambda>exc. ContentDecodingFailed (''CONTENT_DECODING_FAILED: encoding='' @ enc @ '': '' @ exc));
          wrap = (\<lambda>r name. case r of Inl exc \<Rightarrow> Inl (failed exc) | Inr b \<Rightarrow> Inr (b, Some name))
      in if enc = ''br'' then wrap (cd_brotli cd raw) ''br''
         else if enc = ''gzip'' \<or> enc = ''x-gzip'' then wrap (cd_gzip cd raw) enc
         else if enc = ''deflate'' then
           (case cd_zlib cd raw of
              Inr b \<Rightarrow> Inr (b, Some ''deflate'')
            | Inl _ \<Rightarrow> wrap (cd_inflate_raw cd raw) ''deflate'')
         else if enc = ''zstd'' then wrap (cd_zstd cd raw) ''zstd''
         else Inr (raw, None))"

definition encoding_name :: "string option \<Rightarrow> string" where
  "encoding_name encoding =
     strip (hd (split_on CHR '','' (lower (strip (case encoding of None \<Rightarrow> [] | Some e \<Rightarrow> e)))))"

definition decode_body :: "codecs \<Rightarrow> bytes \<Rightarrow> string option \<Rightarrow> decode_error + bytes \<times> string option" where
  "decode_body cd raw encoding =
     (let enc = encoding_name encoding
      in if enc \<notin> set SUPPORTED
         then Inl (UnsupportedContentEncoding (''UNSUPPORTED_CONTENT_ENCODING: '' @ enc))
         else if enc = [] \<or> enc = ''identity'' then
           (case sniff raw of
              None \<Rightarrow>
                if \<not> looks_like_text raw
                then (case cd_brotli cd raw of Inr b \<Rightarrow> Inr (b, Some ''br'') | Inl _ \<Rightarrow> Inr (raw, None))
                else Inr (raw, None)
            | Some sniffed \<Rightarrow> decode_as cd sniffed raw)
         else decode_as cd enc raw)"

definition normalize_headers :: "headers \<Rightarrow> nat \<Rightarrow> headers" where
  "normalize_headers hs body_len =
     dict_set ''content-length'' (nat_str (int body_len))
       (dict_update [] (map (\<lambda>(k, v). (lower k, v))
          (filter (\<lambda>(k, v). lower k \<notin> {''content-encoding'', ''content-length''}) hs)))"

definition integrity :: "codecs \<Rightarrow> bytes \<Rightarrow> nat \<times> string" where
  "integrity cd body = (length body, cd_sha256 cd body)"

section \<open>Facts\<close>

lemma keys_dict_update: "fst ` set (dict_update d new) = fst ` set d \<union> fst ` set new"
  unfolding dict_update_def
  by (induction new arbitrary: d) (auto simp: keys_dict_set split: prod.splits)

lemma normalize_headers_spec:
  "map_of (normalize_headers hs n) ''content-length'' = Some (nat_str (int n))"
  "map_of (normalize_headers hs n) ''content-encoding'' = None"
  "distinct (map fst (normalize_headers hs n))"
proof -
  let ?new = "map (\<lambda>(k, v). (lower k, v)) (filter (\<lambda>(k, v). lower k \<notin> {''content-encoding'', ''content-length''}) hs)"
  show "map_of (normalize_headers hs n) ''content-length'' = Some (nat_str (int n))"
    by (simp add: normalize_headers_def map_of_dict_set)
  have "''content-encoding'' \<notin> fst ` set (dict_update [] ?new)"
    by (auto simp: keys_dict_update)
  then have "map_of (dict_update [] ?new) ''content-encoding'' = None"
    by (simp add: map_of_eq_None_iff)
  then show "map_of (normalize_headers hs n) ''content-encoding'' = None"
    by (simp add: normalize_headers_def map_of_dict_set)
  show "distinct (map fst (normalize_headers hs n))"
    by (simp add: normalize_headers_def distinct_dict_set distinct_dict_update)
qed

text \<open>A body that is text and carries no encoding is returned as it is.\<close>

lemma decode_plain:
  assumes "encoding_name encoding \<in> {[], ''identity''}" "sniff raw = None" "looks_like_text raw"
  shows "decode_body cd raw encoding = Inr (raw, None)"
  using assms by (auto simp: decode_body_def Let_def SUPPORTED_def)

end
