(* ===== verification/Seeding.thy ===== *)
theory Seeding
  imports Policy_Resolver
begin

text \<open>
  \<^verbatim>\<open>scripts/seed_domain_policies.py\<close>: the list of domains, normalised and without duplicates, becomes
  policies; rows that exist stay as they are. The suffix that \<^verbatim>\<open>tldextract\<close> reports is a parameter
  (\<open>sfx\<close>) like its registered domain. Each domain comes with the identifier that the database would
  generate for its row.
\<close>

definition COUNTRY_OVERRIDES :: "(string \<times> string) list" where
  "COUNTRY_OVERRIDES =
    [(''chewy.com'', ''US''), (''wayfair.com'', ''US''), (''walmart.com'', ''US''),
     (''target.com'', ''US''), (''bestbuy.com'', ''US''), (''newegg.com'', ''US''),
     (''costco.com'', ''US''), (''cvs.com'', ''US''), (''walgreens.com'', ''US''),
     (''verizon.com'', ''US''), (''att.com'', ''US''), (''t-mobile.com'', ''US''),
     (''amazon.sg'', ''SG''), (''amazon.ae'', ''AE''), (''talabat.com'', ''AE''),
     (''namshi.com'', ''AE''), (''faces.com'', ''AE''), (''noon.com'', ''AE''),
     (''shopee.com.my'', ''MY''), (''shopee.com.sg'', ''SG''), (''shopee.co.th'', ''TH''),
     (''shopee.vn'', ''VN''), (''shopee.ph'', ''PH''), (''shopee.co.id'', ''ID''),
     (''lazada.com.my'', ''MY''), (''lazada.sg'', ''SG''), (''lazada.co.th'', ''TH''),
     (''lazada.com.ph'', ''PH''), (''tokopedia.com'', ''ID''), (''bukalapak.com'', ''ID''),
     (''flipkart.com'', ''IN''), (''myntra.com'', ''IN''), (''snapdeal.com'', ''IN''),
     (''jd.com'', ''CN''), (''tmall.com'', ''CN''), (''taobao.com'', ''CN''), (''pinduoduo.com'', ''CN''),
     (''rakuten.co.jp'', ''JP''), (''qoo10.sg'', ''SG''), (''kogan.com'', ''AU''),
     (''catch.com.au'', ''AU''), (''mercadolibre.com.ar'', ''AR''), (''mercadolibre.com.mx'', ''MX''),
     (''mercadolibre.com.br'', ''BR''), (''rappi.com'', ''CO''), (''rappi.com.co'', ''CO''),
     (''falabella.com'', ''CL''), (''falabella.com.co'', ''CO''), (''sodimac.com'', ''CL''),
     (''coppel.com'', ''MX''), (''walmart.com.mx'', ''MX''), (''amazon.com.mx'', ''MX''),
     (''amazon.com.br'', ''BR''), (''amazon.com.au'', ''AU''), (''pricesmart.com'', ''US''),
     (''jumia.com.ng'', ''NG''), (''jumia.co.ke'', ''KE'')]"

definition TLD_TO_COUNTRY :: "(string \<times> string) list" where
  "TLD_TO_COUNTRY =
    [(''de'', ''DE''), (''fr'', ''FR''), (''pl'', ''PL''), (''es'', ''ES''), (''it'', ''IT''),
     (''nl'', ''NL''), (''se'', ''SE''), (''be'', ''BE''), (''co.uk'', ''GB''), (''uk'', ''GB''),
     (''ru'', ''RU''), (''ua'', ''UA''), (''ro'', ''RO''), (''bg'', ''BG''), (''cz'', ''CZ''),
     (''sk'', ''SK''), (''ae'', ''AE''), (''ng'', ''NG''), (''ke'', ''KE''), (''co.jp'', ''JP''),
     (''jp'', ''JP''), (''in'', ''IN''), (''com.au'', ''AU''), (''com.br'', ''BR''), (''com.mx'', ''MX''),
     (''com.ar'', ''AR'')]"

section \<open>The list of domains\<close>

text \<open>\<^verbatim>\<open>normalize_domain\<close> of the script; a blank line or a comment gives None.\<close>

definition seed_host :: "string \<Rightarrow> url_error + string" where
  "seed_host raw =
     (if contains ''://'' raw
      then bindE (urlparse raw) (\<lambda>p. Inr (case pu_hostname p of None \<Rightarrow> [] | Some h \<Rightarrow> h))
      else Inr (hd (split_on CHR ''/'' raw)))"

definition seed_normalize :: "(string \<Rightarrow> string) \<Rightarrow> string \<Rightarrow> url_error + string option" where
  "seed_normalize rd line =
     (let raw = strip line
      in if raw = [] \<or> startswith ''#'' raw then Inr None
         else bindE (seed_host raw) (\<lambda>h.
           let host = removeprefix ''www.'' (lower h); registered = rd host
           in Inr (if registered \<noteq> [] then Some registered else if host \<noteq> [] then Some host else None)))"

definition country_for :: "(string \<Rightarrow> string) \<Rightarrow> string \<Rightarrow> string option" where
  "country_for sfx domain =
     (case map_of COUNTRY_OVERRIDES domain of
        Some c \<Rightarrow> Some c | None \<Rightarrow> map_of TLD_TO_COUNTRY (sfx domain))"

text \<open>\<open>lines\<close> are those of the file; \<open>seen\<close> and the result hold the same domains, so one list serves as both.\<close>

fun load_loop :: "(string \<Rightarrow> string) \<Rightarrow> string list \<Rightarrow> string list \<Rightarrow> url_error + string list" where
  "load_loop rd result [] = Inr result"
| "load_loop rd result (line # lines) =
     bindE (seed_normalize rd line) (\<lambda>d.
       case d of
         None \<Rightarrow> load_loop rd result lines
       | Some domain \<Rightarrow>
           if domain \<noteq> [] \<and> domain \<notin> set result then load_loop rd (result @ [domain]) lines
           else load_loop rd result lines)"

definition load_domains :: "(string \<Rightarrow> string) \<Rightarrow> string list \<Rightarrow> url_error + string list" where
  "load_domains rd lines = load_loop rd [] lines"

section \<open>The rows\<close>

definition seed_row :: "(string \<Rightarrow> string) \<Rightarrow> uuid \<Rightarrow> string \<Rightarrow> DomainPolicy" where
  "seed_row sfx i domain =
     (new_policy i domain)\<lparr>dp_is_active := True, dp_engine := ''httpx'', dp_rate_limit_rps := 1 / 2,
        dp_min_delay_ms := 2000, dp_max_delay_ms := 8000, dp_max_retries := 3, dp_respect_robots := True,
        dp_sticky_session := False, dp_use_proxy := True, dp_proxy_country := country_for sfx domain,
        dp_proxy_type := Some ''datacenter'', dp_escalation_tier := 0, dp_tier_locked := False,
        dp_antibot_type := None, dp_consecutive_blocks := 0\<rparr>"

datatype seed_error =
    NoDatabaseUrl     \<comment> \<open>exit status 1\<close>
  | BadDatabaseUrl    \<comment> \<open>the ArgumentError of \<^verbatim>\<open>create_async_engine\<close>\<close>
  | BadLine           \<comment> \<open>the ValueError of \<^verbatim>\<open>urlparse\<close>\<close>
  | DomainTooLong     \<comment> \<open>the DataError of the database, column of 255 characters\<close>

text \<open>The loop counts what it inserted and what it skipped; a dry run writes nothing.\<close>

fun seed_loop ::
  "(string \<Rightarrow> string) \<Rightarrow> bool \<Rightarrow> (uuid \<times> string) list \<Rightarrow> policy_table \<Rightarrow> int \<Rightarrow> int
   \<Rightarrow> seed_error + (int \<times> int \<times> policy_table)" where
  "seed_loop sfx dry_run [] tbl inserted skipped = Inr (inserted, skipped, tbl)"
| "seed_loop sfx dry_run ((i, domain) # ds) tbl inserted skipped =
     (if dry_run then seed_loop sfx dry_run ds tbl (inserted + 1) skipped
      else if length domain > 255 then Inl DomainTooLong
      else if get_by dp_domain domain tbl = None
      then seed_loop sfx dry_run ds (insert_row (seed_row sfx i domain) tbl) (inserted + 1) skipped
      else seed_loop sfx dry_run ds tbl inserted (skipped + 1))"

text \<open>\<open>engine_ok\<close> says which database URLs the engine accepts. An error leaves the transaction uncommitted.\<close>

definition seed ::
  "(string \<Rightarrow> string) \<Rightarrow> (string \<Rightarrow> bool) \<Rightarrow> bool \<Rightarrow> string \<Rightarrow> (uuid \<times> string) list \<Rightarrow> policy_table
   \<Rightarrow> (seed_error + int \<times> int) \<times> policy_table" where
  "seed sfx engine_ok dry_run database_url ds tbl =
     (if \<not> engine_ok database_url then (Inl BadDatabaseUrl, tbl)
      else (case seed_loop sfx dry_run ds tbl 0 0 of
              Inl e \<Rightarrow> (Inl e, tbl)
            | Inr (inserted, skipped, tbl') \<Rightarrow> (Inr (inserted, skipped), tbl')))"

text \<open>The command: \<open>arg\<close> and \<open>env\<close> are the two sources of the URL; \<open>ids\<close> the identifiers of the database.\<close>

definition seed_main ::
  "(string \<Rightarrow> string) \<Rightarrow> (string \<Rightarrow> string) \<Rightarrow> (string \<Rightarrow> bool) \<Rightarrow> bool \<Rightarrow> string option \<Rightarrow> string option
   \<Rightarrow> (nat \<Rightarrow> uuid) \<Rightarrow> string list \<Rightarrow> policy_table \<Rightarrow> (seed_error + int \<times> int) \<times> policy_table" where
  "seed_main rd sfx engine_ok dry_run arg env ids lines tbl =
     (let or_empty = (\<lambda>v. case v of None \<Rightarrow> [] | Some u \<Rightarrow> u);
          database_url = (if or_empty arg \<noteq> [] then or_empty arg else or_empty env)
      in if database_url = [] \<and> \<not> dry_run then (Inl NoDatabaseUrl, tbl)
         else (case load_domains rd lines of
                 Inl _ \<Rightarrow> (Inl BadLine, tbl)
               | Inr domains \<Rightarrow>
                   seed sfx engine_ok dry_run database_url (zip (map ids [0..<length domains]) domains) tbl))"

section \<open>Facts\<close>

lemma load_loop_distinct: "load_loop rd result lines = Inr r \<Longrightarrow> distinct result \<Longrightarrow> distinct r"
  by (induction rd result lines rule: load_loop.induct)
    (auto simp: bindE_Inr_iff split: option.splits if_splits)

lemma load_domains_distinct: "load_domains rd lines = Inr domains \<Longrightarrow> distinct domains"
  by (auto simp: load_domains_def dest: load_loop_distinct)

text \<open>A line that is a plain host name is normalised as the resolver normalises the host of a URL.\<close>

lemma seed_normalize_plain:
  assumes "strip line = line" "line \<noteq> []" "\<not> startswith ''#'' line" "\<not> contains ''://'' line" "CHR ''/'' \<notin> set line"
    "normalize_domain rd line \<noteq> []"
  shows "seed_normalize rd line = Inr (Some (normalize_domain rd line))"
proof -
  have "CHR ''/'' \<notin> set xs \<Longrightarrow> split_on CHR ''/'' xs = [xs]" for xs by (induction xs) auto
  with assms show ?thesis
    by (auto simp: seed_normalize_def seed_host_def normalize_domain_def Let_def bindE_def split: if_splits)
qed

lemma seed_row_sel [simp]:
  "dp_id (seed_row sfx i d) = i" "dp_domain (seed_row sfx i d) = d" "dp_is_active (seed_row sfx i d)"
  by (simp_all add: seed_row_def new_policy_def)

definition new_seeds :: "policy_table \<Rightarrow> (uuid \<times> string) list \<Rightarrow> (uuid \<times> string) list" where
  "new_seeds tbl ds = filter (\<lambda>(_, d). get_by dp_domain d tbl = None) ds"

lemma new_seeds_insert:
  "d \<notin> snd ` set ds \<Longrightarrow> dp_domain r = d \<Longrightarrow> new_seeds (insert_row r tbl) ds = new_seeds tbl ds"
  by (auto simp: new_seeds_def image_iff intro!: filter_cong split: option.splits)

lemma seed_loop_spec:
  "seed_loop sfx False ds tbl a b = Inr (a', b', tbl') \<Longrightarrow> distinct (map snd ds) \<Longrightarrow>
     tbl' = tbl @ map (\<lambda>(i, d). seed_row sfx i d) (new_seeds tbl ds)
     \<and> a' = a + int (length (new_seeds tbl ds)) \<and> a' + b' = a + b + int (length ds)
     \<and> (\<forall>(i, d) \<in> set ds. length d \<le> 255)"
proof (induction ds arbitrary: tbl a b)
  case (Cons x ds)
  obtain i d where x: "x = (i, d)" by (cases x)
  show ?case
  proof (cases "get_by dp_domain d tbl = None")
    case True
    with Cons.prems x have "seed_loop sfx False ds (insert_row (seed_row sfx i d) tbl) (a + 1) b = Inr (a', b', tbl')"
      by (simp split: if_splits)
    from Cons.IH [OF this] Cons.prems x True new_seeds_insert [of d ds "seed_row sfx i d" tbl] show ?thesis
      by (auto simp: new_seeds_def insert_row_def split: if_splits)
  next
    case False
    with Cons.prems x have "seed_loop sfx False ds tbl a (b + 1) = Inr (a', b', tbl')" by (simp split: if_splits)
    from Cons.IH [OF this] Cons.prems x False show ?thesis by (auto simp: new_seeds_def split: if_splits)
  qed
qed (simp add: new_seeds_def)

lemma seed_loop_all_known:
  "\<forall>(i, d) \<in> set ds. length d \<le> 255 \<and> get_by dp_domain d tbl \<noteq> None \<Longrightarrow>
     seed_loop sfx False ds tbl a b = Inr (a, b + int (length ds), tbl)"
  by (induction ds arbitrary: b) auto

text \<open>What one run of the script does, with its domains and identifiers taken apart.\<close>

lemma seed_main_run:
  assumes run: "seed_main rd sfx engine_ok False arg env ids lines tbl = (Inr (ins, skip), tbl')"
    and ds: "load_domains rd lines = Inr domains"
  shows "let new = new_seeds tbl (zip (map ids [0..<length domains]) domains)
    in tbl' = tbl @ map (\<lambda>(i, d). seed_row sfx i d) new \<and> ins = int (length new) \<and> ins + skip = int (length domains)
     \<and> map snd new = filter (\<lambda>d. get_by dp_domain d tbl = None) domains \<and> (\<forall>d \<in> set domains. length d \<le> 255)"
proof -
  let ?zs = "zip (map ids [0..<length domains]) domains"
  have snd: "map snd ?zs = domains" by simp
  have dist: "distinct (map snd ?zs)" using load_domains_distinct [OF ds] by simp
  have "seed_loop sfx False ?zs tbl 0 0 = Inr (ins, skip, tbl')"
    using run by (auto simp: seed_main_def seed_def ds Let_def split: if_splits sum.splits prod.splits)
  note spec = seed_loop_spec [OF this dist]
  have "map snd (new_seeds tbl ?zs) = filter (\<lambda>d. get_by dp_domain d tbl = None) (map snd ?zs)"
    by (simp only: new_seeds_def filter_map comp_def case_prod_unfold)
  moreover have "\<forall>z \<in> set ?zs. length (snd z) \<le> 255" using spec unfolding case_prod_unfold by blast
  then have "\<forall>d \<in> set (map snd ?zs). length d \<le> 255" by (simp only: set_map ball_simps)
  ultimately show ?thesis using spec by (simp only: snd Let_def) simp
qed

lemma seeded_known:
  assumes "seed_main rd sfx engine_ok False arg env ids lines tbl = (Inr (ins, skip), tbl')"
    "load_domains rd lines = Inr domains" "d \<in> set domains"
  shows "get_by dp_domain d tbl' \<noteq> None"
proof (cases "get_by dp_domain d tbl = None")
  case True
  then have "d \<in> set (filter (\<lambda>d. get_by dp_domain d tbl = None) domains)" using assms(3) by simp
  then have "d \<in> snd ` set (new_seeds tbl (zip (map ids [0..<length domains]) domains))"
    using seed_main_run [OF assms(1,2)] by (metis list.set_map)
  then obtain i where "(i, d) \<in> set (new_seeds tbl (zip (map ids [0..<length domains]) domains))" by auto
  with seed_main_run [OF assms(1,2), unfolded Let_def] have "seed_row sfx i d \<in> set tbl'" by force
  then show ?thesis by (auto simp: get_by_None_iff intro!: bexI [of _ "seed_row sfx i d"])
next
  case False
  with seed_main_run [OF assms(1,2)] show ?thesis by (auto simp: get_by_None_iff Let_def)
qed

text \<open>
  C32. Seeding is idempotent and clobbers nothing: a run appends one active row for each listed domain that
  had none and leaves every other row as it is; a second run inserts nothing; and the fetch path then
  finds a policy for every URL of a listed domain, unless an operator had switched its row off.
\<close>

theorem seeding_idempotent:
  assumes "load_domains rd lines = Inr domains"
    "seed_main rd sfx engine_ok False arg env ids lines tbl = (Inr (ins, skip), tbl')"
  shows "(\<exists>new. tbl' = tbl @ new \<and> map dp_domain new = filter (\<lambda>d. get_by dp_domain d tbl = None) domains
        \<and> ins = int (length new) \<and> ins + skip = int (length domains)
        \<and> (\<forall>r \<in> set new. dp_is_active r \<and> dp_escalation_tier r = 0 \<and> dp_use_proxy r
            \<and> dp_proxy_country r = country_for sfx (dp_domain r)))
    \<and> seed_main rd sfx engine_ok False arg env ids2 lines tbl' = (Inr (0, int (length domains)), tbl')
    \<and> (\<forall>url. \<forall>d \<in> set domains. parse_hostname rd url = Inr d \<and> (\<forall>r \<in> set tbl. dp_domain r = d \<longrightarrow> dp_is_active r)
        \<longrightarrow> (\<exists>r. resolve_policy rd url tbl' = Inr (Some r) \<and> dp_domain r = d))"
proof (intro conjI)
  let ?new = "new_seeds tbl (zip (map ids [0..<length domains]) domains)"
  note run = seed_main_run [OF assms(2,1), unfolded Let_def]
  have rows: "map dp_domain (map (\<lambda>(i, d). seed_row sfx i d) ?new) = map snd ?new" by (simp add: case_prod_unfold)
  show "\<exists>new. tbl' = tbl @ new \<and> map dp_domain new = filter (\<lambda>d. get_by dp_domain d tbl = None) domains
      \<and> ins = int (length new) \<and> ins + skip = int (length domains)
      \<and> (\<forall>r \<in> set new. dp_is_active r \<and> dp_escalation_tier r = 0 \<and> dp_use_proxy r
            \<and> dp_proxy_country r = country_for sfx (dp_domain r))"
    by (rule exI [of _ "map (\<lambda>(i, d). seed_row sfx i d) ?new"])
      (use run rows in \<open>auto simp: seed_row_def new_policy_def\<close>)
  have "seed_loop sfx False (zip (map ids2 [0..<length domains]) domains) tbl' 0 0 = Inr (0, int (length domains), tbl')"
    using seed_loop_all_known [of "zip (map ids2 [0..<length domains]) domains" tbl' sfx 0 0]
      seeded_known [OF assms(2,1)] run by (auto dest: set_zip_rightD)
  then show "seed_main rd sfx engine_ok False arg env ids2 lines tbl' = (Inr (0, int (length domains)), tbl')"
    using assms by (auto simp: seed_main_def seed_def Let_def split: if_splits)
  show "\<forall>url. \<forall>d \<in> set domains. parse_hostname rd url = Inr d \<and> (\<forall>r \<in> set tbl. dp_domain r = d \<longrightarrow> dp_is_active r)
      \<longrightarrow> (\<exists>r. resolve_policy rd url tbl' = Inr (Some r) \<and> dp_domain r = d)"
  proof (intro allI ballI impI, elim conjE)
    fix url d assume d: "d \<in> set domains" "parse_hostname rd url = Inr d" "\<forall>r \<in> set tbl. dp_domain r = d \<longrightarrow> dp_is_active r"
    have act: "\<forall>r \<in> set tbl'. dp_domain r = d \<longrightarrow> dp_is_active r" using d(3) run by auto
    obtain r where "r \<in> set tbl'" "dp_domain r = d"
      using seeded_known [OF assms(2,1) d(1)] by (auto dest: get_by_SomeD)
    then have "find (\<lambda>r. dp_domain r = d \<and> dp_is_active r) tbl' \<noteq> None" using act by (auto simp: find_None_iff)
    then show "\<exists>r. resolve_policy rd url tbl' = Inr (Some r) \<and> dp_domain r = d"
      using d(2) by (auto simp: resolve_policy_def bindE_def dest: find_SomeD)
  qed
qed

definition ex_seed_rd :: "string \<Rightarrow> string" where
  "ex_seed_rd h = (if endswith ''amazon.de'' h then ''amazon.de'' else [])"

definition ex_seed_lines :: "string list" where
  "ex_seed_lines = [''# Europe'', ''amazon.de'', [], ''https://www.amazon.de/gp''  ]"

theorem seeding_idempotent_witness:
  "\<exists>r. resolve_policy ex_seed_rd ''https://m.amazon.de/dp''
      (snd (seed_main ex_seed_rd (\<lambda>_. ''de'') (\<lambda>u. u \<noteq> []) False None (Some ''postgresql+asyncpg://db'') word_of_nat ex_seed_lines []))
      = Inr (Some r) \<and> dp_domain r = ''amazon.de''"
proof -
  let ?run = "seed_main ex_seed_rd (\<lambda>_. ''de'') (\<lambda>u. u \<noteq> []) False None (Some ''postgresql+asyncpg://db'') word_of_nat ex_seed_lines []"
  have ds: "load_domains ex_seed_rd ex_seed_lines = Inr [''amazon.de'']" by code_simp
  have "fst ?run = Inr (1, 0)"
    by (simp add: seed_main_def ds seed_def get_by_def insert_row_def)
  then have "?run = (Inr (1, 0), snd ?run)" by (simp add: prod_eq_iff)
  moreover have "parse_hostname ex_seed_rd ''https://m.amazon.de/dp'' = Inr ''amazon.de''" by code_simp
  ultimately show ?thesis
    using seeding_idempotent [OF ds, of "\<lambda>_. ''de''" "\<lambda>u. u \<noteq> []" None "Some ''postgresql+asyncpg://db''" word_of_nat "[]" 1 0 "snd ?run"]
    by simp
qed

text \<open>
  A dry run builds the engine before it looks at a domain: without a database URL, which is the documented way
  to call it, it ends in the engine's error.
\<close>

lemma dry_run_needs_url:
  assumes "\<not> engine_ok []" "load_domains rd lines = Inr domains"
  shows "seed_main rd sfx engine_ok True None None ids lines tbl = (Inl BadDatabaseUrl, tbl)"
  using assms by (simp add: seed_main_def seed_def Let_def)

text \<open>What a run leaves of the uniqueness of the table.\<close>

lemma seed_loop_keeps_unique:
  "seed_loop sfx dry ds tbl a b = Inr (a', b', tbl') \<Longrightarrow> unique_on dp_domain tbl \<Longrightarrow> unique_on dp_id tbl \<Longrightarrow>
     distinct (map fst ds) \<Longrightarrow> set (map fst ds) \<inter> dp_id ` set tbl = {} \<Longrightarrow>
     unique_on dp_domain tbl' \<and> unique_on dp_id tbl'
     \<and> (\<forall>r \<in> set tbl'. r \<in> set tbl \<or> (\<exists>i d. r = seed_row sfx i d))"
proof (induction ds arbitrary: tbl a b)
  case (Cons x ds)
  obtain i d where x: "x = (i, d)" by (cases x)
  have fresh: "get_by dp_id i tbl = None" using Cons.prems(5) by (auto simp: x get_by_None_iff)
  show ?case
  proof (cases "\<not> dry \<and> get_by dp_domain d tbl = None")
    case True
    with Cons.prems x have run: "seed_loop sfx dry ds (insert_row (seed_row sfx i d) tbl) (a + 1) b = Inr (a', b', tbl')"
      by (simp split: if_splits)
    have "unique_on dp_domain (insert_row (seed_row sfx i d) tbl)" "unique_on dp_id (insert_row (seed_row sfx i d) tbl)"
      using True Cons.prems(2,3) fresh by (simp_all add: unique_on_insert_row)
    from Cons.IH [OF run this] Cons.prems(4,5) x show ?thesis by (simp add: disjoint_iff image_iff) metis
  next
    case False
    with Cons.prems(1) x obtain a2 b2 where run: "seed_loop sfx dry ds tbl a2 b2 = Inr (a', b', tbl')"
      by (auto split: if_splits)
    from Cons.IH [OF run Cons.prems(2,3)] Cons.prems(4,5) x show ?thesis by auto
  qed
qed simp

end
