(* ===== verification/Regex.thy ===== *)
theory Regex
  imports Prelude
begin

text \<open>
  The fragment of Python's \<^verbatim>\<open>re\<close> that the block patterns use, on byte strings and with the
  \<^verbatim>\<open>re.I\<close> flag: literals, \<^verbatim>\<open>\b\<close>, \<^verbatim>\<open>\s*\<close>, an optional group, alternation and concatenation.
  A position is the character before it (if any) and the text after it; a pattern maps a
  position to the positions at which a match may end. A declarative reading of the patterns and
  the equivalence of the matcher with it follow.
\<close>

datatype regex =
    Chr char
  | WordB
  | Spaces
  | Opt regex
  | Alt regex regex
  | Cat regex regex
  | Eps

type_synonym position = "char option \<times> string"

definition is_word :: "char \<Rightarrow> bool" where
  "is_word c \<longleftrightarrow> is_alpha c \<or> is_digit c \<or> c = CHR ''_''"

definition is_re_space :: "char \<Rightarrow> bool" where
  "is_re_space c \<longleftrightarrow> 9 \<le> ord c \<and> ord c \<le> 13 \<or> ord c = 32"

definition same_char :: "char \<Rightarrow> char \<Rightarrow> bool" where
  "same_char a b \<longleftrightarrow> lower_char a = lower_char b"

definition word_opt :: "char option \<Rightarrow> bool" where
  "word_opt x = (case x of None \<Rightarrow> False | Some c \<Rightarrow> is_word c)"

definition next_char :: "string \<Rightarrow> char option" where
  "next_char s = (case s of [] \<Rightarrow> None | c # _ \<Rightarrow> Some c)"

fun skip_spaces :: "char option \<Rightarrow> string \<Rightarrow> position list" where
  "skip_spaces p [] = [(p, [])]"
| "skip_spaces p (c # s) = (p, c # s) # (if is_re_space c then skip_spaces (Some c) s else [])"

fun ends :: "regex \<Rightarrow> position \<Rightarrow> position list" where
  "ends (Chr a) (p, s) = (case s of [] \<Rightarrow> [] | c # t \<Rightarrow> if same_char a c then [(Some c, t)] else [])"
| "ends WordB (p, s) = (if word_opt p \<noteq> word_opt (next_char s) then [(p, s)] else [])"
| "ends Spaces (p, s) = skip_spaces p s"
| "ends (Opt r) ps = ends r ps @ [ps]"
| "ends (Alt r1 r2) ps = ends r1 ps @ ends r2 ps"
| "ends (Cat r1 r2) ps = concat (map (ends r2) (ends r1 ps))"
| "ends Eps ps = [ps]"

fun search_from :: "regex \<Rightarrow> char option \<Rightarrow> string \<Rightarrow> bool" where
  "search_from r p [] = (ends r (p, []) \<noteq> [])"
| "search_from r p (c # s) = (ends r (p, c # s) \<noteq> [] \<or> search_from r (Some c) s)"

definition search :: "regex \<Rightarrow> string \<Rightarrow> bool" where
  "search r s = search_from r None s"

fun lit :: "string \<Rightarrow> regex" where
  "lit [] = Eps"
| "lit (c # s) = Cat (Chr c) (lit s)"

fun cats :: "regex list \<Rightarrow> regex" where
  "cats [] = Eps"
| "cats (r # rs) = Cat r (cats rs)"

section \<open>The declarative reading\<close>

text \<open>
  \<open>matches r p w t\<close>: the word \<open>w\<close>, preceded by \<open>p\<close> and followed by \<open>t\<close>, matches \<open>r\<close>.
\<close>

definition last_char :: "char option \<Rightarrow> string \<Rightarrow> char option" where
  "last_char p w = (if w = [] then p else Some (last w))"

lemma last_char_simps [simp]:
  "last_char p [] = p"
  "last_char p (c # w) = last_char (Some c) w"
  "last_char p (u @ w) = last_char (last_char p u) w"
  by (auto simp: last_char_def)

inductive matches :: "regex \<Rightarrow> char option \<Rightarrow> string \<Rightarrow> string \<Rightarrow> bool" where
  chr: "same_char a c \<Longrightarrow> matches (Chr a) p [c] t"
| word_boundary: "word_opt p \<noteq> word_opt (next_char t) \<Longrightarrow> matches WordB p [] t"
| spaces: "list_all is_re_space w \<Longrightarrow> matches Spaces p w t"
| opt_some: "matches r p w t \<Longrightarrow> matches (Opt r) p w t"
| opt_none: "matches (Opt r) p [] t"
| alt_left: "matches r1 p w t \<Longrightarrow> matches (Alt r1 r2) p w t"
| alt_right: "matches r2 p w t \<Longrightarrow> matches (Alt r1 r2) p w t"
| cat: "matches r1 p u (v @ t) \<Longrightarrow> matches r2 (last_char p u) v t \<Longrightarrow> matches (Cat r1 r2) p (u @ v) t"
| eps: "matches Eps p [] t"

inductive_cases matches_ChrE: "matches (Chr a) p w t"
inductive_cases matches_WordBE: "matches WordB p w t"
inductive_cases matches_SpacesE: "matches Spaces p w t"
inductive_cases matches_OptE: "matches (Opt r) p w t"
inductive_cases matches_AltE: "matches (Alt r1 r2) p w t"
inductive_cases matches_CatE: "matches (Cat r1 r2) p w t"
inductive_cases matches_EpsE: "matches Eps p w t"

lemmas matches_elims = matches_ChrE matches_WordBE matches_SpacesE matches_OptE matches_AltE
  matches_CatE matches_EpsE

lemma skip_spaces_iff:
  "(q, t) \<in> set (skip_spaces p s)
     \<longleftrightarrow> (\<exists>w. s = w @ t \<and> q = last_char p w \<and> list_all is_re_space w)"
proof (induction p s rule: skip_spaces.induct)
  case (2 p c s)
  show ?case
  proof
    assume "(q, t) \<in> set (skip_spaces p (c # s))"
    then consider "q = p" "t = c # s" | "is_re_space c" "(q, t) \<in> set (skip_spaces (Some c) s)"
      by (auto split: if_splits)
    then show "\<exists>w. c # s = w @ t \<and> q = last_char p w \<and> list_all is_re_space w"
    proof cases
      case 1
      then have "c # s = [] @ t \<and> q = last_char p [] \<and> list_all is_re_space []" by simp
      then show ?thesis by blast
    next
      case 2
      with "2.IH" obtain w where
        "c # s = (c # w) @ t \<and> q = last_char p (c # w) \<and> list_all is_re_space (c # w)" by auto
      then show ?thesis by blast
    qed
  next
    assume "\<exists>w. c # s = w @ t \<and> q = last_char p w \<and> list_all is_re_space w"
    then show "(q, t) \<in> set (skip_spaces p (c # s))"
      using "2.IH" by (auto simp: Cons_eq_append_conv)
  qed
qed (auto)

lemma ends_sound:
  "(q, t) \<in> set (ends r (p, s)) \<Longrightarrow> \<exists>w. s = w @ t \<and> q = last_char p w \<and> matches r p w t"
proof (induction r arbitrary: p s q t)
  case (Chr a)
  then obtain c where "s = [c] @ t" "same_char a c" "q = last_char p [c]"
    by (auto split: list.splits if_splits)
  then show ?case using matches.chr by blast
next
  case WordB
  then show ?case by (auto split: if_splits intro: matches.word_boundary)
next
  case Spaces
  then show ?case by (auto simp: skip_spaces_iff intro: matches.spaces)
next
  case (Opt r)
  from Opt.prems consider "(q, t) \<in> set (ends r (p, s))" | "q = p" "t = s" by auto
  then show ?case
    by cases (auto dest: Opt.IH intro: matches.opt_some matches.opt_none)
next
  case (Alt r1 r2)
  from Alt.prems consider "(q, t) \<in> set (ends r1 (p, s))" | "(q, t) \<in> set (ends r2 (p, s))" by auto
  then show ?case
    by cases (auto dest: Alt.IH intro: matches.alt_left matches.alt_right)
next
  case (Cat r1 r2)
  then obtain q' t' where 1: "(q', t') \<in> set (ends r1 (p, s))"
    and 2: "(q, t) \<in> set (ends r2 (q', t'))" by auto
  from Cat.IH(1) [OF 1] Cat.IH(2) [OF 2] obtain u v where
    "s = u @ t'" "q' = last_char p u" "matches r1 p u t'"
    "t' = v @ t" "q = last_char q' v" "matches r2 q' v t" by blast
  then have "s = (u @ v) @ t \<and> q = last_char p (u @ v) \<and> matches (Cat r1 r2) p (u @ v) t"
    using matches.cat [of r1 p u v t r2] by simp
  then show ?case by blast
next
  case Eps
  then show ?case by (auto intro: matches.eps)
qed

lemma ends_complete:
  "matches r p w t \<Longrightarrow> (last_char p w, t) \<in> set (ends r (p, w @ t))"
proof (induction rule: matches.induct)
  case (spaces w p t)
  then show ?case by (auto simp: skip_spaces_iff)
qed force+

lemma search_from_iff:
  "search_from r p s \<longleftrightarrow> (\<exists>u w t. s = u @ w @ t \<and> matches r (last_char p u) w t)"
proof (induction s arbitrary: p)
  case Nil
  show ?case
  proof
    assume "search_from r p []"
    then obtain q t where "(q, t) \<in> set (ends r (p, []))"
      by (metis ex_in_conv old.prod.exhaust search_from.simps(1) set_empty)
    with ends_sound [OF this] show "\<exists>u w t. [] = u @ w @ t \<and> matches r (last_char p u) w t"
      by (metis append_Nil last_char_simps(1))
  next
    assume "\<exists>u w t. [] = u @ w @ t \<and> matches r (last_char p u) w t"
    then have "matches r p [] []" by auto
    then show "search_from r p []" using ends_complete by fastforce
  qed
next
  case (Cons c s)
  have here: "ends r (p, c # s) \<noteq> [] \<longleftrightarrow> (\<exists>w t. c # s = w @ t \<and> matches r p w t)"
  proof
    assume "ends r (p, c # s) \<noteq> []"
    then obtain q t where "(q, t) \<in> set (ends r (p, c # s))"
      by (metis ex_in_conv old.prod.exhaust set_empty)
    then show "\<exists>w t. c # s = w @ t \<and> matches r p w t" using ends_sound by blast
  next
    assume "\<exists>w t. c # s = w @ t \<and> matches r p w t"
    then show "ends r (p, c # s) \<noteq> []" using ends_complete by fastforce
  qed
  have split: "(\<exists>u w t. c # s = u @ w @ t \<and> matches r (last_char p u) w t)
    \<longleftrightarrow> (\<exists>w t. c # s = w @ t \<and> matches r p w t)
      \<or> (\<exists>u w t. s = u @ w @ t \<and> matches r (last_char (Some c) u) w t)"
    (is "?L \<longleftrightarrow> ?now \<or> ?later")
  proof
    assume ?L
    then obtain u w t where uwt: "c # s = u @ w @ t" "matches r (last_char p u) w t" by blast
    show "?now \<or> ?later"
    proof (cases u)
      case Nil
      with uwt show ?thesis by auto
    next
      case (Cons c' u')
      with uwt have "s = u' @ w @ t" "matches r (last_char (Some c) u') w t" by auto
      then show ?thesis by blast
    qed
  next
    assume "?now \<or> ?later"
    then show ?L
    proof
      assume ?now
      then show ?L by (metis append_Nil last_char_simps(1))
    next
      assume ?later
      then show ?L by (metis append_Cons last_char_simps(2))
    qed
  qed
  show ?case using here split Cons.IH by simp
qed

section \<open>Letter case\<close>

lemma class_lower [simp]:
  "is_word (lower_char c) = is_word c" "is_re_space (lower_char c) = is_re_space c"
  "same_char a (lower_char c) = same_char a c"
  by (auto simp: is_word_def is_re_space_def is_alpha_def is_digit_def same_char_def lower_char_def
      ord_char_of ord_def)

lemma word_opt_lower [simp]:
  "word_opt (map_option lower_char x) = word_opt x"
  "word_opt (next_char (lower s)) = word_opt (next_char s)"
  by (auto simp: word_opt_def next_char_def lower_def split: option.splits list.splits)

definition lower_pos :: "position \<Rightarrow> position" where
  "lower_pos ps = (map_option lower_char (fst ps), lower (snd ps))"

lemma skip_spaces_lower:
  "skip_spaces (map_option lower_char p) (lower s) = map lower_pos (skip_spaces p s)"
proof (induction p s rule: skip_spaces.induct)
  case (2 p c s)
  then show ?case by (auto simp: lower_pos_def lower_def)
qed (simp add: lower_pos_def lower_def)

lemma ends_lower: "ends r (lower_pos ps) = map lower_pos (ends r ps)"
proof (induction r arbitrary: ps)
  case (Chr a)
  then show ?case
    by (cases ps) (auto simp: lower_pos_def lower_def split: list.splits)
next
  case WordB
  then show ?case by (cases ps) (simp add: lower_pos_def)
next
  case Spaces
  then show ?case by (cases ps) (simp add: lower_pos_def skip_spaces_lower [unfolded lower_pos_def])
next
  case (Cat r1 r2)
  then show ?case by (simp add: map_concat o_def)
qed simp_all

lemma search_from_lower:
  "search_from r (map_option lower_char p) (lower s) = search_from r p s"
proof (induction s arbitrary: p)
  case Nil
  show ?case using ends_lower [of r "(p, [])"] by (simp add: lower_pos_def lower_def)
next
  case (Cons c s)
  show ?case using ends_lower [of r "(p, c # s)"] Cons [of "Some c"]
    by (simp add: lower_pos_def lower_def)
qed

lemma search_lower [simp]: "search r (lower s) = search r s"
  using search_from_lower [of r None s] by (simp add: search_def)

end
