(* ===== verification/Block_Detector.thy ===== *)
theory Block_Detector
  imports Regex Domain_Policy
begin

text \<open>
  \<^verbatim>\<open>app/services/block_detector.py\<close>: the block patterns, the classification of a response as a
  block, and the identification of the anti-bot vendor of a site. The patterns are the
  source's, one by one, in the fragment of \<^verbatim>\<open>Regex\<close>.
\<close>

definition CAPTCHA_PATTERNS :: "regex list" where
  "CAPTCHA_PATTERNS =
    [cats [WordB, lit ''g-recaptcha'', WordB],
     cats [lit ''h'', Opt (lit ''-''), lit ''captcha''],
     cats [WordB, lit ''captcha-container'', WordB],
     cats [WordB, lit ''verify you are human'', WordB]]"

definition CLOUDFLARE_PATTERNS :: "regex list" where
  "CLOUDFLARE_PATTERNS =
    [cats [WordB, lit ''cf-chl-''],
     cats [WordB, lit ''cloudflare ray id'', WordB],
     cats [WordB, lit ''attention required!'', Spaces, lit ''|'', Spaces, lit ''cloudflare'', WordB]]"

definition IP_BAN_PATTERNS :: "regex list" where
  "IP_BAN_PATTERNS =
    [cats [WordB, lit ''your ip '', Opt (lit ''address ''), lit ''has been '',
       Alt (lit ''blocked'') (lit ''banned''), WordB],
     cats [WordB, lit ''access from your ip has been denied'', WordB],
     cats [WordB, lit ''temporarily blocked due to suspicious activity'', WordB]]"

definition WAF_PATTERNS :: "regex list" where
  "WAF_PATTERNS =
    [cats [WordB, lit ''request '', Opt (lit ''was ''), lit ''rejected'', WordB],
     cats [WordB, lit ''web application firewall'', WordB],
     cats [WordB, lit ''security policy has blocked'', WordB]]"

definition DATADOME_BODY :: regex where
  "DATADOME_BODY = cats [WordB, lit ''geo.captcha-delivery.com'', WordB]"

definition PERIMETERX_BODY :: regex where
  "PERIMETERX_BODY =
     Alt (cats [WordB, lit ''px-captcha'', WordB]) (cats [WordB, lit ''_pxCaptcha'', WordB])"

definition INCAPSULA_BODY :: regex where
  "INCAPSULA_BODY = cats [WordB, lit ''incapsula incident id'', WordB]"

definition VENDOR_BODY_SLICE :: int where
  "VENDOR_BODY_SLICE = 65536"

definition any_search :: "regex list \<Rightarrow> string \<Rightarrow> bool" where
  "any_search ps s = (\<exists>p \<in> set ps. search p s)"

text \<open>\<^verbatim>\<open>d.get(k, "")\<close>.\<close>

definition get_or_empty :: "headers \<Rightarrow> string \<Rightarrow> string" where
  "get_or_empty d k = (case dict_get d k of None \<Rightarrow> [] | Some v \<Rightarrow> v)"

definition any_key_startswith :: "headers \<Rightarrow> string \<Rightarrow> bool" where
  "any_key_startswith d p = (\<exists>kv \<in> set d. startswith p (fst kv))"

definition cloudflare_fronted :: "headers \<Rightarrow> bool" where
  "cloudflare_fronted nh \<longleftrightarrow>
     has_key nh ''cf-ray'' \<or> contains ''cloudflare'' (lower (get_or_empty nh ''server''))"

definition detect_block_reason :: "int \<Rightarrow> headers \<Rightarrow> bytes \<Rightarrow> BlockReason option" where
  "detect_block_reason status headers body =
     (let normalized_headers = lower_keys headers;
          sample = prefix_to 1000000 body
      in if status = 429 then Some RATE_LIMITED
         else if (400 \<le> status \<and> cloudflare_fronted normalized_headers)
                 \<or> any_search CLOUDFLARE_PATTERNS sample
         then Some CLOUDFLARE
         else if any_search CAPTCHA_PATTERNS sample then Some CAPTCHA
         else if any_search IP_BAN_PATTERNS sample then Some IP_BAN
         else if any_search WAF_PATTERNS sample then Some WAF
         else if status \<in> {401, 403, 407, 451} then Some IP_BAN
         else None)"

definition detect_vendor :: "int \<Rightarrow> headers \<Rightarrow> headers \<Rightarrow> bytes \<Rightarrow> string option" where
  "detect_vendor status headers cookies body =
     (let nh = lower_keys headers;
          nc = lower_keys cookies;
          slice = prefix_to VENDOR_BODY_SLICE body
      in if has_key nh ''cf-ray'' \<or> has_key nc ''__cf_bm'' \<or> has_key nc ''cf_clearance''
            \<or> lower (get_or_empty nh ''server'') = ''cloudflare''
         then Some ''cloudflare''
         else if has_key nc ''_abck'' \<or> has_key nc ''ak_bmsc'' \<or> has_key nc ''bm_sz''
            \<or> any_key_startswith nh ''x-akamai-''
         then Some ''akamai''
         else if has_key nc ''datadome'' \<or> any_key_startswith nh ''x-datadome''
            \<or> search DATADOME_BODY slice
         then Some ''datadome''
         else if any_key_startswith nh ''x-kpsdk-''
         then Some ''kasada''
         else if has_key nc ''_px'' \<or> has_key nc ''_px2'' \<or> has_key nc ''_px3''
            \<or> any_key_startswith nh ''x-px-'' \<or> search PERIMETERX_BODY slice
         then Some ''perimeterx''
         else if any_key_startswith nc ''incap_ses'' \<or> any_key_startswith nc ''visid_incap''
            \<or> has_key nh ''x-iinfo'' \<or> search INCAPSULA_BODY slice
         then Some ''incapsula''
         else if has_key nc ''aws-waf-token'' \<or> any_key_startswith nh ''x-amzn-waf-''
         then Some ''aws_waf''
         else None)"

section \<open>Facts\<close>

lemma any_search_lower [simp]: "any_search ps (lower s) = any_search ps s"
  by (simp add: any_search_def)

lemma any_search_map_lower [simp]: "any_search ps (map lower_char s) = any_search ps s"
  using any_search_lower [of ps s] by (simp add: lower_def)

lemma any_search_matches:
  "any_search ps s \<longleftrightarrow>
    (\<exists>r \<in> set ps. \<exists>u w t. s = u @ w @ t \<and> matches r (last_char None u) w t)"
  by (simp add: any_search_def search_def search_from_iff)

section \<open>Properties\<close>

text \<open>
  C31. What a page must contain to be classified by its body: on a status below 400 the headers
  are irrelevant, and the response is a block if and only if some part of its first million
  bytes matches one of the Cloudflare, CAPTCHA, IP-ban or WAF patterns in the declarative
  reading of the patterns. Clean responses of a Cloudflare-fronted site are never blocks.
\<close>

theorem detect_block_reason_below_400:
  assumes "status < 400"
  shows "detect_block_reason status headers body \<noteq> None \<longleftrightarrow>
    (\<exists>r \<in> set (CLOUDFLARE_PATTERNS @ CAPTCHA_PATTERNS @ IP_BAN_PATTERNS @ WAF_PATTERNS).
       \<exists>u w t. take 1000000 body = u @ w @ t \<and> matches r (last_char None u) w t)"
proof -
  have "detect_block_reason status headers body \<noteq> None \<longleftrightarrow>
      any_search CLOUDFLARE_PATTERNS (take 1000000 body) \<or> any_search CAPTCHA_PATTERNS (take 1000000 body)
      \<or> any_search IP_BAN_PATTERNS (take 1000000 body) \<or> any_search WAF_PATTERNS (take 1000000 body)"
    using assms by (simp add: detect_block_reason_def Let_def prefix_to_take)
  then show ?thesis by (auto simp: any_search_matches)
qed

theorem detect_block_reason_below_400_witness:
  "\<exists>r \<in> set (CLOUDFLARE_PATTERNS @ CAPTCHA_PATTERNS @ IP_BAN_PATTERNS @ WAF_PATTERNS).
     \<exists>u w t. take 1000000 ''<title>Attention Required! | Cloudflare</title>'' = u @ w @ t
       \<and> matches r (last_char None u) w t"
proof -
  have "detect_block_reason 200 [] ''<title>Attention Required! | Cloudflare</title>'' = Some CLOUDFLARE"
    by code_simp
  then show ?thesis
    using detect_block_reason_below_400 [of 200 "[]" "''<title>Attention Required! | Cloudflare</title>''"]
    by simp
qed

text \<open>
  What happens above: 429 is always rate limiting; otherwise a Cloudflare-fronted failure is a
  Cloudflare block; otherwise, when no pattern occurs in the sample, the response is an IP ban
  exactly for 401, 403, 407 and 451, and every other status (404, 500, ...) is not a block.
\<close>

lemma detect_block_reason_statuses:
  "detect_block_reason 429 headers body = Some RATE_LIMITED
   \<and> (400 \<le> status \<and> status \<noteq> 429 \<and> cloudflare_fronted (lower_keys headers) \<longrightarrow>
        detect_block_reason status headers body = Some CLOUDFLARE)
   \<and> (\<not> cloudflare_fronted (lower_keys headers) \<and> status \<noteq> 429
      \<and> \<not> any_search (CLOUDFLARE_PATTERNS @ CAPTCHA_PATTERNS @ IP_BAN_PATTERNS @ WAF_PATTERNS)
          (prefix_to 1000000 body) \<longrightarrow>
        detect_block_reason status headers body
          = (if status \<in> {401, 403, 407, 451} then Some IP_BAN else None))"
  by (auto simp: detect_block_reason_def Let_def any_search_def)

lemma detect_block_reason_statuses_witness:
  "detect_block_reason 403 [(''Server'', ''nginx'')] ''denied'' = Some IP_BAN
   \<and> detect_block_reason 404 [(''Server'', ''nginx'')] ''denied'' = None
   \<and> detect_block_reason 503 [(''Server'', ''CloudFlare'')] [] = Some CLOUDFLARE"
proof -
  have "\<not> cloudflare_fronted (lower_keys [(''Server'', ''nginx'')])"
    and "cloudflare_fronted (lower_keys [(''Server'', ''CloudFlare'')])"
    and "\<not> any_search (CLOUDFLARE_PATTERNS @ CAPTCHA_PATTERNS @ IP_BAN_PATTERNS @ WAF_PATTERNS)
      (prefix_to 1000000 ''denied'')" by code_simp+
  then show ?thesis
    using detect_block_reason_statuses [of "[(''Server'', ''nginx'')]" "''denied''" 403]
      detect_block_reason_statuses [of "[(''Server'', ''nginx'')]" "''denied''" 404]
      detect_block_reason_statuses [of "[(''Server'', ''CloudFlare'')]" "[]" 503] by simp
qed

text \<open>
  Detection does not depend on letter case: neither the case of the body nor that of the
  header names changes the classification or the vendor.
\<close>

lemma detection_case_insensitive:
  "detect_block_reason status (lower_keys headers) (lower body) = detect_block_reason status headers body
   \<and> detect_vendor status (lower_keys headers) (lower_keys cookies) (lower body)
     = detect_vendor status headers cookies body"
proof -
  have keys: "lower_keys (lower_keys d) = lower_keys d" for d :: headers
    by (simp add: lower_keys_def comp_def case_prod_beta)
  have pre: "prefix_to n (lower b) = lower (prefix_to n b)" for n b
    by (simp add: lower_def prefix_to_map)
  show ?thesis
    by (simp only: detect_block_reason_def detect_vendor_def Let_def keys pre any_search_lower
        search_lower)
qed

text \<open>
  Vendor detection is a property of the site, not of the failure: it ignores the status, it
  reads at most the first 64 KB of the body, and Cloudflare and Akamai are recognised from
  headers and cookies alone, whatever the body holds.
\<close>

lemma detect_vendor_site_property:
  "detect_vendor status headers cookies body
     = detect_vendor status' headers cookies (prefix_to VENDOR_BODY_SLICE body)
   \<and> (detect_vendor status headers cookies body \<in> {Some ''cloudflare'', Some ''akamai''}
      \<longleftrightarrow> detect_vendor status headers cookies [] \<in> {Some ''cloudflare'', Some ''akamai''})"
proof
  show "detect_vendor status headers cookies body
     = detect_vendor status' headers cookies (prefix_to VENDOR_BODY_SLICE body)"
    by (simp add: detect_vendor_def Let_def)
  show "detect_vendor status headers cookies body \<in> {Some ''cloudflare'', Some ''akamai''}
      \<longleftrightarrow> detect_vendor status headers cookies [] \<in> {Some ''cloudflare'', Some ''akamai''}"
    unfolding detect_vendor_def Let_def by (simp split: if_split)
qed

end
