(* ===== verification/Policy_Learner.thy ===== *)
theory Policy_Learner
  imports Seeding Block_Detector Escalation
begin

text \<open>
  \<^verbatim>\<open>app/services/policy_learner.py\<close>: what the outcome of a fetch changes in the policy row, and
  the invariant of the \<^verbatim>\<open>domain_policies\<close> table under every operation that writes it.

  The database's part in one call is an argument: the row may be locked by another worker or
  gone (\<^verbatim>\<open>SKIP LOCKED\<close> then returns no row), or a statement may raise, after which the session
  rolls back.
\<close>

datatype db_outcome = DbOk | DbLocked | DbRaises

definition MIN_TIER :: int where
  "MIN_TIER = 0"

text \<open>The tier after an outcome, for a row that is not locked.\<close>

definition new_tier :: "bool \<Rightarrow> int \<Rightarrow> int \<Rightarrow> int" where
  "new_tier blocked tier_used current =
     (if blocked then max tier_used current
      else max (max tier_used (current - 1)) MIN_TIER)"

text \<open>The assignments to the live row, in the order of the source.\<close>

definition learn_row ::
  "FetchResult \<Rightarrow> string option \<Rightarrow> int \<Rightarrow> datetime \<Rightarrow> DomainPolicy \<Rightarrow> DomainPolicy" where
  "learn_row result vendor tier_used now row =
     (let row = (case vendor of None \<Rightarrow> row
                 | Some v \<Rightarrow> if dp_antibot_type row \<noteq> Some v
                             then row\<lparr>dp_antibot_type := Some v\<rparr> else row);
          row = (if \<not> dp_tier_locked row
                 then row\<lparr>dp_escalation_tier :=
                        new_tier (fr_blocked result) tier_used (dp_escalation_tier row)\<rparr>
                 else row)
      in if fr_blocked result
         then row\<lparr>dp_last_block_reason := fr_block_reason result,
                 dp_consecutive_blocks := dp_consecutive_blocks row + 1\<rparr>
         else row\<lparr>dp_last_success_at := Some now, dp_consecutive_blocks := 0\<rparr>)"

definition record_outcome ::
  "db_outcome \<Rightarrow> FetchResult \<Rightarrow> DomainPolicy option \<Rightarrow> int \<Rightarrow> datetime \<Rightarrow> policy_table \<Rightarrow> policy_table" where
  "record_outcome db result policy tier_used now tbl =
     (case policy of
        None \<Rightarrow> tbl
      | Some p \<Rightarrow>
          (let vendor = detect_vendor (fr_status_code result) (fr_headers result) []
                          (prefix_to 65536 (fr_body result))
           in case db of
                DbRaises \<Rightarrow> tbl
              | DbLocked \<Rightarrow> tbl
              | DbOk \<Rightarrow> update_where (\<lambda>r. dp_id r = dp_id p)
                          (learn_row result vendor tier_used now) tbl))"

section \<open>What a learner promises about tiers\<close>

text \<open>
  The contract between a sequence of outcomes and the tier: a block never lowers it and raises
  it at most to the tier that was used; a success lowers it by at most one.
\<close>

locale tier_learner =
  fixes learn :: "bool \<Rightarrow> int \<Rightarrow> int \<Rightarrow> int" and bottom top :: int
  assumes block_up: "current \<le> learn True used current"
    and block_cap: "learn True used current \<le> max used current"
    and success_step: "current - 1 \<le> learn False used current"
    and success_cap: "bottom \<le> used \<Longrightarrow> bottom \<le> current \<Longrightarrow> learn False used current \<le> max used current"
    and above: "bottom \<le> current \<Longrightarrow> bottom \<le> learn b used current"
    and bottom_top: "bottom \<le> top"
begin

lemma in_range:
  assumes "bottom \<le> used" "used \<le> top" "bottom \<le> current" "current \<le> top"
  shows "bottom \<le> learn b used current \<and> learn b used current \<le> top"
  using above [of current b used] block_cap [of used current] success_cap [of used current] assms
  by (cases b) auto

lemma outcomes_in_range:
  assumes "\<forall>(b, used) \<in> set os. bottom \<le> used \<and> used \<le> top" "bottom \<le> current" "current \<le> top"
  shows "bottom \<le> fold (\<lambda>(b, used). learn b used) os current
    \<and> fold (\<lambda>(b, used). learn b used) os current \<le> top"
  using assms by (induction os arbitrary: current) (auto simp: in_range)

lemma successes_needed:
  "current - int (length (filter (\<lambda>(b, _). \<not> b) os)) \<le> fold (\<lambda>(b, used). learn b used) os current"
proof (induction os arbitrary: current)
  case (Cons x os)
  obtain b used where x: "x = (b, used)" by (cases x)
  have "current - (if b then 0 else 1) \<le> learn b used current"
    using block_up [of current used] success_step [of current used] by (cases b) auto
  moreover have "learn b used current - int (length (filter (\<lambda>(b, _). \<not> b) os))
      \<le> fold (\<lambda>(b, used). learn b used) os (learn b used current)" by (rule Cons.IH)
  ultimately show ?case by (auto simp: x)
qed simp

end

interpretation ladder_learner: tier_learner new_tier MIN_TIER 6
  by unfold_locales (auto simp: new_tier_def MIN_TIER_def max_def)

section \<open>The invariant of the table\<close>

definition policy_ok :: "DomainPolicy \<Rightarrow> bool" where
  "policy_ok r \<longleftrightarrow> 0 \<le> dp_escalation_tier r \<and> dp_escalation_tier r \<le> 6
     \<and> 0 \<le> dp_consecutive_blocks r
     \<and> 1 \<le> dp_max_escalation_attempts r \<and> dp_max_escalation_attempts r \<le> 50
     \<and> 0 \<le> dp_max_retries r \<and> dp_max_retries r \<le> 10"

definition policies_ok :: "policy_table \<Rightarrow> bool" where
  "policies_ok tbl \<longleftrightarrow> unique_on dp_id tbl \<and> unique_on dp_domain tbl \<and> (\<forall>r \<in> set tbl. policy_ok r)"

text \<open>Every way the program writes the table.\<close>

inductive policy_step :: "(string \<Rightarrow> string) \<Rightarrow> policy_table \<Rightarrow> policy_table \<Rightarrow> bool"
  for rd :: "string \<Rightarrow> string" where
  create: "valid_create body \<Longrightarrow> i \<notin> dp_id ` set tbl \<Longrightarrow>
    policy_step rd tbl (snd (create_domain_policy rd i body tbl))"
| patch: "valid_update body \<Longrightarrow> policy_step rd tbl (snd (update_domain_policy pid body tbl))"
| delete: "policy_step rd tbl (snd (delete_domain_policy pid tbl))"
| pin: "policy_step rd tbl (snd (pin_escalation_tier pid tier locked tbl))"
| seed: "distinct (map fst ds) \<Longrightarrow> set (map fst ds) \<inter> dp_id ` set tbl = {} \<Longrightarrow>
    policy_step rd tbl (snd (seed sfx engine_ok dry_run database_url ds tbl))"
| learn: "0 \<le> tier_used \<Longrightarrow> tier_used \<le> 6 \<Longrightarrow>
    policy_step rd tbl (record_outcome db result policy tier_used now tbl)"

inductive_cases policy_stepE: "policy_step rd tbl tbl'"

lemma learn_row_keys [simp]:
  "dp_id (learn_row result v t now r) = dp_id r" "dp_domain (learn_row result v t now r) = dp_domain r"
  "dp_tier_locked (learn_row result v t now r) = dp_tier_locked r"
  by (auto simp: learn_row_def Let_def split: option.splits)

lemma learn_row_tier:
  "dp_escalation_tier (learn_row result v t now r) =
     (if dp_tier_locked r then dp_escalation_tier r
      else new_tier (fr_blocked result) t (dp_escalation_tier r))"
  by (auto simp: learn_row_def Let_def split: option.splits)

lemma learn_row_other:
  "dp_consecutive_blocks (learn_row result v t now r)
     = (if fr_blocked result then dp_consecutive_blocks r + 1 else 0)"
  "dp_max_escalation_attempts (learn_row result v t now r) = dp_max_escalation_attempts r"
  "dp_max_retries (learn_row result v t now r) = dp_max_retries r"
  "dp_antibot_type (learn_row result v t now r) = (case v of None \<Rightarrow> dp_antibot_type r | Some a \<Rightarrow> Some a)"
  by (auto simp: learn_row_def Let_def split: option.splits)

lemma policy_ok_learn:
  assumes "policy_ok r" "0 \<le> t" "t \<le> 6"
  shows "policy_ok (learn_row result v t now r)"
  using assms ladder_learner.in_range [of t "dp_escalation_tier r" "fr_blocked result"]
  by (auto simp: policy_ok_def learn_row_tier learn_row_other MIN_TIER_def)

lemma policy_ok_create: "valid_create b \<Longrightarrow> policy_ok r \<Longrightarrow> policy_ok (create_updates b r)"
  by (simp add: policy_ok_def valid_create_def create_updates_def)

lemma policy_ok_new [simp]: "policy_ok (new_policy i d)"
  by (simp add: policy_ok_def new_policy_def)

lemma policy_ok_patch: "valid_update b \<Longrightarrow> policy_ok r \<Longrightarrow> policy_ok (patch_updates b r)"
  by (auto simp: policy_ok_def valid_update_def patch_updates_def or_keep_def opt_range_def
      split: option.splits)

lemma policies_ok_update_where:
  assumes "policies_ok tbl" "\<And>r. dp_id (f r) = dp_id r" "\<And>r. dp_domain (f r) = dp_domain r"
    "\<And>r. policy_ok r \<Longrightarrow> policy_ok (f r)"
  shows "policies_ok (update_where P f tbl)"
proof -
  have "unique_on dp_id (update_where P f tbl) = unique_on dp_id tbl"
    by (rule unique_on_update_where) (rule assms(2))
  moreover have "unique_on dp_domain (update_where P f tbl) = unique_on dp_domain tbl"
    by (rule unique_on_update_where) (rule assms(3))
  moreover have "\<forall>r \<in> set (update_where P f tbl). policy_ok r"
    by (rule ball_update_where) (use assms(1,4) in \<open>auto simp: policies_ok_def\<close>)
  ultimately show ?thesis using assms(1) by (simp add: policies_ok_def)
qed

lemma policies_ok_upsert:
  assumes "policies_ok tbl" "valid_create b" "i \<notin> dp_id ` set tbl"
  shows "policies_ok (upsert_policy rd i d (create_updates b) tbl)"
proof (cases "get_by dp_domain (normalize_domain rd d) tbl")
  case None
  have "get_by dp_id i tbl = None" using assms(3) by (auto simp: get_by_None_iff)
  with None assms show ?thesis
    by (auto simp: upsert_policy_def Let_def policies_ok_def unique_on_insert_row policy_ok_create)
next
  case (Some r)
  with assms show ?thesis
    by (auto simp: upsert_policy_def Let_def intro: policies_ok_update_where policy_ok_create)
qed

lemma policies_ok_delete: "policies_ok tbl \<Longrightarrow> policies_ok (delete_where P tbl)"
  by (auto simp: policies_ok_def unique_on_delete_where)

lemma policies_ok_seed:
  assumes "policies_ok tbl" "distinct (map fst ds)" "set (map fst ds) \<inter> dp_id ` set tbl = {}"
  shows "policies_ok (snd (seed sfx engine_ok dry_run database_url ds tbl))"
proof (cases "engine_ok database_url \<and> (\<exists>r. seed_loop sfx dry_run ds tbl 0 0 = Inr r)")
  case True
  then obtain a b tbl' where run: "seed_loop sfx dry_run ds tbl 0 0 = Inr (a, b, tbl')" by auto
  have "policy_ok (seed_row sfx i d)" for i d by (simp add: policy_ok_def seed_row_def new_policy_def)
  with seed_loop_keeps_unique [OF run] assms show ?thesis
    using True run by (auto simp: seed_def policies_ok_def)
qed (use assms(1) in \<open>auto simp: seed_def split: sum.splits\<close>)

lemma policies_ok_step:
  assumes "policy_step rd tbl tbl'" "policies_ok tbl"
  shows "policies_ok tbl'"
  using assms
proof cases
  case create
  with assms show ?thesis by (simp add: create_domain_policy_def Let_def policies_ok_upsert)
next
  case patch
  with assms show ?thesis
    by (auto simp: update_domain_policy_def split: option.splits
        intro: policies_ok_update_where policy_ok_patch)
next
  case delete
  with assms show ?thesis by (auto simp: delete_domain_policy_def policies_ok_delete)
next
  case (pin pid tier locked)
  with assms show ?thesis
    by (auto simp: pin_escalation_tier_def Let_def policy_ok_def or_keep_def split: option.splits
        intro!: policies_ok_update_where)
next
  case seed
  with assms show ?thesis by (simp add: policies_ok_seed)
next
  case learn
  with assms show ?thesis
    by (auto simp: record_outcome_def Let_def split: option.splits db_outcome.splits
        intro: policies_ok_update_where policy_ok_learn)
qed

section \<open>Properties\<close>

text \<open>
  C28. The table invariant over every history: starting from the empty table, whatever sequence of
  creations, patches, deletions, pins, runs of the seed script and learned outcomes happens, identifiers and domains stay
  unique and every row's tier stays on the ladder (0 to 6) with its counters in range.
\<close>

theorem policies_ok_reachable:
  assumes "(policy_step rd)\<^sup>*\<^sup>* [] tbl"
  shows "policies_ok tbl"
  using assms
proof (induction rule: rtranclp_induct)
  case base
  show ?case by (simp add: policies_ok_def)
next
  case (step y z)
  from step.hyps(2) step.IH show ?case by (rule policies_ok_step)
qed

theorem policies_ok_reachable_witness:
  "policies_ok (snd (pin_escalation_tier 7 (Some 5) True
     (snd (seed (\<lambda>_. ''de'') (\<lambda>_. True) False [] [(7, ''amazon.de''), (8, ''otto.de'')] []))))"
proof -
  let ?t = "snd (seed (\<lambda>_. ''de'') (\<lambda>_. True) False [] [(7, ''amazon.de''), (8, ''otto.de'')] [])"
  have "policy_step id [] ?t" by (rule policy_step.seed) simp_all
  moreover have "policy_step id ?t (snd (pin_escalation_tier 7 (Some 5) True ?t))" by (rule policy_step.pin)
  ultimately have "(policy_step id)\<^sup>*\<^sup>* [] (snd (pin_escalation_tier 7 (Some 5) True ?t))" by simp
  then show ?thesis by (rule policies_ok_reachable)
qed

text \<open>
  Learning from a sequence of outcomes on an unlocked row: the tier stays between 0 and 6,
  and it drops below its starting value by at most the number of successes, so a hard domain
  cannot collapse to tier 0 on one lucky hit.
\<close>

lemma learned_tiers_bounded:
  assumes "\<forall>(b, used) \<in> set os. 0 \<le> used \<and> used \<le> 6" "0 \<le> current" "current \<le> 6"
  shows "fold (\<lambda>(b, used). new_tier b used) os current \<in> {0..6}
    \<and> current - int (length (filter (\<lambda>(b, _). \<not> b) os)) \<le> fold (\<lambda>(b, used). new_tier b used) os current"
  using ladder_learner.outcomes_in_range [of os current] ladder_learner.successes_needed [of current os]
    assms by (simp add: MIN_TIER_def)

lemma learned_tiers_bounded_witness:
  "fold (\<lambda>(b, used). new_tier b used) [(True, 5), (False, 0), (False, 1)] 2 \<in> {0..6}
   \<and> fold (\<lambda>(b, used). new_tier b used) [(True, 5), (False, 0), (False, 1)] 2 = 3"
  using learned_tiers_bounded [of "[(True, 5), (False, 0), (False, 1)]" 2]
  by (simp add: new_tier_def MIN_TIER_def)

text \<open>
  \<^verbatim>\<open>record_outcome\<close> changes the row it was called for and no other, never the tier of a locked
  row; a block counts up and never lowers the tier, a success resets the counter and stamps the
  time; an undetected vendor keeps the recorded one. A lost race or a failing database leaves the
  table as it was.
\<close>

lemma record_outcome_effect:
  assumes "policies_ok tbl" "get_by dp_id i tbl = Some r" "policy = Some p"
  shows "\<exists>r'. get_by dp_id i (record_outcome db result policy tier_used now tbl) = Some r'
    \<and> (db \<noteq> DbOk \<or> dp_id p \<noteq> i \<longrightarrow> r' = r)
    \<and> (dp_tier_locked r \<longrightarrow> dp_escalation_tier r' = dp_escalation_tier r)
    \<and> (fr_blocked result \<longrightarrow> dp_escalation_tier r \<le> dp_escalation_tier r')
    \<and> (dp_antibot_type r \<noteq> None \<longrightarrow> dp_antibot_type r' \<noteq> None)
    \<and> (db = DbOk \<and> dp_id p = i \<longrightarrow>
        dp_consecutive_blocks r' = (if fr_blocked result then dp_consecutive_blocks r + 1 else 0)
        \<and> dp_last_success_at r' = (if fr_blocked result then dp_last_success_at r else Some now))"
proof -
  let ?v = "detect_vendor (fr_status_code result) (fr_headers result) [] (prefix_to 65536 (fr_body result))"
  let ?f = "learn_row result ?v tier_used now"
  have id: "dp_id r = i" using assms(2) by (auto dest: get_by_SomeD)
  have get: "get_by dp_id i (record_outcome db result policy tier_used now tbl)
      = Some (if db = DbOk \<and> dp_id p = i then ?f r else r)"
    using assms id by (auto simp: record_outcome_def Let_def get_by_update_where split: db_outcome.splits)
  have succ: "dp_last_success_at (?f r) = (if fr_blocked result then dp_last_success_at r else Some now)"
    by (auto simp: learn_row_def Let_def split: option.splits)
  show ?thesis
    using succ ladder_learner.block_up [of "dp_escalation_tier r" tier_used]
    by (auto simp: get learn_row_tier learn_row_other split: option.splits)
qed

lemma record_outcome_effect_witness:
  "\<exists>r'. get_by dp_id 1 (record_outcome DbOk ((fetch_result ''u'' 403)\<lparr>fr_blocked := True\<rparr>)
      (Some (new_policy 1 ''a.com'')) 3 0 [new_policy 1 ''a.com'']) = Some r'
    \<and> dp_consecutive_blocks r' = 1 \<and> 0 \<le> dp_escalation_tier r'"
proof -
  let ?p = "new_policy 1 ''a.com''"
  have "policies_ok [?p]" by (simp add: policies_ok_def unique_on_def)
  moreover have "get_by dp_id 1 [?p] = Some ?p" by (simp add: get_by_def)
  ultimately show ?thesis
    using record_outcome_effect [of "[?p]" 1 ?p "Some ?p" ?p DbOk
        "(fetch_result ''u'' 403)\<lparr>fr_blocked := True\<rparr>" 3 0]
    by (auto simp: new_policy_def fetch_result_def)
qed

text \<open>
  What the comment \<^emph>\<open>never ratchet up on success\<close> does not say: a success at a tier above the
  learned one raises the learned tier to the tier that was used.
\<close>

lemma success_ratchets_up:
  "dp_escalation_tier (learn_row ((fetch_result u 200)\<lparr>fr_blocked := False\<rparr>) None 5 now
     ((new_policy i d)\<lparr>dp_escalation_tier := 1\<rparr>)) = 5"
  by (simp add: learn_row_tier new_policy_def fetch_result_def new_tier_def MIN_TIER_def)

text \<open>
  A policy created over the API is the one the fetch path finds: for every URL whose host
  normalises to a domain that normalises to itself, the creation is answered with the row, and
  \<^verbatim>\<open>resolve_policy\<close> returns that very row unless an inactive row stood there before.
\<close>

lemma create_then_resolve:
  assumes "tld_laws rd" "policies_ok tbl" "normalize_domain rd (pc_domain body) = d"
    "\<not> startswith ''www.'' d"
    "parse_hostname rd url = Inr d"
    "\<forall>r \<in> set tbl. dp_domain r = d \<longrightarrow> dp_is_active r"
    "create_domain_policy rd i body tbl = (res, tbl')"
  shows "\<exists>r. res = Inr r \<and> resolve_policy rd url tbl' = Inr (Some r)
    \<and> dp_domain r = d \<and> dp_engine r = pc_engine body \<and> dp_escalation_tier r = pc_escalation_tier body"
proof -
  have dd: "normalize_domain rd d = d"
    using normalize_domain_idem [OF assms(1), of "pc_domain body"] assms(3,4) by simp
  have t: "tbl' = upsert_policy rd i d (create_updates body) tbl"
    and res: "res = of_option (RuntimeError ''NoResultFound'') (get_by dp_domain d tbl')"
    using assms(3,7) by (auto simp: create_domain_policy_def Let_def)
  obtain r where r: "get_by dp_domain d tbl' = Some (create_updates body r)" "dp_domain r = d"
    "get_by dp_domain d tbl = Some r \<or> r = new_policy i d"
    using upsert_get_domain [of rd d i body tbl] by (auto simp: dd t)
  have act: "dp_is_active r" using r(3) assms(6) by (auto dest: get_by_SomeD)
  have same: "(dp_domain x = d \<and> dp_is_active x) = (dp_domain x = d)" if "x \<in> set tbl'" for x
    using that assms(6) by (auto simp: t upsert_policy_def Let_def dd set_update_where split: if_splits)
  have "find (\<lambda>x. dp_domain x = d \<and> dp_is_active x) tbl' = get_by dp_domain d tbl'"
    unfolding get_by_def by (rule find_cong) (use same in auto)
  with r act assms(5) show ?thesis
    by (simp add: res resolve_policy_def create_updates_def)
qed

text \<open>A registered-domain function and a request body for a concrete instance.\<close>

definition example_rd :: "string \<Rightarrow> string" where
  "example_rd h = (if endswith ''example.com'' h then ''example.com'' else [])"

definition example_create :: DomainPolicyCreate where
  "example_create =
     \<lparr>pc_domain = ''www.Shop.example.com'', pc_proxy_pool_id = None, pc_engine = ''curl_cffi'',
      pc_rate_limit_rps = 1, pc_min_delay_ms = 500, pc_max_delay_ms = 2000, pc_max_retries = 3,
      pc_respect_robots = True, pc_header_profile = None, pc_sticky_session = False,
      pc_antibot_type = None, pc_proxy_type = None, pc_escalation_tier = 2, pc_tier_locked = False,
      pc_max_escalation_attempts = 12\<rparr>"

lemma create_then_resolve_witness:
  "\<exists>r. resolve_policy example_rd ''https://m.example.com/p'' (snd (create_domain_policy example_rd 1 example_create []))
      = Inr (Some r) \<and> dp_engine r = ''curl_cffi'' \<and> dp_escalation_tier r = 2"
proof -
  have "tld_laws example_rd"
    by (auto simp: tld_laws_def example_rd_def endswith_def lower_def lower_char_def ord_def)
  moreover have "policies_ok []" by (simp add: policies_ok_def)
  moreover have "normalize_domain example_rd (pc_domain example_create) = ''example.com''" by code_simp
  moreover have "\<not> startswith ''www.'' ''example.com''" by code_simp
  moreover have "parse_hostname example_rd ''https://m.example.com/p'' = Inr ''example.com''" by code_simp
  ultimately show ?thesis
    using create_then_resolve [of example_rd "[]" example_create "''example.com''" "''https://m.example.com/p''" 1
        "fst (create_domain_policy example_rd 1 example_create [])"
        "snd (create_domain_policy example_rd 1 example_create [])"]
    by (auto simp: example_create_def)
qed

end
