(* ===== verification/Fetch_Task.thy ===== *)
theory Fetch_Task
  imports Job_Service Content_Decoder Policy_Learner
begin

text \<open>
  The worker's task, \<^verbatim>\<open>app/worker/tasks/fetch_task.py\<close>: status updates, fetch, decoding, archival,
  learning, usage accounting and the callback, with its two exception handlers.

  The world of the fetch (Redis, the proxies, the network) is one abstract state on which the Redis
  commands, the fetch services and the archive act; the policy and usage tables and the scheduled
  callbacks are kept beside it. The clock readings are numbered in the order they are taken.
\<close>

section \<open>The response schema\<close>

definition b64_char :: "int \<Rightarrow> char" where
  "b64_char n = ''ABCDEFGHIJKLMNOPQRSTUVWXYZabcdefghijklmnopqrstuvwxyz0123456789+/'' ! nat n"

text \<open>\<^verbatim>\<open>base64.b64encode(s).decode()\<close>.\<close>

fun b64encode :: "bytes \<Rightarrow> string" where
  "b64encode [] = []"
| "b64encode [a] = (let n = ord a * 16 in [b64_char (n div 64), b64_char (n mod 64), CHR ''='', CHR ''=''])"
| "b64encode [a, b] =
     (let n = (ord a * 256 + ord b) * 4
      in [b64_char (n div 4096), b64_char (n div 64 mod 64), b64_char (n mod 64), CHR ''=''])"
| "b64encode (a # b # c # rest) =
     (let n = ord a * 65536 + ord b * 256 + ord c
      in b64_char (n div 262144) # b64_char (n div 4096 mod 64) # b64_char (n div 64 mod 64) # b64_char (n mod 64)
         # b64encode rest)"

definition opt_str :: "string option \<Rightarrow> json" where
  "opt_str x = (case x of None \<Rightarrow> JNull | Some s \<Rightarrow> JStr s)"

record integrity_fields =
  if_body_bytes :: nat
  if_content_sha256 :: string
  if_original_content_encoding :: "string option"

text \<open>\<^verbatim>\<open>FetchResultSchema.from_result(...).model_dump(mode="json")\<close>; a result has no country.\<close>

definition from_result :: "FetchResult \<Rightarrow> integrity_fields \<Rightarrow> json" where
  "from_result r ing =
     JObj [(''api_version'', JNum 2), (''url'', JStr (fr_url r)), (''status_code'', JNum (fr_status_code r)),
      (''headers'', JObj (map (\<lambda>(k, v). (k, JStr v)) (fr_headers r))),
      (''body_b64'', JStr (b64encode (fr_body r))), (''body_is_compressed'', JBool False),
      (''body_bytes'', JNum (int (if_body_bytes ing))), (''content_sha256'', JStr (if_content_sha256 ing)),
      (''original_content_encoding'', opt_str (if_original_content_encoding ing)),
      (''encoding'', JStr (fr_encoding r)), (''elapsed_ms'', JNum (fr_elapsed_ms r)),
      (''proxy_id'', opt_str (map_option uuid_str (fr_proxy_id r))), (''proxy_country'', JNull),
      (''engine'', JStr (fr_engine r)), (''blocked'', JBool (fr_blocked r)),
      (''block_reason'', opt_str (map_option br_value (normalize_block_reason (fr_block_reason r)))),
      (''retries_used'', JNum (fr_retries_used r)), (''tier_used'', JNum (fr_tier_used r)),
      (''trace_id'', opt_str (fr_trace_id r))]"

section \<open>Usage\<close>

record UsageCounter =
  uc_id :: uuid
  uc_application_id :: uuid
  uc_period_month :: date
  uc_request_count :: int
  uc_bytes_received :: int
  uc_cost_eur_cents :: int
  uc_updated_at :: datetime

definition COST_EUR_PER_GB :: real where
  "COST_EUR_PER_GB = 35 / 10"

definition bytes_to_eur_cost :: "nat \<Rightarrow> real" where
  "bytes_to_eur_cost body_bytes = (real body_bytes / 1024 ^ 3) * COST_EUR_PER_GB"

text \<open>
  INSERT ... ON CONFLICT (application_id, period_month) DO UPDATE; nothing happens when the
  identifier does not parse or the database raises. \<open>i\<close> is the identifier of a new row.
\<close>

definition upsert_usage ::
  "bool \<Rightarrow> uuid \<Rightarrow> datetime \<Rightarrow> string \<Rightarrow> nat \<Rightarrow> UsageCounter list \<Rightarrow> UsageCounter list" where
  "upsert_usage db_ok i now application_id body_bytes tbl =
     (case uuid_parse application_id of
        None \<Rightarrow> tbl
      | Some aid \<Rightarrow>
          (let month_start = replace_day_1 (date_of now);
               cost_cents = \<lceil>bytes_to_eur_cost body_bytes * 100\<rceil>;
               same = (\<lambda>r. uc_application_id r = aid \<and> uc_period_month r = month_start)
           in if \<not> db_ok then tbl
              else if find same tbl = None
              then insert_row \<lparr>uc_id = i, uc_application_id = aid, uc_period_month = month_start,
                     uc_request_count = 1, uc_bytes_received = int body_bytes, uc_cost_eur_cents = cost_cents,
                     uc_updated_at = now\<rparr> tbl
              else update_where same (\<lambda>r. r\<lparr>uc_request_count := uc_request_count r + 1,
                     uc_bytes_received := uc_bytes_received r + int body_bytes,
                     uc_cost_eur_cents := uc_cost_eur_cents r + cost_cents, uc_updated_at := now\<rparr>) tbl))"

record UsageSummary =
  us_application_id :: uuid
  us_periods :: "UsageCounter list"
  us_total_requests :: int
  us_total_bytes :: int
  us_total_cost_eur_cents :: int

definition build_summary :: "uuid \<Rightarrow> date option \<Rightarrow> date option \<Rightarrow> UsageCounter list \<Rightarrow> UsageSummary" where
  "build_summary application_id from_month to_month tbl =
     (let periods = rev (sort_key uc_period_month (filter (\<lambda>r. uc_application_id r = application_id
            \<and> (case from_month of None \<Rightarrow> True | Some d \<Rightarrow> d \<le> uc_period_month r)
            \<and> (case to_month of None \<Rightarrow> True | Some d \<Rightarrow> uc_period_month r \<le> d)) tbl))
      in \<lparr>us_application_id = application_id, us_periods = periods,
          us_total_requests = sum_list (map uc_request_count periods),
          us_total_bytes = sum_list (map uc_bytes_received periods),
          us_total_cost_eur_cents = sum_list (map uc_cost_eur_cents periods)\<rparr>)"

definition get_my_usage :: "ApiKey \<Rightarrow> date option \<Rightarrow> date option \<Rightarrow> UsageCounter list \<Rightarrow> UsageSummary" where
  "get_my_usage api_key from_month to_month tbl = build_summary (k_application_id api_key) from_month to_month tbl"

definition get_app_usage :: "uuid \<Rightarrow> date option \<Rightarrow> date option \<Rightarrow> UsageCounter list \<Rightarrow> UsageSummary" where
  "get_app_usage application_id from_month to_month tbl = build_summary application_id from_month to_month tbl"

section \<open>The task\<close>

definition MODE_TO_ENGINE :: "(string \<times> string) list" where
  "MODE_TO_ENGINE = [(''static'', ''httpx''), (''stealth'', ''curl_cffi''), (''browser'', ''playwright''),
     (''camoufox'', ''camoufox'')]"

record callback =
  cb_job_id :: string
  cb_status :: JobStatus
  cb_url :: string
  cb_result :: json
  cb_error :: "string option"
  cb_timestamp :: datetime

text \<open>
  What the task gets from its context: the services, the settings, the archive (\<^const>\<open>None\<close> without
  one), the outcome of the database statements.
\<close>

record 'w task_env =
  te_redis :: "'w redis"
  te_services :: "'w services"
  te_rd :: "string \<Rightarrow> string"
  te_enable_premium :: bool
  te_codecs :: codecs
  te_archive :: "(FetchResult \<Rightarrow> bytes \<Rightarrow> 'w \<Rightarrow> (exn + unit) \<times> 'w) option"
  te_ttl :: int
  te_secret :: string
  te_resolve_exn :: "exn option"
  te_learn_db :: db_outcome
  te_usage_db :: bool
  te_usage_id :: uuid
  te_now :: "nat \<Rightarrow> datetime"

record 'w worker =
  wk_world :: 'w
  wk_policies :: policy_table
  wk_usage :: "UsageCounter list"
  wk_callbacks :: "callback list"

text \<open>The client's exception, whose text is not modelled.\<close>

definition redis_exn :: exn where
  "redis_exn = OtherError ''redis''"

definition on_world :: "('w \<Rightarrow> 'a option \<times> 'w) \<Rightarrow> ('w worker, exn, 'a) eff" where
  "on_world m s =
     (case m (wk_world s) of
        (None, w) \<Rightarrow> (Inl redis_exn, s\<lparr>wk_world := w\<rparr>)
      | (Some x, w) \<Rightarrow> (Inr x, s\<lparr>wk_world := w\<rparr>))"

definition on_world_exn :: "('w \<Rightarrow> (exn + 'a) \<times> 'w) \<Rightarrow> ('w worker, exn, 'a) eff" where
  "on_world_exn m s = (case m (wk_world s) of (r, w) \<Rightarrow> (r, s\<lparr>wk_world := w\<rparr>))"

definition modify :: "('s \<Rightarrow> 's) \<Rightarrow> ('s, 'e, unit) eff" where
  "modify f s = (Inr (), f s)"

text \<open>A text among the request options; a value of another type raises where it is used.\<close>

definition option_str :: "(string \<times> json) list \<Rightarrow> string \<Rightarrow> exn + string option" where
  "option_str options k =
     (case jget options k of
        JNull \<Rightarrow> Inr None
      | JStr s \<Rightarrow> Inr (Some s)
      | _ \<Rightarrow> Inl (OtherError ''AttributeError''))"

definition option_bool :: "(string \<times> json) list \<Rightarrow> string \<Rightarrow> bool option" where
  "option_bool options k = (case jget options k of JNull \<Rightarrow> None | v \<Rightarrow> Some (json_truth v))"

definition select_engine :: "DomainPolicy option \<Rightarrow> string \<Rightarrow> string" where
  "select_engine policy mode =
     (case policy of
        Some p \<Rightarrow> if dp_engine p \<noteq> [] then dp_engine p
                  else (case map_of MODE_TO_ENGINE mode of Some e \<Rightarrow> e | None \<Rightarrow> ''httpx'')
      | None \<Rightarrow> (case map_of MODE_TO_ENGINE mode of Some e \<Rightarrow> e | None \<Rightarrow> ''httpx''))"

definition task_fetch_args :: "task_args \<Rightarrow> DomainPolicy option \<Rightarrow> string \<Rightarrow> exn + fetch_args" where
  "task_fetch_args ta policy engine =
     bindE (option_str (ta_options ta) ''proxy_country'') (\<lambda>country.
     bindE (option_str (ta_options ta) ''proxy_city'') (\<lambda>city.
     bindE (option_str (ta_options ta) ''proxy_type'') (\<lambda>ptype.
     Inr \<lparr>fa_url = ta_url ta, fa_policy = policy, fa_sticky_key = Some (ta_job_id ta),
          fa_trace_id = Some (ta_job_id ta), fa_use_proxy = option_bool (ta_options ta) ''use_proxy'',
          fa_proxy_country = country, fa_proxy_city = city, fa_proxy_type = ptype,
          fa_requested_engine = (if engine \<noteq> ''httpx'' then Some engine else None)\<rparr>)))"

text \<open>Step 6: the body and headers for the API, and the integrity fields.\<close>

definition or_bytes :: "bytes \<Rightarrow> bytes \<Rightarrow> bytes" where
  "or_bytes a b = (if a = [] then b else a)"

definition decode_result :: "codecs \<Rightarrow> FetchResult \<Rightarrow> FetchResult \<times> integrity_fields" where
  "decode_result cd result =
     (let raw_for_decode = or_bytes (fr_raw_body result) (fr_body result);
          content_encoding = dict_get (if fr_raw_headers result = [] then fr_headers result else fr_raw_headers result)
            ''content-encoding'';
          (api_body, original_encoding) =
            (case decode_body cd raw_for_decode content_encoding of
               Inr x \<Rightarrow> x
             | Inl _ \<Rightarrow> (fr_body result, content_encoding));
          (n, digest) = integrity cd api_body
      in (result\<lparr>fr_headers := normalize_headers (fr_headers result) (length api_body), fr_body := api_body\<rparr>,
          \<lparr>if_body_bytes = n, if_content_sha256 = digest, if_original_content_encoding = original_encoding\<rparr>))"

definition schedule_callback ::
  "'w task_env \<Rightarrow> task_args \<Rightarrow> JobStatus \<Rightarrow> json \<Rightarrow> string option \<Rightarrow> datetime \<Rightarrow> 'w worker \<Rightarrow> 'w worker" where
  "schedule_callback env ta status result error now s =
     (case ta_callback_url ta of
        None \<Rightarrow> s
      | Some url \<Rightarrow>
          if url = [] \<or> te_secret env = [] then s
          else s\<lparr>wk_callbacks := wk_callbacks s @ [\<lparr>cb_job_id = ta_job_id ta, cb_status = status, cb_url = url,
                 cb_result = result, cb_error = error, cb_timestamp = now\<rparr>]\<rparr>)"

definition count_usage :: "'w task_env \<Rightarrow> task_args \<Rightarrow> datetime \<Rightarrow> nat \<Rightarrow> 'w worker \<Rightarrow> 'w worker" where
  "count_usage env ta now body_bytes s =
     s\<lparr>wk_usage := upsert_usage (te_usage_db env) (te_usage_id env) now (ta_application_id ta) body_bytes (wk_usage s)\<rparr>"

text \<open>Steps 1 to 4: mark running, resolve the policy, choose the fetcher, fetch.\<close>

definition task_fetch :: "'w task_env \<Rightarrow> task_args \<Rightarrow> ('w worker, exn, DomainPolicy option \<times> FetchResult) eff" where
  "task_fetch env ta =
     sbind (on_world (set_status (te_redis env) (ta_job_id ta) ''running'' (te_ttl env) None (te_now env 0))) (\<lambda>_ s.
     sbind (of_sum (case te_resolve_exn env of
                      Some e \<Rightarrow> Inl e
                    | None \<Rightarrow> (case resolve_policy (te_rd env) (ta_url ta) (wk_policies s) of
                                 Inl _ \<Rightarrow> Inl (OtherError ''ValueError'') | Inr p \<Rightarrow> Inr p))) (\<lambda>policy.
     sbind (of_sum (get_fetcher (select_engine policy (ta_mode ta)))) (\<lambda>fetcher.
     sbind (of_sum (task_fetch_args ta policy (select_engine policy (ta_mode ta)))) (\<lambda>args.
     sbind (on_world_exn (\<lambda>w. case fetch_with_retry (te_rd env) (te_enable_premium env) (te_services env) fetcher args w of
                                (r, _, w') \<Rightarrow> (r, w'))) (\<lambda>result.
     sret (policy, result))))) s)"

definition task_archive :: "'w task_env \<Rightarrow> FetchResult \<Rightarrow> bytes \<Rightarrow> ('w worker, exn, unit) eff" where
  "task_archive env result warc_body =
     (case te_archive env of
        Some archive \<Rightarrow> if \<not> fr_blocked result then on_world_exn (archive result warc_body) else sret ()
      | None \<Rightarrow> sret ())"

text \<open>Steps 5 to 10, after the fetch returned.\<close>

definition task_finish ::
  "'w task_env \<Rightarrow> task_args \<Rightarrow> DomainPolicy option \<Rightarrow> FetchResult \<Rightarrow> ('w worker, exn, unit) eff" where
  "task_finish env ta policy fetched =
     (let (result, ing) = decode_result (te_codecs env) fetched;
          schema = from_result result ing
      in sbind (task_archive env result (or_bytes (fr_raw_body result) (fr_body result))) (\<lambda>_.
         sbind (on_world (set_status (te_redis env) (ta_job_id ta) ''completed'' (te_ttl env) (Some schema) (te_now env 1))) (\<lambda>_.
         sbind (modify (\<lambda>s. s\<lparr>wk_policies := record_outcome (te_learn_db env) result policy (fr_tier_used result)
                  (te_now env 2) (wk_policies s)\<rparr>)) (\<lambda>_.
         sbind (modify (count_usage env ta (te_now env 3) (length (fr_body result)))) (\<lambda>_.
         modify (schedule_callback env ta COMPLETED schema None (te_now env 4)))))))"

definition task_body :: "'w task_env \<Rightarrow> task_args \<Rightarrow> ('w worker, exn, unit) eff" where
  "task_body env ta = sbind (task_fetch env ta) (\<lambda>(policy, result). task_finish env ta policy result)"

text \<open>Both handlers, which differ in the message; one re-raises the cancellation.\<close>

definition task_failed :: "'w task_env \<Rightarrow> task_args \<Rightarrow> string \<Rightarrow> ('w worker, exn, unit) eff" where
  "task_failed env ta message =
     sbind (on_world (set_error (te_redis env) (ta_job_id ta) message (te_ttl env) (te_now env 5))) (\<lambda>_.
     sbind (modify (count_usage env ta (te_now env 6) 0)) (\<lambda>_.
     modify (schedule_callback env ta FAILED JNull (Some message) (te_now env 7))))"

definition fetch_task :: "'w task_env \<Rightarrow> task_args \<Rightarrow> ('w worker, exn, unit) eff" where
  "fetch_task env ta s =
     (case task_body env ta s of
        (Inr _, s') \<Rightarrow> (Inr (), s')
      | (Inl CancelledError, s') \<Rightarrow>
          sbind (task_failed env ta ''Worker shutdown'') (\<lambda>_. sraise CancelledError) s'
      | (Inl e, s') \<Rightarrow> task_failed env ta (exn_str e) s')"

end
