(* ===== verification/Fetch_Facts.thy ===== *)
theory Fetch_Facts
  imports Fetch_Retry
begin

text \<open>
  The retry loop's behaviour: what one iteration may do to the loop's state, and by induction what
  every run does. The proxy manager enters through an interface that says which proxies it may
  hand out; the manager's model implements it.
\<close>

section \<open>One iteration\<close>

text \<open>
  A step of the state that goes on: the tier stays and no failed proxy is forgotten, or the tier
  rises by one within the reachable ladder.
\<close>

definition step_ok :: "fetch_cfg \<Rightarrow> loop_state \<Rightarrow> loop_state \<Rightarrow> bool" where
  "step_ok cfg st st' \<longleftrightarrow> ls_total st' = ls_total st
     \<and> (ls_tier st' = ls_tier st \<and> set (ls_failed st) \<subseteq> set (ls_failed st')
        \<or> ls_tier st' = ls_tier st + 1 \<and> ls_tier st' \<le> c_max_tier cfg)"

definition remembers :: "'w services \<Rightarrow> Proxy option \<Rightarrow> loop_state \<Rightarrow> loop_state \<Rightarrow> bool" where
  "remembers sv proxy st st' \<longleftrightarrow>
     (\<forall>p. proxy = Some p \<and> sv_manager sv \<and> ls_tier st' = ls_tier st \<longrightarrow> px_id p \<in> set (ls_failed st'))"

lemma step_ok_refl [simp]: "step_ok cfg st st"
  by (simp add: step_ok_def)

lemma add_failed_simps [simp]:
  "ls_tier (add_failed sv proxy st) = ls_tier st" "ls_total (add_failed sv proxy st) = ls_total st"
  "ls_attempts_at_tier (add_failed sv proxy st) = ls_attempts_at_tier st"
  "ls_last_error (add_failed sv proxy st) = ls_last_error st"
  "set (ls_failed st) \<subseteq> set (ls_failed (add_failed sv proxy st))"
  by (auto simp: add_failed_def split: option.splits)

lemma add_failed_keeps [simp]:
  "x \<in> set (ls_failed st) \<Longrightarrow> x \<in> set (ls_failed (add_failed sv proxy st))"
  "x \<in> set (ls_failed st) \<Longrightarrow> x \<in> set (ls_failed (add_failed sv proxy (st\<lparr>ls_last_error := e\<rparr>)))"
  by (auto simp: add_failed_def split: option.splits)

lemma add_failed_remembers:
  "proxy = Some p \<Longrightarrow> sv_manager sv \<Longrightarrow> px_id p \<in> set (ls_failed (add_failed sv proxy st))"
  by (simp add: add_failed_def)

lemma bump_simps [simp]:
  "ls_tier (bump nxt st) = nxt" "ls_total (bump nxt st) = ls_total st"
  by (simp_all add: bump_def)

lemma after_block_step:
  assumes "after_block cfg sv proxy result (add_failed sv proxy st) w = (res, st', w')"
  shows "(res = Inr Next \<longrightarrow> step_ok cfg st st' \<and> remembers sv proxy st st')
    \<and> (\<forall>e. res = Inl e \<longrightarrow> step_ok cfg st st')
    \<and> (\<forall>r. res = Inr (Return r) \<longrightarrow> r = result \<or> r = result\<lparr>fr_tier_used := ls_tier st\<rparr>)"
  using assms
  by (auto simp: after_block_def step_ok_def remembers_def add_failed_remembers
      split: if_splits option.splits prod.splits sum.splits)

lemma blocked_phase_step:
  assumes "blocked_phase cfg sv proxy result st w = (res, st', w')"
  shows "(res = Inr Next \<longrightarrow> step_ok cfg st st' \<and> remembers sv proxy st st')
    \<and> (\<forall>e. res = Inl e \<longrightarrow> step_ok cfg st st')
    \<and> (\<forall>r. res = Inr (Return r) \<longrightarrow> r = result \<or> r = result\<lparr>fr_tier_used := ls_tier st\<rparr>)"
proof -
  let ?st = "st\<lparr>ls_last_result := Some result, ls_attempts_at_tier := ls_attempts_at_tier st + 1\<rparr>"
  have same: "step_ok cfg ?st x = step_ok cfg st x" "remembers sv proxy ?st x = remembers sv proxy st x" for x
    by (simp_all add: step_ok_def remembers_def)
  show ?thesis
  proof (cases "report_if cfg sv proxy False (Some (reason_or_http_error result)) w")
    case (Pair r w1)
    show ?thesis
    proof (cases r)
      case (Inl e)
      with Pair assms show ?thesis by (auto simp: blocked_phase_def Let_def step_ok_def)
    next
      case (Inr u)
      with Pair assms have "after_block cfg sv proxy result (add_failed sv proxy ?st) w1 = (res, st', w')"
        by (simp add: blocked_phase_def Let_def)
      from after_block_step [OF this] show ?thesis by (simp add: same)
    qed
  qed
qed

lemma fetch_phase_step:
  assumes "fetch_phase cfg sv engine proxy st w = (res, st', w')"
  shows "(res = Inr Next \<longrightarrow> step_ok cfg st st' \<and> remembers sv proxy st st')
    \<and> (\<forall>e. res = Inl e \<longrightarrow> step_ok cfg st st')
    \<and> (\<forall>r. res = Inr (Return r) \<longrightarrow> fr_tier_used r = ls_tier st
         \<and> fr_retries_used r = ls_total st - 1 \<and> fr_trace_id r = c_trace_id cfg)"
proof -
  obtain u w1 where rand: "sv_random sv w = (u, w1)" by (cases "sv_random sv w")
  obtain fr w2 where fetch: "sv_fetch sv engine (c_url cfg) proxy (headers_for_domain u (c_policy cfg)) w1 = (fr, w2)"
    by (cases "sv_fetch sv engine (c_url cfg) proxy (headers_for_domain u (c_policy cfg)) w1")
  show ?thesis
  proof (cases fr)
    case (Inl e)
    with assms rand fetch show ?thesis by (auto simp: fetch_phase_def)
  next
    case (Inr r)
    define result where "result = r\<lparr>fr_retries_used := ls_total st - 1, fr_trace_id := c_trace_id cfg,
      fr_tier_used := ls_tier st\<rparr>"
    have fields: "fr_tier_used result = ls_tier st" "fr_retries_used result = ls_total st - 1"
      "fr_trace_id result = c_trace_id cfg" by (simp_all add: result_def)
    show ?thesis
    proof (cases "fr_blocked result")
      case True
      with assms rand fetch Inr have "blocked_phase cfg sv proxy result st w2 = (res, st', w')"
        by (simp add: fetch_phase_def Let_def result_def)
      from blocked_phase_step [OF this] fields show ?thesis by fastforce
    next
      case False
      obtain rr w3 where rep: "report_if cfg sv proxy True None w2 = (rr, w3)"
        by (cases "report_if cfg sv proxy True None w2")
      have run: "fetch_phase cfg sv engine proxy st w = (case rr of
          Inl e \<Rightarrow> (Inl e, st, w3) | Inr _ \<Rightarrow> (Inr (Return result), st, w3))"
        using False rand fetch Inr rep by (cases rr) (simp_all add: fetch_phase_def Let_def result_def)
      show ?thesis using assms unfolding run by (cases rr) (auto simp: fields)
    qed
  qed
qed

lemma handle_exn_step:
  assumes "handle_exn cfg sv proxy e st w = (res, st', w')"
  shows "(res = Inr Next \<longrightarrow> step_ok cfg st st' \<and> remembers sv proxy st st' \<and> ls_tier st' = ls_tier st)
    \<and> (\<forall>r. res \<noteq> Inr (Return r))"
  using assms
  by (cases e)
    (auto simp: handle_exn_def Let_def step_ok_def remembers_def add_failed_remembers
      split: prod.splits sum.splits if_splits)

lemma step_ok_trans_same:
  "step_ok cfg st st1 \<Longrightarrow> step_ok cfg st1 st2 \<Longrightarrow> ls_tier st2 = ls_tier st1 \<Longrightarrow> step_ok cfg st st2"
  by (auto simp: step_ok_def)

lemma pick_phase_facts:
  assumes "pick_phase cfg sv use_p ptype st w = (Inr proxy, w')"
  shows "(proxy = None \<longrightarrow> \<not> (use_p \<and> sv_manager sv))
    \<and> (\<forall>p. proxy = Some p \<longrightarrow> sv_manager sv \<and> use_p
         \<and> sv_get_proxy sv (pick_request cfg st ptype) w = (Inr (Some p), w'))"
  using assms by (auto simp: pick_phase_def split: if_splits prod.splits sum.splits option.splits)

lemma attempt_step:
  assumes "attempt cfg sv bypassed t f st w = (res, st', a, w')"
  shows "at_tier a = ls_tier st \<and> at_engine a = f_engine f
    \<and> at_use_proxy a = tier_use_proxy cfg bypassed t \<and> at_proxy_type a = tier_proxy_type cfg bypassed t
    \<and> (res = Inr Next \<longrightarrow> step_ok cfg st st')
    \<and> (\<forall>r. res = Inr (Return r) \<longrightarrow> fr_tier_used r = ls_tier st
         \<and> fr_retries_used r = ls_total st - 1 \<and> fr_trace_id r = c_trace_id cfg)
    \<and> (at_fetch a = Some None \<longrightarrow> \<not> (at_use_proxy a \<and> sv_manager sv))
    \<and> (\<forall>p. at_fetch a = Some (Some p) \<longrightarrow> sv_manager sv \<and> at_use_proxy a
         \<and> (\<exists>w1. sv_get_proxy sv (pick_request cfg st (at_proxy_type a)) w = (Inr (Some p), w1))
         \<and> (res = Inr Next \<and> ls_tier st' = ls_tier st \<longrightarrow> px_id p \<in> set (ls_failed st')))"
proof -
  let ?use = "tier_use_proxy cfg bypassed t" and ?ty = "tier_proxy_type cfg bypassed t"
  obtain pk w1 where pick: "pick_phase cfg sv ?use ?ty st w = (pk, w1)"
    by (cases "pick_phase cfg sv ?use ?ty st w")
  show ?thesis
  proof (cases pk)
    case (Inl e)
    obtain r2 st2 w2 where h: "handle_exn cfg sv None e st w1 = (r2, st2, w2)"
      by (cases "handle_exn cfg sv None e st w1")
    with assms pick Inl handle_exn_step [OF h] show ?thesis by (auto simp: attempt_def Let_def)
  next
    case (Inr proxy)
    obtain r2 st2 w2 where fp: "fetch_phase cfg sv (f_engine f) proxy st w1 = (r2, st2, w2)"
      by (cases "fetch_phase cfg sv (f_engine f) proxy st w1")
    note fs = fetch_phase_step [OF fp]
    have pf: "proxy = None \<longrightarrow> \<not> (?use \<and> sv_manager sv)"
      "\<forall>p. proxy = Some p \<longrightarrow> sv_manager sv \<and> ?use \<and> (\<exists>w1. sv_get_proxy sv (pick_request cfg st ?ty) w = (Inr (Some p), w1))"
      using pick_phase_facts [of cfg sv ?use ?ty st w proxy w1] pick Inr by auto
    show ?thesis
    proof (cases r2)
      case (Inl e)
      obtain r3 st3 w3 where h: "handle_exn cfg sv proxy e st2 w2 = (r3, st3, w3)"
        by (cases "handle_exn cfg sv proxy e st2 w2")
      have a: "a = \<lparr>at_tier = ls_tier st, at_engine = f_engine f, at_use_proxy = ?use, at_proxy_type = ?ty,
          at_fetch = Some proxy\<rparr>" and res: "res = r3" "st' = st3"
        using assms pick Inr fp Inl h by (auto simp: attempt_def Let_def)
      have s2: "step_ok cfg st st2" using fs Inl by auto
      have next3: "step_ok cfg st st3" if "r3 = Inr Next"
        using that handle_exn_step [OF h] s2 step_ok_trans_same by blast
      have rem3: "px_id p \<in> set (ls_failed st3)" if "r3 = Inr Next" "proxy = Some p" "sv_manager sv" for p
        using that handle_exn_step [OF h] by (auto simp: remembers_def)
      show ?thesis using a res pf next3 rem3 handle_exn_step [OF h] by auto
    next
      case (Inr act)
      have a: "a = \<lparr>at_tier = ls_tier st, at_engine = f_engine f, at_use_proxy = ?use, at_proxy_type = ?ty,
          at_fetch = Some proxy\<rparr>" and res: "res = r2" "st' = st2"
        using assms pick \<open>pk = Inr proxy\<close> fp Inr by (auto simp: attempt_def Let_def)
      show ?thesis using a res pf fs by (auto simp: remembers_def)
    qed
  qed
qed

section \<open>The loop\<close>

text \<open>The loop may start: its tier is on the ladder and the premium gate lets it through.\<close>

definition loop_ok :: "fetch_cfg \<Rightarrow> loop_state \<Rightarrow> bool" where
  "loop_ok cfg st \<longleftrightarrow> 0 \<le> ls_tier st \<and> ls_tier st \<le> 6 \<and> c_max_tier cfg \<le> 6
     \<and> premium_gate cfg st \<noteq> None"

lemma loop_ok_step: "loop_ok cfg st \<Longrightarrow> step_ok cfg st st' \<Longrightarrow> loop_ok cfg st'"
proof -
  assume ok: "loop_ok cfg st" and step: "step_ok cfg st st'"
  have "premium_gate cfg st' = premium_gate cfg st" if "ls_tier st' = ls_tier st"
    using that by (simp add: premium_gate_def)
  moreover have "premium_gate cfg st' = Some False" if "ls_tier st' \<le> c_max_tier cfg"
    using that by (simp add: premium_gate_def)
  ultimately show ?thesis using ok step by (auto simp: loop_ok_def step_ok_def)
qed

lemma loop_ok_cong: "ls_tier st' = ls_tier st \<Longrightarrow> loop_ok cfg st \<Longrightarrow> loop_ok cfg st'"
proof -
  assume "ls_tier st' = ls_tier st" "loop_ok cfg st"
  moreover from this have "premium_gate cfg st' = premium_gate cfg st" by (simp add: premium_gate_def)
  ultimately show ?thesis by (simp add: loop_ok_def)
qed

lemma ladder_engines:
  "0 \<le> t \<Longrightarrow> t < 7 \<Longrightarrow> t_engine (LADDER ! nat t) \<in> {''httpx'', ''curl_cffi'', ''playwright'', ''camoufox''}"
  by (rule all_tiers [where P = "\<lambda>t x. t_engine x \<in> {''httpx'', ''curl_cffi'', ''playwright'', ''camoufox''}"])
    (auto simp: LADDER_def)

text \<open>Because no fetcher carries the attribute that is compared, the engine is always the tier's.\<close>

definition fetcher_plain :: "loop_state \<Rightarrow> bool" where
  "fetcher_plain st \<longleftrightarrow> (\<forall>f. ls_fetcher st = Some f \<longrightarrow> f_engine_name f = None)"

lemma add_failed_fetcher [simp]: "ls_fetcher (add_failed sv p st) = ls_fetcher st"
  by (auto simp: add_failed_def split: option.splits)

lemma attempt_fetcher:
  assumes "attempt cfg sv bypassed t f st w = (res, st', a, w')"
  shows "ls_fetcher st' = ls_fetcher st \<or> ls_fetcher st' = None"
proof -
  have ab: "ls_fetcher st2 = ls_fetcher st1 \<or> ls_fetcher st2 = None"
    if "after_block cfg sv p r st1 w1 = (res2, st2, w2)" for p r st1 w1 res2 st2 w2
    using that by (auto simp: after_block_def bump_def split: if_splits option.splits prod.splits sum.splits)
  have bp: "ls_fetcher st2 = ls_fetcher st1 \<or> ls_fetcher st2 = None"
    if "blocked_phase cfg sv p r st1 w1 = (res2, st2, w2)" for p r st1 w1 res2 st2 w2
    using that by (auto simp: blocked_phase_def Let_def split: prod.splits sum.splits dest!: ab)
  have fp: "ls_fetcher st2 = ls_fetcher st1 \<or> ls_fetcher st2 = None"
    if "fetch_phase cfg sv e p st1 w1 = (res2, st2, w2)" for e p st1 w1 res2 st2 w2
    using that by (auto simp: fetch_phase_def Let_def split: prod.splits sum.splits if_splits dest!: bp)
  have he: "ls_fetcher st2 = ls_fetcher st1"
    if "handle_exn cfg sv p e st1 w1 = (res2, st2, w2)" for p e st1 w1 res2 st2 w2
    using that by (cases e) (auto simp: handle_exn_def Let_def split: prod.splits sum.splits if_splits)
  show ?thesis
    using assms
    by (auto simp: attempt_def Let_def split: prod.splits sum.splits dest!: he dest: fp)
qed

lemma renew_fetcher_engine:
  assumes "fetcher_plain st" "0 \<le> ls_tier st" "ls_tier st \<le> 6"
  shows "renew_fetcher st (LADDER ! nat (ls_tier st))
    = Inr \<lparr>f_engine = t_engine (LADDER ! nat (ls_tier st)), f_engine_name = None\<rparr>"
  using assms ladder_engines [of "ls_tier st"]
  by (auto simp: renew_fetcher_def get_fetcher_def fetcher_plain_def split: option.splits)

definition attempt_ok :: "fetch_cfg \<Rightarrow> 'w services \<Rightarrow> attempt_log \<Rightarrow> bool" where
  "attempt_ok cfg sv a \<longleftrightarrow>
     (let t = LADDER ! nat (at_tier a); bypassed = (at_tier a > c_max_tier cfg)
      in at_engine a = t_engine t
         \<and> at_use_proxy a = tier_use_proxy cfg bypassed t
         \<and> at_proxy_type a = tier_proxy_type cfg bypassed t
         \<and> (at_fetch a = Some None \<longrightarrow> \<not> (at_use_proxy a \<and> sv_manager sv))
         \<and> (bypassed \<longrightarrow> c_requested_engine cfg = Some (at_engine a)))"

lemma premium_gate_Some: "premium_gate cfg st = Some b \<Longrightarrow> b = (ls_tier st > c_max_tier cfg)"
  by (auto simp: premium_gate_def split: if_splits option.splits)

lemma premium_gate_engine:
  "premium_gate cfg st = Some True \<Longrightarrow> 0 \<le> ls_tier st \<Longrightarrow> ls_tier st \<le> 6 \<Longrightarrow>
   c_requested_engine cfg = Some (t_engine (LADDER ! nat (ls_tier st)))"
  by (auto simp: premium_gate_def ladder_index split: if_splits option.splits)

text \<open>The walk up the ladder: consecutive attempts stay at a tier or rise by one.\<close>

definition ladder_walk :: "attempt_log list \<Rightarrow> bool" where
  "ladder_walk as = successively (\<lambda>a b. at_tier b = at_tier a \<or> at_tier b = at_tier a + 1) as"

lemma retry_loop_unfold:
  assumes "loop_ok cfg st" "fetcher_plain st"
  shows "retry_loop cfg sv (Suc n) st w =
    (let t = LADDER ! nat (ls_tier st);
         f = \<lparr>f_engine = t_engine t, f_engine_name = None\<rparr>
     in case attempt cfg sv (ls_tier st > c_max_tier cfg) t f
               (st\<lparr>ls_fetcher := Some f, ls_total := ls_total st + 1\<rparr>) w of
          (Inl e, st', a, w') \<Rightarrow> (Inl e, [a], w')
        | (Inr (Return r), st', a, w') \<Rightarrow> (Inr r, [a], w')
        | (Inr Next, st', a, w') \<Rightarrow>
            (let (res, as, w'') = retry_loop cfg sv n st' w' in (res, a # as, w'')))"
proof -
  have tier: "0 \<le> ls_tier st" "ls_tier st \<le> 6" using assms(1) by (auto simp: loop_ok_def)
  have gate: "premium_gate cfg st = Some (ls_tier st > c_max_tier cfg)"
    using assms(1) premium_gate_Some by (fastforce simp: loop_ok_def)
  show ?thesis
    using renew_fetcher_engine [OF assms(2) tier] ladder_index [of "ls_tier st"] tier
    by (simp add: gate Let_def)
qed

lemma retry_loop_run:
  assumes "retry_loop cfg sv n st w = (res, as, w')" "loop_ok cfg st" "fetcher_plain st"
  shows "length as \<le> n \<and> ladder_walk as \<and> (as \<noteq> [] \<longrightarrow> at_tier (hd as) = ls_tier st)
    \<and> (\<forall>a \<in> set as. attempt_ok cfg sv a \<and> ls_tier st \<le> at_tier a \<and> at_tier a \<le> max (ls_tier st) (c_max_tier cfg))
    \<and> (\<forall>r. res = Inr r \<longrightarrow> as \<noteq> [] \<and> fr_tier_used r = at_tier (last as)
         \<and> fr_retries_used r = ls_total st + int (length as) - 1 \<and> fr_trace_id r = c_trace_id cfg)"
  using assms
proof (induction n arbitrary: st w res as w')
  case 0
  then show ?case by (auto simp: ladder_walk_def)
next
  case (Suc n)
  let ?t = "LADDER ! nat (ls_tier st)"
  let ?f = "\<lparr>f_engine = t_engine ?t, f_engine_name = None\<rparr>"
  let ?st = "st\<lparr>ls_fetcher := Some ?f, ls_total := ls_total st + 1\<rparr>"
  have tier: "0 \<le> ls_tier st" "ls_tier st \<le> 6" using Suc.prems(2) by (auto simp: loop_ok_def)
  obtain r1 st1 a w1 where at: "attempt cfg sv (ls_tier st > c_max_tier cfg) ?t ?f ?st w = (r1, st1, a, w1)"
    by (metis prod_cases4)
  note step = attempt_step [OF at]
  have at_a: "at_tier a = ls_tier st" using step by simp
  have ret: "fr_tier_used r = ls_tier st \<and> fr_retries_used r = ls_total st \<and> fr_trace_id r = c_trace_id cfg"
    if "r1 = Inr (Return r)" for r using step that by simp
  have aok: "attempt_ok cfg sv a"
    using step Suc.prems(2) tier premium_gate_engine [of cfg st] premium_gate_Some [of cfg st]
    by (auto simp: attempt_ok_def Let_def loop_ok_def)
  note unf = retry_loop_unfold [OF Suc.prems(2,3), of sv n w, unfolded Let_def at]
  show ?case
  proof (cases "r1 = Inr Next")
    case False
    then have out: "as = [a]" "res = Inr r \<Longrightarrow> r1 = Inr (Return r)" for r
      using Suc.prems(1) unf by (auto split: sum.splits action.splits)
    have "\<forall>r. res = Inr r \<longrightarrow> fr_tier_used r = ls_tier st \<and> fr_retries_used r = ls_total st
        \<and> fr_trace_id r = c_trace_id cfg" using out(2) ret by blast
    then show ?thesis using at_a aok by (simp add: ladder_walk_def out(1))
  next
    case True
    obtain res2 as2 w2 where rec: "retry_loop cfg sv n st1 w1 = (res2, as2, w2)"
      by (metis prod_cases3)
    have eqs: "res = res2" "as = a # as2" using Suc.prems(1) unf True rec by auto
    have "step_ok cfg ?st st1" using step True by simp
    then have stp: "step_ok cfg (st\<lparr>ls_total := ls_total st + 1\<rparr>) st1" by (simp add: step_ok_def)
    have "loop_ok cfg (st\<lparr>ls_total := ls_total st + 1\<rparr>)"
      by (rule loop_ok_cong [OF _ Suc.prems(2)]) simp
    then have lok: "loop_ok cfg st1" using stp by (rule loop_ok_step)
    have plain: "fetcher_plain st1"
      using attempt_fetcher [OF at] by (auto simp: fetcher_plain_def)
    note IH = Suc.IH [OF rec lok plain]
    have tot: "ls_total st1 = ls_total st + 1" and
      t1: "ls_tier st1 = ls_tier st \<or> ls_tier st1 = ls_tier st + 1 \<and> ls_tier st1 \<le> c_max_tier cfg"
      using stp by (auto simp: step_ok_def)
    have walk: "ladder_walk (a # as2)"
      using IH t1 at_a by (cases as2) (auto simp: ladder_walk_def)
    show ?thesis
      using IH t1 at_a aok walk tot unfolding eqs by fastforce
  qed
qed

section \<open>Rotation\<close>

text \<open>The proxies used by the attempts at one tier, in order.\<close>

definition proxies_at :: "int \<Rightarrow> attempt_log list \<Rightarrow> uuid list" where
  "proxies_at t as = List.map_filter
     (\<lambda>a. case at_fetch a of Some (Some p) \<Rightarrow> if at_tier a = t then Some (px_id p) else None | _ \<Rightarrow> None) as"

lemma proxies_at_Cons:
  "proxies_at t (a # as) =
     (case at_fetch a of Some (Some p) \<Rightarrow> if at_tier a = t then px_id p # proxies_at t as else proxies_at t as
      | _ \<Rightarrow> proxies_at t as)"
  by (auto simp: proxies_at_def map_filter_simps split: option.splits)

lemma proxies_at_above: "\<forall>a \<in> set as. t < at_tier a \<Longrightarrow> proxies_at t as = []"
  by (induction as) (auto simp: proxies_at_Cons proxies_at_def map_filter_simps split: option.splits)

text \<open>
  What the loop relies on when it rotates: a proxy that is handed out is not among the excluded
  ones. The client's lemma: at each tier every proxy is used at most once.
\<close>

locale proxy_picker =
  fixes pick :: "proxy_request \<Rightarrow> 'w \<Rightarrow> (exn + Proxy option) \<times> 'w"
  assumes not_excluded: "pick rq w = (Inr (Some p), w') \<Longrightarrow> px_id p \<notin> set (rq_exclude_ids rq)"
begin

lemma loop_rotates:
  assumes "retry_loop cfg sv n st w = (res, as, w')" "sv_get_proxy sv = pick"
    "loop_ok cfg st" "fetcher_plain st"
  shows "(\<forall>t. distinct (proxies_at t as)) \<and> set (proxies_at (ls_tier st) as) \<inter> set (ls_failed st) = {}"
  using assms
proof (induction n arbitrary: st w res as w')
  case 0
  then show ?case by (auto simp: proxies_at_def map_filter_simps)
next
  case (Suc n)
  let ?t = "LADDER ! nat (ls_tier st)"
  let ?f = "\<lparr>f_engine = t_engine ?t, f_engine_name = None\<rparr>"
  let ?st = "st\<lparr>ls_fetcher := Some ?f, ls_total := ls_total st + 1\<rparr>"
  obtain r1 st1 a w1 where at: "attempt cfg sv (ls_tier st > c_max_tier cfg) ?t ?f ?st w = (r1, st1, a, w1)"
    by (metis prod_cases4)
  note step = attempt_step [OF at] and unf = retry_loop_unfold [OF Suc.prems(3,4), of sv n w, unfolded Let_def at]
  have at_a: "at_tier a = ls_tier st" using step by simp
  have new: "px_id p \<notin> set (ls_failed st)" if "at_fetch a = Some (Some p)" for p
    using step that Suc.prems(2) not_excluded by (fastforce simp: pick_request_def)
  have one: "set (proxies_at (ls_tier st) [a]) \<inter> set (ls_failed st) = {}" "distinct (proxies_at t [a])" for t
    using new at_a by (auto simp: proxies_at_Cons proxies_at_def map_filter_simps split: option.splits)
  show ?case
  proof (cases "r1 = Inr Next")
    case False
    then have "as = [a]" using Suc.prems(1) unf by (auto split: sum.splits action.splits)
    with one show ?thesis by simp
  next
    case True
    obtain res2 as2 w2 where rec: "retry_loop cfg sv n st1 w1 = (res2, as2, w2)" by (metis prod_cases3)
    have eqs: "as = a # as2" using Suc.prems(1) unf True rec by auto
    have stp: "step_ok cfg (st\<lparr>ls_total := ls_total st + 1\<rparr>) st1" using step True by (simp add: step_ok_def)
    have "loop_ok cfg (st\<lparr>ls_total := ls_total st + 1\<rparr>)" by (rule loop_ok_cong [OF _ Suc.prems(3)]) simp
    then have lok: "loop_ok cfg st1" using stp by (rule loop_ok_step)
    have plain: "fetcher_plain st1" using attempt_fetcher [OF at] by (auto simp: fetcher_plain_def)
    have IH: "\<forall>t. distinct (proxies_at t as2)" "set (proxies_at (ls_tier st1) as2) \<inter> set (ls_failed st1) = {}"
      using Suc.IH [OF rec Suc.prems(2) lok plain] by auto
    have above: "\<forall>x \<in> set as2. ls_tier st1 \<le> at_tier x" using retry_loop_run [OF rec lok plain] by simp
    show ?thesis
    proof (cases "ls_tier st1 = ls_tier st")
      case same: True
      have keep: "set (ls_failed st) \<subseteq> set (ls_failed st1)" using stp same by (auto simp: step_ok_def)
      have rem: "px_id p \<in> set (ls_failed st1)" if "at_fetch a = Some (Some p)" for p
        using step that True same by simp
      show ?thesis
        using IH same keep rem new at_a unfolding eqs
        by (auto simp: proxies_at_Cons split: option.splits)
    next
      case False
      then have "\<forall>x \<in> set as2. ls_tier st < at_tier x" using stp above by (auto simp: step_ok_def)
      then have "proxies_at (ls_tier st) as2 = []" by (rule proxies_at_above)
      then show ?thesis
        using IH(1) new at_a unfolding eqs by (auto simp: proxies_at_Cons split: option.splits)
    qed
  qed
qed

end

section \<open>The proxy manager as the loop's collaborator\<close>

text \<open>
  The world of a fetch that uses the manager: Redis, the proxy table and the events, with \<open>rest\<close>
  for everything else. \<open>env\<close> supplies the clock and the randomness of each call.
\<close>

record ('r, 'x) mgr_world =
  mw_redis :: 'r
  mw_proxies :: proxy_table
  mw_events :: "ProxyEvent list"
  mw_rest :: 'x

definition manager_pick ::
  "'r redis \<Rightarrow> (('r, 'x) mgr_world \<Rightarrow> pick_env) \<Rightarrow> proxy_request \<Rightarrow> ('r, 'x) mgr_world
   \<Rightarrow> (exn + Proxy option) \<times> ('r, 'x) mgr_world" where
  "manager_pick R env rq w =
     (let (p, r') = get_proxy R (env w) rq (mw_proxies w) (mw_redis w) in (Inr p, w\<lparr>mw_redis := r'\<rparr>))"

definition manager_report ::
  "'r redis \<Rightarrow> breaker_cfg \<Rightarrow> (('r, 'x) mgr_world \<Rightarrow> pick_env) \<Rightarrow> (('r, 'x) mgr_world \<Rightarrow> string)
   \<Rightarrow> uuid \<Rightarrow> string \<Rightarrow> bool \<Rightarrow> string option \<Rightarrow> ('r, 'x) mgr_world \<Rightarrow> (exn + unit) \<times> ('r, 'x) mgr_world" where
  "manager_report R cfg env date pid domain success reason w =
     (let (tbl, evs, r') = report_result R cfg (pe_now (env w)) (date w) pid domain success reason
                             (mw_proxies w) (mw_events w) (mw_redis w)
      in (Inr (), w\<lparr>mw_proxies := tbl, mw_events := evs, mw_redis := r'\<rparr>))"

interpretation manager: proxy_picker "manager_pick R env" for R env
  by unfold_locales
    (auto simp: manager_pick_def Let_def split: prod.splits dest: get_proxy_cases)

section \<open>From the call to the loop\<close>

definition start_state :: "fetcher \<Rightarrow> int \<Rightarrow> loop_state" where
  "start_state f t = \<lparr>ls_tier = t, ls_attempts_at_tier = 0, ls_fetcher = Some f, ls_last_result = None,
     ls_last_error = None, ls_failed = [], ls_total = 0\<rparr>"

lemma first_index_SomeD:
  "first_index P xs = Some i \<Longrightarrow> 0 \<le> i \<and> i < int (length xs) \<and> P (xs ! nat i)"
proof (induction xs arbitrary: i)
  case (Cons x xs)
  show ?case
  proof (cases "P x")
    case False
    with Cons.prems obtain j where "first_index P xs = Some j" "i = j + 1" by auto
    with Cons.IH [of j] show ?thesis by (auto simp: nat_add_distrib)
  qed (use Cons.prems in auto)
qed simp

lemma start_loop_ok:
  assumes "start_tier a (effective_max_tier prem) = Inr t"
  shows "loop_ok (make_cfg a d prem) (start_state f t)"
proof (cases "fa_requested_engine a")
  case None
  with assms initial_tier_nonneg [of "fa_policy a"] effective_max_tier_bounds [of prem]
  have t: "0 \<le> t" "t \<le> effective_max_tier prem" by (auto simp: start_tier_def)
  with effective_max_tier_bounds [of prem] show ?thesis
    by (auto simp: loop_ok_def start_state_def make_cfg_def premium_gate_def)
next
  case (Some e)
  then have "first_index (\<lambda>t. t_engine t = e) LADDER = Some t" using assms by (simp add: start_tier_def)
  from first_index_SomeD [OF this] have t: "0 \<le> t" "t < 7" "t_engine (LADDER ! nat t) = e" by auto
  then show ?thesis
    using Some effective_max_tier_bounds [of prem] ladder_index [OF t(1,2)]
    by (auto simp: loop_ok_def start_state_def make_cfg_def premium_gate_def)
qed

lemma fetch_with_retry_cases:
  assumes "fetch_with_retry rd prem sv f a w = (res, as, w')"
  obtains (early) e where "res = Inl e" "as = []" "w' = w"
  | (loop) d t where "start_tier a (effective_max_tier prem) = Inr t"
      "retry_loop (make_cfg a d prem) sv (nat (max_attempts_of (fa_policy a))) (start_state f t) w = (res, as, w')"
  using assms
  by (auto simp: fetch_with_retry_def Let_def start_state_def make_cfg_def split: sum.splits)

text \<open>The facts of a run of the whole call.\<close>

lemma fetch_run:
  assumes "fetch_with_retry rd prem sv f a w = (res, as, w')" "f_engine_name f = None" "as \<noteq> [] \<or> (\<exists>r. res = Inr r)"
  shows "\<exists>d t. start_tier a (effective_max_tier prem) = Inr t \<and> at_tier (hd as) = t
    \<and> length as \<le> nat (max_attempts_of (fa_policy a)) \<and> ladder_walk as
    \<and> (\<forall>x \<in> set as. attempt_ok (make_cfg a d prem) sv x \<and> t \<le> at_tier x
         \<and> at_tier x \<le> max t (effective_max_tier prem))
    \<and> (\<forall>r. res = Inr r \<longrightarrow> as \<noteq> [] \<and> fr_tier_used r = at_tier (last as)
         \<and> fr_retries_used r = int (length as) - 1 \<and> fr_trace_id r = fa_trace_id a)"
  using assms(1)
proof (cases rule: fetch_with_retry_cases)
  case early
  with assms(3) show ?thesis by auto
next
  case (loop d t)
  have ok: "loop_ok (make_cfg a d prem) (start_state f t)" by (rule start_loop_ok) (rule loop(1))
  have plain: "fetcher_plain (start_state f t)" using assms(2) by (simp add: fetcher_plain_def start_state_def)
  have fields: "ls_tier (start_state f t) = t" "ls_total (start_state f t) = 0"
    "c_max_tier (make_cfg a d prem) = effective_max_tier prem" "c_trace_id (make_cfg a d prem) = fa_trace_id a"
    by (simp_all add: start_state_def make_cfg_def)
  have ne: "as \<noteq> []" using assms(3) retry_loop_run [OF loop(2) ok plain] by auto
  show ?thesis using retry_loop_run [OF loop(2) ok plain, unfolded fields] loop(1) ne by auto
qed

end
