(* ===== verification/Job_Props.thy ===== *)
theory Job_Props
  imports Job_Service
begin

text \<open>
  Properties of jobs: reading a job is a function of the keyspace (\<open>read_result\<close>), a job's history
  of worker writes determines what a poll returns, and an idempotency key is served by one job.
\<close>

section \<open>Keys\<close>

lemma status_key_neq_error_key [simp]: "status_key j \<noteq> error_key j'" "error_key j' \<noteq> status_key j"
proof -
  have "last (status_key j) = CHR ''s''" "last (error_key j') = CHR ''r''"
    by (simp_all add: status_key_def error_key_def)
  then show "status_key j \<noteq> error_key j'" "error_key j' \<noteq> status_key j" by auto
qed

lemma status_key_inj [simp]: "status_key j = status_key j' \<longleftrightarrow> j = j'"
  by (simp add: status_key_def)

lemma idempotency_key_neq [simp]:
  "idempotency_key a k \<noteq> status_key j" "status_key j \<noteq> idempotency_key a k"
  "idempotency_key a k \<noteq> error_key j" "error_key j \<noteq> idempotency_key a k"
  by (simp_all add: idempotency_key_def status_key_def error_key_def)

section \<open>Reading a job is a function of the keyspace\<close>

definition read_status_data :: "string \<Rightarrow> keyspace \<Rightarrow> api_error + (string \<times> json) list" where
  "read_status_data j ks =
     (if \<not> rval_truth (ks (status_key j)) then Inl (NotFoundError ''Job not found'')
      else of_option internal (case ks (status_key j) of None \<Rightarrow> None | Some v \<Rightarrow> loads_obj v))"

definition job_response :: "datetime \<Rightarrow> string \<Rightarrow> (string \<times> json) list \<Rightarrow> JobStatus \<Rightarrow> string option \<Rightarrow> JobResultResponse" where
  "job_response now j d status error =
     \<lparr>jr_job_id = j, jr_status = status, jr_result = jget d ''result'', jr_error = error,
      jr_created_at =
        (case parse_dt (json_or (json_or (jget d ''created_at'') (jget d ''enqueue_time'')) (jget d ''updated_at'')) of
           Some t \<Rightarrow> t | None \<Rightarrow> now),
      jr_completed_at =
        (if status = COMPLETED \<or> status = FAILED
         then parse_dt (json_or (jget d ''updated_at'') (jget d ''completed_at'')) else None)\<rparr>"

definition read_result :: "datetime \<Rightarrow> string \<Rightarrow> keyspace \<Rightarrow> api_error + JobResultResponse" where
  "read_result now j ks =
     bindE (read_status_data j ks) (\<lambda>d.
     bindE (status_of d) (\<lambda>status.
     bindE (error_text (ks (error_key j))) (\<lambda>error.
     Inr (job_response now j d status error))))"

lemma get_status_data_refines:
  assumes "redis_laws R view" "redis_up R view"
  shows "\<exists>r'. get_status_data R j (r, q) = (read_status_data j (view r), (r', q)) \<and> view r' = view r"
proof -
  obtain v r' where g: "r_get R (status_key j) r = (Some v, r')" using r_get_up [OF assms(2)] by blast
  with r_getD [OF assms(1) g] show ?thesis
    by (auto simp: get_status_data_def read_status_data_def sbind_def on_redis_def rval_truth_def
        sraise_def of_sum_def split: option.splits)
qed

lemma get_result_refines:
  assumes "redis_laws R view" "redis_up R view"
  shows "\<exists>r'. get_result R now j (r, q) = (read_result now j (view r), (r', q)) \<and> view r' = view r"
proof -
  obtain r1 where d: "get_status_data R j (r, q) = (read_status_data j (view r), (r1, q))" and v1: "view r1 = view r"
    using get_status_data_refines [OF assms, of j r q] by blast
  obtain e r2 where g: "r_get R (error_key j) r1 = (Some e, r2)" using r_get_up [OF assms(2)] by blast
  from r_getD [OF assms(1) g] v1 have e: "e = view r (error_key j)" "view r2 = view r" by auto
  show ?thesis
  proof (cases "read_status_data j (view r)")
    case (Inl err)
    with d v1 show ?thesis by (auto simp: get_result_def read_result_def sbind_def)
  next
    case (Inr data)
    with d g e show ?thesis
      by (cases "status_of data"; cases "error_text e")
        (auto simp: get_result_def read_result_def sbind_def on_redis_def of_sum_def sret_def job_response_def)
  qed
qed

section \<open>Histories of worker writes\<close>

datatype job_write =
    WStatus JobStatus "json option" datetime
  | WError string datetime

definition do_write :: "'r redis \<Rightarrow> string \<Rightarrow> int \<Rightarrow> job_write \<Rightarrow> 'r \<Rightarrow> unit option \<times> 'r" where
  "do_write R j ttl w =
     (case w of
        WStatus st res now \<Rightarrow> set_status R j (js_value st) ttl res now
      | WError msg now \<Rightarrow> set_error R j msg ttl now)"

fun run_writes :: "'r redis \<Rightarrow> string \<Rightarrow> int \<Rightarrow> job_write list \<Rightarrow> 'r \<Rightarrow> unit option \<times> 'r" where
  "run_writes R j ttl [] s = rret () s"
| "run_writes R j ttl (w # ws) s = rbind (do_write R j ttl w) (\<lambda>_. run_writes R j ttl ws) s"

text \<open>What the history says, independently of the store.\<close>

fun write_status :: "job_write \<Rightarrow> JobStatus" where
  "write_status (WStatus st _ _) = st"
| "write_status (WError _ _) = FAILED"

fun write_result :: "job_write \<Rightarrow> json option" where
  "write_result (WStatus _ res _) = res"
| "write_result (WError _ _) = None"

fun write_time :: "job_write \<Rightarrow> datetime" where
  "write_time (WStatus _ _ t) = t"
| "write_time (WError _ t) = t"

definition hist_status :: "job_write list \<Rightarrow> JobStatus" where
  "hist_status ws = (if ws = [] then PENDING else write_status (last ws))"

definition hist_result :: "job_write list \<Rightarrow> json" where
  "hist_result ws = (if ws = [] then JNull else case write_result (last ws) of None \<Rightarrow> JNull | Some r \<Rightarrow> r)"

definition hist_completed :: "job_write list \<Rightarrow> datetime option" where
  "hist_completed ws = (if hist_status ws = COMPLETED \<or> hist_status ws = FAILED then Some (write_time (last ws)) else None)"

fun last_error :: "job_write list \<Rightarrow> string option \<Rightarrow> string option" where
  "last_error [] e = e"
| "last_error (WError m _ # ws) e = last_error ws (Some m)"
| "last_error (WStatus _ _ _ # ws) e = last_error ws e"

definition hist_payload :: "datetime \<Rightarrow> job_write list \<Rightarrow> rval" where
  "hist_payload t0 ws =
     (if ws = [] then RJson (JObj [(''status'', JStr ''pending''), (''created_at'', JStr (isoformat t0))])
      else status_payload (js_value (write_status (last ws))) (write_time (last ws)) (JStr (isoformat t0))
             (write_result (last ws)))"

definition job_inv :: "('r \<Rightarrow> keyspace) \<Rightarrow> string \<Rightarrow> datetime \<Rightarrow> job_write list \<Rightarrow> string option \<Rightarrow> 'r \<Rightarrow> bool" where
  "job_inv view j t0 ws e r \<longleftrightarrow>
     view r (status_key j) = Some (hist_payload t0 ws) \<and> view r (error_key j) = map_option RStr e"

lemma kept_hist_payload [simp]: "kept_created_at (Some (hist_payload t0 ws)) now = Some (JStr (isoformat t0))"
  by (auto simp: hist_payload_def kept_created_at_def rval_truth_def status_payload_def dict_get_def split: option.split)

lemma do_write_inv:
  assumes laws: "redis_laws R view" and up: "redis_up R view" and inv: "job_inv view j t0 ws e r"
  shows "\<exists>r'. do_write R j ttl w r = (Some (), r') \<and> job_inv view j t0 (ws @ [w]) (last_error [w] e) r'
    \<and> (\<forall>k. k \<noteq> status_key j \<longrightarrow> k \<noteq> error_key j \<longrightarrow> view r' k = view r k)"
proof -
  obtain v r1 where get: "r_get R (status_key j) r = (Some v, r1)" using r_get_up [OF up] by blast
  from r_getD [OF laws get] inv have v: "v = Some (hist_payload t0 ws)" "view r1 = view r" by (auto simp: job_inv_def)
  show ?thesis
  proof (cases w)
    case (WStatus st res now)
    let ?p = "status_payload (js_value st) now (JStr (isoformat t0)) res"
    obtain r2 where set: "r_set R (status_key j) ?p (Some ttl) r1 = (Some (), r2)" using r_set_up [OF up] by blast
    then have "do_write R j ttl w r = (Some (), r2)"
      by (simp add: do_write_def WStatus set_status_def rbind_def get v)
    moreover have "view r2 = (view r)(status_key j \<mapsto> ?p)" using r_setD [OF laws set] v by simp
    ultimately show ?thesis using inv WStatus by (auto simp: job_inv_def hist_payload_def)
  next
    case (WError m now)
    let ?p = "status_payload ''failed'' now (JStr (isoformat t0)) None"
    obtain r2 where set: "r_set R (status_key j) ?p (Some ttl) r1 = (Some (), r2)" using r_set_up [OF up] by blast
    obtain r3 where set3: "r_set R (error_key j) (RStr m) (Some ttl) r2 = (Some (), r3)" using r_set_up [OF up] by blast
    from set set3 have "do_write R j ttl w r = (Some (), r3)"
      by (simp add: do_write_def WError set_error_def rbind_def get v)
    moreover have "view r3 = (view r)(status_key j \<mapsto> ?p, error_key j \<mapsto> RStr m)"
      using r_setD [OF laws set] r_setD [OF laws set3] v by simp
    ultimately show ?thesis using inv WError by (auto simp: job_inv_def hist_payload_def)
  qed
qed

lemma last_error_append: "last_error (ws @ ws') e = last_error ws' (last_error ws e)"
  by (induction ws e rule: last_error.induct) auto

lemma run_writes_inv:
  assumes laws: "redis_laws R view" and up: "redis_up R view" and inv: "job_inv view j t0 ws e r"
  shows "\<exists>r'. run_writes R j ttl ws' r = (Some (), r') \<and> job_inv view j t0 (ws @ ws') (last_error ws' e) r'
    \<and> (\<forall>k. k \<noteq> status_key j \<longrightarrow> k \<noteq> error_key j \<longrightarrow> view r' k = view r k)"
  using inv
proof (induction ws' arbitrary: ws e r)
  case Nil
  then show ?case by auto
next
  case (Cons w ws')
  from do_write_inv [OF laws up Cons.prems, of ttl w] obtain r1 where
    r1: "do_write R j ttl w r = (Some (), r1)" "job_inv view j t0 (ws @ [w]) (last_error [w] e) r1"
      "\<forall>k. k \<noteq> status_key j \<longrightarrow> k \<noteq> error_key j \<longrightarrow> view r1 k = view r k" by blast
  from Cons.IH [OF r1(2)] obtain r2 where "run_writes R j ttl ws' r1 = (Some (), r2)"
    "job_inv view j t0 (ws @ w # ws') (last_error ws' (last_error [w] e)) r2"
    "\<forall>k. k \<noteq> status_key j \<longrightarrow> k \<noteq> error_key j \<longrightarrow> view r2 k = view r1 k" by auto
  with r1 last_error_append [of "[w]" ws' e] show ?case by (auto simp: rbind_def)
qed

text \<open>What is read from a history.\<close>

lemma read_result_hist:
  assumes inv: "job_inv view j t0 ws e r" and valid: "valid_datetime t0" "\<forall>w \<in> set ws. valid_datetime (write_time w)"
  shows "read_result now j (view r) =
    Inr \<lparr>jr_job_id = j, jr_status = hist_status ws, jr_result = hist_result ws, jr_error = e,
         jr_created_at = t0, jr_completed_at = hist_completed ws\<rparr>"
proof -
  have err: "error_text (view r (error_key j)) = Inr e"
    using inv by (cases e) (auto simp: job_inv_def error_text_def)
  have t0: "parse_dt (JStr (isoformat t0)) = Some t0" by (simp add: parse_dt_def fromisoformat_isoformat valid(1))
  show ?thesis
  proof (cases "ws = []")
    case True
    with inv err t0 js_of_str_value [of PENDING] show ?thesis
      by (auto simp: read_result_def read_status_data_def job_inv_def hist_payload_def rval_truth_def loads_obj_def
          status_of_def dict_get_def job_response_def jget_def json_or_def hist_status_def hist_result_def hist_completed_def)
  next
    case False
    then have "valid_datetime (write_time (last ws))" using valid(2) by simp
    then have tl: "parse_dt (JStr (isoformat (write_time (last ws)))) = Some (write_time (last ws))"
      by (simp add: parse_dt_def fromisoformat_isoformat)
    from False inv err t0 tl show ?thesis
      by (cases "write_result (last ws)")
        (auto simp: read_result_def read_status_data_def job_inv_def hist_payload_def rval_truth_def loads_obj_def
          status_payload_def status_of_def dict_get_def job_response_def jget_def json_or_def hist_status_def
          hist_result_def hist_completed_def)
  qed
qed

section \<open>Enqueueing\<close>

lemma enqueueD:
  assumes laws: "redis_laws R view" and arq: "arq_laws A tasks"
    and run: "enqueue R A ttl now task s0 = (Inr j, s1)"
  shows "j = ta_job_id task \<and> tasks (snd s1) = tasks (snd s0) @ [task]
    \<and> view (fst s1) = (view (fst s0))(status_key j \<mapsto> hist_payload now [])"
proof -
  from run obtain u1 s2 u2 s3 u3 where "aq_create_pool A (snd s0) = (Some u1, snd s2)" "fst s2 = fst s0"
    and set: "r_set R (status_key (ta_job_id task)) (hist_payload now []) (Some ttl) (fst s2) = (Some u2, fst s3)"
    and "snd s3 = snd s2"
    and "aq_enqueue A task (snd s3) = (Some u3, snd s1)" "fst s1 = fst s3" "j = ta_job_id task"
    by (auto simp: enqueue_def sbind_Inr_iff on_redis_Inr_iff on_queue_Inr_iff hist_payload_def)
  with arq r_setD [OF laws set] show ?thesis by (simp add: arq_laws_def)
qed

lemma enqueue_inv:
  assumes "redis_laws R view" "arq_laws A tasks" "enqueue R A ttl now task s0 = (Inr j, s1)"
    "view (fst s0) (error_key (ta_job_id task)) = None"
  shows "job_inv view j now [] None (fst s1)"
  using enqueueD [OF assms(1-3)] assms(4) by (auto simp: job_inv_def)

section \<open>The rate limiter leaves the jobs alone\<close>

lemma keeps_zadd_loop [keeps_intros]:
  assumes "redis_laws R view" "k \<noteq> key"
  shows "keeps view k (zadd_loop R key now rnd is)"
proof (induction "is")
  case Nil
  show ?case by (simp add: keeps_def)
next
  case (Cons i "is")
  have "keeps view k (rbind (r_zadd R key now (member_name now i (rnd i))) (\<lambda>_. zadd_loop R key now rnd is))"
    by (intro keeps_intros assms Cons)
  then show ?case by (simp add: keeps_def)
qed

lemma keeps_sliding_window:
  assumes "redis_laws R view" "k \<noteq> key" "0 \<le> window"
  shows "keeps view k (LUA_SLIDING_WINDOW R rnd key now window limit cost)"
  unfolding LUA_SLIDING_WINDOW_def Let_def by (intro keeps_intros assms) (use assms(3) in simp)

lemma rl_check_keeps:
  assumes "redis_laws R view" "k \<noteq> key" "0 \<le> window" "rl_check R ev key window limit layer cost s = (res, s')"
  shows "view s' k = view s k"
proof -
  let ?m = "rbind (eval_lua R ev key window limit cost) (\<lambda>(allowed_int, cnt, reset_at).
    rret (if allowed_int = 0 then rl_denied (ev_now_denied ev) limit cnt reset_at layer
          else rl_allow limit cnt reset_at layer))"
  have "keeps view k ?m"
    unfolding eval_lua_def by (intro keeps_intros keeps_sliding_window assms) (auto simp: keeps_def)
  with assms(4) show ?thesis
    by (cases "?m s") (auto simp: rl_check_def try_or_def split: option.splits dest: keepsD)
qed

text \<open>Keys of the rate limiter start with \<^verbatim>\<open>rl:\<close>.\<close>

lemma check_all_keeps:
  assumes "redis_laws R view" "\<not> startswith ''rl:'' k"
    "check_all R rd ev prefix app domain proxy rps quota s = (res, s')"
  shows "view s' k = view s k"
proof -
  have k: "k \<noteq> ''rl:'' @ x" for x using assms(2) by (auto simp: startswith_def)
  note step = rl_check_keeps [OF assms(1)]
  have key: "check_key R e prefix l t = (a, t') \<Longrightarrow> view t' k = view t k"
    and app: "check_application R e app l t = (a, t') \<Longrightarrow> view t' k = view t k"
    and dom: "check_domain R rd e domain q t = (a, t') \<Longrightarrow> view t' k = view t k"
    and prox: "check_proxy R e pid q t = (a, t') \<Longrightarrow> view t' k = view t k" for e l t a t' q pid
    unfolding check_key_def check_application_def check_domain_def check_proxy_def
    using k [of "''key:'' @ prefix"] k [of "''app:'' @ uuid_str app"]
      k [of "''dom:'' @ normalize_domain rd domain"] k [of "''proxy:'' @ uuid_str pid"]
    by (auto elim!: step [rotated 2])
  from assms(3) show ?thesis
    by (auto simp: check_all_def Let_def dest!: key app dom prox split: prod.splits option.splits if_splits)
qed

lemma not_rl [simp]: "\<not> startswith ''rl:'' (status_key j)" "\<not> startswith ''rl:'' (error_key j)"
  "\<not> startswith ''rl:'' (idempotency_key a key)"
  by (simp_all add: startswith_def status_key_def error_key_def idempotency_key_def)

lemma rate_check_keeps:
  assumes "redis_laws R view" "ae_redis E = R" "\<not> startswith ''rl:'' k" "rate_check E body key s = (res, s')"
  shows "view (fst s') k = view (fst s) k \<and> snd s' = snd s"
  using assms(4) check_all_keeps [OF assms(1,3)] assms(2)
  by (cases s) (auto simp: rate_check_def Let_def split: sum.splits prod.splits if_splits)

section \<open>One run of the endpoint\<close>

lemma handle_idempotency_run:
  assumes "redis_laws R view" "handle_idempotency R key app s = (Inr x, s')"
  shows "error_text (view (fst s) (idempotency_key app key)) = Inr x \<and> view (fst s') = view (fst s) \<and> snd s' = snd s"
  using assms(2) r_getD [OF assms(1)]
  by (auto simp: handle_idempotency_def sbind_Inr_iff on_redis_Inr_iff)

lemma replay_of_NoneD:
  assumes "redis_laws (ae_redis E) view" "replay_of E body caller s = (Inr None, s')"
  shows "view (fst s') = view (fst s) \<and> snd s' = snd s"
proof (cases "jc_idempotency_key body = None \<or> jc_idempotency_key body = Some []")
  case True
  with assms(2) show ?thesis by (auto simp: replay_of_def)
next
  case False
  then obtain key where key: "jc_idempotency_key body = Some key" "key \<noteq> []" by auto
  with assms(2) obtain x s1 where h: "handle_idempotency (ae_redis E) key (k_application_id caller) s = (Inr x, s1)"
    and rest: "(case x of None \<Rightarrow> sret None
         | Some job_id \<Rightarrow> if job_id = [] then sret None
             else sbind (get_result (ae_redis E) (ae_now E 0) job_id) (\<lambda>cached.
                    sret (Some (Replayed job_id (jr_status cached) (jr_created_at cached) key)))) s1 = (Inr None, s')"
    by (auto simp: replay_of_def sbind_Inr_iff)
  from rest have "s' = s1" by (auto simp: sbind_Inr_iff split: option.splits if_splits)
  with handle_idempotency_run [OF assms(1) h] show ?thesis by simp
qed

lemma replay_of_SomeD:
  assumes "replay_of E body caller s = (Inr (Some resp), s')"
  shows "\<exists>a b c d. resp = Replayed a b c d"
  using assms by (auto simp: replay_of_def sbind_Inr_iff split: option.splits if_splits)

lemma create_fetch_AcceptedD:
  assumes laws: "redis_laws (ae_redis E) view" and arq: "arq_laws (ae_arq E) tasks"
    and run: "create_fetch E body caller s0 = (Inr (Accepted jid t k lmt), s1)"
  shows "\<exists>domain. normalize_domain_from_url (ae_rd E) (jc_url body) = Inr domain
    \<and> jid = uuid_str (ae_uuid E) \<and> tasks (snd s1) = tasks (snd s0) @ [make_task E body caller domain]
    \<and> view (fst s1) (status_key jid) = Some (hist_payload (ae_now E 0) [])
    \<and> view (fst s1) (error_key jid) = view (fst s0) (error_key jid)
    \<and> (\<forall>key. jc_idempotency_key body = Some key \<longrightarrow> key \<noteq> [] \<longrightarrow>
          view (fst s1) (idempotency_key (k_application_id caller) key) = Some (RStr jid))"
proof -
  from run obtain domain where dom: "normalize_domain_from_url (ae_rd E) (jc_url body) = Inr domain"
    by (auto simp: create_fetch_def split: sum.splits)
  with run obtain result sa where rate: "rate_check E body caller s0 = (Inr result, sa)"
    and rest: "sbind (replay_of E body caller) (\<lambda>replay. case replay of Some resp \<Rightarrow> sret resp
       | None \<Rightarrow> submit E body caller domain result) sa = (Inr (Accepted jid t k lmt), s1)"
    by (simp add: create_fetch_def sbind_Inr_iff [of "rate_check E body caller"] with_api_error_Inr_iff) blast
  from rest obtain x sb where rep: "replay_of E body caller sa = (Inr x, sb)"
    and x: "(case x of Some resp \<Rightarrow> sret resp | None \<Rightarrow> submit E body caller domain result) sb
      = (Inr (Accepted jid t k lmt), s1)"
    by (auto simp: sbind_Inr_iff)
  have none: "x = None"
  proof (cases x)
    case (Some resp)
    with replay_of_SomeD [of E body caller sa resp sb] rep x show ?thesis by auto
  qed simp
  with x have sub: "submit E body caller domain result sb = (Inr (Accepted jid t k lmt), s1)" by simp
  note rep = rep [unfolded none]
  let ?task = "make_task E body caller domain"
  from sub obtain j sc sd u where enq: "enqueue (ae_redis E) (ae_arq E) (ae_ttl E) (ae_now E 0) ?task sb = (Inr j, sc)"
    and store: "(case jc_idempotency_key body of
              None \<Rightarrow> sret ()
            | Some key \<Rightarrow> if key = [] then sret ()
                          else store_idempotency (ae_redis E) (ae_ttl E) key j (k_application_id caller)) sc = (Inr u, sd)"
    and fin: "jid = j" "s1 = sd"
    by (auto simp: submit_def sbind_Inr_iff split: if_splits option.splits)
  note v1 = rate_check_keeps [OF laws refl _ rate] and v2 = replay_of_NoneD [OF laws rep]
  note e = enqueueD [OF laws arq enq]
  have keep: "view (fst s1) k' = view (fst sc) k' \<and> snd s1 = snd sc"
    if "k' = status_key jid \<or> k' = error_key jid" for k'
    using store that fin r_setD [OF laws]
    by (fastforce simp: store_idempotency_def on_redis_Inr_iff split: option.splits if_splits)
  have "tasks (snd s1) = tasks (snd s0) @ [?task]"
    using keep [of "status_key jid"] e v2 v1 [OF not_rl(1)] by simp
  moreover have "view (fst s1) (status_key jid) = Some (hist_payload (ae_now E 0) [])"
    using keep [of "status_key jid"] e fin by simp
  moreover have "view (fst s1) (error_key jid) = view (fst s0) (error_key jid)"
    using keep [of "error_key jid"] e v2 v1 [OF not_rl(2), of jid] by simp
  moreover have "view (fst s1) (idempotency_key (k_application_id caller) key) = Some (RStr jid)"
    if "jc_idempotency_key body = Some key" "key \<noteq> []" for key
    using store that fin r_setD [OF laws] by (auto simp: store_idempotency_def on_redis_Inr_iff)
  moreover have "jid = uuid_str (ae_uuid E)" using e fin by (simp add: make_task_def)
  ultimately show ?thesis using dom by blast
qed

text \<open>A request whose key is taken by a job with a history is answered from it.\<close>

lemma replay_of_hist:
  assumes laws: "redis_laws (ae_redis E) view" and up: "redis_up (ae_redis E) view"
    and key: "jc_idempotency_key body = Some key" "key \<noteq> []"
    and taken: "view (fst s) (idempotency_key (k_application_id caller) key) = Some (RStr jid)" "jid \<noteq> []"
    and inv: "job_inv view jid t0 ws e (fst s)" "valid_datetime t0" "\<forall>w \<in> set ws. valid_datetime (write_time w)"
  shows "\<exists>r'. replay_of E body caller s = (Inr (Some (Replayed jid (hist_status ws) t0 key)), (r', snd s))"
proof -
  obtain r q where s: "s = (r, q)" by (cases s)
  obtain v r1 where get: "r_get (ae_redis E) (idempotency_key (k_application_id caller) key) r = (Some v, r1)"
    using r_get_up [OF up] by blast
  with r_getD [OF laws get] taken s have v: "v = Some (RStr jid)" "view r1 = view r" by auto
  have "job_inv view jid t0 ws e r1" using inv(1) v s by (simp add: job_inv_def)
  from read_result_hist [OF this inv(2,3)] get_result_refines [OF laws up, of "ae_now E 0" jid r1 q]
  obtain r2 where "get_result (ae_redis E) (ae_now E 0) jid (r1, q) =
    (Inr \<lparr>jr_job_id = jid, jr_status = hist_status ws, jr_result = hist_result ws, jr_error = e,
         jr_created_at = t0, jr_completed_at = hist_completed ws\<rparr>, (r2, q))" by metis
  with get v key taken(2) s show ?thesis
    by (simp add: replay_of_def handle_idempotency_def sbind_def on_redis_def error_text_def of_sum_def sret_def)
qed

lemma rate_check_domain:
  assumes "rate_check E body caller s = (Inr result, s')"
  shows "\<exists>domain. normalize_domain_from_url (ae_rd E) (jc_url body) = Inr domain"
  using assms
  by (cases s)
    (auto simp: rate_check_def resolve_policy_def parse_hostname_def bindE_def normalize_domain_from_url_def
      split: sum.splits option.splits)

lemma uuid_str_not_Nil [simp]: "uuid_str u \<noteq> []"
  by (simp add: uuid_str_def Let_def)

section \<open>Concrete instances\<close>

definition ex_body :: JobCreate where
  "ex_body = \<lparr>jc_url = ''https://example.com/x'', jc_mode = ''static'', jc_callback_url = None,
     jc_idempotency_key = Some ''k1'', jc_use_proxy = Some True, jc_proxy_country = Some ''de'', jc_proxy_city = None,
     jc_proxy_type = None, jc_session_key = None, jc_options = [(''use_proxy'', JBool False)]\<rparr>"

definition ex_env :: "uuid \<Rightarrow> datetime \<Rightarrow> (keyspace, task_args list) api_env" where
  "ex_env u now = \<lparr>ae_redis = fun_redis, ae_arq = list_arq, ae_rd = (\<lambda>d. d), ae_policies = [], ae_ttl = 3600,
     ae_quota = 1000, ae_rate = (\<lambda>_. \<lparr>ev_now = 1000 * of_int now, ev_now_denied = 1000 * of_int now, ev_rnd = (\<lambda>_. 7)\<rparr>),
     ae_now = (\<lambda>_. now), ae_uuid = u, ae_tick = (\<lambda>_ s. s), ae_trace_id = None\<rparr>"

section \<open>Properties\<close>

text \<open>
  C14. A poll reads the history of a job: after a job was enqueued at an instant and the worker wrote
  any sequence of status and error updates, reading the job returns the enqueue instant as its
  creation time, the status and result of the last write, the last write's instant as completion
  time exactly when that status is final, and the last error text, which a later success does not
  clear.
\<close>

theorem job_history:
  assumes "redis_laws R view" "redis_up R view" "arq_laws A tasks" "valid_datetime t0"
    "\<forall>w \<in> set ws. valid_datetime (write_time w)" "view (fst s0) (error_key (ta_job_id task)) = None"
    "enqueue R A ttl t0 task s0 = (Inr j, s1)"
  shows "\<exists>r2. run_writes R j ttl ws (fst s1) = (Some (), r2)
    \<and> (\<exists>r3. get_result R now j (r2, snd s1) =
        (Inr \<lparr>jr_job_id = ta_job_id task, jr_status = hist_status ws, jr_result = hist_result ws,
              jr_error = last_error ws None, jr_created_at = t0, jr_completed_at = hist_completed ws\<rparr>, (r3, snd s1)))"
proof -
  have inv: "job_inv view j t0 [] None (fst s1)" by (rule enqueue_inv [OF assms(1,3,7,6)])
  have j: "j = ta_job_id task" using enqueueD [OF assms(1,3,7)] by simp
  from run_writes_inv [OF assms(1,2) inv, of ttl ws] obtain r2 where
    run: "run_writes R j ttl ws (fst s1) = (Some (), r2)" and inv2: "job_inv view j t0 ws (last_error ws None) r2" by auto
  from read_result_hist [OF inv2 assms(4,5), of now] get_result_refines [OF assms(1,2), of now j r2 "snd s1"] run j
  show ?thesis by metis
qed

theorem job_history_witness:
  "\<exists>r2 r3. run_writes fun_redis ''j'' 60 [WStatus RUNNING None 5, WError ''boom'' 7, WStatus COMPLETED (Some (JNum 1)) 9]
       (fst (snd (enqueue fun_redis list_arq 60 3 (make_task (ex_env 1 3) ex_body ex_caller ''d'' \<lparr>ta_job_id := ''j''\<rparr>)
         (\<lambda>_. None, [])))) = (Some (), r2)
     \<and> get_result fun_redis 99 ''j'' (r2, snd (snd (enqueue fun_redis list_arq 60 3
         (make_task (ex_env 1 3) ex_body ex_caller ''d'' \<lparr>ta_job_id := ''j''\<rparr>) (\<lambda>_. None, [])))) =
        (Inr \<lparr>jr_job_id = ''j'', jr_status = COMPLETED, jr_result = JNum 1, jr_error = Some ''boom'',
              jr_created_at = 3, jr_completed_at = Some 9\<rparr>, r3)"
proof -
  let ?task = "make_task (ex_env 1 3) ex_body ex_caller ''d'' \<lparr>ta_job_id := ''j''\<rparr>"
  let ?ws = "[WStatus RUNNING None 5, WError ''boom'' 7, WStatus COMPLETED (Some (JNum 1)) 9]"
  let ?e = "enqueue fun_redis list_arq 60 3 ?task ((\<lambda>_. None), [])"
  have e: "?e = (Inr ''j'', snd ?e)"
    by (simp add: enqueue_def sbind_def on_queue_def on_redis_def list_arq_def fun_redis_def sret_def)
  show ?thesis
    using job_history [OF fun_redis_laws fun_redis_up list_arq_laws(1), of 3 ?ws "((\<lambda>_. None), [])" ?task 60 "''j''" "snd ?e" 99] e
    by (simp add: valid_datetime_def hist_status_def hist_result_def hist_completed_def) blast
qed


definition ex_first :: "(fetch_exn + fetch_response) \<times> keyspace \<times> task_args list" where
  "ex_first = create_fetch (ex_env 1 3) ex_body ex_caller ((\<lambda>_. None), [])"

definition ex_worked :: "unit option \<times> keyspace" where
  "ex_worked = run_writes fun_redis (uuid_str 1) 60 [WStatus RUNNING None 5] (fst (snd ex_first))"


end
