(* ===== verification/Fetch_World.thy ===== *)
theory Fetch_World
  imports Fetch_Facts Job_Props
begin

text \<open>
  What a fetch does to the world it shares with the rest of the worker. The retry loop touches the
  world only through its services, so a relation that every service call respects holds between
  the worlds before and after a fetch (\<open>world_keeper\<close>). With the proxy manager as the service, the
  relation is that the keys of the jobs are left alone.
\<close>

section \<open>The contract\<close>

locale world_keeper =
  fixes sv :: "'w services" and keep :: "'w \<Rightarrow> 'w \<Rightarrow> bool"
  assumes keep_refl: "keep w w"
    and keep_trans: "keep w1 w2 \<Longrightarrow> keep w2 w3 \<Longrightarrow> keep w1 w3"
    and keep_get: "sv_get_proxy sv rq w = (p, w') \<Longrightarrow> keep w w'"
    and keep_report: "sv_report sv i d ok reason w = (u, w') \<Longrightarrow> keep w w'"
    and keep_fetch: "sv_fetch sv eng url px hs w = (r, w') \<Longrightarrow> keep w w'"
    and keep_sleep: "sv_sleep sv t w = (u', w') \<Longrightarrow> keep w w'"
    and keep_random: "sv_random sv w = (x, w') \<Longrightarrow> keep w w'"
begin

lemma keep_report_if: "report_if cfg sv proxy ok reason w = (u, w') \<Longrightarrow> keep w w'"
  by (auto simp: report_if_def keep_refl split: option.splits if_splits dest: keep_report)

lemma keep_sleep_phase: "sleep_phase cfg sv w = (u, w') \<Longrightarrow> keep w w'"
  by (auto simp: sleep_phase_def split: prod.splits dest!: keep_random keep_sleep intro: keep_trans)

lemma keep_after_block: "after_block cfg sv proxy result st w = (r, st', w') \<Longrightarrow> keep w w'"
  by (auto simp: after_block_def keep_refl split: if_splits option.splits prod.splits sum.splits
      dest: keep_sleep_phase)

lemma keep_blocked_phase:
  assumes "blocked_phase cfg sv proxy result st w = (r, st', w')"
  shows "keep w w'"
proof -
  obtain u w1 where rep: "report_if cfg sv proxy False (Some (reason_or_http_error result)) w = (u, w1)" by fastforce
  with assms have "w' = w1 \<or> keep w1 w'"
    by (auto simp: blocked_phase_def Let_def split: sum.splits dest: keep_after_block)
  with keep_report_if [OF rep] show ?thesis using keep_trans by blast
qed

lemma keep_fetch_phase:
  assumes "fetch_phase cfg sv engine proxy st w = (r, st', w')"
  shows "keep w w'"
proof -
  obtain u w1 where rnd: "sv_random sv w = (u, w1)" by fastforce
  obtain fr w2 where f: "sv_fetch sv engine (c_url cfg) proxy (headers_for_domain u (c_policy cfg)) w1 = (fr, w2)" by fastforce
  have "keep w w2" using keep_trans [OF keep_random [OF rnd] keep_fetch [OF f]] .
  moreover have "w' = w2 \<or> keep w2 w'"
    using assms rnd f
    by (auto simp: fetch_phase_def Let_def split: sum.splits if_splits prod.splits
        dest: keep_blocked_phase keep_report_if)
  ultimately show ?thesis using keep_trans by blast
qed

lemma keep_handle_exn:
  assumes "handle_exn cfg sv proxy e st w = (r, st', w')"
  shows "keep w w'"
proof (cases e)
  case (FetchError m)
  obtain u w1 where rep: "report_if cfg sv proxy False (Some ''http_error'') w = (u, w1)" by fastforce
  with assms FetchError have "w' = w1 \<or> keep w1 w'"
    by (auto simp: handle_exn_def Let_def split: sum.splits if_splits prod.splits dest: keep_sleep_phase)
  with keep_report_if [OF rep] show ?thesis using keep_trans by blast
qed (use assms in \<open>auto simp: handle_exn_def Let_def keep_refl split: sum.splits if_splits prod.splits dest: keep_sleep_phase\<close>)

lemma keep_pick_phase: "pick_phase cfg sv use_p ptype st w = (r, w') \<Longrightarrow> keep w w'"
  by (auto simp: pick_phase_def keep_refl split: if_splits prod.splits sum.splits option.splits dest: keep_get)

lemma keep_attempt:
  assumes "attempt cfg sv bypassed t f st w = (r, st', a, w')"
  shows "keep w w'"
proof -
  obtain p w1 where pick: "pick_phase cfg sv (tier_use_proxy cfg bypassed t) (tier_proxy_type cfg bypassed t) st w = (p, w1)"
    by fastforce
  have "keep w1 w'"
  proof (cases p)
    case (Inl e)
    with assms pick show ?thesis by (auto simp: attempt_def Let_def split: prod.splits dest: keep_handle_exn)
  next
    case (Inr proxy)
    obtain q st1 w2 where fp: "fetch_phase cfg sv (f_engine f) proxy st w1 = (q, st1, w2)" by (metis prod_cases3)
    have "w' = w2 \<or> keep w2 w'"
      using assms pick Inr fp by (auto simp: attempt_def Let_def split: sum.splits prod.splits dest: keep_handle_exn)
    with keep_fetch_phase [OF fp] show ?thesis using keep_trans by blast
  qed
  with keep_pick_phase [OF pick] show ?thesis using keep_trans by blast
qed

lemma keep_retry_loop: "retry_loop cfg sv n st w = (res, as, w') \<Longrightarrow> keep w w'"
proof (induction n arbitrary: st w res as w')
  case 0
  then show ?case by (simp add: keep_refl)
next
  case (Suc n)
  show ?case
  proof (cases "w' = w")
    case True
    then show ?thesis by (simp add: keep_refl)
  next
    case False
    with Suc.prems obtain bypassed t f r st1 a w1 where
      at: "attempt cfg sv bypassed t f (st\<lparr>ls_fetcher := Some f, ls_total := ls_total st + 1\<rparr>) w = (r, st1, a, w1)"
      and rest: "w' = w1 \<or> (\<exists>res2 as2. retry_loop cfg sv n st1 w1 = (res2, as2, w'))"
      by (auto split: option.splits sum.splits prod.splits action.splits if_splits)
    from keep_attempt [OF at] rest Suc.IH show ?thesis using keep_trans by blast
  qed
qed

lemma keep_fetch_with_retry: "fetch_with_retry rd ep sv f a w = (res, as, w') \<Longrightarrow> keep w w'"
  by (auto simp: fetch_with_retry_def Let_def keep_refl split: sum.splits dest: keep_retry_loop)

end

section \<open>The proxy manager leaves the jobs alone\<close>

definition job_key :: "string \<Rightarrow> bool" where
  "job_key k \<longleftrightarrow> startswith ''job:'' k"

lemma job_key_simps [simp]: "job_key (status_key j)" "job_key (error_key j)"
  by (simp_all add: job_key_def startswith_def status_key_def error_key_def)

lemma job_key_neq:
  assumes "job_key k"
  shows "k \<noteq> cb_key d" "k \<noteq> cb_state_key d" "k \<noteq> sticky_redis_key d x" "k \<noteq> daily_key i t"
  using assms
  by (auto simp: job_key_def startswith_def cb_key_def cb_state_key_def sticky_redis_key_def daily_key_def)

lemma is_circuit_open_keeps:
  assumes "redis_laws R view" "job_key k" "is_circuit_open R d s = (b, s')"
  shows "view s' k = view s k"
  using assms(3) unfolding is_circuit_open_def
  by (rule keeps_try_or [rotated]) (intro keeps_intros assms(1) job_key_neq [OF assms(2)])

lemma get_sticky_keeps:
  assumes "redis_laws R view" "job_key k" "get_sticky R d x s = (i, s')"
  shows "view s' k = view s k"
  using assms(3) unfolding get_sticky_def
  by (rule keeps_try_or [rotated]) (intro keeps_intros assms(1) job_key_neq [OF assms(2)])

lemma sticky_writes_keep:
  assumes "redis_laws R view" "job_key k"
  shows "view (set_sticky R d x i ttl s) k = view s k" "view (delete_sticky R d x s) k = view s k"
  unfolding set_sticky_def delete_sticky_def
  by (intro keeps_snd keeps_intros assms(1) job_key_neq [OF assms(2)])+

lemma get_proxy_keeps:
  assumes laws: "redis_laws R view" and k: "job_key k" and run: "get_proxy R e rq tbl s = (p, s')"
  shows "view s' k = view s k"
proof -
  obtain b s1 where open1: "is_circuit_open R (rq_domain rq) s = (b, s1)" by fastforce
  have v1: "view s1 k = view s k" by (rule is_circuit_open_keeps [OF laws k open1])
  have st: "get_sticky R (rq_domain rq) x s1 = (i, t) \<Longrightarrow> view t k = view s1 k" for x i t
    by (rule get_sticky_keeps [OF laws k])
  show ?thesis
    using run open1 v1 st
    by (auto simp: get_proxy_def Let_def sticky_writes_keep [OF laws k]
        split: if_splits option.splits prod.splits)
qed

lemma report_result_keeps:
  assumes laws: "redis_laws R view" and k: "job_key k" and t: "0 < cb_timeout_s cfg"
    and run: "report_result R cfg now dk i d ok reason tbl evs s = (tbl', evs', s')"
  shows "view s' k = view s k"
proof -
  note neq = job_key_neq [OF k]
  have reset: "reset_circuit_breaker R d s = (b, s1) \<Longrightarrow> view s1 k = view s k" for b s1
    unfolding reset_circuit_breaker_def
    by (erule keeps_try_or [rotated]) (intro keeps_intros laws neq)
  have incr: "increment_circuit_breaker R cfg d s = (b, s1) \<Longrightarrow> view s1 k = view s k" for b s1
    unfolding increment_circuit_breaker_def
    by (erule keeps_try_or [rotated]) (intro keeps_intros laws neq; use t in simp)
  have daily: "view (record_daily_aggregate R i ok' dk s1) k = view s1 k" for ok' s1
  proof -
    let ?m = "rbind (r_hincrby R (daily_key i dk) ''requests'' 1) (\<lambda>requests_count.
        rbind (if \<not> ok' then rbind (r_hincrby R (daily_key i dk) ''errors'' 1) (\<lambda>_. rret ()) else rret ()) (\<lambda>_.
        if requests_count = 1 then r_expire R (daily_key i dk) 172800 else rret ()))"
    have "keeps view k ?m" by (intro keeps_intros laws neq) simp
    then show ?thesis
      unfolding record_daily_aggregate_def by (rule keeps_try_or [OF _ surjective_pairing])
  qed
  from run show ?thesis
    by (auto simp: report_result_def Let_def daily split: if_splits prod.splits dest: reset incr)
qed

section \<open>Services on the manager's world\<close>

text \<open>The network, the sleep and the random numbers live in the rest of the world.\<close>

definition manager_services ::
  "'r redis \<Rightarrow> breaker_cfg \<Rightarrow> (('r, 'x) mgr_world \<Rightarrow> pick_env) \<Rightarrow> (('r, 'x) mgr_world \<Rightarrow> string)
   \<Rightarrow> (string \<Rightarrow> string \<Rightarrow> Proxy option \<Rightarrow> headers \<Rightarrow> 'x \<Rightarrow> (exn + FetchResult) \<times> 'x)
   \<Rightarrow> (real \<Rightarrow> 'x \<Rightarrow> (exn + unit) \<times> 'x) \<Rightarrow> ('x \<Rightarrow> real \<times> 'x) \<Rightarrow> ('r, 'x) mgr_world services" where
  "manager_services R cfg env date net sleep rnd =
     \<lparr>sv_manager = True, sv_get_proxy = manager_pick R env, sv_report = manager_report R cfg env date,
      sv_fetch = (\<lambda>eng url px hs w. case net eng url px hs (mw_rest w) of (r, x) \<Rightarrow> (r, w\<lparr>mw_rest := x\<rparr>)),
      sv_sleep = (\<lambda>t w. case sleep t (mw_rest w) of (r, x) \<Rightarrow> (r, w\<lparr>mw_rest := x\<rparr>)),
      sv_random = (\<lambda>w. case rnd (mw_rest w) of (u, x) \<Rightarrow> (u, w\<lparr>mw_rest := x\<rparr>))\<rparr>"

definition jobs_kept ::
  "'r redis \<Rightarrow> ('r \<Rightarrow> keyspace) \<Rightarrow> breaker_cfg \<Rightarrow> ('r, 'x) mgr_world \<Rightarrow> ('r, 'x) mgr_world \<Rightarrow> bool" where
  "jobs_kept R view cfg w w' \<longleftrightarrow>
     (redis_laws R view \<and> 0 < cb_timeout_s cfg \<longrightarrow> (\<forall>k. job_key k \<longrightarrow> view (mw_redis w') k = view (mw_redis w) k))"

interpretation manager_world:
  world_keeper "manager_services R cfg env date net sleep rnd" "jobs_kept R view cfg"
  for R view cfg env date net sleep rnd
  by unfold_locales
    (auto simp: jobs_kept_def manager_services_def manager_pick_def manager_report_def Let_def
      split: prod.splits dest: get_proxy_keeps report_result_keeps)

text \<open>Redis as a part of that world.\<close>

definition in_world :: "('r \<Rightarrow> 'a \<times> 'r) \<Rightarrow> ('r, 'x) mgr_world \<Rightarrow> 'a \<times> ('r, 'x) mgr_world" where
  "in_world m w = (case m (mw_redis w) of (a, r) \<Rightarrow> (a, w\<lparr>mw_redis := r\<rparr>))"

definition world_redis :: "'r redis \<Rightarrow> ('r, 'x) mgr_world redis" where
  "world_redis R =
     \<lparr>r_get = (\<lambda>k. in_world (r_get R k)), r_set = (\<lambda>k v ex. in_world (r_set R k v ex)),
      r_delete = (\<lambda>k. in_world (r_delete R k)), r_incr = (\<lambda>k. in_world (r_incr R k)),
      r_expire = (\<lambda>k t. in_world (r_expire R k t)), r_hincrby = (\<lambda>k f d. in_world (r_hincrby R k f d)),
      r_zremrangebyscore = (\<lambda>k c. in_world (r_zremrangebyscore R k c)), r_zcard = (\<lambda>k. in_world (r_zcard R k)),
      r_zrange_first = (\<lambda>k. in_world (r_zrange_first R k)), r_zadd = (\<lambda>k sc m. in_world (r_zadd R k sc m))\<rparr>"

lemma in_world_eq: "in_world m w = (a, w') \<longleftrightarrow> m (mw_redis w) = (a, mw_redis w') \<and> w' = w\<lparr>mw_redis := mw_redis w'\<rparr>"
  by (auto simp: in_world_def split: prod.splits)

lemma fst_in_world [simp]: "fst (in_world m w) = fst (m (mw_redis w))"
  by (simp add: in_world_def split: prod.splits)

lemma world_redis_sel:
  "r_get (world_redis R) k = in_world (r_get R k)" "r_set (world_redis R) k v ex = in_world (r_set R k v ex)"
  "r_delete (world_redis R) k = in_world (r_delete R k)" "r_incr (world_redis R) k = in_world (r_incr R k)"
  "r_expire (world_redis R) k t = in_world (r_expire R k t)"
  "r_hincrby (world_redis R) k f d = in_world (r_hincrby R k f d)"
  "r_zremrangebyscore (world_redis R) k c = in_world (r_zremrangebyscore R k c)"
  "r_zcard (world_redis R) k = in_world (r_zcard R k)"
  "r_zrange_first (world_redis R) k = in_world (r_zrange_first R k)"
  "r_zadd (world_redis R) k sc m = in_world (r_zadd R k sc m)"
  by (simp_all add: world_redis_def)

lemma world_redis_laws:
  assumes "redis_laws R view"
  shows "redis_laws (world_redis R) (\<lambda>w. view (mw_redis w))"
proof -
  have f: "failure_laws R view" using assms by (simp add: redis_laws_def)
  have "string_laws (world_redis R) (\<lambda>w. view (mw_redis w))"
    unfolding string_laws_def world_redis_sel in_world_eq
    using r_getD [OF assms] r_setD [OF assms] r_deleteD [OF assms] r_incrD [OF assms] r_expireD [OF assms]
      r_hincrbyD [OF assms]
    by (intro conjI allI impI; elim conjE) (fastforce+)
  moreover have "zset_laws (world_redis R) (\<lambda>w. view (mw_redis w))"
    unfolding zset_laws_def world_redis_sel in_world_eq
    using r_zremD [OF assms] r_zcardD [OF assms] r_zrangeD [OF assms] r_zaddD [OF assms]
    by (intro conjI allI impI; elim conjE) (blast+)
  moreover have "failure_laws (world_redis R) (\<lambda>w. view (mw_redis w))"
    using f unfolding failure_laws_def world_redis_sel in_world_eq by blast
  ultimately show ?thesis by (simp add: redis_laws_def)
qed

lemma world_redis_up:
  assumes "redis_up R view"
  shows "redis_up (world_redis R) (\<lambda>w. view (mw_redis w))"
  using assms by (simp add: redis_up_def world_redis_def)

end
