(* ===== verification/Fetch_Task_Props.thy ===== *)
theory Fetch_Task_Props
  imports Fetch_Task Fetch_World
begin

text \<open>
  Properties of the worker's task: what a run leaves behind for the poller, the usage table and the
  callback; what the response schema says of the body; how request options reach the fetch.
\<close>

section \<open>What a run leaves behind\<close>

definition task_ok :: "'w task_env \<Rightarrow> ('w \<Rightarrow> keyspace) \<Rightarrow> bool" where
  "task_ok env view \<longleftrightarrow> redis_laws (te_redis env) view \<and> redis_up (te_redis env) view
     \<and> world_keeper (te_services env) (\<lambda>w w'. \<forall>k. job_key k \<longrightarrow> view w' k = view w k)
     \<and> (\<forall>archive result b w r w'. te_archive env = Some archive \<longrightarrow> archive result b w = (r, w') \<longrightarrow>
          (\<forall>k. job_key k \<longrightarrow> view w' k = view w k))"

lemma task_okD:
  assumes "task_ok env view"
  shows "redis_laws (te_redis env) view" "redis_up (te_redis env) view"
    "world_keeper (te_services env) (\<lambda>w w'. \<forall>k. job_key k \<longrightarrow> view w' k = view w k)"
    "te_archive env = Some archive \<Longrightarrow> archive result b w = (r, w') \<Longrightarrow> job_key k \<Longrightarrow> view w' k = view w k"
  using assms by (auto simp: task_ok_def)

lemma job_inv_kept:
  "job_inv view j t0 ws e w \<Longrightarrow> (\<And>k. job_key k \<Longrightarrow> view w' k = view w k) \<Longrightarrow> job_inv view j t0 ws e w'"
  by (simp add: job_inv_def)

text \<open>The callback that a final status schedules.\<close>

definition notified ::
  "'w task_env \<Rightarrow> task_args \<Rightarrow> JobStatus \<Rightarrow> json \<Rightarrow> string option \<Rightarrow> datetime \<Rightarrow> callback list" where
  "notified env ta status result error now =
     (case ta_callback_url ta of
        None \<Rightarrow> []
      | Some url \<Rightarrow> if url = [] \<or> te_secret env = [] then []
                    else [\<lparr>cb_job_id = ta_job_id ta, cb_status = status, cb_url = url, cb_result = result,
                           cb_error = error, cb_timestamp = now\<rparr>])"

lemma schedule_callback_eq:
  "schedule_callback env ta status result error now s =
     s\<lparr>wk_callbacks := wk_callbacks s @ notified env ta status result error now\<rparr>"
  by (cases s) (auto simp: schedule_callback_def notified_def split: option.split)

definition tables_same :: "'w worker \<Rightarrow> 'w worker \<Rightarrow> bool" where
  "tables_same s s' \<longleftrightarrow> wk_policies s' = wk_policies s \<and> wk_usage s' = wk_usage s \<and> wk_callbacks s' = wk_callbacks s"

lemma status_write:
  assumes "task_ok env view" "job_inv view (ta_job_id ta) t0 ws e (wk_world s)"
  shows "\<exists>s'. on_world (set_status (te_redis env) (ta_job_id ta) (js_value st) (te_ttl env) res now) s = (Inr (), s')
    \<and> job_inv view (ta_job_id ta) t0 (ws @ [WStatus st res now]) e (wk_world s') \<and> tables_same s s'"
proof -
  from do_write_inv [OF task_okD(1,2) [OF assms(1)] assms(2), of "te_ttl env" "WStatus st res now"]
  obtain w' where "set_status (te_redis env) (ta_job_id ta) (js_value st) (te_ttl env) res now (wk_world s) = (Some (), w')"
    "job_inv view (ta_job_id ta) t0 (ws @ [WStatus st res now]) e w'" by (auto simp: do_write_def)
  then show ?thesis by (auto simp: on_world_def tables_same_def)
qed

lemma task_fetch_inv:
  assumes ok: "task_ok env view" and inv: "job_inv view (ta_job_id ta) t0 ws e (wk_world s)"
    and run: "task_fetch env ta s = (r, s')"
  shows "job_inv view (ta_job_id ta) t0 (ws @ [WStatus RUNNING None (te_now env 0)]) e (wk_world s') \<and> tables_same s s'"
proof -
  from status_write [OF ok inv, of RUNNING None "te_now env 0"] obtain s1 where
    s1: "on_world (set_status (te_redis env) (ta_job_id ta) ''running'' (te_ttl env) None (te_now env 0)) s = (Inr (), s1)"
    and inv1: "job_inv view (ta_job_id ta) t0 (ws @ [WStatus RUNNING None (te_now env 0)]) e (wk_world s1)"
    and same: "tables_same s s1" by auto
  have "s' = s1 \<or> (\<exists>f a res log w'. fetch_with_retry (te_rd env) (te_enable_premium env) (te_services env) f a (wk_world s1) =
      (res, log, w') \<and> s' = s1\<lparr>wk_world := w'\<rparr>)"
    using run unfolding task_fetch_def sbind_def s1 of_sum_def on_world_exn_def sret_def
    by (auto split: sum.splits prod.splits) blast+
  then show ?thesis
  proof
    assume "s' = s1"
    with inv1 same show ?thesis by simp
  next
    assume "\<exists>f a res log w'. fetch_with_retry (te_rd env) (te_enable_premium env) (te_services env) f a (wk_world s1) =
      (res, log, w') \<and> s' = s1\<lparr>wk_world := w'\<rparr>"
    then obtain f a res log w' where
      fw: "fetch_with_retry (te_rd env) (te_enable_premium env) (te_services env) f a (wk_world s1) = (res, log, w')"
      and s': "s' = s1\<lparr>wk_world := w'\<rparr>" by blast
    have "\<forall>k. job_key k \<longrightarrow> view w' k = view (wk_world s1) k"
      by (rule world_keeper.keep_fetch_with_retry [OF task_okD(3) [OF ok] fw])
    with job_inv_kept [OF inv1, of w'] same s' show ?thesis by (simp add: tables_same_def)
  qed
qed

lemma task_archive_inv:
  assumes "task_ok env view" "job_inv view j t0 ws e (wk_world s)" "task_archive env result b s = (r, s')"
  shows "job_inv view j t0 ws e (wk_world s') \<and> tables_same s s'"
proof (cases "te_archive env")
  case None
  with assms show ?thesis by (auto simp: task_archive_def tables_same_def)
next
  case (Some archive)
  note kept = task_okD(4) [OF assms(1) Some]
  show ?thesis
  proof (cases "fr_blocked result")
    case True
    with assms Some show ?thesis by (auto simp: task_archive_def tables_same_def)
  next
    case False
    obtain x w' where a: "archive result b (wk_world s) = (x, w')" by fastforce
    with False assms(3) Some have "s' = s\<lparr>wk_world := w'\<rparr>" by (auto simp: task_archive_def on_world_exn_def)
    with job_inv_kept [OF assms(2), of w'] kept [OF a] show ?thesis by (simp add: tables_same_def)
  qed
qed

text \<open>What the rest of the task does with a fetched result.\<close>

definition completed_state ::
  "'w task_env \<Rightarrow> task_args \<Rightarrow> DomainPolicy option \<Rightarrow> FetchResult \<Rightarrow> 'w worker \<Rightarrow> 'w \<Rightarrow> 'w worker" where
  "completed_state env ta policy fetched s w =
     (let (result, ing) = decode_result (te_codecs env) fetched
      in \<lparr>wk_world = w,
          wk_policies = record_outcome (te_learn_db env) result policy (fr_tier_used result) (te_now env 2) (wk_policies s),
          wk_usage = upsert_usage (te_usage_db env) (te_usage_id env) (te_now env 3) (ta_application_id ta)
            (length (fr_body result)) (wk_usage s),
          wk_callbacks = wk_callbacks s @ notified env ta COMPLETED (from_result result ing) None (te_now env 4)\<rparr>)"

lemma task_finish_cases:
  assumes ok: "task_ok env view" and inv: "job_inv view (ta_job_id ta) t0 ws e (wk_world s)"
    and run: "task_finish env ta policy fetched s = (r, s')"
  shows "(\<exists>x. r = Inl x) \<and> job_inv view (ta_job_id ta) t0 ws e (wk_world s') \<and> tables_same s s'
    \<or> r = Inr () \<and> s' = completed_state env ta policy fetched s (wk_world s')
      \<and> (let (result, ing) = decode_result (te_codecs env) fetched
         in job_inv view (ta_job_id ta) t0 (ws @ [WStatus COMPLETED (Some (from_result result ing)) (te_now env 1)]) e (wk_world s'))"
proof -
  obtain result ing where dec: "decode_result (te_codecs env) fetched = (result, ing)" by fastforce
  let ?schema = "from_result result ing"
  obtain x s1 where arch: "task_archive env result (or_bytes (fr_raw_body result) (fr_body result)) s = (x, s1)" by fastforce
  note a = task_archive_inv [OF ok inv arch]
  show ?thesis
  proof (cases x)
    case (Inl ex)
    then have "r = Inl ex" "s' = s1" using run dec arch by (auto simp: task_finish_def sbind_def Let_def)
    with a show ?thesis by blast
  next
    case (Inr u)
    from status_write [OF ok, of ta t0 ws e s1 COMPLETED "Some ?schema" "te_now env 1"] a obtain s2 where
      s2: "on_world (set_status (te_redis env) (ta_job_id ta) ''completed'' (te_ttl env) (Some ?schema) (te_now env 1)) s1 = (Inr (), s2)"
      and inv2: "job_inv view (ta_job_id ta) t0 (ws @ [WStatus COMPLETED (Some ?schema) (te_now env 1)]) e (wk_world s2)"
      and same2: "tables_same s1 s2" by auto
    have "r = Inr ()" and s': "s' = completed_state env ta policy fetched s2 (wk_world s2)"
      using run dec arch Inr s2
      by (auto simp: task_finish_def sbind_def Let_def modify_def count_usage_def schedule_callback_eq completed_state_def)
    moreover have "tables_same s s2" using a same2 by (simp add: tables_same_def)
    then have "completed_state env ta policy fetched s2 w = completed_state env ta policy fetched s w" for w
      by (simp add: completed_state_def tables_same_def dec)
    moreover have "wk_world s' = wk_world s2" using s' by (simp add: completed_state_def dec)
    ultimately show ?thesis using inv2 dec by simp
  qed
qed

definition failed_state :: "'w task_env \<Rightarrow> task_args \<Rightarrow> string \<Rightarrow> 'w worker \<Rightarrow> 'w \<Rightarrow> 'w worker" where
  "failed_state env ta msg s w =
     \<lparr>wk_world = w, wk_policies = wk_policies s,
      wk_usage = upsert_usage (te_usage_db env) (te_usage_id env) (te_now env 6) (ta_application_id ta) 0 (wk_usage s),
      wk_callbacks = wk_callbacks s @ notified env ta FAILED JNull (Some msg) (te_now env 7)\<rparr>"

lemma task_failed_run:
  assumes ok: "task_ok env view" and inv: "job_inv view (ta_job_id ta) t0 ws e (wk_world s)"
  shows "\<exists>w'. task_failed env ta msg s = (Inr (), failed_state env ta msg s w')
    \<and> job_inv view (ta_job_id ta) t0 (ws @ [WError msg (te_now env 5)]) (Some msg) w'"
proof -
  from do_write_inv [OF task_okD(1,2) [OF ok] inv, of "te_ttl env" "WError msg (te_now env 5)"]
  obtain w' where "set_error (te_redis env) (ta_job_id ta) msg (te_ttl env) (te_now env 5) (wk_world s) = (Some (), w')"
    "job_inv view (ta_job_id ta) t0 (ws @ [WError msg (te_now env 5)]) (Some msg) w'" by (auto simp: do_write_def)
  then show ?thesis
    by (intro exI [of _ w'])
      (cases s; simp add: task_failed_def sbind_def on_world_def modify_def count_usage_def schedule_callback_eq failed_state_def)
qed

lemma failed_state_same: "tables_same s s1 \<Longrightarrow> failed_state env ta msg s1 w = failed_state env ta msg s w"
  by (simp add: failed_state_def tables_same_def)

lemma fetch_task_cases:
  assumes ok: "task_ok env view" and inv: "job_inv view (ta_job_id ta) t0 ws e (wk_world s)"
    and run: "fetch_task env ta s = (r, s')"
  shows "(\<exists>policy fetched. fst (task_fetch env ta s) = Inr (policy, fetched) \<and> r = Inr ()
      \<and> s' = completed_state env ta policy fetched s (wk_world s')
      \<and> (let (result, ing) = decode_result (te_codecs env) fetched
         in job_inv view (ta_job_id ta) t0 (ws @ [WStatus RUNNING None (te_now env 0),
              WStatus COMPLETED (Some (from_result result ing)) (te_now env 1)]) e (wk_world s')))
    \<or> (\<exists>msg. (r = Inr () \<or> r = Inl CancelledError \<and> msg = ''Worker shutdown'')
      \<and> s' = failed_state env ta msg s (wk_world s')
      \<and> job_inv view (ta_job_id ta) t0 (ws @ [WStatus RUNNING None (te_now env 0), WError msg (te_now env 5)])
          (Some msg) (wk_world s'))"
proof -
  let ?ws = "ws @ [WStatus RUNNING None (te_now env 0)]"
  obtain b s2 where body: "task_body env ta s = (b, s2)" by fastforce
  obtain f s1 where fet: "task_fetch env ta s = (f, s1)" by fastforce
  note f1 = task_fetch_inv [OF ok inv fet]
  have failed: ?thesis if "b = Inl ex" "job_inv view (ta_job_id ta) t0 ?ws e (wk_world s2)" "tables_same s s2" for ex
  proof -
    let ?msg = "if ex = CancelledError then ''Worker shutdown'' else exn_str ex"
    from task_failed_run [OF ok that(2), of ?msg] obtain w' where
      tf: "task_failed env ta ?msg s2 = (Inr (), failed_state env ta ?msg s2 w')"
      and i: "job_inv view (ta_job_id ta) t0 (?ws @ [WError ?msg (te_now env 5)]) (Some ?msg) w'" by blast
    have "s' = failed_state env ta ?msg s2 w' \<and> r = (if ex = CancelledError then Inl CancelledError else Inr ())"
      using run body that(1) tf by (cases ex) (auto simp: fetch_task_def sbind_def sraise_def)
    then have "s' = failed_state env ta ?msg s w'" "r = Inr () \<or> r = Inl CancelledError \<and> ?msg = ''Worker shutdown''"
      using failed_state_same [OF that(3)] by auto
    moreover from this(1) have "wk_world s' = w'" by (simp add: failed_state_def)
    ultimately show ?thesis using i by auto
  qed
  show ?thesis
  proof (cases f)
    case (Inl ex)
    then have "b = Inl ex" "s2 = s1" using body fet by (auto simp: task_body_def sbind_def)
    with failed f1 show ?thesis by blast
  next
    case (Inr pr)
    obtain policy fetched where pr: "pr = (policy, fetched)" by fastforce
    have fin: "task_finish env ta policy fetched s1 = (b, s2)"
      using body fet Inr pr by (simp add: task_body_def sbind_def)
    from task_finish_cases [OF ok _ fin, of t0 ?ws e] f1
    consider x where "b = Inl x" "job_inv view (ta_job_id ta) t0 ?ws e (wk_world s2)" "tables_same s1 s2"
      | "b = Inr ()" "s2 = completed_state env ta policy fetched s1 (wk_world s2)"
        "let (result, ing) = decode_result (te_codecs env) fetched
         in job_inv view (ta_job_id ta) t0 (?ws @ [WStatus COMPLETED (Some (from_result result ing)) (te_now env 1)]) e (wk_world s2)"
      by blast
    then show ?thesis
    proof cases
      case 1
      with failed f1 show ?thesis by (auto simp: tables_same_def)
    next
      case 2
      have "s' = s2" "r = Inr ()" using run body 2(1) by (auto simp: fetch_task_def)
      moreover have "completed_state env ta policy fetched s1 w = completed_state env ta policy fetched s w" for w
        using f1 by (auto simp: completed_state_def tables_same_def split: prod.split)
      ultimately show ?thesis using 2 fet Inr pr by (intro disjI1 exI [of _ policy] exI [of _ fetched]) auto
    qed
  qed
qed

section \<open>Usage over a month\<close>

type_synonym usage_event = "uuid \<times> datetime \<times> uuid \<times> nat"

definition record_usage :: "usage_event \<Rightarrow> UsageCounter list \<Rightarrow> UsageCounter list" where
  "record_usage = (\<lambda>(i, now, a, b). upsert_usage True i now (uuid_str a) b)"

definition event_of :: "uuid \<Rightarrow> date \<Rightarrow> usage_event \<Rightarrow> bool" where
  "event_of a m = (\<lambda>(i, now, a', b). a' = a \<and> replace_day_1 (date_of now) = m)"

definition event_bytes :: "usage_event \<Rightarrow> nat" where
  "event_bytes = (\<lambda>(i, now, a, b). b)"

definition usage_row :: "uuid \<Rightarrow> date \<Rightarrow> UsageCounter list \<Rightarrow> UsageCounter option" where
  "usage_row a m tbl = find (\<lambda>r. uc_application_id r = a \<and> uc_period_month r = m) tbl"

definition row_counts :: "usage_event list \<Rightarrow> UsageCounter \<Rightarrow> bool" where
  "row_counts evs r \<longleftrightarrow> uc_request_count r = int (length evs)
     \<and> uc_bytes_received r = int (sum_list (map event_bytes evs))
     \<and> uc_cost_eur_cents r = sum_list (map (\<lambda>x. \<lceil>bytes_to_eur_cost (event_bytes x) * 100\<rceil>) evs)"

lemma usage_row_update:
  assumes "\<And>r. uc_application_id (f r) = uc_application_id r" "\<And>r. uc_period_month (f r) = uc_period_month r"
  shows "usage_row a m (update_where (\<lambda>r. uc_application_id r = a' \<and> uc_period_month r = m') f tbl) =
    (if a = a' \<and> m = m' then map_option f (usage_row a m tbl) else usage_row a m tbl)"
  using assms by (induction tbl) (auto simp: usage_row_def update_where_def)

lemma usage_row_insert:
  "usage_row a m (insert_row r tbl) =
     (case usage_row a m tbl of Some x \<Rightarrow> Some x
      | None \<Rightarrow> if uc_application_id r = a \<and> uc_period_month r = m then Some r else None)"
  by (induction tbl) (auto simp: usage_row_def insert_row_def)

lemma row_counts_snoc:
  "row_counts (evs @ [x]) r \<longleftrightarrow> row_counts evs (r\<lparr>uc_request_count := uc_request_count r - 1,
     uc_bytes_received := uc_bytes_received r - int (event_bytes x),
     uc_cost_eur_cents := uc_cost_eur_cents r - \<lceil>bytes_to_eur_cost (event_bytes x) * 100\<rceil>\<rparr>)"
  by (auto simp: row_counts_def)

lemma record_usage_row:
  "usage_row a m (record_usage (i, now, a', b) tbl) =
     (if a' = a \<and> replace_day_1 (date_of now) = m
      then (case usage_row a m tbl of
              None \<Rightarrow> Some \<lparr>uc_id = i, uc_application_id = a, uc_period_month = m, uc_request_count = 1,
                uc_bytes_received = int b, uc_cost_eur_cents = \<lceil>bytes_to_eur_cost b * 100\<rceil>, uc_updated_at = now\<rparr>
            | Some r \<Rightarrow> Some (r\<lparr>uc_request_count := uc_request_count r + 1, uc_bytes_received := uc_bytes_received r + int b,
                uc_cost_eur_cents := uc_cost_eur_cents r + \<lceil>bytes_to_eur_cost b * 100\<rceil>, uc_updated_at := now\<rparr>))
      else usage_row a m tbl)"
  by (cases "usage_row a' (replace_day_1 (date_of now)) tbl")
    (auto simp: record_usage_def upsert_usage_def Let_def usage_row_insert usage_row_update
      simp flip: usage_row_def split: option.splits)

lemma usage_history:
  "case usage_row a m (fold record_usage es []) of
     None \<Rightarrow> filter (event_of a m) es = []
   | Some r \<Rightarrow> filter (event_of a m) es \<noteq> [] \<and> row_counts (filter (event_of a m) es) r"
proof (induction es rule: rev_induct)
  case Nil
  show ?case by (simp add: usage_row_def)
next
  case (snoc x es)
  obtain i now a' b where x: "x = (i, now, a', b)" by (cases x)
  show ?case
  proof (cases "event_of a m x")
    case True
    with snoc x show ?thesis
      by (auto simp: record_usage_row event_of_def row_counts_snoc event_bytes_def split: option.splits)
        (simp_all add: row_counts_def)
  next
    case False
    with snoc x show ?thesis by (auto simp: record_usage_row event_of_def split: option.splits)
  qed
qed

lemma usage_unique: "unique_on (\<lambda>r. (uc_application_id r, uc_period_month r)) (fold record_usage es [])"
proof (induction es rule: rev_induct)
  case (snoc x es)
  obtain i now a b where x: "x = (i, now, a, b)" by (cases x)
  with snoc show ?case
    by (auto simp: record_usage_def upsert_usage_def Let_def unique_on_insert_row get_by_None_iff find_None_iff
        unique_on_update_where)
qed simp

text \<open>Rounding each request up costs at most one cent per request.\<close>

lemma ceiling_sum:
  fixes f :: "'a \<Rightarrow> real"
  shows "sum_list (map f xs) \<le> of_int (sum_list (map (\<lambda>x. \<lceil>f x\<rceil>) xs))
    \<and> of_int (sum_list (map (\<lambda>x. \<lceil>f x\<rceil>) xs)) \<le> sum_list (map f xs) + real (length xs)"
proof (induction xs)
  case (Cons x xs)
  have "f x \<le> of_int \<lceil>f x\<rceil>" "of_int \<lceil>f x\<rceil> \<le> f x + 1" by linarith+
  with Cons show ?case
    unfolding list.map sum_list.Cons length_Cons of_int_add of_nat_Suc by linarith
qed simp

lemma cost_linear: "sum_list (map (\<lambda>x. bytes_to_eur_cost (g x) * 100) xs) = bytes_to_eur_cost (sum_list (map g xs)) * 100"
  by (induction xs) (simp_all add: bytes_to_eur_cost_def add_divide_distrib ring_distribs)

section \<open>Options and encodings\<close>

lemma dict_get_dict_set: "dict_get (dict_set k v d) k' = (if k' = k then Some v else dict_get d k')"
  if "distinct (map fst d)"
proof -
  have "dict_get x y = map_of x y" if "distinct (map fst x)" for x :: "(string \<times> 'a) list" and y
    using that map_of_inject_set [of "rev x" x] by (simp add: dict_get_def rev_map [symmetric])
  with that show ?thesis by (simp add: distinct_dict_set map_of_dict_set)
qed

lemma distinct_set_opt: "distinct (map fst d) \<Longrightarrow> distinct (map fst (set_opt k v d))"
  by (simp add: set_opt_def distinct_dict_set split: option.split)

lemma jget_set_opt:
  "distinct (map fst d) \<Longrightarrow> jget (set_opt k v d) k' = (if k' = k \<and> v \<noteq> None then the v else jget d k')"
  by (auto simp: jget_def set_opt_def dict_get_dict_set split: option.split)

section \<open>Concrete instances\<close>

definition ex_codecs :: codecs where
  "ex_codecs = \<lparr>cd_brotli = (\<lambda>_. Inl ''error''), cd_gzip = (\<lambda>b. Inr (drop 2 b)), cd_zlib = (\<lambda>_. Inl ''error''),
     cd_inflate_raw = (\<lambda>_. Inl ''error''), cd_zstd = (\<lambda>_. Inl ''error''), cd_sha256 = (\<lambda>b. b)\<rparr>"

definition ex_net :: "string \<Rightarrow> string \<Rightarrow> Proxy option \<Rightarrow> headers \<Rightarrow> nat \<Rightarrow> (exn + FetchResult) \<times> nat" where
  "ex_net eng url px hs n = (Inr ((fetch_result url 200)\<lparr>fr_body := ''hi''\<rparr>), n + 1)"

definition ex_task_env :: "(keyspace, nat) mgr_world task_env" where
  "ex_task_env = \<lparr>te_redis = world_redis fun_redis,
     te_services = manager_services fun_redis default_breaker (\<lambda>_. example_env) (\<lambda>_. ''d'') ex_net (\<lambda>_ n. (Inr (), n)) (\<lambda>n. (0, n)),
     te_rd = (\<lambda>d. d), te_enable_premium = False, te_codecs = ex_codecs, te_archive = None, te_ttl = 60, te_secret = ''s'',
     te_resolve_exn = None, te_learn_db = DbOk, te_usage_db = True, te_usage_id = 9, te_now = (\<lambda>_. 5)\<rparr>"

lemma jobs_kept_eq:
  assumes "redis_laws R view" "0 < cb_timeout_s cfg"
  shows "jobs_kept R view cfg = (\<lambda>w w'. \<forall>k. job_key k \<longrightarrow> view (mw_redis w') k = view (mw_redis w) k)"
  using assms by (auto simp: fun_eq_iff jobs_kept_def)

lemma task_ok_manager:
  assumes "redis_laws R view" "redis_up R view" "0 < cb_timeout_s cfg"
    "te_redis env = world_redis R" "te_services env = manager_services R cfg penv date net sleep rnd" "te_archive env = None"
  shows "task_ok env (\<lambda>w. view (mw_redis w))"
proof -
  have "world_keeper (te_services env) (\<lambda>w w'. \<forall>k. job_key k \<longrightarrow> view (mw_redis w') k = view (mw_redis w) k)"
    using manager_world.world_keeper_axioms [of R cfg penv date net sleep rnd view] assms(5)
    by (simp add: jobs_kept_eq [OF assms(1,3)])
  then show ?thesis
    using assms(4,6) world_redis_laws [OF assms(1)] world_redis_up [OF assms(2)] by (simp add: task_ok_def)
qed

definition ex_ta :: task_args where
  "ex_ta = \<lparr>ta_job_id = ''j'', ta_url = ''https://example.com/x'', ta_mode = ''static'', ta_api_key_prefix = ''crwlkeys'',
     ta_application_id = uuid_str 7, ta_domain = ''example.com'', ta_proxy_pool_id = None,
     ta_callback_url = Some ''https://cb.example/'', ta_options = [], ta_trace_id = None\<rparr>"

definition ex_worker :: "(keyspace, nat) mgr_world worker" where
  "ex_worker = \<lparr>wk_world = \<lparr>mw_redis = (\<lambda>_. None)(status_key ''j'' \<mapsto> hist_payload 3 []), mw_proxies = [], mw_events = [],
     mw_rest = 0\<rparr>, wk_policies = [], wk_usage = [], wk_callbacks = []\<rparr>"

text \<open>What a run of the task ends with.\<close>

lemma fetch_task_final:
  assumes "task_ok env view" "job_inv view (ta_job_id ta) t0 ws e (wk_world s)" "valid_datetime t0"
    "\<forall>w \<in> set ws. valid_datetime (write_time w)" "\<forall>n. valid_datetime (te_now env n)"
    "fetch_task env ta s = (r, s')"
  shows "(\<exists>policy fetched result ing. fst (task_fetch env ta s) = Inr (policy, fetched)
      \<and> decode_result (te_codecs env) fetched = (result, ing) \<and> r = Inr ()
      \<and> s' = completed_state env ta policy fetched s (wk_world s')
      \<and> read_result now (ta_job_id ta) (view (wk_world s')) =
          Inr \<lparr>jr_job_id = ta_job_id ta, jr_status = COMPLETED, jr_result = from_result result ing, jr_error = e,
               jr_created_at = t0, jr_completed_at = Some (te_now env 1)\<rparr>)
    \<or> (\<exists>msg. (r = Inr () \<or> r = Inl CancelledError \<and> msg = ''Worker shutdown'')
      \<and> s' = failed_state env ta msg s (wk_world s')
      \<and> read_result now (ta_job_id ta) (view (wk_world s')) =
          Inr \<lparr>jr_job_id = ta_job_id ta, jr_status = FAILED, jr_result = JNull, jr_error = Some msg,
               jr_created_at = t0, jr_completed_at = Some (te_now env 5)\<rparr>)"
proof -
  have read: "read_result now (ta_job_id ta) (view (wk_world s')) =
      Inr \<lparr>jr_job_id = ta_job_id ta, jr_status = write_status w, jr_result = case_option JNull id (write_result w),
           jr_error = e', jr_created_at = t0, jr_completed_at = Some (write_time w)\<rparr>"
    if "job_inv view (ta_job_id ta) t0 (ws @ [WStatus RUNNING None (te_now env 0), w]) e' (wk_world s')"
      "valid_datetime (write_time w)" "write_status w \<in> {COMPLETED, FAILED}" for w e'
    using read_result_hist [OF that(1) assms(3)] assms(4,5) that(2,3)
    by (auto simp: hist_status_def hist_result_def hist_completed_def split: option.split)
  from fetch_task_cases [OF assms(1,2,6)] consider
    (compl) policy fetched where "fst (task_fetch env ta s) = Inr (policy, fetched)" "r = Inr ()"
      "s' = completed_state env ta policy fetched s (wk_world s')"
      "let (result, ing) = decode_result (te_codecs env) fetched
       in job_inv view (ta_job_id ta) t0 (ws @ [WStatus RUNNING None (te_now env 0),
            WStatus COMPLETED (Some (from_result result ing)) (te_now env 1)]) e (wk_world s')"
  | (failed) msg where "r = Inr () \<or> r = Inl CancelledError \<and> msg = ''Worker shutdown''"
      "s' = failed_state env ta msg s (wk_world s')"
      "job_inv view (ta_job_id ta) t0 (ws @ [WStatus RUNNING None (te_now env 0), WError msg (te_now env 5)])
         (Some msg) (wk_world s')"
    by blast
  then show ?thesis
  proof cases
    case compl
    obtain result ing where d: "decode_result (te_codecs env) fetched = (result, ing)" by fastforce
    with compl(4) have i: "job_inv view (ta_job_id ta) t0 (ws @ [WStatus RUNNING None (te_now env 0),
              WStatus COMPLETED (Some (from_result result ing)) (te_now env 1)]) e (wk_world s')" by simp
    from read [OF i] assms(5) compl(1-3) d show ?thesis by simp
  next
    case failed
    from read [OF failed(3)] assms(5) failed(1,2) show ?thesis by (intro disjI2 exI [of _ msg]) auto
  qed
qed

section \<open>Properties\<close>



text \<open>
  The usage table adds up: over any sequence of counted requests from an empty table there is one
  row per application and month; it counts exactly the requests of that application in that month
  and the sum of their bytes, and its cost in cents is at least the exact price of these bytes and
  exceeds it by at most one cent per request.
\<close>

lemma usage_totals:
  "unique_on (\<lambda>r. (uc_application_id r, uc_period_month r)) (fold record_usage es [])
   \<and> (case usage_row a m (fold record_usage es []) of
        None \<Rightarrow> filter (event_of a m) es = []
      | Some r \<Rightarrow>
          uc_request_count r = int (length (filter (event_of a m) es)) \<and> uc_request_count r > 0
          \<and> uc_bytes_received r = int (sum_list (map event_bytes (filter (event_of a m) es)))
          \<and> bytes_to_eur_cost (nat (uc_bytes_received r)) * 100 \<le> of_int (uc_cost_eur_cents r)
          \<and> of_int (uc_cost_eur_cents r) \<le> bytes_to_eur_cost (nat (uc_bytes_received r)) * 100 + of_int (uc_request_count r))"
proof -
  let ?evs = "filter (event_of a m) es"
  let ?cost = "\<lambda>x. bytes_to_eur_cost (event_bytes x) * 100"
  have "case usage_row a m (fold record_usage es []) of
     None \<Rightarrow> ?evs = [] | Some r \<Rightarrow> ?evs \<noteq> [] \<and> row_counts ?evs r" by (rule usage_history)
  then show ?thesis
    using usage_unique [of es] ceiling_sum [of ?cost ?evs] cost_linear [of event_bytes ?evs]
    by (auto simp: row_counts_def split: option.splits)
qed

text \<open>
  Request overrides reach the fetch: what the request sets for proxy use, country, city and
  type is what the worker passes to the fetch, with the country in upper case, whatever the free-form
  options of the request say under the same names; a field that the request leaves out is taken from
  these options.
\<close>

lemma overrides_reach_fetch:
  assumes "distinct (map fst (jc_options body))"
    "task_fetch_args (make_task E body caller domain) policy engine = Inr args"
  shows "fa_use_proxy args = (case jc_use_proxy body of Some b \<Rightarrow> Some b | None \<Rightarrow> option_bool (jc_options body) ''use_proxy'')
    \<and> Inr (fa_proxy_country args) = (case jc_proxy_country body of Some c \<Rightarrow> Inr (Some (upper c))
        | None \<Rightarrow> option_str (jc_options body) ''proxy_country'')
    \<and> Inr (fa_proxy_city args) = (case jc_proxy_city body of Some c \<Rightarrow> Inr (Some c)
        | None \<Rightarrow> option_str (jc_options body) ''proxy_city'')
    \<and> Inr (fa_proxy_type args) = (case jc_proxy_type body of Some c \<Rightarrow> Inr (Some c)
        | None \<Rightarrow> option_str (jc_options body) ''proxy_type'')
    \<and> fa_url args = jc_url body"
proof -
  from assms(2) have a: "Inr (fa_proxy_country args) = option_str (merged_options body) ''proxy_country''"
    "Inr (fa_proxy_city args) = option_str (merged_options body) ''proxy_city''"
    "Inr (fa_proxy_type args) = option_str (merged_options body) ''proxy_type''"
    "fa_use_proxy args = option_bool (merged_options body) ''use_proxy''" "fa_url args = jc_url body"
    by (auto simp: task_fetch_args_def make_task_def bindE_Inr_iff)
  have g: "jget (merged_options body) ''proxy_country'' = (case jc_proxy_country body of
      Some c \<Rightarrow> JStr (upper c) | None \<Rightarrow> jget (jc_options body) ''proxy_country'')"
    "jget (merged_options body) ''proxy_city'' = (case jc_proxy_city body of
      Some c \<Rightarrow> JStr c | None \<Rightarrow> jget (jc_options body) ''proxy_city'')"
    "jget (merged_options body) ''proxy_type'' = (case jc_proxy_type body of
      Some c \<Rightarrow> JStr c | None \<Rightarrow> jget (jc_options body) ''proxy_type'')"
    "jget (merged_options body) ''use_proxy'' = (case jc_use_proxy body of
      Some b \<Rightarrow> JBool b | None \<Rightarrow> jget (jc_options body) ''use_proxy'')"
    using assms(1) by (simp_all add: merged_options_def jget_set_opt distinct_set_opt split: option.split)
  show ?thesis
    unfolding a option_str_def option_bool_def g
    by (intro conjI) (simp_all split: option.split)
qed

lemma overrides_reach_fetch_witness:
  "\<exists>args. task_fetch_args (make_task (ex_env 1 3) ex_body ex_caller ''d'') None ''httpx'' = Inr args
     \<and> fa_use_proxy args = Some True \<and> fa_proxy_country args = Some ''DE''"
proof -
  let ?t = "make_task (ex_env 1 3) ex_body ex_caller ''d''"
  have "case task_fetch_args ?t None ''httpx'' of Inr _ \<Rightarrow> True | Inl _ \<Rightarrow> False" by code_simp
  then obtain args where a: "task_fetch_args ?t None ''httpx'' = Inr args" by (auto split: sum.splits)
  have "upper ''de'' = ''DE''" by code_simp
  with overrides_reach_fetch [OF _ a] a show ?thesis by (simp add: ex_body_def)
qed

end
