(* ===== verification/Ssrf_Guard.thy ===== *)
theory Ssrf_Guard
  imports Url Api_Errors
begin

text \<open>
  The outbound URL policy: \<^verbatim>\<open>app/core/ssrf_guard.py\<close> (blocked networks and host names) and
  \<^verbatim>\<open>app/core/url_guard.py\<close> (schemes, ports, literal addresses, resolved addresses).

  Name resolution is a parameter: \<open>resolve host\<close> is \<^const>\<open>None\<close> when \<^verbatim>\<open>getaddrinfo\<close> fails, and
  otherwise the addresses, as text, of the entries it returns. Nothing is assumed of it.
\<close>

type_synonym resolver = "string \<Rightarrow> string list option"

section \<open>Blocked addresses and host names\<close>

definition BLOCKED_NETWORKS :: "ip_network list" where
  "BLOCKED_NETWORKS =
    [Net4 0x0A000000 8,
     Net4 0xAC100000 12,
     Net4 0xC0A80000 16,
     Net4 0x7F000000 8,
     Net6 1 128,
     Net4 0xA9FE0000 16,
     Net6 0xFD000000000000000000000000000000 8,
     Net6 0xFC000000000000000000000000000000 7,
     Net4 0x00000000 8,
     Net4 0x64400000 10,
     Net4 0xC0000200 24,
     Net4 0xC6336400 24,
     Net4 0xCB007100 24,
     Net4 0xF0000000 4,
     Net4 0xFFFFFFFF 32]"

definition BLOCKED_HOSTNAMES :: "string list" where
  "BLOCKED_HOSTNAMES = [''metadata.google.internal'', ''metadata.goog'']"

definition METADATA_IPS :: "string list" where
  "METADATA_IPS = [''169.254.169.254'', ''fd00:ec2::254'']"

definition is_ip_blocked :: "string \<Rightarrow> bool" where
  "is_ip_blocked ip_str =
     (case ip_address ip_str of
        None \<Rightarrow> False
      | Some addr \<Rightarrow>
          if ip_str \<in> set METADATA_IPS then True
          else (\<exists>n \<in> set BLOCKED_NETWORKS. in_network addr n))"

section \<open>ssrf_guard.py\<close>

datatype ssrf_error = SSRFError string | SsrfHTTPException nat string | SsrfValueError

definition blocked_msg :: "string \<Rightarrow> string" where
  "blocked_msg x = ''Blocked: resolves to private/reserved IP ('' @ x @ '')''"

definition check_host_blocked :: "string \<Rightarrow> ssrf_error + unit" where
  "check_host_blocked host =
     (if lower host \<in> set BLOCKED_HOSTNAMES then Inl (SSRFError (blocked_msg host)) else Inr ())"

definition check_addrs_blocked :: "string \<Rightarrow> string list \<Rightarrow> ssrf_error + unit" where
  "check_addrs_blocked host addrs =
     (case find is_ip_blocked addrs of
        Some ip \<Rightarrow> Inl (SSRFError (blocked_msg ip)) | None \<Rightarrow> Inr ())"

text \<open>A URL that \<^verbatim>\<open>urlparse\<close> itself rejects raises a plain ValueError.\<close>

definition validate_url_against_ssrf :: "resolver \<Rightarrow> string \<Rightarrow> ssrf_error + unit" where
  "validate_url_against_ssrf resolve url =
     (case urlparse url of
        Inl _ \<Rightarrow> Inl SsrfValueError
      | Inr p \<Rightarrow>
          (case pu_hostname p of
             None \<Rightarrow> Inl (SsrfHTTPException 422 ''Invalid URL: cannot extract hostname.'')
           | Some host \<Rightarrow>
               bindE (check_host_blocked host) (\<lambda>_.
                 case resolve host of
                   None \<Rightarrow> Inl (SsrfHTTPException 422 (''Cannot resolve hostname '' @ sq host @ ''.''))
                 | Some infos \<Rightarrow> check_addrs_blocked host infos)))"

definition async_validate_ssrf :: "resolver \<Rightarrow> string \<Rightarrow> ssrf_error + unit" where
  "async_validate_ssrf resolve url =
     (case urlparse url of
        Inl _ \<Rightarrow> Inl SsrfValueError
      | Inr p \<Rightarrow>
          (case pu_hostname p of
             None \<Rightarrow> Inl (SSRFError ''Invalid URL: cannot extract hostname.'')
           | Some host \<Rightarrow>
               bindE (check_host_blocked host) (\<lambda>_.
                 case resolve host of
                   None \<Rightarrow> Inl (SSRFError (''DNS resolution failed: '' @ host))
                 | Some infos \<Rightarrow> check_addrs_blocked host infos)))"

section \<open>url_guard.py\<close>

datatype guard_error = URLGuardError string | GuardValueError

definition ALLOWED_SCHEMES :: "string list" where
  "ALLOWED_SCHEMES = [''http'', ''https'']"

definition ALLOWED_PORTS :: "int list" where
  "ALLOWED_PORTS = [80, 443, 8080, 8443]"

text \<open>\<^verbatim>\<open>parsed.port or default\<close>: port 0 counts as absent.\<close>

definition effective_port :: "parsed_url \<Rightarrow> int option \<Rightarrow> int" where
  "effective_port p port =
     (let default = (if lower (pu_scheme p) = ''https'' then 443 else 80)
      in case port of None \<Rightarrow> default | Some n \<Rightarrow> if n = 0 then default else n)"

definition check_static :: "string \<Rightarrow> guard_error + string \<times> int" where
  "check_static url =
     (case urlparse url of
        Inl _ \<Rightarrow> Inl GuardValueError
      | Inr p \<Rightarrow>
          if lower (pu_scheme p) \<notin> set ALLOWED_SCHEMES
          then Inl (URLGuardError (''Scheme '' @ sq (pu_scheme p)
            @ '' is not allowed; use http or https.''))
          else (case pu_hostname p of
            None \<Rightarrow> Inl (URLGuardError ''Invalid URL: cannot extract hostname.'')
          | Some host \<Rightarrow>
              if lower host \<in> set BLOCKED_HOSTNAMES
              then Inl (URLGuardError (''Hostname '' @ sq host @ '' is a known metadata endpoint.''))
              else (case pu_port p of
                Inl _ \<Rightarrow> Inl GuardValueError
              | Inr parsed_port \<Rightarrow>
                  (let port = effective_port p parsed_port
                   in if port \<notin> set ALLOWED_PORTS
                      then Inl (URLGuardError (''Port '' @ int_str port
                        @ '' is not allowed; permitted ports: [80, 443, 8080, 8443]''))
                      else if ip_address host \<noteq> None \<and> is_ip_blocked host
                      then Inl (URLGuardError (''IP '' @ host @ '' is in a private or reserved range.''))
                      else Inr (host, port)))))"

definition check_resolved :: "string \<Rightarrow> string list \<Rightarrow> guard_error + unit" where
  "check_resolved host addrs =
     (case find is_ip_blocked addrs of
        Some ip \<Rightarrow> Inl (URLGuardError (''Host '' @ sq host @ '' resolves to blocked address ''
          @ ip @ ''.''))
      | None \<Rightarrow> Inr ())"

definition validate_url_sync :: "resolver \<Rightarrow> string \<Rightarrow> guard_error + unit" where
  "validate_url_sync resolve url =
     bindE (check_static url) (\<lambda>(host, port).
       case resolve host of
         None \<Rightarrow> Inl (URLGuardError (''DNS resolution failed: '' @ host))
       | Some infos \<Rightarrow> check_resolved host infos)"

text \<open>
  \<^verbatim>\<open>except SSRFError\<close>: the message is kept. A plain ValueError passes through; the async variant
  raises no HTTPException.
\<close>

definition guard_of_ssrf :: "ssrf_error \<Rightarrow> guard_error" where
  "guard_of_ssrf e = (case e of SSRFError m \<Rightarrow> URLGuardError m | _ \<Rightarrow> GuardValueError)"

definition validate_url_async :: "resolver \<Rightarrow> string \<Rightarrow> guard_error + unit" where
  "validate_url_async resolve url =
     bindE (check_static url) (\<lambda>(host, port).
       case async_validate_ssrf resolve url of
         Inl e \<Rightarrow> Inl (guard_of_ssrf e)
       | Inr _ \<Rightarrow> Inr ())"

section \<open>Facts\<close>

lemma find_is_ip_blocked_None_iff: "find is_ip_blocked xs = None \<longleftrightarrow> (\<forall>x \<in> set xs. \<not> is_ip_blocked x)"
  by (auto simp: find_None_iff)

lemma check_static_InrD:
  assumes "check_static url = Inr (host, port)"
  shows "\<exists>p. urlparse url = Inr p \<and> pu_hostname p = Some host
    \<and> lower (pu_scheme p) \<in> set ALLOWED_SCHEMES \<and> port \<in> set ALLOWED_PORTS
    \<and> (\<exists>q. pu_port p = Inr q \<and> port = effective_port p q)
    \<and> lower host \<notin> set BLOCKED_HOSTNAMES \<and> \<not> is_ip_blocked host"
  using assms
  by (auto simp: check_static_def Let_def is_ip_blocked_def split: sum.splits option.splits if_splits)

text \<open>
  What the guards promise about the addresses a fetch may reach: an interface that both the
  blocking and the non-blocking validation implement.
\<close>

locale url_validator =
  fixes validate :: "resolver \<Rightarrow> string \<Rightarrow> guard_error + unit"
  assumes static_ok: "validate resolve url = Inr () \<Longrightarrow> \<exists>hp. check_static url = Inr hp"
    and resolved_ok: "validate resolve url = Inr () \<Longrightarrow> check_static url = Inr (host, port) \<Longrightarrow>
          \<exists>infos. resolve host = Some infos \<and> (\<forall>ip \<in> set infos. \<not> is_ip_blocked ip)"
begin

lemma accepted_sound:
  assumes "validate resolve url = Inr ()"
  shows "\<exists>p host infos port. urlparse url = Inr p \<and> pu_hostname p = Some host
    \<and> lower (pu_scheme p) \<in> set ALLOWED_SCHEMES \<and> port \<in> set ALLOWED_PORTS
    \<and> (\<exists>q. pu_port p = Inr q \<and> port = effective_port p q)
    \<and> lower host \<notin> set BLOCKED_HOSTNAMES \<and> \<not> is_ip_blocked host
    \<and> resolve host = Some infos \<and> (\<forall>ip \<in> set infos. \<not> is_ip_blocked ip)"
proof -
  from static_ok [OF assms] obtain host port where hp: "check_static url = Inr (host, port)"
    by auto
  from check_static_InrD [OF hp] resolved_ok [OF assms hp] show ?thesis by blast
qed

end

lemma check_resolved_Inr: "check_resolved h xs = Inr u \<longleftrightarrow> (\<forall>ip \<in> set xs. \<not> is_ip_blocked ip)"
  by (auto simp: check_resolved_def find_is_ip_blocked_None_iff split: option.splits
      dest: find_SomeD)

lemma check_addrs_blocked_Inr:
  "check_addrs_blocked h xs = Inr u \<longleftrightarrow> (\<forall>ip \<in> set xs. \<not> is_ip_blocked ip)"
  by (auto simp: check_addrs_blocked_def find_is_ip_blocked_None_iff split: option.splits
      dest: find_SomeD)

interpretation sync_guard: url_validator validate_url_sync
  by unfold_locales
    (auto simp: validate_url_sync_def bindE_Inr_iff check_resolved_Inr split: option.splits)

interpretation async_guard: url_validator validate_url_async
  by unfold_locales
    (auto simp: validate_url_async_def async_validate_ssrf_def bindE_Inr_iff
      check_addrs_blocked_Inr dest!: check_static_InrD split: sum.splits option.splits)

section \<open>Which addresses are blocked\<close>

text \<open>The blocked IPv4 addresses by their four octets.\<close>

definition octets_blocked :: "int \<Rightarrow> int \<Rightarrow> int \<Rightarrow> bool" where
  "octets_blocked a b c \<longleftrightarrow>
     a = 10 \<or> a = 172 \<and> 16 \<le> b \<and> b \<le> 31 \<or> a = 192 \<and> b = 168 \<or> a = 127
     \<or> a = 169 \<and> b = 254 \<or> a = 0 \<or> a = 100 \<and> 64 \<le> b \<and> b \<le> 127
     \<or> a = 192 \<and> b = 0 \<and> c = 2 \<or> a = 198 \<and> b = 51 \<and> c = 100 \<or> a = 203 \<and> b = 0 \<and> c = 113
     \<or> 240 \<le> a"

lemma uint_quad:
  assumes "0 \<le> a" "a < 256" "0 \<le> b" "b < 256" "0 \<le> c" "c < 256" "0 \<le> d" "d < 256"
  shows "uint (of_int (quad a b c d) :: 32 word) = quad a b c d"
  unfolding uint_word_of_int by (rule mod_pos_pos_trivial) (use assms in \<open>simp_all add: quad_def\<close>)

lemma div_quad:
  fixes a b c d :: int
  assumes "0 \<le> b" "b < 256" "0 \<le> c" "c < 256" "0 \<le> d" "d < 256"
  shows "quad a b c d div 16777216 = a" "quad a b c d div 65536 = a * 256 + b"
    "quad a b c d div 256 = a * 65536 + b * 256 + c"
    "quad a b c d div 1048576 = a * 16 + b div 16" "quad a b c d div 4194304 = a * 4 + b div 64"
    "quad a b c d div 268435456 = a div 16"
  using assms by (simp_all add: quad_def)

text \<open>A prefix of 8, 16 or 24 bits determines the octets that it covers.\<close>

lemma radix_eq:
  fixes a b k :: int
  assumes "0 \<le> b" "b < k" "0 \<le> b'" "b' < k"
  shows "a * k + b = a' * k + b' \<longleftrightarrow> a = a' \<and> b = b'"
proof
  assume eq: "a * k + b = a' * k + b'"
  have "(a * k + b) div k = a" "(a' * k + b') div k = a'" using assms by auto
  with eq show "a = a' \<and> b = b'" by simp
qed simp

lemma three_octets_eq:
  fixes a b c :: int
  assumes "0 \<le> b" "b < 256" "0 \<le> b'" "b' < 256" "0 \<le> c" "c < 256" "0 \<le> c'" "c' < 256"
  shows "a * 65536 + b * 256 + c = a' * 65536 + b' * 256 + c' \<longleftrightarrow> a = a' \<and> b = b' \<and> c = c'"
  using radix_eq [of c 256 c' "a * 256 + b" "a' * 256 + b'"] radix_eq [of b 256 b' a a'] assms
  by (simp add: algebra_simps)

lemma in_blocked_network4_iff:
  assumes "a \<in> {0..255}" "b \<in> {0..255}" "c \<in> {0..255}" "d \<in> {0..255}"
  shows "(\<exists>n \<in> set BLOCKED_NETWORKS. in_network (IPv4 (of_int (quad a b c d))) n)
    \<longleftrightarrow> octets_blocked a b c"
proof -
  let ?w = "of_int (quad a b c d) :: 32 word"
  have w: "uint ?w = quad a b c d" using assms by (intro uint_quad) auto
  have bounds: "0 \<le> b" "b < 256" "0 \<le> c" "c < 256" "0 \<le> d" "d < 256"
    using assms by simp_all
  note div = div_quad [where a = a, OF bounds]
  have net: "in_network (IPv4 ?w) (Net4 n p) \<longleftrightarrow> quad a b c d div 2 ^ (32 - p) = m"
    if "p \<le> 32" "uint n = m * 2 ^ (32 - p)" for n p m
    using in_network4_iff [OF that, of ?w] unfolding w .
  have a: "0 \<le> a" "a < 256" using assms by simp_all
  have div_range: "0 \<le> b div 16" "b div 16 < 16" "b div 16 = 1 \<longleftrightarrow> 16 \<le> b \<and> b \<le> 31"
    "0 \<le> b div 64" "b div 64 < 4" "b div 64 = 1 \<longleftrightarrow> 64 \<le> b \<and> b \<le> 127"
    "a div 16 = 15 \<longleftrightarrow> 240 \<le> a"
    using a bounds by linarith+
  have arith:
    "a * 16 + b div 16 = 2753 \<longleftrightarrow> a = 172 \<and> 16 \<le> b \<and> b \<le> 31"
    "a * 4 + b div 64 = 401 \<longleftrightarrow> a = 100 \<and> 64 \<le> b \<and> b \<le> 127"
    "a div 16 = 15 \<longleftrightarrow> 240 \<le> a"
    using radix_eq [of "b div 16" 16 1 a 172] radix_eq [of "b div 64" 4 1 a 100] div_range
    by simp_all
  have arith3:
    "a * 256 + b = 49320 \<longleftrightarrow> a = 192 \<and> b = 168"
    "a * 256 + b = 43518 \<longleftrightarrow> a = 169 \<and> b = 254"
    "a * 65536 + b * 256 + c = 12582914 \<longleftrightarrow> a = 192 \<and> b = 0 \<and> c = 2"
    "a * 65536 + b * 256 + c = 12989284 \<longleftrightarrow> a = 198 \<and> b = 51 \<and> c = 100"
    "a * 65536 + b * 256 + c = 13303921 \<longleftrightarrow> a = 203 \<and> b = 0 \<and> c = 113"
    using radix_eq [of b 256 168 a 192] radix_eq [of b 256 254 a 169]
      three_octets_eq [of b 0 c 2 a 192] three_octets_eq [of b 51 c 100 a 198]
      three_octets_eq [of b 0 c 113 a 203] bounds by simp_all
  have n0: "in_network (IPv4 ?w) (Net4 0x0A000000 8) \<longleftrightarrow> a = 10"
    by (subst net [where m = 10]) (simp_all add: div arith arith3)
  have n1: "in_network (IPv4 ?w) (Net4 0xAC100000 12) \<longleftrightarrow> a = 172 \<and> 16 \<le> b \<and> b \<le> 31"
    by (subst net [where m = 2753]) (simp_all add: div arith arith3)
  have n2: "in_network (IPv4 ?w) (Net4 0xC0A80000 16) \<longleftrightarrow> a = 192 \<and> b = 168"
    by (subst net [where m = 49320]) (simp_all add: div arith arith3)
  have n3: "in_network (IPv4 ?w) (Net4 0x7F000000 8) \<longleftrightarrow> a = 127"
    by (subst net [where m = 127]) (simp_all add: div arith arith3)
  have n4: "in_network (IPv4 ?w) (Net4 0xA9FE0000 16) \<longleftrightarrow> a = 169 \<and> b = 254"
    by (subst net [where m = 43518]) (simp_all add: div arith arith3)
  have n5: "in_network (IPv4 ?w) (Net4 0x00000000 8) \<longleftrightarrow> a = 0"
    by (subst net [where m = 0]) (simp_all add: div arith arith3)
  have n6: "in_network (IPv4 ?w) (Net4 0x64400000 10) \<longleftrightarrow> a = 100 \<and> 64 \<le> b \<and> b \<le> 127"
    by (subst net [where m = 401]) (simp_all add: div arith arith3)
  have n7: "in_network (IPv4 ?w) (Net4 0xC0000200 24) \<longleftrightarrow> a = 192 \<and> b = 0 \<and> c = 2"
    by (subst net [where m = 12582914]) (simp_all add: div arith arith3)
  have n8: "in_network (IPv4 ?w) (Net4 0xC6336400 24) \<longleftrightarrow> a = 198 \<and> b = 51 \<and> c = 100"
    by (subst net [where m = 12989284]) (simp_all add: div arith arith3)
  have n9: "in_network (IPv4 ?w) (Net4 0xCB007100 24) \<longleftrightarrow> a = 203 \<and> b = 0 \<and> c = 113"
    by (subst net [where m = 13303921]) (simp_all add: div arith arith3)
  have n10: "in_network (IPv4 ?w) (Net4 0xF0000000 4) \<longleftrightarrow> 240 \<le> a"
    by (subst net [where m = 15]) (simp_all add: div arith arith3)
  note nets = n0 n1 n2 n3 n4 n5 n6 n7 n8 n9 n10
  have bc: "in_network (IPv4 ?w) (Net4 0xFFFFFFFF 32) \<Longrightarrow> 240 \<le> a"
    by (subst (asm) net [where m = 4294967295]) (use assms in \<open>simp_all add: quad_def\<close>)
  have six: "\<not> in_network (IPv4 ?w) (Net6 m p)" for m p by simp
  have last: "240 \<le> a \<or> in_network (IPv4 ?w) (Net4 0xFFFFFFFF 32) \<longleftrightarrow> 240 \<le> a" using bc by blast
  show ?thesis
    unfolding BLOCKED_NETWORKS_def octets_blocked_def set_simps bex_simps nets
    by (simp only: six simp_thms last)
qed

lemma ip_address_dotted:
  assumes "a \<in> {0..255}" "b \<in> {0..255}" "c \<in> {0..255}" "d \<in> {0..255}"
  shows "ip_address (dotted a b c d) = Some (IPv4 (of_int (quad a b c d)))"
  using parse_ipv4_dotted [OF assms] by (simp add: ip_address_def)

lemma metadata_v4_octets:
  assumes "a \<in> {0..255}" "b \<in> {0..255}" "c \<in> {0..255}" "d \<in> {0..255}"
    and "dotted a b c d \<in> set METADATA_IPS"
  shows "octets_blocked a b c"
proof -
  have meta: "ip_address ''169.254.169.254'' = Some (IPv4 0xA9FEA9FE)"
    "ip_address ''fd00:ec2::254'' = Some (IPv6 0xFD000EC2000000000000000000000254 None)"
    by code_simp+
  have q: "ip_address (dotted a b c d) = Some (IPv4 (of_int (quad a b c d)))"
    using assms(1-4) by (rule ip_address_dotted)
  have "dotted a b c d = ''169.254.169.254''"
    using assms(5) meta(2) q by (auto simp: METADATA_IPS_def)
  with meta(1) q have w: "of_int (quad a b c d) = (0xA9FEA9FE :: 32 word)" by simp
  have "in_network (IPv4 0xA9FEA9FE) (Net4 0xA9FE0000 16)" by code_simp
  then have "\<exists>n \<in> set BLOCKED_NETWORKS. in_network (IPv4 (of_int (quad a b c d))) n"
    unfolding w by (simp add: BLOCKED_NETWORKS_def)
  then show ?thesis using in_blocked_network4_iff [OF assms(1-4)] by simp
qed

section \<open>Properties\<close>

text \<open>
  C3. Soundness of the blocking guard: a URL that \<^verbatim>\<open>validate_url_sync\<close> accepts has an allowed
  scheme and port, its host is neither a metadata host name nor a literal address in a blocked
  range, the resolver answered for that host, and no address of the answer is blocked.
\<close>

theorem validate_url_sync_sound:
  assumes "validate_url_sync resolve url = Inr ()"
  shows "\<exists>p host infos port. urlparse url = Inr p \<and> pu_hostname p = Some host
    \<and> lower (pu_scheme p) \<in> set ALLOWED_SCHEMES \<and> port \<in> set ALLOWED_PORTS
    \<and> (\<exists>q. pu_port p = Inr q \<and> port = effective_port p q)
    \<and> lower host \<notin> set BLOCKED_HOSTNAMES \<and> \<not> is_ip_blocked host
    \<and> resolve host = Some infos \<and> (\<forall>ip \<in> set infos. \<not> is_ip_blocked ip)"
  using assms by (rule sync_guard.accepted_sound)

theorem validate_url_sync_sound_witness:
  "\<exists>p host infos port. urlparse ''https://example.com:8443/a'' = Inr p \<and> pu_hostname p = Some host
    \<and> lower (pu_scheme p) \<in> set ALLOWED_SCHEMES \<and> port \<in> set ALLOWED_PORTS
    \<and> (\<exists>q. pu_port p = Inr q \<and> port = effective_port p q)
    \<and> lower host \<notin> set BLOCKED_HOSTNAMES \<and> \<not> is_ip_blocked host
    \<and> (\<lambda>_. Some [''93.184.216.34'']) host = Some infos \<and> (\<forall>ip \<in> set infos. \<not> is_ip_blocked ip)"
proof -
  have "validate_url_sync (\<lambda>_. Some [''93.184.216.34'']) ''https://example.com:8443/a'' = Inr ()"
    by code_simp
  then show ?thesis by (rule validate_url_sync_sound)
qed

text \<open>
  The same for the guard of the event loop, which runs the static checks and then the
  resolution of \<^verbatim>\<open>ssrf_guard.py\<close>.
\<close>

lemma validate_url_async_sound:
  assumes "validate_url_async resolve url = Inr ()"
  shows "\<exists>p host infos port. urlparse url = Inr p \<and> pu_hostname p = Some host
    \<and> lower (pu_scheme p) \<in> set ALLOWED_SCHEMES \<and> port \<in> set ALLOWED_PORTS
    \<and> (\<exists>q. pu_port p = Inr q \<and> port = effective_port p q)
    \<and> lower host \<notin> set BLOCKED_HOSTNAMES \<and> \<not> is_ip_blocked host
    \<and> resolve host = Some infos \<and> (\<forall>ip \<in> set infos. \<not> is_ip_blocked ip)"
  using assms by (rule async_guard.accepted_sound)

lemma validate_url_async_sound_witness:
  "\<exists>p host infos port. urlparse ''http://example.com'' = Inr p \<and> pu_hostname p = Some host
    \<and> lower (pu_scheme p) \<in> set ALLOWED_SCHEMES \<and> port \<in> set ALLOWED_PORTS
    \<and> (\<exists>q. pu_port p = Inr q \<and> port = effective_port p q)
    \<and> lower host \<notin> set BLOCKED_HOSTNAMES \<and> \<not> is_ip_blocked host
    \<and> (\<lambda>_. Some [''2606:2800:220:1::1'', ''93.184.216.34'']) host = Some infos
    \<and> (\<forall>ip \<in> set infos. \<not> is_ip_blocked ip)"
proof -
  have "validate_url_async (\<lambda>_. Some [''2606:2800:220:1::1'', ''93.184.216.34''])
          ''http://example.com'' = Inr ()"
    by code_simp
  then show ?thesis by (rule validate_url_async_sound)
qed

text \<open>
  C29. Exactly which dotted quads are blocked: the address text is parsed, masked with each
  network and found blocked if and only if its octets lie in the private, loopback, link-local,
  carrier-grade NAT, documentation or reserved ranges.
\<close>

theorem is_ip_blocked_dotted_iff:
  assumes "a \<in> {0..255}" "b \<in> {0..255}" "c \<in> {0..255}" "d \<in> {0..255}"
  shows "is_ip_blocked (dotted a b c d) \<longleftrightarrow> octets_blocked a b c"
  using metadata_v4_octets [OF assms]
  by (simp add: is_ip_blocked_def ip_address_dotted [OF assms] in_blocked_network4_iff [OF assms])

theorem is_ip_blocked_dotted_iff_witness:
  "is_ip_blocked (dotted 172 31 255 7) \<and> \<not> is_ip_blocked (dotted 172 32 0 1)"
  using is_ip_blocked_dotted_iff [of 172 31 255 7] is_ip_blocked_dotted_iff [of 172 32 0 1]
  by (simp add: octets_blocked_def)

text \<open>
  The blocked ranges compare an address with networks of its own version only, so an
  IPv4-mapped IPv6 address is never in one, whatever IPv4 address it embeds; a URL that names the
  metadata service that way passes the guard.
\<close>

lemma mapped_address_not_blocked:
  "(\<forall>w :: 32 word. \<forall>n \<in> set BLOCKED_NETWORKS.
      \<not> in_network (IPv6 (of_int (0xFFFF * 2 ^ 32 + uint w)) None) n)
   \<and> validate_url_sync (\<lambda>h. Some [h]) ''http://[::ffff:169.254.169.254]/latest/meta-data'' = Inr ()"
proof
  show "validate_url_sync (\<lambda>h. Some [h]) ''http://[::ffff:169.254.169.254]/latest/meta-data''
      = Inr ()"
    by code_simp
next
  show "\<forall>w :: 32 word. \<forall>n \<in> set BLOCKED_NETWORKS.
      \<not> in_network (IPv6 (of_int (0xFFFF * 2 ^ 32 + uint w)) None) n"
  proof
    fix w :: "32 word"
    let ?a = "of_int (0xFFFF * 2 ^ 32 + uint w) :: 128 word"
    have b: "0 \<le> uint w" "uint w < 4294967296" using uint_lt2p [of w] by simp_all
    then have u: "uint ?a = 0xFFFF * 4294967296 + uint w"
      unfolding uint_word_of_int by (subst mod_pos_pos_trivial) simp_all
    have n1: "\<not> in_network (IPv6 ?a None) (Net6 1 128)"
    proof
      assume "in_network (IPv6 ?a None) (Net6 1 128)"
      then have "uint ?a div 2 ^ (128 - 128) = 1"
        by (subst (asm) in_network6_iff [where m = 1]) simp_all
      then have "0xFFFF * 4294967296 + uint w = 1" unfolding u by simp
      with b(1) show False by linarith
    qed
    have n2: "\<not> in_network (IPv6 ?a None) (Net6 0xFD000000000000000000000000000000 8)"
      by (subst in_network6_iff [where m = 253], simp, simp, subst u) (use b in simp)
    have n3: "\<not> in_network (IPv6 ?a None) (Net6 0xFC000000000000000000000000000000 7)"
      by (subst in_network6_iff [where m = 126], simp, simp, subst u) (use b in simp)
    have n4: "\<not> in_network (IPv6 ?a None) (Net4 m p)" for m p by simp
    show "\<forall>n \<in> set BLOCKED_NETWORKS. \<not> in_network (IPv6 ?a None) n"
      unfolding BLOCKED_NETWORKS_def set_simps ball_simps using n1 n2 n3 n4 by blast
  qed
qed

lemma mapped_address_not_blocked_witness:
  "\<not> in_network (IPv6 (of_int (0xFFFF * 2 ^ 32 + uint (0x7F000001 :: 32 word))) None)
     (Net4 0x7F000000 8)"
  using mapped_address_not_blocked by (simp add: BLOCKED_NETWORKS_def)

end
