(* ===== verification/Batch.thy ===== *)
theory Batch
  imports Job_Props Ssrf_Guard
begin

text \<open>
  Batches: \<^verbatim>\<open>app/services/batch_service.py\<close>, the Redis half of \<^verbatim>\<open>app/services/storage.py\<close> and
  \<^verbatim>\<open>app/api/v1/endpoints/batches.py\<close>. A batch is a list of job identifiers in Redis; its status
  and results are aggregated from the jobs.
\<close>

section \<open>Storage\<close>

definition job_key_of :: "string \<Rightarrow> string" where
  "job_key_of job_id = ''job:'' @ job_id"

definition job_meta_key :: "string \<Rightarrow> string" where
  "job_meta_key job_id = ''job_meta:'' @ job_id"

definition batch_key :: "string \<Rightarrow> string" where
  "batch_key batch_id = ''batch:'' @ batch_id"

definition save_job_result :: "'r redis \<Rightarrow> int \<Rightarrow> string \<Rightarrow> json \<Rightarrow> 'r \<Rightarrow> unit option \<times> 'r" where
  "save_job_result R ttl job_id result_data = r_set R (job_key_of job_id) (RJson result_data) (Some ttl)"

text \<open>\<^verbatim>\<open>json.loads(raw) if raw else None\<close>; a value that is not JSON raises.\<close>

definition read_json :: "'r redis \<Rightarrow> string \<Rightarrow> 'r \<Rightarrow> json option option \<times> 'r" where
  "read_json R key =
     rbind (r_get R key) (\<lambda>raw.
       if \<not> rval_truth raw then rret None
       else (case raw of Some (RJson j) \<Rightarrow> rret (Some j) | Some (RInt n) \<Rightarrow> rret (Some (JNum n)) | _ \<Rightarrow> rraise))"

definition get_job_result :: "'r redis \<Rightarrow> string \<Rightarrow> 'r \<Rightarrow> json option option \<times> 'r" where
  "get_job_result R job_id = read_json R (job_key_of job_id)"

definition save_job_created_at :: "'r redis \<Rightarrow> int \<Rightarrow> string \<Rightarrow> string \<Rightarrow> 'r \<Rightarrow> unit option \<times> 'r" where
  "save_job_created_at R ttl job_id iso_timestamp = r_set R (job_meta_key job_id) (RStr iso_timestamp) (Some ttl)"

definition get_job_created_at :: "'r redis \<Rightarrow> string \<Rightarrow> 'r \<Rightarrow> rval option option \<times> 'r" where
  "get_job_created_at R job_id = r_get R (job_meta_key job_id)"

definition save_batch_info :: "'r redis \<Rightarrow> int \<Rightarrow> string \<Rightarrow> json \<Rightarrow> 'r \<Rightarrow> unit option \<times> 'r" where
  "save_batch_info R ttl batch_id batch_info = r_set R (batch_key batch_id) (RJson batch_info) (Some ttl)"

definition get_batch_info :: "'r redis \<Rightarrow> string \<Rightarrow> 'r \<Rightarrow> json option option \<times> 'r" where
  "get_batch_info R batch_id = read_json R (batch_key batch_id)"

section \<open>The batch service\<close>

datatype TaskState = TS_PENDING | TS_STARTED | TS_SUCCESS | TS_FAILURE | TS_RETRY | TS_REVOKED

definition STATE_MAP :: "(string \<times> TaskState) list" where
  "STATE_MAP = [(''pending'', TS_PENDING), (''running'', TS_STARTED), (''completed'', TS_SUCCESS), (''failed'', TS_FAILURE)]"

definition TERMINAL_STATES :: "TaskState list" where
  "TERMINAL_STATES = [TS_SUCCESS, TS_FAILURE]"

record BatchResponse =
  br_batch_id :: string
  br_job_ids :: "string list"
  br_total_count :: nat

record JobStatusResponse =
  jsr_job_id :: string
  jsr_state :: TaskState
  jsr_created_at :: json

record BatchStatusResponse =
  bs_batch_id :: string
  bs_total :: nat
  bs_completed :: nat
  bs_progress :: real
  bs_jobs :: "JobStatusResponse list"

record BatchResults =
  bt_batch_id :: string
  bt_total :: nat
  bt_successful :: nat
  bt_failed :: nat
  bt_results :: "JobResultResponse list"

text \<open>The identifiers and clock readings of a creation: one per URL, and one for the batch.\<close>

record ('r, 'q) batch_env =
  be_redis :: "'r redis"
  be_arq :: "'q arq"
  be_rd :: "string \<Rightarrow> string"
  be_ttl :: int
  be_result_ttl :: int
  be_job_uuid :: "nat \<Rightarrow> uuid"
  be_batch_uuid :: uuid
  be_now :: "nat \<Rightarrow> datetime"
  be_time :: real

definition batch_task :: "ApiKey \<Rightarrow> string \<Rightarrow> string option \<Rightarrow> (string \<times> json) list \<Rightarrow> string \<Rightarrow> string \<Rightarrow> string \<Rightarrow> task_args" where
  "batch_task api_key mode callback_url options job_id url domain =
     \<lparr>ta_job_id = job_id, ta_url = url, ta_mode = mode, ta_api_key_prefix = k_prefix api_key,
      ta_application_id = uuid_str (k_application_id api_key), ta_domain = domain, ta_proxy_pool_id = None,
      ta_callback_url = callback_url, ta_options = options, ta_trace_id = None\<rparr>"

fun enqueue_urls ::
  "('r, 'q) batch_env \<Rightarrow> ApiKey \<Rightarrow> string \<Rightarrow> string option \<Rightarrow> (string \<times> json) list \<Rightarrow> nat \<Rightarrow> string list
   \<Rightarrow> ('r \<times> 'q, api_error, string list) eff" where
  "enqueue_urls E api_key mode cb options i [] s = sret [] s"
| "enqueue_urls E api_key mode cb options i (url # urls) s =
     sbind (of_sum (case normalize_domain_from_url (be_rd E) url of Inl _ \<Rightarrow> Inl internal | Inr d \<Rightarrow> Inr d)) (\<lambda>domain.
     sbind (enqueue (be_redis E) (be_arq E) (be_ttl E) (be_now E i)
        (batch_task api_key mode cb options (uuid_str (be_job_uuid E i)) url domain)) (\<lambda>job_id.
     sbind (enqueue_urls E api_key mode cb options (Suc i) urls) (\<lambda>job_ids.
     sret (job_id # job_ids)))) s"

definition batch_info :: "string \<Rightarrow> string list \<Rightarrow> real \<Rightarrow> nat \<Rightarrow> json" where
  "batch_info batch_id job_ids time cnt =
     JObj [(''batch_id'', JStr batch_id), (''job_ids'', JList (map JStr job_ids)), (''created_at'', JReal time),
       (''total_count'', JNum (int cnt))]"

definition create_batch ::
  "('r, 'q) batch_env \<Rightarrow> string list \<Rightarrow> string \<Rightarrow> ApiKey \<Rightarrow> string option \<Rightarrow> (string \<times> json) list
   \<Rightarrow> ('r \<times> 'q, api_error, BatchResponse) eff" where
  "create_batch E urls mode api_key callback_url options =
     (let batch_id = uuid_str (be_batch_uuid E)
      in sbind (enqueue_urls E api_key mode callback_url options 0 urls) (\<lambda>job_ids.
         sbind (on_redis internal (save_batch_info (be_redis E) (be_result_ttl E) batch_id
            (batch_info batch_id job_ids (be_time E) (length urls)))) (\<lambda>_.
         sret \<lparr>br_batch_id = batch_id, br_job_ids = job_ids, br_total_count = length urls\<rparr>)))"

text \<open>\<^verbatim>\<open>batch_info.get("job_ids", [])\<close>; anything but a list of texts raises.\<close>

fun json_strs :: "json list \<Rightarrow> string list option" where
  "json_strs [] = Some []"
| "json_strs (JStr s # js) = map_option (Cons s) (json_strs js)"
| "json_strs (_ # js) = None"

definition job_ids_of :: "json \<Rightarrow> string list option" where
  "job_ids_of info =
     (case info of
        JObj d \<Rightarrow> (case dict_get d ''job_ids'' of
                     None \<Rightarrow> Some []
                   | Some (JList js) \<Rightarrow> json_strs js
                   | _ \<Rightarrow> None)
      | _ \<Rightarrow> None)"

definition batch_state :: "(string \<times> json) list \<Rightarrow> TaskState" where
  "batch_state data =
     (case jget data ''status'' of
        JStr s \<Rightarrow> (case map_of STATE_MAP s of Some st \<Rightarrow> st | None \<Rightarrow> TS_FAILURE)
      | _ \<Rightarrow> TS_FAILURE)"

text \<open>One job of the aggregation: a missing job counts as a failure, another exception passes.\<close>

definition job_state :: "'r redis \<Rightarrow> string \<Rightarrow> ('r \<times> 'q, api_error, JobStatusResponse) eff" where
  "job_state R job_id s =
     (case get_status_data R job_id s of
        (Inr data, s') \<Rightarrow> (Inr \<lparr>jsr_job_id = job_id, jsr_state = batch_state data, jsr_created_at = jget data ''created_at''\<rparr>, s')
      | (Inl (NotFoundError _), s') \<Rightarrow> (Inr \<lparr>jsr_job_id = job_id, jsr_state = TS_FAILURE, jsr_created_at = JNull\<rparr>, s')
      | (Inl e, s') \<Rightarrow> (Inl e, s'))"

fun job_states :: "'r redis \<Rightarrow> string list \<Rightarrow> ('r \<times> 'q, api_error, JobStatusResponse list) eff" where
  "job_states R [] s = sret [] s"
| "job_states R (j # js) s = sbind (job_state R j) (\<lambda>x. sbind (job_states R js) (\<lambda>xs. sret (x # xs))) s"

definition is_terminal :: "JobStatusResponse \<Rightarrow> bool" where
  "is_terminal j \<longleftrightarrow> jsr_state j \<in> set TERMINAL_STATES"

definition get_batch_status :: "'r redis \<Rightarrow> string \<Rightarrow> ('r \<times> 'q, api_error, BatchStatusResponse option) eff" where
  "get_batch_status R batch_id =
     sbind (on_redis internal (get_batch_info R batch_id)) (\<lambda>info.
       case info of
         None \<Rightarrow> sret None
       | Some b \<Rightarrow>
           if \<not> json_truth b then sret None
           else sbind (of_sum (of_option internal (job_ids_of b))) (\<lambda>job_ids.
                sbind (job_states R job_ids) (\<lambda>jobs.
                (let completed = length (filter is_terminal jobs); total = length jobs
                 in sret (Some \<lparr>bs_batch_id = batch_id, bs_total = total, bs_completed = completed,
                      bs_progress = (if 0 < total then real completed / real total else 0), bs_jobs = jobs\<rparr>)))))"

fun job_results :: "'r redis \<Rightarrow> (nat \<Rightarrow> datetime) \<Rightarrow> nat \<Rightarrow> string list \<Rightarrow> ('r \<times> 'q, api_error, JobResultResponse list) eff" where
  "job_results R now i [] s = sret [] s"
| "job_results R now i (j # js) s =
     (case get_result R (now i) j s of
        (Inr r, s') \<Rightarrow> sbind (job_results R now (Suc i) js) (\<lambda>rs. sret (r # rs)) s'
      | (Inl (NotFoundError _), s') \<Rightarrow> job_results R now (Suc i) js s'
      | (Inl e, s') \<Rightarrow> (Inl e, s'))"

definition get_batch_results ::
  "'r redis \<Rightarrow> (nat \<Rightarrow> datetime) \<Rightarrow> string \<Rightarrow> ('r \<times> 'q, api_error, BatchResults option) eff" where
  "get_batch_results R now batch_id =
     sbind (on_redis internal (get_batch_info R batch_id)) (\<lambda>info.
       case info of
         None \<Rightarrow> sret None
       | Some b \<Rightarrow>
           if \<not> json_truth b then sret None
           else sbind (of_sum (of_option internal (job_ids_of b))) (\<lambda>job_ids.
                sbind (job_results R now 0 job_ids) (\<lambda>results.
                sret (Some \<lparr>bt_batch_id = batch_id, bt_total = length job_ids,
                  bt_successful = length (filter (\<lambda>r. jr_status r = COMPLETED) results),
                  bt_failed = length (filter (\<lambda>r. jr_status r = FAILED) results), bt_results = results\<rparr>))))"

section \<open>Endpoints\<close>

record BatchCrawlRequest =
  bq_urls :: "string list"
  bq_mode :: string
  bq_callback_url :: "string option"
  bq_options :: "(string \<times> json) list"

fun ssrf_check_all :: "resolver \<Rightarrow> string list \<Rightarrow> ssrf_error + unit" where
  "ssrf_check_all resolve [] = Inr ()"
| "ssrf_check_all resolve (u # us) = bindE (validate_url_against_ssrf resolve u) (\<lambda>_. ssrf_check_all resolve us)"

datatype batch_exn = BeApi api_error | BeSsrf ssrf_error | BeRateLimited string real string

text \<open>Each domain is charged once; the first that is denied ends the request.\<close>

fun charge_domains ::
  "'r redis \<Rightarrow> (string \<Rightarrow> string) \<Rightarrow> (nat \<Rightarrow> eval_env) \<Rightarrow> policy_table \<Rightarrow> nat \<Rightarrow> string list \<Rightarrow> ('r \<times> 'q, batch_exn, unit) eff" where
  "charge_domains R rd ev policies i [] s = sret () s"
| "charge_domains R rd ev policies i (d # ds) s =
     (case resolve_policy rd (''https://'' @ d) policies of
        Inl _ \<Rightarrow> (Inl (BeApi internal), s)
      | Inr policy \<Rightarrow>
          (let (result, r') = check_domain R rd (ev i) d (domain_rps policy) (fst s)
           in if \<not> rl_allowed result
              then (Inl (BeRateLimited d (rl_retry_after_s result) (rl_layer result)), (r', snd s))
              else charge_domains R rd ev policies (Suc i) ds (r', snd s)))"

text \<open>\<open>order\<close> is the iteration order of the set of domains.\<close>

definition create_crawl_batch ::
  "('r, 'q) batch_env \<Rightarrow> resolver \<Rightarrow> bool \<Rightarrow> (nat \<Rightarrow> eval_env) \<Rightarrow> policy_table \<Rightarrow> (string list \<Rightarrow> string list)
   \<Rightarrow> BatchCrawlRequest \<Rightarrow> ApiKey \<Rightarrow> ('r \<times> 'q, batch_exn, BatchResponse) eff" where
  "create_crawl_batch E resolve ssrf_enabled ev policies order request api_key s =
     (case (if ssrf_enabled then ssrf_check_all resolve (bq_urls request) else Inr ()) of
        Inl e \<Rightarrow> (Inl (BeSsrf e), s)
      | Inr _ \<Rightarrow>
          sbind (charge_domains (be_redis E) (be_rd E) ev policies 0
                   (order (remdups (map (normalize_domain (be_rd E)) (bq_urls request))))) (\<lambda>_ s'.
            case create_batch E (bq_urls request) (bq_mode request) api_key (bq_callback_url request) (bq_options request) s' of
              (Inl e, s'') \<Rightarrow> (Inl (BeApi e), s'')
            | (Inr r, s'') \<Rightarrow> (Inr r, s'')) s)"

definition batch_status_endpoint :: "'r redis \<Rightarrow> string \<Rightarrow> ('r \<times> 'q, api_error, BatchStatusResponse) eff" where
  "batch_status_endpoint R batch_id =
     sbind (get_batch_status R batch_id) (\<lambda>result.
       case result of None \<Rightarrow> sraise (HTTPException 404 ''Batch not found'') | Some r \<Rightarrow> sret r)"

definition batch_results_endpoint ::
  "'r redis \<Rightarrow> (nat \<Rightarrow> datetime) \<Rightarrow> string \<Rightarrow> ('r \<times> 'q, api_error, BatchResults) eff" where
  "batch_results_endpoint R now batch_id =
     sbind (get_batch_results R now batch_id) (\<lambda>results.
       case results of None \<Rightarrow> sraise (HTTPException 404 ''Batch not found'') | Some r \<Rightarrow> sret r)"

section \<open>Facts\<close>

lemma batch_key_neq [simp]:
  "batch_key b \<noteq> status_key j" "status_key j \<noteq> batch_key b" "batch_key b \<noteq> error_key j" "error_key j \<noteq> batch_key b"
  by (simp_all add: batch_key_def status_key_def error_key_def)

lemma json_strs_map [simp]: "json_strs (map JStr ss) = Some ss"
  by (induction ss) auto

lemma job_ids_of_info [simp]: "job_ids_of (batch_info b ids t n) = Some ids"
  by (simp add: job_ids_of_def batch_info_def dict_get_def)

lemma get_batch_info_refines:
  assumes "redis_laws R view" "redis_up R view" "view r (batch_key b) = Some (RJson info)"
  shows "\<exists>r'. get_batch_info R b r = (Some (Some info), r') \<and> view r' = view r"
proof -
  obtain v r' where g: "r_get R (batch_key b) r = (Some v, r')" using r_get_up [OF assms(2)] by blast
  with r_getD [OF assms(1) g] assms(3) show ?thesis
    by (auto simp: get_batch_info_def read_json_def rbind_def rval_truth_def rret_def)
qed

text \<open>The state of a job as the aggregation sees it, from the keyspace.\<close>

definition read_job_state :: "string \<Rightarrow> keyspace \<Rightarrow> api_error + JobStatusResponse" where
  "read_job_state j ks =
     (case read_status_data j ks of
        Inr data \<Rightarrow> Inr \<lparr>jsr_job_id = j, jsr_state = batch_state data, jsr_created_at = jget data ''created_at''\<rparr>
      | Inl (NotFoundError _) \<Rightarrow> Inr \<lparr>jsr_job_id = j, jsr_state = TS_FAILURE, jsr_created_at = JNull\<rparr>
      | Inl e \<Rightarrow> Inl e)"

lemma job_state_refines:
  assumes "redis_laws R view" "redis_up R view"
  shows "\<exists>r'. job_state R j (r, q) = (read_job_state j (view r), (r', q)) \<and> view r' = view r"
proof -
  obtain r' where "get_status_data R j (r, q) = (read_status_data j (view r), (r', q))" "view r' = view r"
    using get_status_data_refines [OF assms, of j r q] by blast
  then show ?thesis
    by (cases "read_status_data j (view r)")
      (auto simp: job_state_def read_job_state_def split: api_error.splits)
qed

lemma job_states_refines:
  assumes laws: "redis_laws R view" and up: "redis_up R view"
    and reads: "\<forall>j \<in> set ids. read_job_state j ks = Inr (f j)" and ks: "view r = ks"
  shows "\<exists>r'. job_states R ids (r, q) = (Inr (map f ids), (r', q)) \<and> view r' = ks"
  using reads ks
proof (induction ids arbitrary: r)
  case (Cons j ids)
  obtain r1 where r1: "job_state R j (r, q) = (Inr (f j), (r1, q))" "view r1 = ks"
    using job_state_refines [OF laws up, of j r q] Cons.prems by auto
  from Cons.IH [of r1] Cons.prems r1(2) obtain r2 where
    "job_states R ids (r1, q) = (Inr (map f ids), (r2, q))" "view r2 = ks" by auto
  with r1(1) show ?case by (auto simp: sbind_def sret_def)
qed (auto simp: sret_def)

text \<open>A job with a history, or one that is gone.\<close>

definition job_done :: "('r \<Rightarrow> keyspace) \<Rightarrow> (string \<Rightarrow> job_write list) \<Rightarrow> 'r \<Rightarrow> string \<Rightarrow> bool" where
  "job_done view ws r j \<longleftrightarrow> view r (status_key j) = None \<or> hist_status (ws j) \<in> {COMPLETED, FAILED}"

lemma batch_state_payload:
  assumes "view r (status_key j) = Some (hist_payload t0 ws)"
  shows "\<exists>d. read_status_data j (view r) = Inr d \<and> jget d ''created_at'' = JStr (isoformat t0)
    \<and> batch_state d = (case hist_status ws of PENDING \<Rightarrow> TS_PENDING | RUNNING \<Rightarrow> TS_STARTED | COMPLETED \<Rightarrow> TS_SUCCESS
        | FAILED \<Rightarrow> TS_FAILURE)"
proof (cases "ws = []")
  case True
  with assms show ?thesis
    by (simp add: read_status_data_def hist_payload_def rval_truth_def loads_obj_def jget_def dict_get_def batch_state_def
        STATE_MAP_def hist_status_def)
next
  case False
  with assms show ?thesis
    by (cases "write_status (last ws)"; cases "write_result (last ws)")
      (simp_all add: read_status_data_def hist_payload_def status_payload_def rval_truth_def loads_obj_def jget_def
        dict_get_def batch_state_def STATE_MAP_def hist_status_def)
qed

lemma read_job_state_hist:
  assumes "view r (status_key j) = None \<or> view r (status_key j) = Some (hist_payload t0 (ws j))"
  shows "\<exists>x. read_job_state j (view r) = Inr x \<and> jsr_job_id x = j \<and> is_terminal x = job_done view ws r j"
proof (cases "view r (status_key j)")
  case None
  then show ?thesis
    by (simp add: read_job_state_def read_status_data_def rval_truth_def is_terminal_def TERMINAL_STATES_def job_done_def)
next
  case (Some v)
  with assms batch_state_payload [of view r j t0 "ws j"] show ?thesis
    by (cases "hist_status (ws j)")
      (auto simp: read_job_state_def is_terminal_def TERMINAL_STATES_def job_done_def)
qed

lemma enqueue_keeps:
  assumes "redis_laws R view" "arq_laws A tasks" "enqueue R A ttl now task s0 = (Inr j, s1)" "k \<noteq> status_key (ta_job_id task)"
  shows "view (fst s1) k = view (fst s0) k"
  using enqueueD [OF assms(1-3)] assms(4) by simp

lemma enqueue_urls_run:
  assumes laws: "redis_laws (be_redis E) view" and arq: "arq_laws (be_arq E) tasks"
    and ids: "inj_on (be_job_uuid E) {i..<i + length urls}"
    and run: "enqueue_urls E api_key mode cb options i urls s0 = (Inr jids, s1)"
  shows "jids = map (\<lambda>n. uuid_str (be_job_uuid E n)) [i..<i + length urls]
    \<and> (\<exists>new. tasks (snd s1) = tasks (snd s0) @ new \<and> map ta_job_id new = jids \<and> map ta_url new = urls)
    \<and> (\<forall>n. i \<le> n \<longrightarrow> n < i + length urls \<longrightarrow>
        view (fst s1) (status_key (uuid_str (be_job_uuid E n))) = Some (hist_payload (be_now E n) []))
    \<and> (\<forall>k. k \<notin> (\<lambda>n. status_key (uuid_str (be_job_uuid E n))) ` {i..<i + length urls} \<longrightarrow> view (fst s1) k = view (fst s0) k)"
  using ids run
proof (induction urls arbitrary: i s0 jids)
  case (Cons url urls)
  from Cons.prems(2) obtain domain j sa rest where
    enq: "enqueue (be_redis E) (be_arq E) (be_ttl E) (be_now E i)
        (batch_task api_key mode cb options (uuid_str (be_job_uuid E i)) url domain) s0 = (Inr j, sa)"
    and rec: "enqueue_urls E api_key mode cb options (Suc i) urls sa = (Inr rest, s1)" and jids: "jids = j # rest"
    by (auto simp: sbind_Inr_iff)
  have "inj_on (be_job_uuid E) {Suc i..<Suc i + length urls}"
    using Cons.prems(1) by (rule inj_on_subset) auto
  note e = enqueueD [OF laws arq enq] and IH = Cons.IH [OF this rec]
  have j: "j = uuid_str (be_job_uuid E i)" using e by (simp add: batch_task_def)
  have inj: "be_job_uuid E i \<noteq> be_job_uuid E n" if "Suc i \<le> n" "n < Suc i + length urls" for n
    using inj_onD [OF Cons.prems(1), of i n] that by auto
  have "jids = map (\<lambda>n. uuid_str (be_job_uuid E n)) [i..<i + length (url # urls)]"
    using IH jids j by (simp add: upt_conv_Cons del: upt_Suc)
  moreover have "\<exists>new. tasks (snd s1) = tasks (snd s0) @ new \<and> map ta_job_id new = jids \<and> map ta_url new = url # urls"
  proof -
    from IH obtain new where "tasks (snd s1) = tasks (snd sa) @ new" "map ta_job_id new = rest" "map ta_url new = urls" by blast
    with e jids j show ?thesis
      by (intro exI [of _ "batch_task api_key mode cb options (uuid_str (be_job_uuid E i)) url domain # new"])
        (simp add: batch_task_def)
  qed
  moreover have "view (fst s1) (status_key (uuid_str (be_job_uuid E n))) = Some (hist_payload (be_now E n) [])"
    if "i \<le> n" "n < i + length (url # urls)" for n
  proof (cases "n = i")
    case True
    have "status_key (uuid_str (be_job_uuid E i)) \<notin>
        (\<lambda>n. status_key (uuid_str (be_job_uuid E n))) ` {Suc i..<Suc i + length urls}"
      using inj by (simp add: image_iff)
    with IH have "view (fst s1) (status_key (uuid_str (be_job_uuid E i))) = view (fst sa) (status_key (uuid_str (be_job_uuid E i)))"
      by blast
    with e j True show ?thesis by simp
  next
    case False
    with that IH show ?thesis by simp
  qed
  moreover have "view (fst s1) k = view (fst s0) k"
    if "k \<notin> (\<lambda>n. status_key (uuid_str (be_job_uuid E n))) ` {i..<i + length (url # urls)}" for k
  proof -
    have "k \<notin> (\<lambda>n. status_key (uuid_str (be_job_uuid E n))) ` {Suc i..<Suc i + length urls}"
      "k \<noteq> status_key (uuid_str (be_job_uuid E i))" using that by auto
    with IH e j show ?thesis by simp
  qed
  ultimately show ?case by blast
qed simp

lemma batch_status_run:
  assumes "redis_laws R view" "redis_up R view" "view r (batch_key b) = Some (RJson (batch_info b ids t n))"
    "\<forall>j \<in> set ids. view r (status_key j) = None \<or> view r (status_key j) = Some (hist_payload (t0 j) (ws j))"
  shows "\<exists>st s'. get_batch_status R b (r, q) = (Inr (Some st), s')
    \<and> map jsr_job_id (bs_jobs st) = ids \<and> bs_total st = length ids
    \<and> bs_completed st = length (filter (job_done view ws r) ids)
    \<and> 0 \<le> bs_progress st \<and> bs_progress st \<le> 1
    \<and> (ids \<noteq> [] \<longrightarrow> (bs_progress st = 1 \<longleftrightarrow> (\<forall>j \<in> set ids. job_done view ws r j)))"
proof -
  obtain r1 where info: "get_batch_info R b r = (Some (Some (batch_info b ids t n)), r1)" "view r1 = view r"
    using get_batch_info_refines [OF assms(1-3)] by blast
  have "\<forall>j. \<exists>x. j \<in> set ids \<longrightarrow> read_job_state j (view r) = Inr x \<and> jsr_job_id x = j \<and> is_terminal x = job_done view ws r j"
    using assms(4) read_job_state_hist [of view r _ _ ws] by blast
  then obtain f where f: "\<forall>j \<in> set ids. read_job_state j (view r) = Inr (f j) \<and> jsr_job_id (f j) = j
      \<and> is_terminal (f j) = job_done view ws r j" by metis
  then have "\<forall>j \<in> set ids. read_job_state j (view r) = Inr (f j)" by blast
  from job_states_refines [OF assms(1,2) this info(2), of q] obtain r2 where
    states: "job_states R ids (r1, q) = (Inr (map f ids), (r2, q))" by blast
  let ?done = "length (filter (job_done view ws r) ids)"
  have cnt: "length (filter is_terminal (map f ids)) = ?done"
  proof -
    have "filter (is_terminal \<circ> f) ids = filter (job_done view ws r) ids"
      using f by (intro filter_cong) auto
    then show ?thesis by (simp add: filter_map)
  qed
  have ids: "map jsr_job_id (map f ids) = ids" using f by (simp add: map_idI)
  have le: "?done \<le> length ids" by simp
  have all: "?done = length ids \<longleftrightarrow> (\<forall>j \<in> set ids. job_done view ws r j)"
    by (metis filter_True filter_id_conv le length_filter_less nless_le)
  let ?st = "\<lparr>bs_batch_id = b, bs_total = length ids, bs_completed = ?done,
    bs_progress = (if 0 < length ids then real ?done / real (length ids) else 0), bs_jobs = map f ids\<rparr>"
  have truth: "json_truth (batch_info b ids t n)" by (simp add: batch_info_def)
  have "get_batch_status R b (r, q) = (Inr (Some ?st), (r2, q))"
    using info(1) states truth cnt
    by (simp add: get_batch_status_def sbind_def on_redis_def of_sum_def sret_def Let_def)
  moreover have "0 \<le> bs_progress ?st" "bs_progress ?st \<le> 1" using le by (auto simp: divide_le_eq)
  moreover have "ids \<noteq> [] \<longrightarrow> (bs_progress ?st = 1 \<longleftrightarrow> (\<forall>j \<in> set ids. job_done view ws r j))"
    using all by (auto simp: divide_eq_eq)
  ultimately show ?thesis using ids by (intro exI [of _ ?st] exI [of _ "(r2, q)"]) auto
qed

section \<open>Concrete instances\<close>

definition ex_batch_env :: "(keyspace, task_args list) batch_env" where
  "ex_batch_env = \<lparr>be_redis = fun_redis, be_arq = list_arq, be_rd = (\<lambda>d. d), be_ttl = 60, be_result_ttl = 60,
     be_job_uuid = (\<lambda>n. of_nat n), be_batch_uuid = 99, be_now = (\<lambda>_. 5), be_time = 5\<rparr>"

definition ex_batch_ks :: keyspace where
  "ex_batch_ks = (\<lambda>_. None)(batch_key ''b'' \<mapsto> RJson (batch_info ''b'' [''x'', ''y'', ''z''] 1 3),
     status_key ''x'' \<mapsto> hist_payload 3 [WStatus COMPLETED None 5], status_key ''y'' \<mapsto> hist_payload 3 [])"

section \<open>Properties\<close>

text \<open>
  C34. Batch progress is right: for a stored batch whose jobs have histories or are gone, the status
  lists the jobs in order, counts as completed exactly the jobs that are completed, failed or gone,
  and reports their share, which lies between 0 and 1 and is 1 exactly when every job is done.
\<close>

theorem batch_progress:
  assumes "redis_laws R view" "redis_up R view" "view r (batch_key b) = Some (RJson (batch_info b ids t n))"
    "\<forall>j \<in> set ids. view r (status_key j) = None \<or> view r (status_key j) = Some (hist_payload (t0 j) (ws j))"
  shows "\<exists>st s'. get_batch_status R b (r, q) = (Inr (Some st), s')
    \<and> map jsr_job_id (bs_jobs st) = ids \<and> bs_total st = length ids
    \<and> bs_completed st = length (filter (job_done view ws r) ids)
    \<and> 0 \<le> bs_progress st \<and> bs_progress st \<le> 1
    \<and> (ids \<noteq> [] \<longrightarrow> (bs_progress st = 1 \<longleftrightarrow> (\<forall>j \<in> set ids. job_done view ws r j)))"
  by (rule batch_status_run [OF assms])

theorem batch_progress_witness:
  "\<exists>st s'. get_batch_status fun_redis ''b'' (ex_batch_ks, ()) = (Inr (Some st), s') \<and> bs_completed st = 2 \<and> bs_total st = 3"
proof -
  let ?ws = "\<lambda>j. if j = ''x'' then [WStatus COMPLETED None 5] else []"
  have "batch_key ''b'' \<noteq> status_key j" "status_key ''x'' \<noteq> status_key ''y''" for j by simp_all
  then have ks: "ex_batch_ks (batch_key ''b'') = Some (RJson (batch_info ''b'' [''x'', ''y'', ''z''] 1 3))"
    "ex_batch_ks (status_key ''x'') = Some (hist_payload 3 [WStatus COMPLETED None 5])"
    "ex_batch_ks (status_key ''y'') = Some (hist_payload 3 [])" "ex_batch_ks (status_key ''z'') = None"
    by (simp_all add: ex_batch_ks_def)
  from batch_progress [OF fun_redis_laws fun_redis_up, of ex_batch_ks "''b''" "[''x'', ''y'', ''z'']" 1 3 "\<lambda>_. 3" ?ws "()"] ks
  show ?thesis by (auto simp: job_done_def hist_status_def)
qed

text \<open>
  C35. Creating a batch enqueues one task per URL: a creation that succeeds appends tasks for the URLs
  in their order, returns their identifiers, and an immediate status query finds all of them
  pending.
\<close>

theorem batch_created:
  assumes "redis_laws (be_redis E) view" "redis_up (be_redis E) view" "arq_laws (be_arq E) tasks"
    "inj_on (be_job_uuid E) {..<length urls}" "create_batch E urls mode api_key cb options s0 = (Inr resp, s1)"
  shows "(\<exists>new. tasks (snd s1) = tasks (snd s0) @ new \<and> map ta_url new = urls \<and> map ta_job_id new = br_job_ids resp)
    \<and> br_total_count resp = length urls \<and> distinct (br_job_ids resp)
    \<and> (\<exists>st s2. get_batch_status (be_redis E) (br_batch_id resp) s1 = (Inr (Some st), s2)
        \<and> map jsr_job_id (bs_jobs st) = br_job_ids resp \<and> bs_completed st = 0)"
proof -
  let ?b = "uuid_str (be_batch_uuid E)"
  from assms(5) obtain jids sa where enq: "enqueue_urls E api_key mode cb options 0 urls s0 = (Inr jids, sa)"
    and save: "r_set (be_redis E) (batch_key ?b) (RJson (batch_info ?b jids (be_time E) (length urls)))
        (Some (be_result_ttl E)) (fst sa) = (Some (), fst s1)" "snd s1 = snd sa"
    and resp: "resp = \<lparr>br_batch_id = ?b, br_job_ids = jids, br_total_count = length urls\<rparr>"
    by (auto simp: create_batch_def Let_def sbind_Inr_iff on_redis_Inr_iff save_batch_info_def)
  have ids: "inj_on (be_job_uuid E) {0..<0 + length urls}" using assms(4) by (simp add: atLeast0LessThan)
  note e = enqueue_urls_run [OF assms(1,3) ids enq]
  have v: "view (fst s1) = (view (fst sa))(batch_key ?b \<mapsto> RJson (batch_info ?b jids (be_time E) (length urls)))"
    using r_setD [OF assms(1) save(1)] .
  define started where "started j = be_now E (inv_into {..<length urls} (\<lambda>n. uuid_str (be_job_uuid E n)) j)" for j
  have inj: "inj_on (\<lambda>n. uuid_str (be_job_uuid E n)) {..<length urls}"
    using assms(4) by (auto simp: inj_on_def)
  have pend: "view (fst s1) (status_key j) = Some (hist_payload (started j) [])" if j: "j \<in> set jids" for j
  proof -
    from j e obtain n where n: "n < length urls" "j = uuid_str (be_job_uuid E n)" by auto
    then have "started j = be_now E n" using inv_into_f_f [OF inj, of n] by (simp add: started_def)
    with e n v show ?thesis by simp
  qed
  have "view (fst s1) (batch_key ?b) = Some (RJson (batch_info ?b jids (be_time E) (length urls)))" by (simp add: v)
  from batch_status_run [OF assms(1,2) this, of started "\<lambda>_. []" "snd s1"] pend
  obtain st s2 where st: "get_batch_status (be_redis E) ?b (fst s1, snd s1) = (Inr (Some st), s2)"
    "map jsr_job_id (bs_jobs st) = jids" "bs_completed st = length (filter (job_done view (\<lambda>_. []) (fst s1)) jids)" by blast
  have "\<not> job_done view (\<lambda>_. []) (fst s1) j" if "j \<in> set jids" for j
    using pend [OF that] by (simp add: job_done_def hist_status_def)
  then have "bs_completed st = 0" using st(3) by simp
  moreover have "distinct jids" using e inj by (auto simp: distinct_map inj_on_def)
  moreover have "\<exists>new. tasks (snd s1) = tasks (snd s0) @ new \<and> map ta_url new = urls \<and> map ta_job_id new = jids"
    using e save(2) by metis
  ultimately show ?thesis using st(1,2) resp by (auto simp del: split_paired_Ex)
qed

theorem batch_created_witness:
  "\<exists>st s2. get_batch_status fun_redis (uuid_str 99)
      (snd (create_batch ex_batch_env [''https://a.com/'', ''https://b.com/''] ''static'' ex_caller None [] ((\<lambda>_. None), [])))
      = (Inr (Some st), s2) \<and> bs_completed st = 0"
proof -
  let ?r = "create_batch ex_batch_env [''https://a.com/'', ''https://b.com/''] ''static'' ex_caller None [] ((\<lambda>_. None), [])"
  have "case fst ?r of Inr x \<Rightarrow> br_batch_id x = uuid_str 99 | Inl _ \<Rightarrow> False" by code_simp
  then obtain resp where resp: "fst ?r = Inr resp" "br_batch_id resp = uuid_str 99" by (auto split: sum.splits)
  then have run: "?r = (Inr resp, snd ?r)" by (metis prod.collapse)
  have env: "redis_laws (be_redis ex_batch_env) id" "redis_up (be_redis ex_batch_env) id" "arq_laws (be_arq ex_batch_env) id"
    "be_redis ex_batch_env = fun_redis" by (simp_all add: ex_batch_env_def)
  have inj: "inj_on (be_job_uuid ex_batch_env) {..<length [''https://a.com/'', ''https://b.com/'']}"
    by (auto simp: ex_batch_env_def inj_on_def lessThan_nat_numeral lessThan_Suc)
  from batch_created [OF env(1-3) inj run] resp(2) env(4) show ?thesis by auto
qed

end
