(* ===== verification/Callback.thy ===== *)
theory Callback
  imports Ssrf_Guard Fetch_Task
begin

text \<open>
  \<^verbatim>\<open>app/services/callback.py\<close>: delivery of the callback that a task schedules. HMAC-SHA256, the
  serialisation of the payload and the HTTP client are parameters; a delivery is the list of its
  actions on the outside and how it ended.
\<close>

definition HMAC_HEADER :: string where "HMAC_HEADER = ''X-Crawler-Signature''"

definition HMAC_ALGO :: string where "HMAC_ALGO = ''sha256''"

definition sign_payload :: "(string \<Rightarrow> bytes \<Rightarrow> string) \<Rightarrow> bytes \<Rightarrow> string \<Rightarrow> string" where
  "sign_payload hmac payload_bytes secret = HMAC_ALGO @ ''='' @ hmac secret payload_bytes"

datatype cb_action =
    Post string bytes headers
  | Sleep int

datatype cb_end = CbDropped | CbDelivered | CbExhausted

text \<open>What the client answers to a post: the status code, or \<^const>\<open>None\<close> when it raises.\<close>

type_synonym 'w http_post = "string \<Rightarrow> bytes \<Rightarrow> headers \<Rightarrow> 'w \<Rightarrow> int option \<times> 'w"

definition callback_headers :: "string \<Rightarrow> string \<Rightarrow> headers" where
  "callback_headers signature job_id =
     [(''Content-Type'', ''application/json''), (HMAC_HEADER, signature), (''X-Crawler-Job-Id'', job_id)]"

definition is_2xx :: "int option \<Rightarrow> bool" where
  "is_2xx code = (case code of Some c \<Rightarrow> 200 \<le> c \<and> c < 300 | None \<Rightarrow> False)"

text \<open>The retry loop from attempt number \<open>att\<close>, with \<open>n\<close> attempts left.\<close>

fun deliver_loop ::
  "'w http_post \<Rightarrow> string \<Rightarrow> bytes \<Rightarrow> headers \<Rightarrow> nat \<Rightarrow> nat \<Rightarrow> 'w \<Rightarrow> cb_end \<times> cb_action list \<times> 'w" where
  "deliver_loop post url content hs att 0 w = (CbExhausted, [], w)"
| "deliver_loop post url content hs att (Suc n) w =
     (let (code, w') = post url content hs w
      in if is_2xx code then (CbDelivered, [Post url content hs], w')
         else (let (e, acts, w'') = deliver_loop post url content hs (Suc att) n w'
               in (e, Post url content hs # (if 0 < n then [Sleep (2 ^ att)] else []) @ acts, w'')))"

text \<open>Only the guard's own error is caught; a ValueError of the URL parser passes.\<close>

definition deliver_callback ::
  "resolver \<Rightarrow> (string \<Rightarrow> bytes \<Rightarrow> string) \<Rightarrow> (callback \<Rightarrow> bytes) \<Rightarrow> 'w http_post \<Rightarrow> string \<Rightarrow> nat \<Rightarrow> callback \<Rightarrow> 'w
   \<Rightarrow> (guard_error + cb_end \<times> cb_action list) \<times> 'w" where
  "deliver_callback resolve hmac dump post secret max_retries payload w =
     (case validate_url_async resolve (cb_url payload) of
        Inl (URLGuardError _) \<Rightarrow> (Inr (CbDropped, []), w)
      | Inl GuardValueError \<Rightarrow> (Inl GuardValueError, w)
      | Inr _ \<Rightarrow>
          (let payload_bytes = dump payload;
               signature = sign_payload hmac payload_bytes secret;
               (e, acts, w') = deliver_loop post (cb_url payload) payload_bytes
                 (callback_headers signature (cb_job_id payload)) 0 max_retries w
           in (Inr (e, acts), w')))"

section \<open>Facts\<close>

definition posts :: "cb_action list \<Rightarrow> cb_action list" where
  "posts acts = filter (\<lambda>a. case a of Post _ _ _ \<Rightarrow> True | Sleep _ \<Rightarrow> False) acts"

definition sleeps :: "cb_action list \<Rightarrow> int list" where
  "sleeps acts = List.map_filter (\<lambda>a. case a of Post _ _ _ \<Rightarrow> None | Sleep t \<Rightarrow> Some t) acts"

lemma posts_simps [simp]:
  "posts [] = []" "posts (Post u c h # as) = Post u c h # posts as" "posts (Sleep t # as) = posts as"
  "sleeps [] = []" "sleeps (Post u c h # as) = sleeps as" "sleeps (Sleep t # as) = t # sleeps as"
  by (simp_all add: posts_def sleeps_def map_filter_simps)

text \<open>The answers of the client to \<open>k\<close> identical posts in a row.\<close>

fun answers :: "'w http_post \<Rightarrow> string \<Rightarrow> bytes \<Rightarrow> headers \<Rightarrow> nat \<Rightarrow> 'w \<Rightarrow> int option list \<times> 'w" where
  "answers post url content hs 0 w = ([], w)"
| "answers post url content hs (Suc k) w =
     (let (code, w') = post url content hs w; (codes, w'') = answers post url content hs k w'
      in (code # codes, w''))"

lemma deliver_loop_spec:
  assumes "deliver_loop post url content hs att (Suc n) w = (e, acts, w')"
  shows "\<exists>k codes. k \<le> n \<and> answers post url content hs (Suc k) w = (codes, w') \<and> list_all (\<lambda>c. \<not> is_2xx c) (butlast codes)
    \<and> (case e of CbDelivered \<Rightarrow> is_2xx (last codes) | CbExhausted \<Rightarrow> k = n \<and> \<not> is_2xx (last codes) | CbDropped \<Rightarrow> False)
    \<and> posts acts = replicate (Suc k) (Post url content hs) \<and> sleeps acts = map (\<lambda>i. 2 ^ (att + i)) [0..<k]"
  using assms
proof (induction n arbitrary: att w e acts w')
  case 0
  obtain code w1 where p: "post url content hs w = (code, w1)" by fastforce
  with 0 show ?case by (intro exI [of _ 0] exI [of _ "[code]"]) (auto split: if_splits)
next
  case (Suc n)
  obtain code w1 where p: "post url content hs w = (code, w1)" by fastforce
  show ?case
  proof (cases "is_2xx code")
    case True
    with Suc.prems p show ?thesis by (intro exI [of _ 0] exI [of _ "[code]"]) auto
  next
    case False
    obtain e2 acts2 w2 where rec: "deliver_loop post url content hs (Suc att) (Suc n) w1 = (e2, acts2, w2)"
      by (metis prod_cases3)
    with Suc.prems p False have res: "e = e2" "w' = w2" "acts = Post url content hs # Sleep (2 ^ att) # acts2"
      by (auto simp: Let_def simp del: deliver_loop.simps(2) simp: deliver_loop.simps(2) [of post url content hs att "Suc n"])
    from Suc.IH [OF rec] obtain k codes where IH: "k \<le> n" "answers post url content hs (Suc k) w1 = (codes, w2)"
        "list_all (\<lambda>c. \<not> is_2xx c) (butlast codes)"
        "case e2 of CbDelivered \<Rightarrow> is_2xx (last codes) | CbExhausted \<Rightarrow> k = n \<and> \<not> is_2xx (last codes) | CbDropped \<Rightarrow> False"
        "posts acts2 = replicate (Suc k) (Post url content hs)" "sleeps acts2 = map (\<lambda>i. 2 ^ (Suc att + i)) [0..<k]"
      by blast
    have ne: "codes \<noteq> []" using IH(2) by (auto split: prod.splits)
    have "sleeps acts = map (\<lambda>i. 2 ^ (att + i)) (0 # map Suc [0..<k])" using res IH(6) by simp
    also have "\<dots> = map (\<lambda>i. 2 ^ (att + i)) [0..<Suc k]" by (simp only: map_Suc_upt upt_conv_Cons zero_less_Suc)
    finally have sl: "sleeps acts = map (\<lambda>i. 2 ^ (att + i)) [0..<Suc k]" .
    have an: "answers post url content hs (Suc (Suc k)) w = (code # codes, w')"
      using p IH(2) res by (simp only: answers.simps(2) [of _ _ _ _ "Suc k"] Let_def prod.case)
    show ?thesis
      by (intro exI [of _ "Suc k"] exI [of _ "code # codes"] conjI an sl)
        (use IH res ne False in \<open>auto split: cb_end.splits\<close>)
  qed
qed

section \<open>Properties\<close>

text \<open>
  C36. Callbacks go only where the guard allows, and a bounded number of times: nothing is sent unless
  the guard accepted the URL; otherwise one to three identical signed posts are made, with pauses of
  1 and 2 seconds between them. The delivery stops at the first post that is answered with a 2xx code
  (every answer before the last is something else), and it gives up only after three posts of which
  none was. A URL that the URL parser itself rejects makes the delivery raise.
\<close>

theorem callback_delivery:
  "case deliver_callback resolve hmac dump post secret 3 payload w of
     (Inl e, w') \<Rightarrow> e = GuardValueError \<and> w' = w \<and> validate_url_async resolve (cb_url payload) = Inl GuardValueError
   | (Inr (CbDropped, acts), w') \<Rightarrow> acts = [] \<and> w' = w \<and> (\<exists>m. validate_url_async resolve (cb_url payload) = Inl (URLGuardError m))
   | (Inr (e, acts), w') \<Rightarrow>
       validate_url_async resolve (cb_url payload) = Inr ()
       \<and> (let hs = callback_headers (sign_payload hmac (dump payload) secret) (cb_job_id payload) in
          \<exists>k codes. 1 \<le> k \<and> k \<le> 3 \<and> answers post (cb_url payload) (dump payload) hs k w = (codes, w')
           \<and> list_all (\<lambda>c. \<not> is_2xx c) (butlast codes)
           \<and> (if e = CbDelivered then is_2xx (last codes) else k = 3 \<and> \<not> is_2xx (last codes))
           \<and> sleeps acts = take (k - 1) [1, 2] \<and> posts acts = replicate k (Post (cb_url payload) (dump payload) hs))"
proof (cases "validate_url_async resolve (cb_url payload)")
  case (Inl g)
  then show ?thesis by (cases g) (simp_all add: deliver_callback_def)
next
  case (Inr u)
  let ?hs = "callback_headers (sign_payload hmac (dump payload) secret) (cb_job_id payload)"
  obtain e acts w' where loop: "deliver_loop post (cb_url payload) (dump payload) ?hs 0 (Suc 2) w = (e, acts, w')"
    by (metis prod_cases3)
  then have run: "deliver_callback resolve hmac dump post secret 3 payload w = (Inr (e, acts), w')"
    by (simp add: deliver_callback_def Inr numeral_3_eq_3 numeral_2_eq_2 del: deliver_loop.simps)
  from deliver_loop_spec [OF loop] obtain k codes where k: "k \<le> 2"
      "answers post (cb_url payload) (dump payload) ?hs (Suc k) w = (codes, w')" "list_all (\<lambda>c. \<not> is_2xx c) (butlast codes)"
      "case e of CbDelivered \<Rightarrow> is_2xx (last codes) | CbExhausted \<Rightarrow> k = 2 \<and> \<not> is_2xx (last codes) | CbDropped \<Rightarrow> False"
      "posts acts = replicate (Suc k) (Post (cb_url payload) (dump payload) ?hs)" "sleeps acts = map (\<lambda>i. 2 ^ (0 + i)) [0..<k]"
    by blast
  from k(1) have "k = 0 \<or> k = 1 \<or> k = 2" by linarith
  then have sl: "sleeps acts = take (Suc k - 1) [1, 2]" using k(6) by (auto simp: upt_rec)
  show ?thesis unfolding run
    by (cases e) (use k sl Inr in \<open>auto simp: Let_def simp del: answers.simps intro!: exI [of _ "Suc k"]\<close>)
qed

end
