(* ===== verification/Warc.thy ===== *)
theory Warc
  imports Fetch_Task Table
begin

text \<open>
  WARC archival: the writer (\<^verbatim>\<open>app/services/warc/writer.py\<close>), deduplication and the index table
  (\<^verbatim>\<open>app/services/warc/dedup.py\<close>, \<^verbatim>\<open>app/models/warc_index.py\<close>), the storage that ties them to S3
  (\<^verbatim>\<open>app/services/warc/storage.py\<close>), the reader (\<^verbatim>\<open>app/services/archive_reader.py\<close>) and the archive
  endpoints (\<^verbatim>\<open>app/api/v1/endpoints/archive.py\<close>).

  SHA-256, the warcio library and the S3 client are parameters.
\<close>

section \<open>The libraries\<close>

text \<open>What the writer hands to the record builder of warcio: the target, then the HTTP or revisit fields.\<close>

datatype warc_input =
    ResponseInput string string headers bytes headers
  | RevisitInput string string string string headers

text \<open>A record that the archive iterator yields; reading its content may raise (\<^const>\<open>None\<close>).\<close>

record warc_item =
  it_rec_type :: string
  it_http_headers :: "headers option"
  it_content :: "bytes option"

text \<open>
  \<open>wi_write\<close> gives the bytes that \<^verbatim>\<open>write_record\<close> appends to the buffer and whether it returned;
  \<open>wi_iterate\<close> the records that the iterator yields and whether it raises after them.
\<close>

record warcio =
  wi_write :: "warc_input \<Rightarrow> bytes \<times> bool"
  wi_iterate :: "bytes \<Rightarrow> warc_item list \<times> bool"

text \<open>The S3 client: upload (whether it returned) and download (an error text, or the bytes).\<close>

record 'w s3 =
  s3_put_object :: "string \<Rightarrow> string \<Rightarrow> bytes \<Rightarrow> 'w \<Rightarrow> bool \<times> 'w"
  s3_get_object :: "string \<Rightarrow> string \<Rightarrow> 'w \<Rightarrow> (string + bytes) \<times> 'w"
  s3_create_bucket :: "string \<Rightarrow> 'w \<Rightarrow> bool \<times> 'w"

section \<open>The writer\<close>

record WarcRecord =
  wr_warc_type :: string
  wr_target_uri :: string
  wr_date :: datetime
  wr_content_type :: string
  wr_payload :: bytes
  wr_headers :: headers
  wr_record_id :: string
  wr_refers_to :: "string option"
  wr_sha256 :: string
  wr_offset :: nat
  wr_length :: nat

record WarcWriter =
  ww_buf :: bytes
  ww_created_at :: datetime
  ww_filename :: string
  ww_max_size_bytes :: int
  ww_max_age_s :: int
  ww_records :: "WarcRecord list"

definition new_writer :: "datetime \<Rightarrow> string \<Rightarrow> int \<Rightarrow> int \<Rightarrow> WarcWriter" where
  "new_writer now filename max_size_bytes max_age_s =
     \<lparr>ww_buf = [], ww_created_at = now, ww_filename = filename, ww_max_size_bytes = max_size_bytes,
      ww_max_age_s = max_age_s, ww_records = []\<rparr>"

text \<open>
  The common end of both write methods: append to the buffer, measure, remember the record. A
  \<^verbatim>\<open>write_record\<close> that raises may leave bytes in the buffer.
\<close>

definition append_record ::
  "warcio \<Rightarrow> warc_input \<Rightarrow> (nat \<Rightarrow> nat \<Rightarrow> WarcRecord) \<Rightarrow> WarcWriter \<Rightarrow> WarcRecord option \<times> WarcWriter" where
  "append_record W inp mk w =
     (let offset = length (ww_buf w);
          (data, returned) = wi_write W inp;
          w' = w\<lparr>ww_buf := ww_buf w @ data\<rparr>;
          len = length (ww_buf w') - offset;
          rec = mk offset len
      in if returned then (Some rec, w'\<lparr>ww_records := ww_records w @ [rec]\<rparr>) else (None, w'))"

definition record_id_of :: "string \<Rightarrow> string" where
  "record_id_of token = ''<urn:uuid:'' @ token @ ''>''"

definition date_or :: "datetime option \<Rightarrow> datetime \<Rightarrow> datetime" where
  "date_or date now = (case date of Some d \<Rightarrow> d | None \<Rightarrow> now)"

definition write_response ::
  "warcio \<Rightarrow> (bytes \<Rightarrow> string) \<Rightarrow> datetime \<Rightarrow> string \<Rightarrow> string \<Rightarrow> int \<Rightarrow> headers \<Rightarrow> bytes \<Rightarrow> string \<Rightarrow> datetime option
   \<Rightarrow> WarcWriter \<Rightarrow> WarcRecord option \<times> WarcWriter" where
  "write_response W sha256 now token url code http_headers body content_type date =
     (let t = date_or date now;
          record_id = record_id_of token;
          sha256_digest = sha256 body;
          status_line = int_str code @ '' OK''
      in append_record W
           (ResponseInput url status_line http_headers body
              [(''WARC-Record-ID'', record_id), (''Content-Type'', content_type),
               (''WARC-Block-Digest'', ''sha256:'' @ sha256_digest)])
           (\<lambda>offset len. \<lparr>wr_warc_type = ''response'', wr_target_uri = url, wr_date = t,
              wr_content_type = content_type, wr_payload = body, wr_headers = http_headers,
              wr_record_id = record_id, wr_refers_to = None, wr_sha256 = sha256_digest,
              wr_offset = offset, wr_length = len\<rparr>))"

definition write_revisit ::
  "warcio \<Rightarrow> datetime \<Rightarrow> string \<Rightarrow> string \<Rightarrow> string \<Rightarrow> string \<Rightarrow> datetime option
   \<Rightarrow> WarcWriter \<Rightarrow> WarcRecord option \<times> WarcWriter" where
  "write_revisit W now token url original_record_id original_sha256 date =
     (let t = date_or date now;
          record_id = record_id_of token
      in append_record W
           (RevisitInput url (''sha256:'' @ original_sha256) original_record_id (isoformat t)
              [(''WARC-Record-ID'', record_id), (''WARC-Refers-To'', original_record_id),
               (''WARC-Profile'', ''http://netpreserve.org/warc/1.1/revisit/identical-payload-digest''),
               (''WARC-Block-Digest'', ''sha256:'' @ original_sha256)])
           (\<lambda>offset len. \<lparr>wr_warc_type = ''revisit'', wr_target_uri = url, wr_date = t,
              wr_content_type = ''application/warc-fields'', wr_payload = [], wr_headers = [],
              wr_record_id = record_id, wr_refers_to = Some original_record_id, wr_sha256 = original_sha256,
              wr_offset = offset, wr_length = len\<rparr>))"

definition needs_rotation :: "bool \<Rightarrow> datetime \<Rightarrow> WarcWriter \<Rightarrow> bool" where
  "needs_rotation force_rotate_each_write now w \<longleftrightarrow>
     force_rotate_each_write \<and> 0 < length (ww_buf w)
     \<or> ww_max_size_bytes w \<le> int (length (ww_buf w)) \<or> timedelta_s (ww_max_age_s w) \<le> now - ww_created_at w"

section \<open>Deduplication and the index\<close>

record WarcIndex =
  wx_id :: uuid
  wx_request_log_id :: "uuid option"
  wx_url :: string
  wx_warc_filename :: string
  wx_offset :: nat
  wx_length :: nat
  wx_sha256 :: string
  wx_is_revisit :: bool
  wx_content_type :: "string option"
  wx_status_code :: "int option"
  wx_captured_at :: datetime

definition scalar_one_or_none :: "'a list \<Rightarrow> 'a option" where
  "scalar_one_or_none xs = (case xs of [] \<Rightarrow> None | x # _ \<Rightarrow> Some x)"

text \<open>A query that raises counts as no duplicate.\<close>

definition check_duplicate :: "bool \<Rightarrow> string \<Rightarrow> string \<Rightarrow> WarcIndex list \<Rightarrow> WarcIndex option" where
  "check_duplicate db_ok url sha256 tbl =
     (if db_ok
      then scalar_one_or_none (sort_key (\<lambda>r. - wx_captured_at r)
             (filter (\<lambda>r. wx_sha256 r = sha256 \<and> wx_url r = url) tbl))
      else None)"

definition index_row ::
  "uuid \<Rightarrow> WarcRecord \<Rightarrow> string \<Rightarrow> uuid option \<Rightarrow> int \<Rightarrow> string option \<Rightarrow> WarcIndex" where
  "index_row row_id warc_record warc_filename request_log_id code content_type =
     \<lparr>wx_id = row_id, wx_request_log_id = request_log_id, wx_url = wr_target_uri warc_record,
      wx_warc_filename = warc_filename, wx_offset = wr_offset warc_record, wx_length = wr_length warc_record,
      wx_sha256 = wr_sha256 warc_record, wx_is_revisit = (wr_warc_type warc_record = ''revisit''),
      wx_content_type = content_type, wx_status_code = Some code, wx_captured_at = wr_date warc_record\<rparr>"

definition index_record ::
  "bool \<Rightarrow> uuid \<Rightarrow> WarcRecord \<Rightarrow> string \<Rightarrow> uuid option \<Rightarrow> int \<Rightarrow> string option \<Rightarrow> (WarcIndex list, exn, WarcIndex) eff" where
  "index_record db_ok row_id warc_record warc_filename request_log_id code content_type tbl =
     (let row = index_row row_id warc_record warc_filename request_log_id code content_type
      in if db_ok then (Inr row, insert_row row tbl) else (Inl (OtherError ''database''), tbl))"

section \<open>Storage\<close>

record 'w warc_env =
  we_warcio :: warcio
  we_sha256 :: "bytes \<Rightarrow> string"
  we_s3 :: "'w s3"
  we_bucket :: string
  we_s3_access_key :: string
  we_force_rotate :: bool
  we_max_size_bytes :: int
  we_max_age_s :: int
  we_prefix :: string

record 'w storage =
  st_writer :: WarcWriter
  st_s3 :: 'w
  st_index :: "WarcIndex list"

text \<open>What one call draws from outside: the clock, the random tokens, the new row's key and the database's answers.\<close>

record draws =
  dr_now :: "nat \<Rightarrow> datetime"
  dr_token :: string
  dr_suffix :: string
  dr_row_id :: uuid
  dr_select_ok :: bool
  dr_commit_ok :: bool

definition new_filename :: "string \<Rightarrow> datetime \<Rightarrow> datetime \<Rightarrow> string \<Rightarrow> string" where
  "new_filename prefix t1 t2 suffix =
     (let (y1, m1, d1) = date_of t1; s = t1 mod day_us div 1000000; (y2, m2, d2) = date_of t2
      in prefix @ ''/'' @ dec_fixed 4 y2 @ ''/'' @ dec_fixed 2 m2 @ ''/'' @ dec_fixed 2 d2 @ ''/crawl-''
         @ dec_fixed 4 y1 @ dec_fixed 2 m1 @ dec_fixed 2 d1 @ ''T''
         @ dec_fixed 2 (s div 3600) @ dec_fixed 2 (s div 60 mod 60) @ dec_fixed 2 (s mod 60)
         @ ''-'' @ suffix @ ''Z.warc.gz'')"

definition next_filename :: "'w warc_env \<Rightarrow> draws \<Rightarrow> string" where
  "next_filename env dr = new_filename (we_prefix env) (dr_now dr 2) (dr_now dr 3) (dr_suffix dr)"

text \<open>A failed upload is logged and its data discarded.\<close>

definition rotate :: "'w warc_env \<Rightarrow> draws \<Rightarrow> 'w storage \<Rightarrow> 'w storage" where
  "rotate env dr s =
     (let w = st_writer s; data = ww_buf w;
          s3' = (if we_s3_access_key env \<noteq> []
                 then snd (s3_put_object (we_s3 env) (we_bucket env) (ww_filename w) data (st_s3 s))
                 else st_s3 s)
      in s\<lparr>st_writer := new_writer (dr_now dr 4) (next_filename env dr) (we_max_size_bytes env) (we_max_age_s env),
           st_s3 := s3'\<rparr>)"

definition shutdown_flush :: "'w warc_env \<Rightarrow> draws \<Rightarrow> 'w storage \<Rightarrow> 'w storage" where
  "shutdown_flush = rotate"

definition archive ::
  "'w warc_env \<Rightarrow> draws \<Rightarrow> FetchResult \<Rightarrow> uuid option \<Rightarrow> bytes option \<Rightarrow> ('w storage, exn, WarcIndex) eff" where
  "archive env dr res request_log_id warc_body s =
     (let body = (case warc_body of Some b \<Rightarrow> b | None \<Rightarrow> fr_body res);
          sha256_digest = we_sha256 env body;
          content_type = (case dict_get (fr_headers res) ''content-type'' of
                            Some c \<Rightarrow> c | None \<Rightarrow> ''application/octet-stream'');
          (written, writer) =
            (case check_duplicate (dr_select_ok dr) (fr_url res) sha256_digest (st_index s) of
               Some existing \<Rightarrow>
                 write_revisit (we_warcio env) (dr_now dr 0) (dr_token dr) (fr_url res)
                   (wx_warc_filename existing) (wx_sha256 existing) None (st_writer s)
             | None \<Rightarrow>
                 write_response (we_warcio env) (we_sha256 env) (dr_now dr 0) (dr_token dr) (fr_url res)
                   (fr_status_code res) (fr_headers res) body content_type None (st_writer s))
      in case written of
           None \<Rightarrow> (Inl (OtherError ''warcio''), s\<lparr>st_writer := writer\<rparr>)
         | Some warc_record \<Rightarrow>
             (let warc_filename = ww_filename writer;
                  s1 = s\<lparr>st_writer := writer\<rparr>;
                  s2 = (if needs_rotation (we_force_rotate env) (dr_now dr 1) writer then rotate env dr s1 else s1);
                  (r, idx) = index_record (dr_commit_ok dr) (dr_row_id dr) warc_record warc_filename request_log_id
                               (fr_status_code res) (Some content_type) (st_index s2)
              in (r, s2\<lparr>st_index := idx\<rparr>)))"

text \<open>The factory: up to five attempts to create the bucket, one second apart; it goes on without one.\<close>

fun ensure_bucket :: "'w s3 \<Rightarrow> string \<Rightarrow> nat \<Rightarrow> 'w \<Rightarrow> int list \<times> 'w" where
  "ensure_bucket S bucket 0 w = ([], w)"
| "ensure_bucket S bucket (Suc n) w =
     (let (ok, w') = s3_create_bucket S bucket w
      in if ok then ([], w')
         else (let (sleeps, w'') = ensure_bucket S bucket n w' in ((if 0 < n then [1] else []) @ sleeps, w'')))"

definition create_warc_storage :: "'w warc_env \<Rightarrow> draws \<Rightarrow> WarcIndex list \<Rightarrow> 'w \<Rightarrow> 'w storage" where
  "create_warc_storage env dr idx w =
     \<lparr>st_writer = new_writer (dr_now dr 4) (next_filename env dr) (we_max_size_bytes env) (we_max_age_s env),
      st_s3 = snd (ensure_bucket (we_s3 env) (we_bucket env) 5 w), st_index = idx\<rparr>"

section \<open>Reading\<close>

definition read_full_warc :: "'w s3 \<Rightarrow> string \<Rightarrow> string \<Rightarrow> 'w \<Rightarrow> (string + bytes) \<times> 'w" where
  "read_full_warc S bucket warc_filename w =
     (case s3_get_object S bucket warc_filename w of
        (Inr data, w') \<Rightarrow> (Inr data, w')
      | (Inl msg, w') \<Rightarrow>
          (Inl (if contains ''NoSuchKey'' msg then ''WARC file not found: '' @ warc_filename else ''S3 error: '' @ msg), w'))"

text \<open>Header names of warcio are compared without case.\<close>

definition http_get :: "headers \<Rightarrow> string \<Rightarrow> string option" where
  "http_get hs k = map_of (lower_keys hs) (lower k)"

fun first_body :: "warc_item list \<Rightarrow> bool \<Rightarrow> string + bytes \<times> string option" where
  "first_body [] raised =
     Inl (if raised then ''WARC parse error: '' else ''No response/revisit record found in WARC'')"
| "first_body (rec # recs) raised =
     (if it_rec_type rec = ''response'' then
        (case it_content rec of
           None \<Rightarrow> Inl ''WARC parse error: ''
         | Some payload \<Rightarrow> Inr (payload, case it_http_headers rec of None \<Rightarrow> None | Some hs \<Rightarrow> http_get hs ''Content-Type''))
      else if it_rec_type rec = ''revisit'' then Inr (''[revisit]'', Some ''application/warc-fields'')
      else first_body recs raised)"

text \<open>The offset and the length are accepted and not used.\<close>

definition extract_body ::
  "warcio \<Rightarrow> 'w s3 \<Rightarrow> string \<Rightarrow> string \<Rightarrow> nat \<Rightarrow> nat \<Rightarrow> 'w \<Rightarrow> (string + bytes \<times> string option) \<times> 'w" where
  "extract_body W S bucket warc_filename offset len w =
     (case read_full_warc S bucket warc_filename w of
        (Inl e, w') \<Rightarrow> (Inl e, w')
      | (Inr raw, w') \<Rightarrow> (case wi_iterate W raw of (recs, raised) \<Rightarrow> (first_body recs raised, w')))"

record ArchiveContentResponse =
  ac_url :: string
  ac_status_code :: "int option"
  ac_content_type :: "string option"
  ac_body_b64 :: string
  ac_captured_at :: datetime
  ac_warc_filename :: string
  ac_is_revisit :: bool
  ac_sha256 :: string

text \<open>The row that is read: the entry itself, or the oldest response with its digest for a revisit.\<close>

definition archive_target :: "WarcIndex list \<Rightarrow> WarcIndex \<Rightarrow> api_error + WarcIndex" where
  "archive_target tbl row =
     (if wx_is_revisit row
      then of_option (HTTPException 404 ''Original WARC record not found for revisit entry'')
             (scalar_one_or_none (sort_key wx_captured_at
                (filter (\<lambda>r. wx_sha256 r = wx_sha256 row \<and> \<not> wx_is_revisit r) tbl)))
      else Inr row)"

definition get_archive_by_request ::
  "'w warc_env \<Rightarrow> WarcIndex list \<Rightarrow> uuid \<Rightarrow> 'w \<Rightarrow> (api_error + ArchiveContentResponse) \<times> 'w" where
  "get_archive_by_request env tbl entry_id w =
     (case get_by wx_id entry_id tbl of
        None \<Rightarrow> (Inl (HTTPException 404 ''Archive entry not found''), w)
      | Some row \<Rightarrow>
          (case archive_target tbl row of
             Inl e \<Rightarrow> (Inl e, w)
           | Inr target \<Rightarrow>
               (case extract_body (we_warcio env) (we_s3 env) (we_bucket env) (wx_warc_filename target)
                       (wx_offset target) (wx_length target) w of
                  (Inl msg, w') \<Rightarrow> (Inl (HTTPException 503 msg), w')
                | (Inr (payload, content_type), w') \<Rightarrow>
                    (Inr \<lparr>ac_url = wx_url row, ac_status_code = wx_status_code row, ac_content_type = content_type,
                       ac_body_b64 = b64encode payload, ac_captured_at = wx_captured_at row,
                       ac_warc_filename = wx_warc_filename target, ac_is_revisit = wx_is_revisit row,
                       ac_sha256 = wx_sha256 row\<rparr>, w'))))"

definition list_archives ::
  "string option \<Rightarrow> datetime option \<Rightarrow> datetime option \<Rightarrow> nat \<Rightarrow> nat \<Rightarrow> WarcIndex list \<Rightarrow> WarcIndex list" where
  "list_archives url from_dt to_dt page per_page tbl =
     (let wanted = (\<lambda>r. (case url of None \<Rightarrow> True | Some u \<Rightarrow> wx_url r = u)
                      \<and> (case from_dt of None \<Rightarrow> True | Some t \<Rightarrow> t \<le> wx_captured_at r)
                      \<and> (case to_dt of None \<Rightarrow> True | Some t \<Rightarrow> wx_captured_at r \<le> t))
      in take per_page (drop ((page - 1) * per_page) (sort_key (\<lambda>r. - wx_captured_at r) (filter wanted tbl))))"

end
