(* ===== verification/Warc_Props.thy ===== *)
theory Warc_Props
  imports Warc
begin

text \<open>
  What the archive promises: an index entry locates its record in the uploaded file, a revisit always
  has an original to read, and with one record per file the endpoint returns the archived bytes. With
  several records per file it returns the first one.
\<close>

section \<open>Laws of the libraries\<close>

text \<open>\<open>objs\<close> reads the objects of a world, by bucket and key.\<close>

definition s3_laws :: "'w s3 \<Rightarrow> ('w \<Rightarrow> string \<times> string \<Rightarrow> bytes option) \<Rightarrow> bool" where
  "s3_laws S objs \<longleftrightarrow>
     (\<forall>b k d w w'. s3_put_object S b k d w = (True, w') \<longrightarrow> objs w' = (objs w)((b, k) \<mapsto> d))
     \<and> (\<forall>b k d w w' x. s3_put_object S b k d w = (False, w') \<longrightarrow> x \<noteq> (b, k) \<longrightarrow> objs w' x = objs w x)
     \<and> (\<forall>b k w r w'. s3_get_object S b k w = (r, w') \<longrightarrow> objs w' = objs w \<and> (\<forall>d. r = Inr d \<longrightarrow> objs w (b, k) = Some d))"

text \<open>Every request is answered.\<close>

definition s3_up :: "'w s3 \<Rightarrow> ('w \<Rightarrow> string \<times> string \<Rightarrow> bytes option) \<Rightarrow> bool" where
  "s3_up S objs \<longleftrightarrow> (\<forall>b k d w. fst (s3_put_object S b k d w))
     \<and> (\<forall>b k w d. objs w (b, k) = Some d \<longrightarrow> (\<exists>d' w'. s3_get_object S b k w = (Inr d', w')))"

lemma s3_putD:
  assumes "s3_laws S objs" "s3_up S objs"
  shows "objs (snd (s3_put_object S b k d w)) = (objs w)((b, k) \<mapsto> d)"
proof -
  obtain w' where "s3_put_object S b k d w = (True, w')"
    using assms(2) unfolding s3_up_def by (metis (full_types) eq_fst_iff)
  then show ?thesis using assms(1) unfolding s3_laws_def by simp
qed

lemma s3_getD:
  assumes "s3_laws S objs" "s3_up S objs" "objs w (b, k) = Some d"
  shows "\<exists>w'. s3_get_object S b k w = (Inr d, w')"
proof -
  obtain d' w' where get: "s3_get_object S b k w = (Inr d', w')" using assms(2,3) unfolding s3_up_def by blast
  then have "objs w (b, k) = Some d'" using assms(1) unfolding s3_laws_def by blast
  with get assms(3) show ?thesis by simp
qed

text \<open>Headers under which the content stream of warcio is the payload as it was written.\<close>

definition plain_headers :: "headers \<Rightarrow> bool" where
  "plain_headers hs \<longleftrightarrow> http_get hs ''content-encoding'' = None \<and> http_get hs ''transfer-encoding'' = None"

fun item_for :: "warc_input \<Rightarrow> warc_item \<Rightarrow> bool" where
  "item_for (ResponseInput url status hs body wh) it \<longleftrightarrow>
     it_rec_type it = ''response'' \<and> it_http_headers it = Some hs \<and> (plain_headers hs \<longrightarrow> it_content it = Some body)"
| "item_for (RevisitInput url digest uri date wh) it \<longleftrightarrow> it_rec_type it = ''revisit''"

text \<open>Writing returns and leaves some bytes; iterating over written records gives them back in order.\<close>

definition warcio_laws :: "warcio \<Rightarrow> bool" where
  "warcio_laws W \<longleftrightarrow> (\<forall>inp. snd (wi_write W inp) \<and> fst (wi_write W inp) \<noteq> [])
     \<and> (\<forall>inps. \<exists>items. wi_iterate W (concat (map (\<lambda>inp. fst (wi_write W inp)) inps)) = (items, False)
               \<and> list_all2 item_for inps items)"

section \<open>One call\<close>

text \<open>The row is the index entry of the record written from \<open>inp\<close>.\<close>

fun describes :: "'w warc_env \<Rightarrow> warc_input \<Rightarrow> WarcIndex \<Rightarrow> bool" where
  "describes env (ResponseInput url status hs body wh) r \<longleftrightarrow>
     \<not> wx_is_revisit r \<and> wx_url r = url \<and> wx_sha256 r = we_sha256 env body"
| "describes env (RevisitInput url digest uri date wh) r \<longleftrightarrow>
     wx_is_revisit r \<and> wx_url r = url \<and> digest = ''sha256:'' @ wx_sha256 r"

fun input_headers :: "warc_input \<Rightarrow> headers" where
  "input_headers (ResponseInput url status hs body wh) = hs"
| "input_headers (RevisitInput url digest uri date wh) = []"

lemma scalar_one_SomeD: "scalar_one_or_none xs = Some x \<Longrightarrow> x \<in> set xs"
  by (auto simp: scalar_one_or_none_def split: list.splits)

lemma scalar_one_None_iff [simp]: "scalar_one_or_none xs = None \<longleftrightarrow> xs = []"
  by (simp add: scalar_one_or_none_def split: list.splits)

lemma check_duplicate_SomeD:
  "check_duplicate ok url sha tbl = Some r \<Longrightarrow> r \<in> set tbl \<and> wx_sha256 r = sha \<and> wx_url r = url"
  by (auto simp: check_duplicate_def split: if_splits dest!: scalar_one_SomeD)

lemma index_row_fields:
  "wx_id (index_row i rec f rid c ct) = i" "wx_warc_filename (index_row i rec f rid c ct) = f"
  "wx_offset (index_row i rec f rid c ct) = wr_offset rec" "wx_length (index_row i rec f rid c ct) = wr_length rec"
  "wx_sha256 (index_row i rec f rid c ct) = wr_sha256 rec" "wx_url (index_row i rec f rid c ct) = wr_target_uri rec"
  "wx_is_revisit (index_row i rec f rid c ct) = (wr_warc_type rec = ''revisit'')"
  by (simp_all add: index_row_def)

text \<open>
  A call writes one record; when the write returned, it maybe rotates, and then adds the row that
  describes the record, at its place in the file that was current before the rotation.
\<close>

definition call_result ::
  "'w warc_env \<Rightarrow> draws \<Rightarrow> 'w storage \<Rightarrow> WarcWriter \<Rightarrow> WarcIndex \<Rightarrow> 'w storage" where
  "call_result env dr s w1 row =
     (let s1 = s\<lparr>st_writer := w1\<rparr>;
          s2 = (if needs_rotation (we_force_rotate env) (dr_now dr 1) w1 then rotate env dr s1 else s1)
      in s2\<lparr>st_index := (if dr_commit_ok dr then st_index s @ [row] else st_index s)\<rparr>)"

definition new_row_ok ::
  "'w warc_env \<Rightarrow> draws \<Rightarrow> FetchResult \<Rightarrow> 'w storage \<Rightarrow> warc_input \<Rightarrow> WarcIndex \<Rightarrow> bool" where
  "new_row_ok env dr res s inp row \<longleftrightarrow>
     describes env inp row \<and> wx_id row = dr_row_id dr \<and> wx_warc_filename row = ww_filename (st_writer s)
     \<and> wx_offset row = length (ww_buf (st_writer s)) \<and> wx_length row = length (fst (wi_write (we_warcio env) inp))
     \<and> (wx_is_revisit row \<longrightarrow> (\<exists>r \<in> set (st_index s). wx_sha256 r = wx_sha256 row \<and> wx_url r = wx_url row))
     \<and> (\<not> wx_is_revisit row \<longrightarrow> input_headers inp = fr_headers res)"

lemma rotate_index [simp]: "st_index (rotate env dr s) = st_index s"
  by (simp add: rotate_def Let_def)

lemma append_recordE:
  assumes "append_record W inp mk w = (rec, w')"
  obtains "snd (wi_write W inp)" "rec = Some (mk (length (ww_buf w)) (length (fst (wi_write W inp))))"
      "w' = w\<lparr>ww_buf := ww_buf w @ fst (wi_write W inp),
              ww_records := ww_records w @ [mk (length (ww_buf w)) (length (fst (wi_write W inp)))]\<rparr>"
    | "\<not> snd (wi_write W inp)" "rec = None" "w' = w\<lparr>ww_buf := ww_buf w @ fst (wi_write W inp)\<rparr>"
  using assms by (auto simp: append_record_def Let_def split: prod.splits if_splits)

lemma archive_step:
  assumes "archive env dr res rid wb s = (out, s')"
  obtains inp w1 row where "ww_buf w1 = ww_buf (st_writer s) @ fst (wi_write (we_warcio env) inp)"
      "ww_filename w1 = ww_filename (st_writer s)" "snd (wi_write (we_warcio env) inp)"
      "new_row_ok env dr res s inp row" "s' = call_result env dr s w1 row"
    | inp w1 where "ww_buf w1 = ww_buf (st_writer s) @ fst (wi_write (we_warcio env) inp)"
      "ww_filename w1 = ww_filename (st_writer s)" "\<not> snd (wi_write (we_warcio env) inp)" "s' = s\<lparr>st_writer := w1\<rparr>"
proof -
  let ?body = "case wb of Some b \<Rightarrow> b | None \<Rightarrow> fr_body res"
  let ?ct = "case dict_get (fr_headers res) ''content-type'' of Some c \<Rightarrow> c | None \<Rightarrow> ''application/octet-stream''"
  let ?dup = "check_duplicate (dr_select_ok dr) (fr_url res) (we_sha256 env ?body) (st_index s)"
  obtain inp mk where rec: "\<And>o' l. wr_offset (mk o' l) = o' \<and> wr_length (mk o' l) = l \<and>
        (wr_warc_type (mk o' l) = ''revisit'' \<longrightarrow>
           (\<exists>r \<in> set (st_index s). wx_sha256 r = wr_sha256 (mk o' l) \<and> wx_url r = wr_target_uri (mk o' l)))
        \<and> (wr_warc_type (mk o' l) \<noteq> ''revisit'' \<longrightarrow> input_headers inp = fr_headers res)
        \<and> describes env inp (index_row (dr_row_id dr) (mk o' l) (ww_filename (st_writer s)) rid (fr_status_code res) (Some ?ct))"
      and written: "(case ?dup of
               Some existing \<Rightarrow>
                 write_revisit (we_warcio env) (dr_now dr 0) (dr_token dr) (fr_url res)
                   (wx_warc_filename existing) (wx_sha256 existing) None (st_writer s)
             | None \<Rightarrow>
                 write_response (we_warcio env) (we_sha256 env) (dr_now dr 0) (dr_token dr) (fr_url res)
                   (fr_status_code res) (fr_headers res) ?body ?ct None (st_writer s))
           = append_record (we_warcio env) inp mk (st_writer s)"
  proof (cases ?dup)
    case None
    show ?thesis
      by (rule that [rotated]) (simp_all only: None option.case write_response_def Let_def, auto simp: index_row_def)
  next
    case (Some ex)
    with check_duplicate_SomeD [OF Some] show ?thesis
      by (intro that [rotated]) (simp_all only: option.case write_revisit_def Let_def, auto simp: index_row_def)
  qed
  obtain r w1 where app: "append_record (we_warcio env) inp mk (st_writer s) = (r, w1)" by fastforce
  have run: "archive env dr res rid wb s =
      (case r of None \<Rightarrow> (Inl (OtherError ''warcio''), s\<lparr>st_writer := w1\<rparr>)
       | Some rec \<Rightarrow>
          (let row = index_row (dr_row_id dr) rec (ww_filename w1) rid (fr_status_code res) (Some ?ct)
           in (if dr_commit_ok dr then Inr row else Inl (OtherError ''database''), call_result env dr s w1 row)))"
    unfolding archive_def Let_def written app
    by (auto simp: call_result_def index_record_def Let_def insert_row_def split: option.splits)
  from app show thesis
  proof (cases rule: append_recordE)
    case 1
    let ?row = "index_row (dr_row_id dr) (the r) (ww_filename w1) rid (fr_status_code res) (Some ?ct)"
    have w1: "ww_buf w1 = ww_buf (st_writer s) @ fst (wi_write (we_warcio env) inp)" "ww_filename w1 = ww_filename (st_writer s)"
      using 1(3) by simp_all
    have "new_row_ok env dr res s inp ?row"
      unfolding new_row_ok_def w1(2) 1(2) option.sel
      using rec [of "length (ww_buf (st_writer s))" "length (fst (wi_write (we_warcio env) inp))"]
      by (simp add: index_row_fields)
    moreover have "s' = call_result env dr s w1 ?row" using run assms 1(2) by (simp add: Let_def)
    ultimately show thesis using that(1) [OF w1 1(1)] by blast
  next
    case 2
    with run assms show thesis by (intro that(2) [of w1 inp]) auto
  qed
qed

section \<open>Where the records are\<close>

type_synonym archive_call = "draws \<times> FetchResult \<times> uuid option \<times> bytes option"

fun archive_all :: "'w warc_env \<Rightarrow> archive_call list \<Rightarrow> 'w storage \<Rightarrow> 'w storage" where
  "archive_all env [] s = s"
| "archive_all env ((dr, res, rid, wb) # calls) s = archive_all env calls (snd (archive env dr res rid wb s))"

definition call_names :: "'w warc_env \<Rightarrow> archive_call list \<Rightarrow> string list" where
  "call_names env calls = map (\<lambda>c. next_filename env (fst c)) calls"

lemma call_names_simps [simp]:
  "call_names env [] = []" "call_names env (c # cs) = next_filename env (fst c) # call_names env cs"
  by (simp_all add: call_names_def)

text \<open>The contents of a file: the buffer for the current one, the object in S3 for any other.\<close>

definition file_of :: "'w warc_env \<Rightarrow> ('w \<Rightarrow> string \<times> string \<Rightarrow> bytes option) \<Rightarrow> 'w storage \<Rightarrow> string \<Rightarrow> bytes option" where
  "file_of env objs s f =
     (if f = ww_filename (st_writer s) then Some (ww_buf (st_writer s)) else objs (st_s3 s) (we_bucket env, f))"

text \<open>The bytes at the row's place in \<open>data\<close> are the record that the row describes.\<close>

definition located_in :: "'w warc_env \<Rightarrow> bytes \<Rightarrow> WarcIndex \<Rightarrow> bool" where
  "located_in env data r \<longleftrightarrow> wx_offset r + wx_length r \<le> length data
     \<and> (\<exists>inp. describes env inp r \<and> fst (wi_write (we_warcio env) inp) = take (wx_length r) (drop (wx_offset r) data))"

definition located :: "'w warc_env \<Rightarrow> ('w \<Rightarrow> string \<times> string \<Rightarrow> bytes option) \<Rightarrow> WarcIndex set \<Rightarrow> 'w storage \<Rightarrow> bool" where
  "located env objs rows s \<longleftrightarrow>
     (\<forall>r \<in> rows. \<exists>data. file_of env objs s (wx_warc_filename r) = Some data \<and> located_in env data r)"

definition used_names :: "'w storage \<Rightarrow> string set" where
  "used_names s = insert (ww_filename (st_writer s)) (wx_warc_filename ` set (st_index s))"

lemma located_in_append: "located_in env data r \<Longrightarrow> located_in env (data @ ext) r"
  by (auto simp: located_in_def)

lemma located_append:
  assumes "located env objs rows s" "ww_buf w1 = ww_buf (st_writer s) @ ext" "ww_filename w1 = ww_filename (st_writer s)"
  shows "located env objs rows (s\<lparr>st_writer := w1\<rparr>)"
  unfolding located_def
proof
  fix r assume "r \<in> rows"
  with assms(1) obtain data where "file_of env objs s (wx_warc_filename r) = Some data" "located_in env data r"
    by (auto simp: located_def)
  then show "\<exists>data. file_of env objs (s\<lparr>st_writer := w1\<rparr>) (wx_warc_filename r) = Some data \<and> located_in env data r"
    using assms(2,3) by (auto simp: file_of_def located_in_append split: if_splits)
qed

lemma located_new_row:
  assumes "located env objs rows s" "new_row_ok env dr res s inp row"
    "ww_buf w1 = ww_buf (st_writer s) @ fst (wi_write (we_warcio env) inp)" "ww_filename w1 = ww_filename (st_writer s)"
  shows "located env objs (insert row rows) (s\<lparr>st_writer := w1\<rparr>)"
proof -
  have "located_in env (ww_buf w1) row"
    using assms(2,3) by (auto simp: located_in_def new_row_ok_def intro!: exI [of _ inp])
  moreover have "file_of env objs (s\<lparr>st_writer := w1\<rparr>) (wx_warc_filename row) = Some (ww_buf w1)"
    using assms(2,4) by (simp add: file_of_def new_row_ok_def)
  ultimately show ?thesis using located_append [OF assms(1,3,4)] by (auto simp: located_def)
qed

lemma rotate_simps [simp]:
  "ww_filename (st_writer (rotate env dr s)) = next_filename env dr" "ww_buf (st_writer (rotate env dr s)) = []"
  by (simp_all add: rotate_def Let_def new_writer_def)

lemma rotate_objs:
  assumes "s3_laws (we_s3 env) objs" "s3_up (we_s3 env) objs" "we_s3_access_key env \<noteq> []"
  shows "objs (st_s3 (rotate env dr s)) =
    (objs (st_s3 s))((we_bucket env, ww_filename (st_writer s)) \<mapsto> ww_buf (st_writer s))"
  using s3_putD [OF assms(1,2)] assms(3) by (simp add: rotate_def Let_def)

lemma located_rotate:
  assumes "s3_laws (we_s3 env) objs" "s3_up (we_s3 env) objs" "we_s3_access_key env \<noteq> []"
    "located env objs rows s" "next_filename env dr \<notin> wx_warc_filename ` rows"
  shows "located env objs rows (rotate env dr s)"
  unfolding located_def
proof
  fix r assume r: "r \<in> rows"
  with assms(4) obtain data where "file_of env objs s (wx_warc_filename r) = Some data" "located_in env data r"
    by (auto simp: located_def)
  moreover have "wx_warc_filename r \<noteq> next_filename env dr" using assms(5) r by (metis imageI)
  ultimately show "\<exists>data. file_of env objs (rotate env dr s) (wx_warc_filename r) = Some data \<and> located_in env data r"
    using rotate_objs [OF assms(1-3), of dr s] by (auto simp: file_of_def split: if_splits)
qed

lemma located_cong: "located env objs rows (s\<lparr>st_index := idx\<rparr>) = located env objs rows s"
  by (simp add: located_def file_of_def)

lemma located_mono: "located env objs rows s \<Longrightarrow> rows' \<subseteq> rows \<Longrightarrow> located env objs rows' s"
  by (auto simp: located_def)

lemma located_archive:
  assumes "s3_laws (we_s3 env) objs" "s3_up (we_s3 env) objs" "we_s3_access_key env \<noteq> []"
    "archive env dr res rid wb s = (out, s')" "located env objs (set (st_index s)) s" "next_filename env dr \<notin> used_names s"
  shows "located env objs (set (st_index s')) s' \<and> used_names s' \<subseteq> insert (next_filename env dr) (used_names s)"
  using assms(4)
proof (cases rule: archive_step)
  case (1 inp w1 row)
  let ?s1 = "s\<lparr>st_writer := w1\<rparr>" and ?rows = "insert row (set (st_index s))"
  have loc: "located env objs ?rows ?s1" using located_new_row [OF assms(5) 1(4) 1(1,2)] .
  have "next_filename env dr \<notin> wx_warc_filename ` ?rows"
    using assms(6) 1(4) by (auto simp: used_names_def new_row_ok_def)
  then have "located env objs ?rows (rotate env dr ?s1)" by (rule located_rotate [OF assms(1-3) loc])
  with loc have "located env objs (set (st_index s')) s'"
    unfolding 1(5) call_result_def Let_def by (auto simp: located_cong intro: located_mono)
  moreover have "used_names s' \<subseteq> insert (next_filename env dr) (used_names s)"
    using 1(2,4) unfolding 1(5) call_result_def Let_def by (auto simp: used_names_def new_row_ok_def)
  ultimately show ?thesis ..
next
  case (2 inp w1)
  with located_append [OF assms(5) 2(1,2)] show ?thesis by (auto simp: used_names_def)
qed

lemma located_archive_all:
  assumes "s3_laws (we_s3 env) objs" "s3_up (we_s3 env) objs" "we_s3_access_key env \<noteq> []"
  shows "located env objs (set (st_index s)) s \<Longrightarrow> distinct (call_names env calls @ rest) \<Longrightarrow>
    used_names s \<inter> set (call_names env calls @ rest) = {} \<Longrightarrow> s' = archive_all env calls s \<Longrightarrow>
    located env objs (set (st_index s')) s' \<and> used_names s' \<inter> set rest = {}"
proof (induction calls arbitrary: s)
  case (Cons c calls)
  obtain dr res rid wb where c: "c = (dr, res, rid, wb)" by (cases c)
  obtain out s1 where step: "archive env dr res rid wb s = (out, s1)" by fastforce
  have fresh: "next_filename env dr \<notin> used_names s" using Cons.prems(3) c by simp
  have s1: "located env objs (set (st_index s1)) s1" "used_names s1 \<subseteq> insert (next_filename env dr) (used_names s)"
    using located_archive [OF assms step Cons.prems(1) fresh] by simp_all
  show ?case
  proof (rule Cons.IH [OF s1(1)])
    show "distinct (call_names env calls @ rest)" using Cons.prems(2) by simp
    show "used_names s1 \<inter> set (call_names env calls @ rest) = {}" using s1(2) Cons.prems(2,3) c by auto
    show "s' = archive_all env calls s1" using Cons.prems(4) c step by simp
  qed
qed auto

text \<open>Every revisit has the response it refers to in the table.\<close>

definition originals_kept :: "WarcIndex list \<Rightarrow> bool" where
  "originals_kept tbl \<longleftrightarrow>
     (\<forall>r \<in> set tbl. wx_is_revisit r \<longrightarrow>
        (\<exists>o' \<in> set tbl. \<not> wx_is_revisit o' \<and> wx_sha256 o' = wx_sha256 r \<and> wx_url o' = wx_url r))"

lemma call_result_index [simp]:
  "st_index (call_result env dr s w1 row) = (if dr_commit_ok dr then st_index s @ [row] else st_index s)"
  by (simp add: call_result_def Let_def)

lemma originals_kept_archive:
  assumes "archive env dr res rid wb s = (out, s')" "originals_kept (st_index s)"
  shows "originals_kept (st_index s')"
  using assms(1)
proof (cases rule: archive_step)
  case (1 inp w1 row)
  from 1(4) have "wx_is_revisit row \<Longrightarrow> \<exists>o' \<in> set (st_index s). \<not> wx_is_revisit o' \<and> wx_sha256 o' = wx_sha256 row \<and> wx_url o' = wx_url row"
    using assms(2) unfolding new_row_ok_def originals_kept_def by metis
  with assms(2) 1(5) show ?thesis by (auto simp: originals_kept_def)
qed (use assms(2) in simp)

lemma originals_kept_archive_all:
  "originals_kept (st_index s) \<Longrightarrow> originals_kept (st_index (archive_all env calls s))"
proof (induction env calls s rule: archive_all.induct)
  case (2 env dr res rid wb calls s)
  then show ?case by (metis archive_all.simps(2) originals_kept_archive prod.collapse)
qed simp

section \<open>One record per file\<close>

definition single :: "'w warc_env \<Rightarrow> ('w \<Rightarrow> string \<times> string \<Rightarrow> bytes option) \<Rightarrow> WarcIndex set \<Rightarrow> 'w storage \<Rightarrow> bool" where
  "single env objs rows s \<longleftrightarrow>
     (\<forall>r \<in> rows. \<not> wx_is_revisit r \<longrightarrow>
        (\<exists>inp. describes env inp r \<and> plain_headers (input_headers inp)
           \<and> objs (st_s3 s) (we_bucket env, wx_warc_filename r) = Some (fst (wi_write (we_warcio env) inp))))"

text \<open>The row keys of the calls are new and pairwise different.\<close>

definition fresh_ids :: "archive_call list \<Rightarrow> WarcIndex list \<Rightarrow> bool" where
  "fresh_ids calls tbl \<longleftrightarrow> unique_on wx_id tbl \<and> distinct (map (\<lambda>c. dr_row_id (fst c)) calls)
     \<and> wx_id ` set tbl \<inter> (\<lambda>c. dr_row_id (fst c)) ` set calls = {}"

lemma fresh_ids_archive:
  assumes "archive env dr res rid wb s = (out, s')" "fresh_ids ((dr, res, rid, wb) # calls) (st_index s)"
  shows "fresh_ids calls (st_index s')"
  using assms(1)
proof (cases rule: archive_step)
  case (1 inp w1 row)
  then have "wx_id row = dr_row_id dr" by (simp add: new_row_ok_def)
  with assms(2) 1(5) show ?thesis by (auto simp: fresh_ids_def unique_on_def image_iff)
qed (use assms(2) in \<open>auto simp: fresh_ids_def\<close>)

lemma single_archive:
  assumes "s3_laws (we_s3 env) objs" "s3_up (we_s3 env) objs" "we_s3_access_key env \<noteq> []"
    "we_force_rotate env" "warcio_laws (we_warcio env)" "plain_headers (fr_headers res)"
    "archive env dr res rid wb s = (out, s')" "single env objs (set (st_index s)) s" "ww_buf (st_writer s) = []"
    "ww_filename (st_writer s) \<notin> wx_warc_filename ` set (st_index s)" "next_filename env dr \<notin> used_names s"
  shows "single env objs (set (st_index s')) s' \<and> ww_buf (st_writer s') = []
    \<and> ww_filename (st_writer s') \<notin> wx_warc_filename ` set (st_index s')
    \<and> used_names s' \<subseteq> insert (next_filename env dr) (used_names s)"
  using assms(7)
proof (cases rule: archive_step)
  case (1 inp w1 row)
  let ?s1 = "s\<lparr>st_writer := w1\<rparr>" and ?data = "fst (wi_write (we_warcio env) inp)"
  have buf: "ww_buf w1 = ?data" "?data \<noteq> []" using 1(1) assms(5,9) by (auto simp: warcio_laws_def)
  then have rot: "needs_rotation (we_force_rotate env) (dr_now dr 1) w1" using assms(4) by (simp add: needs_rotation_def)
  have s': "s' = (rotate env dr ?s1)\<lparr>st_index := (if dr_commit_ok dr then st_index s @ [row] else st_index s)\<rparr>"
    using 1(5) rot by (simp add: call_result_def Let_def)
  have objs: "objs (st_s3 s') = (objs (st_s3 s))((we_bucket env, ww_filename (st_writer s)) \<mapsto> ?data)"
    using rotate_objs [OF assms(1-3), of dr ?s1] buf(1) 1(2) by (simp add: s')
  have row: "wx_warc_filename row = ww_filename (st_writer s)" "describes env inp row"
      "\<not> wx_is_revisit row \<Longrightarrow> input_headers inp = fr_headers res" using 1(4) by (simp_all add: new_row_ok_def)
  have "single env objs (insert row (set (st_index s))) s'"
    unfolding single_def
  proof (intro ballI impI)
    fix r assume r: "r \<in> insert row (set (st_index s))" "\<not> wx_is_revisit r"
    show "\<exists>inp. describes env inp r \<and> plain_headers (input_headers inp)
        \<and> objs (st_s3 s') (we_bucket env, wx_warc_filename r) = Some (fst (wi_write (we_warcio env) inp))"
    proof (cases "r = row")
      case True
      with r row assms(6) show ?thesis by (intro exI [of _ inp]) (simp add: objs)
    next
      case False
      with r have mem: "r \<in> set (st_index s)" by simp
      then have "wx_warc_filename r \<noteq> ww_filename (st_writer s)" using assms(10) by (metis imageI)
      with mem r assms(8) show ?thesis by (auto simp: single_def objs)
    qed
  qed
  then have "single env objs (set (st_index s')) s'" by (auto simp: s' single_def)
  with row(1) assms(11) show ?thesis by (auto simp: s' used_names_def)
next
  case (2 inp w1)
  with assms(5) show ?thesis by (simp add: warcio_laws_def)
qed

lemma single_archive_all:
  assumes "s3_laws (we_s3 env) objs" "s3_up (we_s3 env) objs" "we_s3_access_key env \<noteq> []"
    "we_force_rotate env" "warcio_laws (we_warcio env)"
  shows "list_all (\<lambda>(dr, res, rid, wb). plain_headers (fr_headers res)) calls \<Longrightarrow>
    single env objs (set (st_index s)) s \<Longrightarrow> ww_buf (st_writer s) = [] \<Longrightarrow>
    ww_filename (st_writer s) \<notin> wx_warc_filename ` set (st_index s) \<Longrightarrow>
    distinct (call_names env calls) \<Longrightarrow> used_names s \<inter> set (call_names env calls) = {} \<Longrightarrow>
    fresh_ids calls (st_index s) \<Longrightarrow> s' = archive_all env calls s \<Longrightarrow>
    single env objs (set (st_index s')) s' \<and> unique_on wx_id (st_index s')"
proof (induction calls arbitrary: s)
  case (Cons c calls)
  obtain dr res rid wb where c: "c = (dr, res, rid, wb)" by (cases c)
  obtain out s1 where step: "archive env dr res rid wb s = (out, s1)" by fastforce
  have pl: "plain_headers (fr_headers res)" and fresh: "next_filename env dr \<notin> used_names s" using Cons.prems(1,6) c by simp_all
  note s1 = single_archive [OF assms pl step Cons.prems(2-4) fresh]
  have used: "used_names s1 \<inter> set (call_names env calls) = {}"
    using s1 Cons.prems(5,6) c by auto
  show ?case
    by (rule Cons.IH) (use s1 used Cons.prems fresh_ids_archive [OF step] c step in simp_all)
qed (auto simp: fresh_ids_def)

text \<open>What the endpoint reads when the target's file holds a list of written records.\<close>

lemma extract_body_first:
  assumes "s3_laws (we_s3 env) objs" "s3_up (we_s3 env) objs" "warcio_laws (we_warcio env)"
    "objs w (we_bucket env, f) = Some (concat (map (\<lambda>inp. fst (wi_write (we_warcio env) inp)) (inp # inps)))"
    "inp = ResponseInput url st hs body wh" "plain_headers hs"
  shows "\<exists>w'. extract_body (we_warcio env) (we_s3 env) (we_bucket env) f offset len w
      = (Inr (body, http_get hs ''Content-Type''), w')"
proof -
  let ?data = "concat (map (\<lambda>inp. fst (wi_write (we_warcio env) inp)) (inp # inps))"
  obtain w' where get: "s3_get_object (we_s3 env) (we_bucket env) f w = (Inr ?data, w')"
    using s3_getD [OF assms(1,2,4)] by blast
  obtain items where it: "wi_iterate (we_warcio env) ?data = (items, False)" "list_all2 item_for (inp # inps) items"
    using assms(3) unfolding warcio_laws_def by blast
  then obtain it its where items: "items = it # its" "item_for inp it" by (auto simp: list_all2_Cons1)
  show ?thesis
    using get it(1) items assms(5,6) by (simp add: extract_body_def read_full_warc_def)
qed

lemma archive_target_original:
  assumes "originals_kept tbl" "row \<in> set tbl"
  shows "\<exists>t. archive_target tbl row = Inr t \<and> t \<in> set tbl \<and> \<not> wx_is_revisit t \<and> wx_sha256 t = wx_sha256 row"
proof (cases "wx_is_revisit row")
  case True
  let ?P = "\<lambda>r. wx_sha256 r = wx_sha256 row \<and> \<not> wx_is_revisit r"
  let ?xs = "sort_key wx_captured_at (filter ?P tbl)"
  obtain o' where "o' \<in> set tbl" "?P o'" using assms True by (auto simp: originals_kept_def)
  then have "o' \<in> set ?xs" by simp
  then have "?xs \<noteq> []" by (cases ?xs) simp_all
  then obtain t where t: "scalar_one_or_none ?xs = Some t" by (cases "scalar_one_or_none ?xs") simp_all
  then have "t \<in> set ?xs" by (rule scalar_one_SomeD)
  then show ?thesis using t True by (simp add: archive_target_def)
qed (use assms(2) in \<open>simp add: archive_target_def\<close>)

lemma get_archive_single:
  assumes "s3_laws (we_s3 env) objs" "s3_up (we_s3 env) objs" "warcio_laws (we_warcio env)"
    "single env objs (set (st_index s)) s" "originals_kept (st_index s)" "unique_on wx_id (st_index s)"
    "r \<in> set (st_index s)"
  shows "\<exists>resp w' body. get_archive_by_request env (st_index s) (wx_id r) (st_s3 s) = (Inr resp, w')
    \<and> ac_url resp = wx_url r \<and> ac_sha256 resp = wx_sha256 r \<and> ac_body_b64 resp = b64encode body \<and> we_sha256 env body = wx_sha256 r"
proof -
  have row: "get_by wx_id (wx_id r) (st_index s) = Some r" using assms(6,7) by (simp add: get_by_unique)
  obtain t where t: "archive_target (st_index s) r = Inr t" "t \<in> set (st_index s)" "\<not> wx_is_revisit t" "wx_sha256 t = wx_sha256 r"
    using archive_target_original [OF assms(5,7)] by blast
  then obtain inp where inp: "describes env inp t" "plain_headers (input_headers inp)"
      "objs (st_s3 s) (we_bucket env, wx_warc_filename t) = Some (fst (wi_write (we_warcio env) inp))"
    using assms(4) unfolding single_def by blast
  with t(3) obtain url st hs body wh where eq: "inp = ResponseInput url st hs body wh" by (cases inp) auto
  have "objs (st_s3 s) (we_bucket env, wx_warc_filename t)
      = Some (concat (map (\<lambda>inp. fst (wi_write (we_warcio env) inp)) (inp # [])))" using inp(3) by simp
  from extract_body_first [OF assms(1-3) this eq] inp(2) eq obtain w' where
    ext: "extract_body (we_warcio env) (we_s3 env) (we_bucket env) (wx_warc_filename t) (wx_offset t) (wx_length t) (st_s3 s)
      = (Inr (body, http_get hs ''Content-Type''), w')" by fastforce
  have "we_sha256 env body = wx_sha256 r" using inp(1) eq t(4) by simp
  then show ?thesis by (auto simp: get_archive_by_request_def row t(1) ext)
qed

section \<open>Instances of the libraries\<close>

text \<open>A store in memory, and a self-delimiting record format, that satisfy the laws.\<close>

definition mem_s3 :: "(string \<times> string \<Rightarrow> bytes option) s3" where
  "mem_s3 = \<lparr>s3_put_object = (\<lambda>b k d w. (True, w((b, k) \<mapsto> d))),
     s3_get_object = (\<lambda>b k w. (case w (b, k) of None \<Rightarrow> Inl ''NoSuchKey'' | Some d \<Rightarrow> Inr d, w)),
     s3_create_bucket = (\<lambda>b w. (True, w))\<rparr>"

lemma mem_s3_laws: "s3_laws mem_s3 (\<lambda>w. w)" "s3_up mem_s3 (\<lambda>w. w)"
  by (auto simp: s3_laws_def s3_up_def mem_s3_def split: option.splits)

fun enc_str :: "string \<Rightarrow> string" where
  "enc_str [] = ''0''"
| "enc_str (c # s) = CHR ''1'' # c # enc_str s"

fun dec_str :: "string \<Rightarrow> string \<times> string" where
  "dec_str [] = ([], [])"
| "dec_str [a] = ([], [])"
| "dec_str (a # c # s) = (if a = CHR ''1'' then (let (t, r) = dec_str s in (c # t, r)) else ([], c # s))"

fun enc_headers :: "headers \<Rightarrow> string" where
  "enc_headers [] = ''0''"
| "enc_headers ((k, v) # hs) = CHR ''1'' # enc_str k @ enc_str v @ enc_headers hs"

fun dec_headers :: "nat \<Rightarrow> string \<Rightarrow> headers \<times> string" where
  "dec_headers (Suc n) (a # s) =
     (if a = CHR ''1'' then
        (let (k, s1) = dec_str s; (v, s2) = dec_str s1; (hs, s3) = dec_headers n s2 in ((k, v) # hs, s3))
      else ([], s))"
| "dec_headers n s = ([], s)"

fun enc_input :: "warc_input \<Rightarrow> bytes" where
  "enc_input (ResponseInput url st hs body wh) = CHR ''R'' # enc_headers hs @ enc_str body"
| "enc_input (RevisitInput url digest uri date wh) = ''V''"

fun dec_items :: "nat \<Rightarrow> bytes \<Rightarrow> warc_item list" where
  "dec_items (Suc n) (a # s) =
     (if a = CHR ''R'' then
        (let (hs, s1) = dec_headers (length s) s; (body, s2) = dec_str s1
         in \<lparr>it_rec_type = ''response'', it_http_headers = Some hs, it_content = Some body\<rparr> # dec_items n s2)
      else \<lparr>it_rec_type = ''revisit'', it_http_headers = None, it_content = Some []\<rparr> # dec_items n s)"
| "dec_items n s = []"

definition mem_warcio :: warcio where
  "mem_warcio = \<lparr>wi_write = (\<lambda>inp. (enc_input inp, True)), wi_iterate = (\<lambda>d. (dec_items (length d) d, False))\<rparr>"

lemma dec_str_enc [simp]: "dec_str (enc_str s @ r) = (s, r)"
proof (induction s)
  case Nil
  show ?case by (cases r) simp_all
qed simp

lemma dec_headers_enc: "length hs < n \<Longrightarrow> dec_headers n (enc_headers hs @ r) = (hs, r)"
proof (induction hs arbitrary: n)
  case (Cons h hs)
  then obtain m where "n = Suc m" "length hs < m" by (cases n) auto
  with Cons.IH show ?case by (cases h) (simp add: Let_def)
qed (case_tac n, simp_all)

lemma length_enc_headers: "length hs < length (enc_headers hs)"
  by (induction hs rule: enc_headers.induct) auto

lemma dec_items_enc:
  "length (concat (map enc_input inps)) \<le> n \<Longrightarrow> list_all2 item_for inps (dec_items n (concat (map enc_input inps)))"
proof (induction inps arbitrary: n)
  case Nil
  then show ?case by (cases n) simp_all
next
  case (Cons inp inps)
  then obtain m where n: "n = Suc m" by (cases n; cases inp) auto
  show ?case
  proof (cases inp)
    case (ResponseInput url st hs body wh)
    have "length hs < length (enc_headers hs @ enc_str body @ concat (map enc_input inps))"
      using length_enc_headers [of hs] by simp
    with ResponseInput Cons n show ?thesis by (simp add: dec_headers_enc Let_def)
  next
    case (RevisitInput url digest uri date wh)
    with Cons n show ?thesis by simp
  qed
qed

lemma mem_warcio_laws: "warcio_laws mem_warcio"
proof -
  have "enc_input inp \<noteq> []" for inp by (cases inp) simp_all
  then show ?thesis by (auto simp: warcio_laws_def mem_warcio_def intro: dec_items_enc)
qed

definition mem_env :: "bool \<Rightarrow> (string \<times> string \<Rightarrow> bytes option) warc_env" where
  "mem_env force = \<lparr>we_warcio = mem_warcio, we_sha256 = (\<lambda>b. b), we_s3 = mem_s3, we_bucket = ''b'', we_s3_access_key = ''k'',
     we_force_rotate = force, we_max_size_bytes = 1000000000, we_max_age_s = 3600, we_prefix = ''warc''\<rparr>"

definition mem_draws :: "string \<Rightarrow> uuid \<Rightarrow> draws" where
  "mem_draws suffix i = \<lparr>dr_now = (\<lambda>_. 0), dr_token = ''t'', dr_suffix = suffix, dr_row_id = i,
     dr_select_ok = True, dr_commit_ok = True\<rparr>"

text \<open>One page twice, then another page.\<close>

definition mem_calls :: "archive_call list" where
  "mem_calls =
     [(mem_draws ''01'' 1, (fetch_result ''http://a/'' 200)\<lparr>fr_body := ''x''\<rparr>, None, None),
      (mem_draws ''02'' 2, (fetch_result ''http://a/'' 200)\<lparr>fr_body := ''x''\<rparr>, None, None),
      (mem_draws ''03'' 3, (fetch_result ''http://b/'' 200)\<lparr>fr_body := ''y''\<rparr>, None, None)]"

definition mem_state :: "bool \<Rightarrow> (string \<times> string \<Rightarrow> bytes option) storage" where
  "mem_state force = archive_all (mem_env force) mem_calls (create_warc_storage (mem_env force) (mem_draws ''00'' 0) [] (\<lambda>_. None))"

section \<open>Properties\<close>

lemma located_empty [simp]: "located env objs {} s"
  by (simp add: located_def)

lemma create_warc_storage_simps [simp]:
  "st_index (create_warc_storage env dr idx w) = idx" "ww_buf (st_writer (create_warc_storage env dr idx w)) = []"
  "ww_filename (st_writer (create_warc_storage env dr idx w)) = next_filename env dr"
  by (simp_all add: create_warc_storage_def new_writer_def)



text \<open>
  C24. What was archived can be read back: with a rotation after each write, an empty index to start
  with, services that answer, new file names and row keys, and results whose headers carry no content
  or transfer encoding (which the task removes), the endpoint answers every entry of the index, revisits
  included, with the entry's URL and digest and with bytes that have this digest.
\<close>

theorem archive_roundtrip:
  assumes "s3_laws (we_s3 env) objs" "s3_up (we_s3 env) objs" "we_s3_access_key env \<noteq> []"
    "warcio_laws (we_warcio env)" "we_force_rotate env"
    "list_all (\<lambda>(dr, res, rid, wb). plain_headers (fr_headers res)) calls"
    "distinct (next_filename env dr0 # call_names env calls)" "distinct (map (\<lambda>c. dr_row_id (fst c)) calls)"
    "s = archive_all env calls (create_warc_storage env dr0 [] w)" "r \<in> set (st_index s)"
  shows "\<exists>resp w' body. get_archive_by_request env (st_index s) (wx_id r) (st_s3 s) = (Inr resp, w')
    \<and> ac_url resp = wx_url r \<and> ac_sha256 resp = wx_sha256 r
    \<and> ac_body_b64 resp = b64encode body \<and> we_sha256 env body = wx_sha256 r"
proof -
  have "single env objs (set (st_index s)) s \<and> unique_on wx_id (st_index s)"
    by (rule single_archive_all [OF assms(1-3,5,4,6) _ _ _ _ _ _ assms(9)])
      (use assms(7,8) in \<open>auto simp: single_def used_names_def fresh_ids_def\<close>)
  moreover have "originals_kept (st_index s)"
    unfolding assms(9) by (rule originals_kept_archive_all) (simp add: originals_kept_def)
  ultimately show ?thesis using get_archive_single [OF assms(1,2,4)] assms(10) by blast
qed

theorem archive_roundtrip_witness:
  "\<exists>resp w' body. get_archive_by_request (mem_env True) (st_index (mem_state True)) (wx_id (st_index (mem_state True) ! 1))
      (st_s3 (mem_state True)) = (Inr resp, w') \<and> ac_body_b64 resp = b64encode body \<and> body = ''x''"
proof -
  have env: "we_s3 (mem_env True) = mem_s3" "we_s3_access_key (mem_env True) \<noteq> []" "we_warcio (mem_env True) = mem_warcio"
      "we_force_rotate (mem_env True)" "\<And>b. we_sha256 (mem_env True) b = b"
    by (simp_all add: mem_env_def)
  have pl: "list_all (\<lambda>(dr, res, rid, wb). plain_headers (fr_headers res)) mem_calls" by code_simp
  have names: "distinct (next_filename (mem_env True) (mem_draws ''00'' 0) # call_names (mem_env True) mem_calls)" by code_simp
  have ids: "distinct (map (\<lambda>c. dr_row_id (fst c)) mem_calls)" by code_simp
  have "1 < length (st_index (mem_state True)) \<and> wx_sha256 (st_index (mem_state True) ! 1) = ''x''" by code_simp
  then have mem: "st_index (mem_state True) ! 1 \<in> set (st_index (mem_state True))" "wx_sha256 (st_index (mem_state True) ! 1) = ''x''"
    by simp_all
  show ?thesis
    using archive_roundtrip [of "mem_env True" "\<lambda>w. w", unfolded env(1,3), OF mem_s3_laws env(2) mem_warcio_laws env(4) pl names ids
        mem_state_def mem(1)] mem(2) by (auto simp: env(5))
qed

text \<open>
  Retrieval ignores the place that the index recorded: when the file of an entry starts with some
  response record, the endpoint answers the entry with that first record's payload, whatever its offset
  and length. With several records in a file, as the default rotation leaves them, the bytes returned
  need not be the entry's, although the answer still carries the entry's URL and digest.
\<close>

lemma archive_reads_first_record:
  assumes "s3_laws (we_s3 env) objs" "s3_up (we_s3 env) objs" "warcio_laws (we_warcio env)"
    "get_by wx_id i tbl = Some row" "\<not> wx_is_revisit row" "plain_headers hs"
    "objs w (we_bucket env, wx_warc_filename row) =
       Some (concat (map (\<lambda>inp. fst (wi_write (we_warcio env) inp)) (ResponseInput url st hs body wh # inps)))"
  shows "\<exists>resp w'. get_archive_by_request env tbl i w = (Inr resp, w') \<and> ac_body_b64 resp = b64encode body
    \<and> ac_url resp = wx_url row \<and> ac_sha256 resp = wx_sha256 row"
  using extract_body_first [OF assms(1-3,7) refl assms(6), of "wx_offset row" "wx_length row"] assms(4,5)
  by (auto simp: get_archive_by_request_def archive_target_def)

lemma archive_reads_first_record_witness:
  "\<exists>resp w'. get_archive_by_request (mem_env False) (st_index (mem_state False)) 3
      (st_s3 (shutdown_flush (mem_env False) (mem_draws ''04'' 4) (mem_state False))) = (Inr resp, w')
    \<and> ac_body_b64 resp = b64encode ''x'' \<and> ac_sha256 resp = ''y''"
proof -
  let ?w = "st_s3 (shutdown_flush (mem_env False) (mem_draws ''04'' 4) (mem_state False))"
  have env: "we_s3 (mem_env False) = mem_s3" "we_bucket (mem_env False) = ''b''" "we_warcio (mem_env False) = mem_warcio"
    by (simp_all add: mem_env_def)
  let ?row = "st_index (mem_state False) ! 2"
  have row: "get_by wx_id 3 (st_index (mem_state False)) = Some ?row" by code_simp
  have nr: "\<not> wx_is_revisit ?row" "wx_sha256 ?row = ''y''" by code_simp+
  have obj: "?w (''b'', wx_warc_filename ?row) = Some (concat (map (\<lambda>inp. fst (wi_write mem_warcio inp))
      (ResponseInput ''http://a/'' ''200 OK'' [] ''x'' [] #
       [RevisitInput ''http://a/'' ''sha256:x'' [] [] [], ResponseInput ''http://b/'' ''200 OK'' [] ''y'' []])))"
    by code_simp
  have pl: "plain_headers []" by code_simp
  show ?thesis
    using archive_reads_first_record [of "mem_env False" "\<lambda>w. w" 3 "st_index (mem_state False)" ?row "[]" ?w "''http://a/''" "''200 OK''"
        "''x''" "[]" "[RevisitInput ''http://a/'' ''sha256:x'' [] [] [], ResponseInput ''http://b/'' ''200 OK'' [] ''y'' []]",
        unfolded env, OF mem_s3_laws mem_warcio_laws row nr(1) pl obj] nr(2)
    by auto
qed

end
