(* ===== verification/Warc_Dlq.thy ===== *)
theory Warc_Dlq
  imports Warc_Props "HOL-Library.List_Lexorder" "HOL-Library.Char_ord"
begin

text \<open>
  \<^verbatim>\<open>app/services/warc/dlq.py\<close>: the on-disk queue of uploads that failed. The directory is the list of
  its files in the order \<^verbatim>\<open>os.listdir\<close> gives; a file holds gzipped data, a JSON document, or bytes that
  are neither. Which system calls fail is a parameter.
\<close>

datatype content = Gz bytes | Doc json | Junk bytes

record disk_file =
  df_mtime :: datetime
  df_content :: content

type_synonym directory = "(string \<times> disk_file) list"

text \<open>
  \<open>os_write\<close> is \<^const>\<open>None\<close> when writing the file succeeds, else what a failed write leaves behind;
  \<open>os_size\<close> is the size of a file with some content.
\<close>

record os =
  os_makedirs_ok :: bool
  os_stat_ok :: "string \<Rightarrow> bool"
  os_remove_ok :: "string \<Rightarrow> bool"
  os_write_fault :: "string \<Rightarrow> bytes option option"
  os_size :: "content \<Rightarrow> int"
  os_now :: datetime

definition DLQ_META_SUFFIX :: string where "DLQ_META_SUFFIX = ''.meta.json''"

definition meta_of :: "string \<Rightarrow> string" where
  "meta_of path = path @ DLQ_META_SUFFIX"

definition is_meta :: "string \<Rightarrow> bool" where
  "is_meta entry = endswith DLQ_META_SUFFIX entry"

definition read_file :: "directory \<Rightarrow> string \<Rightarrow> content option" where
  "read_file dir path = map_option df_content (map_of dir path)"

text \<open>\<^verbatim>\<open>os.remove\<close>: fails for a file that is not there.\<close>

definition remove_file :: "os \<Rightarrow> string \<Rightarrow> directory \<Rightarrow> bool \<times> directory" where
  "remove_file os path dir =
     (if os_remove_ok os path \<and> map_of dir path \<noteq> None then (True, filter (\<lambda>(n, f). n \<noteq> path) dir) else (False, dir))"

fun put_file :: "string \<Rightarrow> disk_file \<Rightarrow> directory \<Rightarrow> directory" where
  "put_file n f [] = [(n, f)]"
| "put_file n f ((m, g) # dir) = (if m = n then (n, f) # dir else (m, g) # put_file n f dir)"

definition write_file :: "os \<Rightarrow> string \<Rightarrow> content \<Rightarrow> directory \<Rightarrow> bool \<times> directory" where
  "write_file os path c dir =
     (case os_write_fault os path of
        None \<Rightarrow> (True, put_file path \<lparr>df_mtime = os_now os, df_content = c\<rparr> dir)
      | Some None \<Rightarrow> (False, dir)
      | Some (Some junk) \<Rightarrow> (False, put_file path \<lparr>df_mtime = os_now os, df_content = Junk junk\<rparr> dir))"

section \<open>The size cap\<close>

type_synonym dlq_entry = "datetime \<times> int \<times> string"

definition cap_entries :: "os \<Rightarrow> directory \<Rightarrow> dlq_entry list" where
  "cap_entries os dir =
     map (\<lambda>(n, f). (df_mtime f, os_size os (df_content f), n))
       (filter (\<lambda>(n, f). \<not> is_meta n \<and> os_stat_ok os n) dir)"

text \<open>
  The loop over the entries, oldest first. An entry whose removal raises is passed over; so is one
  whose metadata cannot be removed, although its data is gone.
\<close>

fun evict :: "os \<Rightarrow> int \<Rightarrow> int \<Rightarrow> dlq_entry list \<Rightarrow> int \<Rightarrow> directory \<Rightarrow> directory" where
  "evict os cap incoming [] total_bytes dir = dir"
| "evict os cap incoming ((mtime, sz, path) # entries) total_bytes dir =
     (if total_bytes + incoming \<le> cap then dir
      else (case remove_file os path dir of
              (False, _) \<Rightarrow> evict os cap incoming entries total_bytes dir
            | (True, dir1) \<Rightarrow>
                (if map_of dir1 (meta_of path) = None then evict os cap incoming entries (total_bytes - sz) dir1
                 else (case remove_file os (meta_of path) dir1 of
                         (False, _) \<Rightarrow> evict os cap incoming entries total_bytes dir1
                       | (True, dir2) \<Rightarrow> evict os cap incoming entries (total_bytes - sz) dir2))))"

definition enforce_cap :: "os \<Rightarrow> int \<Rightarrow> int \<Rightarrow> directory \<Rightarrow> directory" where
  "enforce_cap os cap incoming_bytes dir =
     (let entries = cap_entries os dir
      in evict os cap incoming_bytes (sort entries)
           (sum_list (map (\<lambda>(mtime, sz, path). sz) entries)) dir)"

section \<open>Store, retry, count\<close>

definition flat_name :: "string \<Rightarrow> string" where
  "flat_name filename = map (\<lambda>c. if c = CHR ''/'' then CHR ''_'' else c) filename"

text \<open>The directory is \<^const>\<open>None\<close> while it does not exist.\<close>

definition dlq_store :: "os \<Rightarrow> int \<Rightarrow> string \<Rightarrow> bytes \<Rightarrow> directory option \<Rightarrow> bool \<times> directory option" where
  "dlq_store os max_bytes filename data fs =
     (if \<not> os_makedirs_ok os then (False, fs)
      else (let dir = enforce_cap os max_bytes (int (length data)) (case fs of Some d \<Rightarrow> d | None \<Rightarrow> []);
                base = flat_name filename
            in case write_file os base (Gz data) dir of
                 (False, dir1) \<Rightarrow> (False, Some dir1)
               | (True, dir1) \<Rightarrow>
                   (let meta = JObj [(''filename'', JStr filename), (''stored_at'', JStr (isoformat (os_now os)))];
                        (ok, dir2) = write_file os (meta_of base) (Doc meta) dir1
                    in (ok, Some dir2))))"

text \<open>The upload that a queued entry stands for, if its files can be read.\<close>

definition queued :: "directory \<Rightarrow> string \<Rightarrow> (string \<times> bytes) option" where
  "queued dir entry =
     (case (read_file dir (meta_of entry), read_file dir entry) of
        (Some (Doc (JObj meta)), Some (Gz data)) \<Rightarrow>
          (case jget meta ''filename'' of JStr filename \<Rightarrow> Some (filename, data) | _ \<Rightarrow> None)
      | _ \<Rightarrow> None)"

definition retry_entry :: "os \<Rightarrow> 'w s3 \<Rightarrow> string \<Rightarrow> string \<Rightarrow> directory \<Rightarrow> 'w \<Rightarrow> bool \<times> directory \<times> 'w" where
  "retry_entry os S bucket entry dir w =
     (case queued dir entry of
        None \<Rightarrow> (False, dir, w)
      | Some (filename, data) \<Rightarrow>
          (case s3_put_object S bucket filename data w of
             (False, w') \<Rightarrow> (False, dir, w')
           | (True, w') \<Rightarrow>
               (case remove_file os entry dir of
                  (False, _) \<Rightarrow> (False, dir, w')
                | (True, dir1) \<Rightarrow> (case remove_file os (meta_of entry) dir1 of (ok, dir2) \<Rightarrow> (ok, dir2, w')))))"

fun retry_entries :: "os \<Rightarrow> 'w s3 \<Rightarrow> string \<Rightarrow> string list \<Rightarrow> directory \<Rightarrow> 'w \<Rightarrow> nat \<times> directory \<times> 'w" where
  "retry_entries os S bucket [] dir w = (0, dir, w)"
| "retry_entries os S bucket (entry # entries) dir w =
     (if is_meta entry then retry_entries os S bucket entries dir w
      else (let (ok, dir1, w1) = retry_entry os S bucket entry dir w;
                (n, dir2, w2) = retry_entries os S bucket entries dir1 w1
            in ((if ok then 1 else 0) + n, dir2, w2)))"

definition retry_uploads :: "os \<Rightarrow> 'w s3 \<Rightarrow> string \<Rightarrow> directory option \<Rightarrow> 'w \<Rightarrow> nat \<times> directory option \<times> 'w" where
  "retry_uploads os S bucket fs w =
     (case fs of
        None \<Rightarrow> (0, None, w)
      | Some dir \<Rightarrow> (case retry_entries os S bucket (map fst dir) dir w of (n, dir', w') \<Rightarrow> (n, Some dir', w')))"

definition dlq_count :: "directory option \<Rightarrow> nat" where
  "dlq_count fs = (case fs of None \<Rightarrow> 0 | Some dir \<Rightarrow> length (filter (\<lambda>(n, f). \<not> is_meta n) dir))"

section \<open>Facts\<close>

text \<open>Every entry that can be read lies under the name that \<^const>\<open>dlq_store\<close> derives from its file name.\<close>

definition dlq_wf :: "directory \<Rightarrow> bool" where
  "dlq_wf dir \<longleftrightarrow> distinct (map fst dir)
     \<and> (\<forall>e f d. \<not> is_meta e \<longrightarrow> queued dir e = Some (f, d) \<longrightarrow> e = flat_name f)"

lemma map_of_filter_ne: "map_of (filter (\<lambda>(n, f). n \<noteq> p) dir) e = (if e = p then None else map_of dir e)"
  by (induction dir) auto

lemma map_of_put_file [simp]: "map_of (put_file n f dir) e = (if e = n then Some f else map_of dir e)"
  by (induction n f dir rule: put_file.induct) auto

lemma distinct_put_file: "distinct (map fst dir) \<Longrightarrow> distinct (map fst (put_file n f dir)) \<and> fst ` set (put_file n f dir) = insert n (fst ` set dir)"
  by (induction n f dir rule: put_file.induct) auto

lemma remove_fileD:
  "remove_file os p dir = (ok, dir') \<Longrightarrow>
     (ok \<longrightarrow> map_of dir' p = None) \<and> (\<forall>e. e \<noteq> p \<longrightarrow> map_of dir' e = map_of dir e)
     \<and> (\<not> ok \<longrightarrow> dir' = dir) \<and> (distinct (map fst dir) \<longrightarrow> distinct (map fst dir'))"
  by (auto simp: remove_file_def map_of_filter_ne distinct_map_filter split: if_splits)

lemma queued_cong: "map_of dir' e = map_of dir e \<Longrightarrow> map_of dir' (meta_of e) = map_of dir (meta_of e) \<Longrightarrow> queued dir' e = queued dir e"
  by (simp add: queued_def read_file_def)

lemma meta_of_inj [simp]: "meta_of a = meta_of b \<longleftrightarrow> a = b"
  by (simp add: meta_of_def)

lemma is_meta_meta_of [simp]: "is_meta (meta_of e)"
  by (simp add: is_meta_def meta_of_def endswith_def)


lemma retry_entry_other:
  assumes "retry_entry os S bucket e0 dir w = (ok, dir', w')" "\<not> is_meta e0" "\<not> is_meta e" "e \<noteq> e0"
  shows "queued dir' e = queued dir e"
proof -
  have ne: "e \<noteq> meta_of e0" "meta_of e \<noteq> e0" "meta_of e \<noteq> meta_of e0" using assms(2-4) by auto
  have "map_of dir' x = map_of dir x" if "x \<noteq> e0" "x \<noteq> meta_of e0" for x
    using assms(1) that by (auto simp: retry_entry_def split: option.splits prod.splits bool.splits dest!: remove_fileD)
  then show ?thesis using assms(4) ne by (intro queued_cong) auto
qed

lemma retry_entry_self:
  assumes "retry_entry os S bucket e dir w = (ok, dir', w')" "s3_laws S objs" "queued dir e = Some (f, d)"
  shows "queued dir' e = Some (f, d) \<or> objs w' (bucket, f) = Some d \<and> queued dir' e = None"
proof -
  have put: "\<And>w1. s3_put_object S bucket f d w = (True, w1) \<Longrightarrow> objs w1 (bucket, f) = Some d"
    using assms(2) by (simp add: s3_laws_def)
  have gone: "map_of x e = None \<Longrightarrow> queued x e = None" for x
    by (simp add: queued_def read_file_def split: option.splits content.splits json.splits)
  have "e \<noteq> meta_of e" by (simp add: meta_of_def DLQ_META_SUFFIX_def)
  then show ?thesis using assms(1,3) put gone
    by (auto simp: retry_entry_def split: prod.splits bool.splits dest!: remove_fileD)
qed

lemma retry_entry_none:
  "retry_entry os S bucket e dir w = (ok, dir', w') \<Longrightarrow> queued dir e = None \<Longrightarrow> dir' = dir \<and> w' = w \<and> \<not> ok"
  by (auto simp: retry_entry_def)

lemma s3_put_other:
  assumes "s3_laws S objs" "s3_put_object S b k d w = (ok, w')" "x \<noteq> (b, k)"
  shows "objs w' x = objs w x"
proof (cases ok)
  case True
  then have "objs w' = (objs w)((b, k) \<mapsto> d)" using assms(1,2) by (simp add: s3_laws_def)
  then show ?thesis using assms(3) by simp
next
  case False
  have "\<forall>b k d w w' x. s3_put_object S b k d w = (False, w') \<longrightarrow> x \<noteq> (b, k) \<longrightarrow> objs w' x = objs w x"
    using assms(1) unfolding s3_laws_def by blast
  moreover have "s3_put_object S b k d w = (False, w')" using assms(2) False by simp
  ultimately show ?thesis using assms(3) by blast
qed

lemma retry_entry_objs:
  assumes "retry_entry os S bucket e dir w = (ok, dir', w')" "s3_laws S objs" "queued dir e = Some (f, d)" "x \<noteq> (bucket, f)"
  shows "objs w' x = objs w x"
proof -
  obtain b w1 where put: "s3_put_object S bucket f d w = (b, w1)" by fastforce
  have "objs w1 x = objs w x" using s3_put_other [OF assms(2) put assms(4)] .
  then show ?thesis using assms(1,3) put by (auto simp: retry_entry_def split: prod.splits bool.splits)
qed

lemma retry_entry_wf:
  assumes "retry_entry os S bucket e0 dir w = (ok, dir', w')" "s3_laws S objs" "\<not> is_meta e0" "dlq_wf dir"
  shows "dlq_wf dir'"
proof -
  have "distinct (map fst dir')"
    using assms(1,4) by (auto simp: retry_entry_def dlq_wf_def split: option.splits prod.splits bool.splits dest!: remove_fileD)
  moreover have "e = flat_name f" if "\<not> is_meta e" "queued dir' e = Some (f, d)" for e f d
  proof (cases "e = e0")
    case True
    with that assms retry_entry_self [OF assms(1,2)] retry_entry_none [OF assms(1)]
    show ?thesis by (cases "queued dir e0") (fastforce simp: dlq_wf_def)+
  next
    case False
    with that assms retry_entry_other [OF assms(1,3)] show ?thesis by (simp add: dlq_wf_def)
  qed
  ultimately show ?thesis by (simp add: dlq_wf_def)
qed

text \<open>An upload in the queue, or already in the store under its name.\<close>

definition kept :: "('w \<Rightarrow> string \<times> string \<Rightarrow> bytes option) \<Rightarrow> string \<Rightarrow> string \<Rightarrow> string \<times> bytes \<Rightarrow> directory \<Rightarrow> 'w \<Rightarrow> bool" where
  "kept objs bucket e fd dir w \<longleftrightarrow>
     queued dir e = Some fd \<or> queued dir e = None \<and> objs w (bucket, fst fd) = Some (snd fd)"

lemma kept_retry_entry:
  assumes "retry_entry os S bucket e0 dir w = (ok, dir', w')" "s3_laws S objs" "\<not> is_meta e0" "\<not> is_meta e" "dlq_wf dir"
    "kept objs bucket e (f, d) dir w" "e = flat_name f"
  shows "kept objs bucket e (f, d) dir' w'"
proof (cases "e = e0")
  case True
  then show ?thesis
    using assms(6) retry_entry_self [OF assms(1,2)] retry_entry_none [OF assms(1)]
    by (cases "queued dir e0") (auto simp: kept_def)
next
  case False
  note other = retry_entry_other [OF assms(1,3,4) False]
  show ?thesis
  proof (cases "queued dir e0")
    case None
    with retry_entry_none [OF assms(1)] assms(6) show ?thesis by simp
  next
    case (Some fd)
    obtain f0 d0 where fd: "fd = (f0, d0)" by (cases fd)
    with Some assms(3,5) have "e0 = flat_name f0" by (simp add: dlq_wf_def)
    with False assms(7) have "f \<noteq> f0" by auto
    with retry_entry_objs [OF assms(1,2)] Some fd have "objs w' (bucket, f) = objs w (bucket, f)" by simp
    with other assms(6) show ?thesis by (simp add: kept_def)
  qed
qed

lemma kept_retry_entries:
  assumes "s3_laws S objs" "\<not> is_meta e" "e = flat_name f"
  shows "retry_entries os S bucket entries dir w = (n, dir', w') \<Longrightarrow> dlq_wf dir \<Longrightarrow> kept objs bucket e (f, d) dir w \<Longrightarrow>
    kept objs bucket e (f, d) dir' w' \<and> dlq_wf dir'"
proof (induction entries arbitrary: dir w n dir' w')
  case (Cons e0 entries)
  show ?case
  proof (cases "is_meta e0")
    case False
    obtain ok dir1 w1 where step: "retry_entry os S bucket e0 dir w = (ok, dir1, w1)" by (metis prod_cases3)
    obtain n1 dir2 w2 where rest: "retry_entries os S bucket entries dir1 w1 = (n1, dir2, w2)" by (metis prod_cases3)
    have "dir' = dir2" "w' = w2" using Cons.prems(1) False step rest by (simp_all add: Let_def)
    with Cons.IH [OF rest] retry_entry_wf [OF step assms(1) False Cons.prems(2)]
      kept_retry_entry [OF step assms(1) False assms(2) Cons.prems(2,3) assms(3)]
    show ?thesis by simp
  qed (use Cons in simp)
qed simp

lemma dlq_wf_Nil [simp]: "dlq_wf []"
  by (simp add: dlq_wf_def queued_def read_file_def)

section \<open>Properties\<close>

text \<open>
  C39. A retry of the dead-letter queue loses no data: whatever uploads and system calls fail, an entry
  that could be read before is afterwards either still queued with the same file name and data, or its
  data is stored in S3 under its file name.
\<close>

theorem dlq_retry_no_loss:
  assumes "s3_laws S objs" "dlq_wf dir" "\<not> is_meta e" "queued dir e = Some (f, d)"
    "retry_uploads os S bucket (Some dir) w = (n, Some dir', w')"
  shows "queued dir' e = Some (f, d) \<or> objs w' (bucket, f) = Some d"
proof -
  have "e = flat_name f" using assms(2-4) by (simp add: dlq_wf_def)
  moreover obtain n' d' w1 where "retry_entries os S bucket (map fst dir) dir w = (n', d', w1)" by (metis prod_cases3)
  ultimately show ?thesis
    using kept_retry_entries [OF assms(1,3), of f os bucket "map fst dir" dir w] assms(2,4,5)
    by (auto simp: retry_uploads_def kept_def)
qed

definition mem_os :: os where
  "mem_os = \<lparr>os_makedirs_ok = True, os_stat_ok = (\<lambda>_. True), os_remove_ok = (\<lambda>p. \<not> is_meta p), os_write_fault = (\<lambda>_. None),
     os_size = (\<lambda>c. case c of Gz d \<Rightarrow> int (length d) | _ \<Rightarrow> 1), os_now = 0\<rparr>"

definition mem_dir :: directory where
  "mem_dir = the (snd (dlq_store mem_os 100 ''warc/a.gz'' ''data'' None))"

theorem dlq_retry_no_loss_witness:
  "\<exists>n dir' w'. retry_uploads mem_os mem_s3 ''b'' (Some mem_dir) (\<lambda>_. None) = (n, Some dir', w')
     \<and> (queued dir' ''warc_a.gz'' = Some (''warc/a.gz'', ''data'') \<or> w' (''b'', ''warc/a.gz'') = Some ''data'')"
proof -
  have dir: "mem_dir = [(''warc_a.gz'', \<lparr>df_mtime = 0, df_content = Gz ''data''\<rparr>),
      (''warc_a.gz.meta.json'', \<lparr>df_mtime = 0, df_content =
        Doc (JObj [(''filename'', JStr ''warc/a.gz''), (''stored_at'', JStr (isoformat 0))])\<rparr>)]"
    by code_simp
  have keys: "map_of mem_dir e = None" if "e \<noteq> ''warc_a.gz''" "e \<noteq> ''warc_a.gz.meta.json''" for e
    using that by (simp add: dir)
  have q: "queued mem_dir ''warc_a.gz'' = Some (''warc/a.gz'', ''data'')" by code_simp
  have nm: "\<not> is_meta ''warc_a.gz''" "is_meta ''warc_a.gz.meta.json''" by code_simp+
  have "e = flat_name f" if "\<not> is_meta e" "queued mem_dir e = Some (f, d)" for e f d
  proof -
    from that have "e = ''warc_a.gz''" using keys [of e] nm
      by (auto simp: queued_def read_file_def split: option.splits content.splits json.splits)
    with that q have "f = ''warc/a.gz''" by simp
    with \<open>e = ''warc_a.gz''\<close> show ?thesis by (simp add: flat_name_def)
  qed
  then have wf: "dlq_wf mem_dir" by (simp add: dlq_wf_def dir)
  obtain n dir' w' where run: "retry_uploads mem_os mem_s3 ''b'' (Some mem_dir) (\<lambda>_. None) = (n, Some dir', w')"
    by (cases "retry_entries mem_os mem_s3 ''b'' (map fst mem_dir) mem_dir (\<lambda>_. None)")
      (simp add: retry_uploads_def)
  show ?thesis using dlq_retry_no_loss [OF mem_s3_laws(1) wf nm(1) q run] run by blast
qed

end
