(* ===== verification/Proxy_Pools.thy ===== *)
theory Proxy_Pools
  imports Proxy_Manager Policy_Resolver Api_Errors
begin

text \<open>
  Proxy pools and the endpoints over them: \<^verbatim>\<open>app/models/proxy_pool.py\<close>, the pool endpoints of
  \<^verbatim>\<open>app/api/v1/endpoints/admin.py\<close>, and \<^verbatim>\<open>app/api/v1/endpoints/proxy.py\<close> with the response schemas of
  \<^verbatim>\<open>app/schemas/proxy.py\<close>. The scope checks run before the endpoints (theory Auth); the timestamps of
  the proxy rows and the limits on column widths are left out. What the database generates (keys, creation
  times) is an argument.
\<close>

record ProxyPool =
  pp_id :: uuid
  pp_name :: string
  pp_provider :: string
  pp_is_active :: bool
  pp_created_at :: datetime

definition new_pool :: "uuid \<Rightarrow> string \<Rightarrow> string \<Rightarrow> datetime \<Rightarrow> ProxyPool" where
  "new_pool i name provider now =
     \<lparr>pp_id = i, pp_name = name, pp_provider = provider, pp_is_active = True, pp_created_at = now\<rparr>"

text \<open>The pair that the table's unique constraint is on.\<close>

definition px_key :: "Proxy \<Rightarrow> string \<times> string" where
  "px_key r = (px_provider r, px_url r)"

definition country_code :: "string \<Rightarrow> string" where
  "country_code c = take 2 (upper c)"

section \<open>Admin endpoints\<close>

definition create_proxy_pool ::
  "uuid \<Rightarrow> datetime \<Rightarrow> string \<Rightarrow> string \<Rightarrow> ProxyPool list \<Rightarrow> (api_error + ProxyPool) \<times> ProxyPool list" where
  "create_proxy_pool row_id now name provider pools =
     (if get_by pp_name name pools \<noteq> None then (Inl (ConflictError ''Proxy pool name already exists''), pools)
      else (let row = new_pool row_id name provider now in (Inr row, insert_row row pools)))"

text \<open>The provider column is left to its default.\<close>

definition add_proxy_to_pool ::
  "uuid \<Rightarrow> uuid \<Rightarrow> string \<Rightarrow> string option \<Rightarrow> string \<Rightarrow> ProxyPool list \<Rightarrow> proxy_table
   \<Rightarrow> (api_error + Proxy) \<times> proxy_table" where
  "add_proxy_to_pool row_id pool_id url country proxy_type pools proxies =
     (case get_by pp_id pool_id pools of
        None \<Rightarrow> (Inl (NotFoundError ''Proxy pool not found''), proxies)
      | Some pool \<Rightarrow>
          if \<not> pp_is_active pool then (Inl (AuthorizationError ''Cannot add proxies to an inactive pool''), proxies)
          else if get_by px_key (''webshare'', url) proxies \<noteq> None
          then (Inl (ConflictError ''Proxy with this URL already exists''), proxies)
          else (let row = (new_proxy row_id pool_id url)\<lparr>
                      px_country := (case country of None \<Rightarrow> None | Some c \<Rightarrow> if c = [] then None else Some (country_code c)),
                      px_proxy_type := proxy_type\<rparr>
                in (Inr row, insert_row row proxies)))"

section \<open>Proxy endpoints\<close>

record ProxyResponse =
  pr_id :: uuid
  pr_pool_id :: uuid
  pr_country :: "string option"
  pr_health_score :: real
  pr_consecutive_failures :: int
  pr_cooldown_until :: "datetime option"
  pr_total_requests :: int
  pr_total_errors :: int

definition proxy_response :: "Proxy \<Rightarrow> ProxyResponse" where
  "proxy_response r =
     \<lparr>pr_id = px_id r, pr_pool_id = px_pool_id r, pr_country = px_country r, pr_health_score = px_health_score r,
      pr_consecutive_failures = px_consecutive_failures r, pr_cooldown_until = px_cooldown_until r,
      pr_total_requests = px_total_requests r, pr_total_errors = px_total_errors r\<rparr>"

definition list_pools :: "ProxyPool list \<Rightarrow> ProxyPool list" where
  "list_pools pools = filter pp_is_active pools"

text \<open>
  The scan for open breakers. \<open>scan\<close> is the SCAN command for the keys of breaker states; the loop asks until the
  cursor is zero, for at most \<open>n\<close> rounds (None when they are used up). An exception ends it with what it has.
\<close>

definition removesuffix :: "string \<Rightarrow> string \<Rightarrow> string" where
  "removesuffix p s = (if p \<noteq> [] \<and> endswith p s then take (length s - length p) s else s)"

definition breaker_domain :: "string \<Rightarrow> string" where
  "breaker_domain key = removesuffix '':state'' (removeprefix ''cb:domain:'' key)"

fun collect_open :: "'r redis \<Rightarrow> string list \<Rightarrow> string list \<Rightarrow> 'r \<Rightarrow> (string list \<times> bool) \<times> 'r" where
  "collect_open R [] open_circuits s = ((open_circuits, True), s)"
| "collect_open R (key # keys) open_circuits s =
     (case r_get R key s of
        (None, s') \<Rightarrow> ((open_circuits, False), s')
      | (Some v, s') \<Rightarrow>
          collect_open R keys (if is_open_state v then open_circuits @ [breaker_domain key] else open_circuits) s')"

type_synonym 'r scan = "int \<Rightarrow> 'r \<Rightarrow> (int \<times> string list) option \<times> 'r"

fun scan_open :: "'r redis \<Rightarrow> 'r scan \<Rightarrow> nat \<Rightarrow> int \<Rightarrow> string list \<Rightarrow> 'r \<Rightarrow> string list option \<times> 'r" where
  "scan_open R scan 0 cursor open_circuits s = (None, s)"
| "scan_open R scan (Suc n) cursor open_circuits s =
     (case scan cursor s of
        (None, s') \<Rightarrow> (Some open_circuits, s')
      | (Some (cursor', keys), s') \<Rightarrow>
          (case collect_open R keys open_circuits s' of
             ((found, ok), s'') \<Rightarrow>
               if \<not> ok \<or> cursor' = 0 then (Some found, s'') else scan_open R scan n cursor' found s''))"

definition get_pool_stats ::
  "'r redis \<Rightarrow> 'r scan \<Rightarrow> nat \<Rightarrow> datetime \<Rightarrow> uuid \<Rightarrow> ProxyPool list \<Rightarrow> proxy_table \<Rightarrow> 'r
   \<Rightarrow> (api_error + (int \<times> int \<times> int \<times> real) \<times> string list option) \<times> 'r" where
  "get_pool_stats R scan n now pool_id pools proxies s =
     (case get_by pp_id pool_id pools of
        None \<Rightarrow> (Inl (HTTPException 404 ''Proxy pool not found''), s)
      | Some _ \<Rightarrow> (let (circuits, s') = scan_open R scan n 0 [] s
                  in (Inr (pool_health_stats now pool_id proxies, circuits), s')))"

definition list_proxies :: "uuid option \<Rightarrow> string option \<Rightarrow> proxy_table \<Rightarrow> ProxyResponse list" where
  "list_proxies pool_id country proxies =
     (let wanted = (\<lambda>p. opt_matches pool_id (Some (px_pool_id p)) \<and> opt_matches (map_option country_code country) (px_country p))
      in map proxy_response (sort_key (\<lambda>p. - px_health_score p) (filter wanted proxies)))"

text \<open>The newest first; the log is in the order of its sequence numbers. A negative limit is refused by the database.\<close>

definition get_proxy_events :: "uuid \<Rightarrow> int \<Rightarrow> ProxyEvent list \<Rightarrow> api_error + ProxyEvent list" where
  "get_proxy_events proxy_id limit evs =
     (if limit < 0 then Inl (RuntimeError ''Internal Server Error'')
      else Inr (take (nat limit) (rev (filter (\<lambda>e. ev_proxy_id e = proxy_id) evs))))"

definition report_proxy_health ::
  "'r redis \<Rightarrow> breaker_cfg \<Rightarrow> datetime \<Rightarrow> string \<Rightarrow> uuid \<Rightarrow> string \<Rightarrow> bool \<Rightarrow> string option
   \<Rightarrow> proxy_table \<Rightarrow> ProxyEvent list \<Rightarrow> 'r \<Rightarrow> proxy_table \<times> ProxyEvent list \<times> 'r" where
  "report_proxy_health R cfg now date_key proxy_id domain success reason tbl evs s =
     report_result R cfg now date_key proxy_id domain success reason tbl evs s"

definition reset_row :: "Proxy \<Rightarrow> Proxy" where
  "reset_row r = r\<lparr>px_health_score := 1, px_consecutive_failures := 0, px_cooldown_until := None\<rparr>"

definition reset_proxy :: "uuid \<Rightarrow> proxy_table \<Rightarrow> (api_error + string) \<times> proxy_table" where
  "reset_proxy proxy_id proxies =
     (case get_by px_id proxy_id proxies of
        None \<Rightarrow> (Inl (HTTPException 404 ''Proxy not found''), proxies)
      | Some _ \<Rightarrow> (Inr (uuid_str proxy_id), update_where (\<lambda>r. px_id r = proxy_id) reset_row proxies))"

definition reset_circuit_breaker_endpoint :: "(string \<Rightarrow> string) \<Rightarrow> 'r redis \<Rightarrow> string \<Rightarrow> 'r \<Rightarrow> string \<times> 'r" where
  "reset_circuit_breaker_endpoint rd R domain s =
     (let domain_norm = normalize_domain rd domain in (domain_norm, snd (reset_circuit_breaker R domain_norm s)))"

section \<open>Bulk import\<close>

record ProxyImportItem =
  im_host :: string
  im_port :: int
  im_username :: string
  im_password :: string
  im_country :: string
  im_proxy_type :: string

text \<open>INSERT ... ON CONFLICT (provider, url) DO UPDATE.\<close>

definition upsert_proxy :: "(Proxy \<Rightarrow> Proxy) \<Rightarrow> Proxy \<Rightarrow> proxy_table \<Rightarrow> proxy_table" where
  "upsert_proxy upd row tbl =
     (if get_by px_key (px_key row) tbl = None then insert_row row tbl
      else update_where (\<lambda>r. px_key r = px_key row) upd tbl)"

definition item_url :: "ProxyImportItem \<Rightarrow> string" where
  "item_url item = ''http://'' @ im_username item @ '':'' @ im_password item @ ''@'' @ im_host item @ '':'' @ int_str (im_port item)"

definition import_row :: "uuid \<Rightarrow> uuid \<Rightarrow> ProxyImportItem \<Rightarrow> Proxy" where
  "import_row row_id pool_id item = (new_proxy row_id pool_id (item_url item))\<lparr>
     px_country := Some (country_code (im_country item)), px_proxy_type := im_proxy_type item\<rparr>"

definition import_update :: "ProxyImportItem \<Rightarrow> Proxy \<Rightarrow> Proxy" where
  "import_update item r = r\<lparr>px_country := Some (country_code (im_country item)), px_proxy_type := im_proxy_type item,
     px_health_score := 1, px_consecutive_failures := 0, px_cooldown_until := None\<rparr>"

fun import_items :: "uuid \<Rightarrow> (nat \<Rightarrow> uuid) \<Rightarrow> nat \<Rightarrow> ProxyImportItem list \<Rightarrow> proxy_table \<Rightarrow> nat \<times> proxy_table" where
  "import_items pool_id ids created [] tbl = (created, tbl)"
| "import_items pool_id ids created (item # items) tbl =
     import_items pool_id ids (created + 1) items
       (upsert_proxy (import_update item) (import_row (ids created) pool_id item) tbl)"

definition import_proxies ::
  "uuid \<Rightarrow> datetime \<Rightarrow> (nat \<Rightarrow> uuid) \<Rightarrow> ProxyImportItem list \<Rightarrow> ProxyPool list \<Rightarrow> proxy_table
   \<Rightarrow> (api_error + nat) \<times> ProxyPool list \<times> proxy_table" where
  "import_proxies pool_id now ids items pools proxies =
     (let name = ''bulk-import-'' @ take 8 (hex_fixed 32 (uint pool_id))
      in if get_by pp_name name pools \<noteq> None then (Inl (RuntimeError ''Internal Server Error''), pools, proxies)
         else (let (created, proxies') = import_items pool_id ids 0 items proxies
               in (Inr created, insert_row (new_pool pool_id name ''webshare'' now) pools, proxies')))"

section \<open>Facts\<close>

lemma px_key_new_proxy [simp]: "px_key (new_proxy i pool url) = (''webshare'', url)"
  by (simp add: px_key_def new_proxy_def)

lemma px_key_import [simp]:
  "px_key (import_row i pool item) = (''webshare'', item_url item)" "px_key (import_update item r) = px_key r"
  by (simp_all add: px_key_def import_row_def import_update_def new_proxy_def)

lemma get_by_upsert:
  assumes "\<And>r. px_key (upd r) = px_key r"
  shows "get_by px_key k (upsert_proxy upd row tbl) =
    (if k = px_key row then Some (case get_by px_key k tbl of Some r \<Rightarrow> upd r | None \<Rightarrow> row) else get_by px_key k tbl)"
  using get_by_update_where [of px_key upd, OF assms] get_by_SomeD [of px_key k tbl]
  by (cases "get_by px_key k tbl") (auto simp: upsert_proxy_def)

lemma unique_upsert:
  assumes "\<And>r. px_key (upd r) = px_key r" "unique_on px_key tbl"
  shows "unique_on px_key (upsert_proxy upd row tbl)"
  using assms by (simp add: upsert_proxy_def unique_on_insert_row unique_on_update_where)

text \<open>What an import leaves of the row with a given key: the last item for it decides.\<close>

definition imported :: "uuid \<Rightarrow> ProxyImportItem \<Rightarrow> Proxy option \<Rightarrow> Proxy \<Rightarrow> bool" where
  "imported pool_id item before after \<longleftrightarrow>
     px_country after = Some (country_code (im_country item)) \<and> px_proxy_type after = im_proxy_type item
     \<and> px_health_score after = 1 \<and> px_consecutive_failures after = 0 \<and> px_cooldown_until after = None
     \<and> (case before of
          Some r \<Rightarrow> px_id after = px_id r \<and> px_pool_id after = px_pool_id r \<and> px_is_active after = px_is_active r
        | None \<Rightarrow> px_pool_id after = pool_id \<and> px_is_active after)"

lemma import_items_length: "fst (import_items pool_id ids n items tbl) = n + length items"
  by (induction items arbitrary: n tbl) simp_all

lemma import_items_unique:
  "unique_on px_key tbl \<Longrightarrow> unique_on px_key (snd (import_items pool_id ids n items tbl))"
  by (induction items arbitrary: n tbl) (simp_all add: unique_upsert)

lemma import_items_other:
  "(\<And>i. i \<in> set items \<Longrightarrow> k \<noteq> (''webshare'', item_url i)) \<Longrightarrow>
   get_by px_key k (snd (import_items pool_id ids n items tbl)) = get_by px_key k tbl"
  by (induction items arbitrary: n tbl) (simp_all add: get_by_upsert)

lemma imported_first:
  "\<exists>r. get_by px_key (''webshare'', item_url item) (upsert_proxy (import_update item) (import_row i pool_id item) tbl) = Some r
     \<and> imported pool_id item (get_by px_key (''webshare'', item_url item) tbl) r"
proof -
  have "imported pool_id item (get_by px_key k tbl)
      (case get_by px_key k tbl of Some r \<Rightarrow> import_update item r | None \<Rightarrow> import_row i pool_id item)" for k
    by (cases "get_by px_key k tbl") (simp_all add: imported_def import_update_def import_row_def new_proxy_def)
  then show ?thesis by (simp add: get_by_upsert)
qed

lemma imported_again:
  assumes "imported pool_id item0 before r" "imported pool_id item (Some r) after"
  shows "imported pool_id item before after"
  using assms by (auto simp: imported_def split: option.splits)

lemma find_snoc: "find P (xs @ [x]) = (case find P xs of Some y \<Rightarrow> Some y | None \<Rightarrow> if P x then Some x else None)"
  by (induction xs) simp_all

lemma import_items_spec:
  assumes "find (\<lambda>i. item_url i = u) (rev items) = Some item"
  shows "\<exists>r. get_by px_key (''webshare'', u) (snd (import_items pool_id ids n items tbl)) = Some r
     \<and> imported pool_id item (get_by px_key (''webshare'', u) tbl) r"
  using assms
proof (induction items arbitrary: n tbl item)
  case (Cons i items)
  let ?tbl = "upsert_proxy (import_update i) (import_row (ids n) pool_id i) tbl"
  show ?case
  proof (cases "find (\<lambda>i. item_url i = u) (rev items)")
    case None
    then have none: "\<And>j. j \<in> set items \<Longrightarrow> item_url j \<noteq> u" by (auto simp: find_None_iff)
    with Cons.prems have "item = i" "item_url i = u" using None by (simp_all add: find_snoc split: if_splits)
    moreover have "get_by px_key (''webshare'', u) (snd (import_items pool_id ids (n + 1) items ?tbl)) = get_by px_key (''webshare'', u) ?tbl"
      by (rule import_items_other) (use none in fastforce)
    ultimately show ?thesis using imported_first [of i "ids n" pool_id tbl] by auto
  next
    case (Some j)
    then have j: "item = j" using Cons.prems by (simp add: find_snoc)
    from Cons.IH [OF Some, of "n + 1" ?tbl] obtain r where
      r: "get_by px_key (''webshare'', u) (snd (import_items pool_id ids (n + 1) items ?tbl)) = Some r"
        "imported pool_id j (get_by px_key (''webshare'', u) ?tbl) r" by blast
    have "imported pool_id j (get_by px_key (''webshare'', u) tbl) r"
    proof (cases "item_url i = u")
      case True
      with imported_first [of i "ids n" pool_id tbl] obtain r1 where
        "get_by px_key (''webshare'', u) ?tbl = Some r1" "imported pool_id i (get_by px_key (''webshare'', u) tbl) r1" by auto
      with r(2) imported_again show ?thesis by metis
    next
      case False
      then have "get_by px_key (''webshare'', u) ?tbl = get_by px_key (''webshare'', u) tbl" by (simp add: get_by_upsert)
      with r(2) show ?thesis by simp
    qed
    with r(1) j show ?thesis by auto
  qed
qed simp

section \<open>Properties\<close>

text \<open>
  A bulk import sets the health of every listed proxy back to full, inserting the ones that are
  new into the fresh pool; of several items for the same URL the last one decides its country and type.
  Rows of other URLs or providers are untouched and the (provider, URL) constraint is kept. A row that
  already existed keeps its pool and its activity: importing an inactive proxy does not activate it.
\<close>

lemma import_proxies_effect:
  "case import_proxies pool_id now ids items pools tbl of
     (Inl e, pools', tbl') \<Rightarrow> pools' = pools \<and> tbl' = tbl
   | (Inr n, pools', tbl') \<Rightarrow>
       n = length items \<and> get_by pp_name (''bulk-import-'' @ take 8 (hex_fixed 32 (uint pool_id))) pools' \<noteq> None
       \<and> (if unique_on px_key tbl then unique_on px_key tbl' else True)
       \<and> (\<forall>p u. case if p = ''webshare'' then find (\<lambda>i. item_url i = u) (rev items) else None of
              None \<Rightarrow> get_by px_key (p, u) tbl' = get_by px_key (p, u) tbl
            | Some item \<Rightarrow>
                \<exists>r. get_by px_key (p, u) tbl' = Some r
                  \<and> px_country r = Some (country_code (im_country item)) \<and> px_proxy_type r = im_proxy_type item
                  \<and> px_health_score r = 1 \<and> px_consecutive_failures r = 0 \<and> px_cooldown_until r = None
                  \<and> (case get_by px_key (p, u) tbl of
                       Some r0 \<Rightarrow> px_id r = px_id r0 \<and> px_pool_id r = px_pool_id r0 \<and> px_is_active r = px_is_active r0
                     | None \<Rightarrow> px_pool_id r = pool_id \<and> px_is_active r))"
proof -
  let ?name = "''bulk-import-'' @ take 8 (hex_fixed 32 (uint pool_id))"
  obtain n tbl' where run: "import_items pool_id ids 0 items tbl = (n, tbl')" by fastforce
  have n: "n = length items" and un: "unique_on px_key tbl \<Longrightarrow> unique_on px_key tbl'"
    using import_items_length [of pool_id ids 0 items tbl] import_items_unique [of tbl pool_id ids 0 items] run by simp_all
  have rows: "case if p = ''webshare'' then find (\<lambda>i. item_url i = u) (rev items) else None of
        None \<Rightarrow> get_by px_key (p, u) tbl' = get_by px_key (p, u) tbl
      | Some item \<Rightarrow> \<exists>r. get_by px_key (p, u) tbl' = Some r \<and> imported pool_id item (get_by px_key (p, u) tbl) r" for p u
  proof (cases "if p = ''webshare'' then find (\<lambda>i. item_url i = u) (rev items) else None")
    case None
    then have "\<And>i. i \<in> set items \<Longrightarrow> (p, u) \<noteq> (''webshare'', item_url i)" by (auto simp: find_None_iff split: if_splits)
    from import_items_other [OF this, of items pool_id ids 0 tbl] None run show ?thesis by simp
  next
    case (Some item)
    then have "p = ''webshare''" "find (\<lambda>i. item_url i = u) (rev items) = Some item" by (simp_all split: if_splits)
    with import_items_spec [of u items item pool_id ids 0 tbl] run show ?thesis by simp
  qed
  show ?thesis
  proof (cases "get_by pp_name ?name pools")
    case None
    have "get_by pp_name ?name (insert_row (new_pool pool_id ?name ''webshare'' now) pools) \<noteq> None"
      by (simp add: new_pool_def split: option.splits)
    then show ?thesis using None n un rows [unfolded imported_def] by (simp add: import_proxies_def Let_def run)
  qed (simp add: import_proxies_def)
qed

section \<open>The open breakers that the statistics list\<close>

lemma breaker_domain_state [simp]: "breaker_domain (cb_state_key d) = d"
  by (simp add: breaker_domain_def cb_state_key_def removeprefix_def removesuffix_def startswith_def endswith_def)

lemma collect_open_spec:
  assumes "redis_laws R view"
  shows "collect_open R keys acc s = ((found, ok), s') \<Longrightarrow>
    \<exists>ks rest. keys = ks @ rest \<and> (ok \<longrightarrow> rest = [] \<and> view s' = view s)
      \<and> found = acc @ map breaker_domain (filter (\<lambda>k. is_open_state (view s k)) ks)"
proof (induction keys arbitrary: acc s)
  case (Cons k keys)
  show ?case
  proof (cases "r_get R k s")
    case (Pair r s1)
    show ?thesis
    proof (cases r)
      case None
      with Cons.prems Pair show ?thesis by (intro exI [of _ "[]"] exI [of _ "k # keys"]) auto
    next
      case (Some v)
      have v: "v = view s k \<and> view s1 = view s"
        using assms Pair Some by (auto simp: redis_laws_def string_laws_def)
      from Cons.prems Pair Some v have "collect_open R keys (if is_open_state (view s k) then acc @ [breaker_domain k] else acc) s1 = ((found, ok), s')"
        by simp
      from Cons.IH [OF this] obtain ks rest where "keys = ks @ rest" "ok \<longrightarrow> rest = [] \<and> view s' = view s1"
        "found = (if is_open_state (view s k) then acc @ [breaker_domain k] else acc)
           @ map breaker_domain (filter (\<lambda>k. is_open_state (view s1 k)) ks)" by blast
      with v show ?thesis by (intro exI [of _ "k # ks"] exI [of _ rest]) auto
    qed
  qed
qed simp

text \<open>
  While Redis answers and SCAN gives only the keys of breaker states, every domain in the list has an open breaker;
  a domain is listed once for each time SCAN returns its key, which may be more than once.
\<close>

lemma scan_open_sound:
  assumes "redis_laws R view"
    "\<And>c s c' keys s'. scan c s = (Some (c', keys), s') \<Longrightarrow> view s' = view s \<and> (\<forall>k \<in> set keys. \<exists>d. k = cb_state_key d)"
  shows "scan_open R scan n c acc s = (Some found, s') \<Longrightarrow>
    \<forall>d \<in> set found. d \<in> set acc \<or> is_open_state (view s (cb_state_key d))"
proof (induction n arbitrary: c acc s)
  case (Suc n)
  show ?case
  proof (cases "scan c s")
    case (Pair r s1)
    show ?thesis
    proof (cases r)
      case None
      with Suc.prems Pair show ?thesis by auto
    next
      case (Some q)
      obtain c' keys where q: "q = (c', keys)" by fastforce
      note sc = assms(2) [OF Pair [unfolded Some q]]
      obtain found1 ok s2 where col: "collect_open R keys acc s1 = ((found1, ok), s2)" by (metis surj_pair)
      from collect_open_spec [OF assms(1) col] obtain ks rest where ks: "keys = ks @ rest" "ok \<longrightarrow> view s2 = view s1"
        "found1 = acc @ map breaker_domain (filter (\<lambda>k. is_open_state (view s1 k)) ks)" by blast
      have one: "\<forall>d \<in> set found1. d \<in> set acc \<or> is_open_state (view s (cb_state_key d))"
      proof
        fix d assume "d \<in> set found1"
        then consider "d \<in> set acc" | k where "k \<in> set ks" "is_open_state (view s k)" "d = breaker_domain k"
          using ks(3) sc by auto
        then show "d \<in> set acc \<or> is_open_state (view s (cb_state_key d))"
        proof cases
          case (2 k)
          then obtain d' where "k = cb_state_key d'" using sc ks(1) by auto
          with 2 show ?thesis by simp
        qed simp
      qed
      show ?thesis
      proof (cases "\<not> ok \<or> c' = 0")
        case True
        with Suc.prems Pair Some q col one show ?thesis by auto
      next
        case False
        with Suc.prems Pair Some q col have rec: "scan_open R scan n c' found1 s2 = (Some found, s')" by simp
        have "view s2 = view s" using False ks(2) sc by simp
        with Suc.IH [OF rec] one show ?thesis by auto
      qed
    qed
  qed
qed simp

end
