(* ===== verification/Proxy_Sync.thy ===== *)
theory Proxy_Sync
  imports Proxy_Pools Content_Decoder Job_Service
begin

text \<open>
  Proxy discovery and synchronisation: \<^verbatim>\<open>app/services/webshare_sync.py\<close> (the HTTP client is a
  parameter), \<^verbatim>\<open>app/services/proxy_providers/\<close> and \<^verbatim>\<open>app/services/proxy_sync_service.py\<close>.
\<close>

record RawProxy =
  rp_url :: string
  rp_country :: "string option"
  rp_proxy_type :: string
  rp_city :: "string option"

section \<open>Webshare\<close>

text \<open>
  \<open>WsHttp\<close> is \<^verbatim>\<open>httpx.HTTPError\<close>, which one handler catches; \<open>WsOther\<close> any other exception;
  \<open>WsFuel\<close> is not an exception of the program: it stands for a listing that did not end within the
  given number of pages.
\<close>

datatype ws_exn = WsHttp | WsOther | WsFuel

text \<open>GET, \<^verbatim>\<open>raise_for_status\<close> and \<^verbatim>\<open>json\<close>.\<close>

type_synonym 'w ws_get = "string \<Rightarrow> (string \<times> json) list \<Rightarrow> ('w, ws_exn, json) eff"

record WebsharePlan =
  wp_id :: json
  wp_status :: json
  wp_proxy_type :: json
  wp_proxy_subtype :: json

definition WEBSHARE_PLAN_URL :: string where
  "WEBSHARE_PLAN_URL = ''https://proxy.webshare.io/api/v2/subscription/plan/''"

definition WEBSHARE_LIST_URL :: string where
  "WEBSHARE_LIST_URL = ''https://proxy.webshare.io/api/v2/proxy/list/''"

definition SUBTYPE_TO_PROXY_TYPE :: "(string \<times> string) list" where
  "SUBTYPE_TO_PROXY_TYPE = [(''isp'', ''residential''), (''residential'', ''residential''), (''default'', ''datacenter'')]"

definition DIRECT_CAPABLE_SUBTYPES :: "string list" where
  "DIRECT_CAPABLE_SUBTYPES = [''isp'', ''default'']"

definition as_dict :: "json \<Rightarrow> ws_exn + (string \<times> json) list" where
  "as_dict j = (case j of JObj d \<Rightarrow> Inr d | _ \<Rightarrow> Inl WsOther)"

text \<open>\<^verbatim>\<open>d.get(k, default)\<close> and \<^verbatim>\<open>for x in v\<close>.\<close>

definition get_default :: "(string \<times> json) list \<Rightarrow> string \<Rightarrow> json \<Rightarrow> json" where
  "get_default d k dflt = (case dict_get d k of None \<Rightarrow> dflt | Some v \<Rightarrow> v)"

definition json_iter :: "json \<Rightarrow> ws_exn + json list" where
  "json_iter j = (case j of
     JList xs \<Rightarrow> Inr xs
   | JStr s \<Rightarrow> Inr (map (\<lambda>c. JStr [c]) s)
   | JObj d \<Rightarrow> Inr (map (\<lambda>(k, v). JStr k) d)
   | _ \<Rightarrow> Inl WsOther)"

definition parse_plan :: "json \<Rightarrow> ws_exn + WebsharePlan" where
  "parse_plan p =
     bindE (as_dict p) (\<lambda>d.
     bindE (of_option WsOther (dict_get d ''id'')) (\<lambda>i.
     Inr \<lparr>wp_id = i, wp_status = get_default d ''status'' (JStr ''unknown''),
          wp_proxy_type = get_default d ''proxy_type'' (JStr []),
          wp_proxy_subtype = get_default d ''proxy_subtype'' (JStr ''default'')\<rparr>))"

fun mapE :: "('a \<Rightarrow> 'e + 'b) \<Rightarrow> 'a list \<Rightarrow> 'e + 'b list" where
  "mapE f [] = Inr []"
| "mapE f (x # xs) = bindE (f x) (\<lambda>y. bindE (mapE f xs) (\<lambda>ys. Inr (y # ys)))"

text \<open>The loop over the pages of plans; \<open>next\<close> is the URL of the page to read.\<close>

fun plan_pages ::
  "'w ws_get \<Rightarrow> nat \<Rightarrow> json \<Rightarrow> (string \<times> json) list \<Rightarrow> WebsharePlan list \<Rightarrow> ('w, ws_exn, WebsharePlan list) eff" where
  "plan_pages get n next_url params plans =
     (if \<not> json_truth next_url then sret plans
      else (case n of
              0 \<Rightarrow> sraise WsFuel
            | Suc m \<Rightarrow>
                (case next_url of
                   JStr url \<Rightarrow>
                     sbind (get url params) (\<lambda>j.
                     sbind (of_sum (as_dict j)) (\<lambda>data.
                     sbind (of_sum (bindE (json_iter (get_default data ''results'' (JList []))) (mapE parse_plan))) (\<lambda>new.
                     plan_pages get m (jget data ''next'') [] (plans @ new))))
                 | _ \<Rightarrow> sraise WsOther)))"

definition list_webshare_plans :: "'w ws_get \<Rightarrow> nat \<Rightarrow> ('w, ws_exn, WebsharePlan list) eff" where
  "list_webshare_plans get fuel =
     plan_pages get fuel (JStr WEBSHARE_PLAN_URL) [(''page'', JNum 1), (''page_size'', JNum 100)] []"

text \<open>A subtype that cannot be hashed raises; one that is not a text is not in the table.\<close>

definition subtype_text :: "json \<Rightarrow> ws_exn + string option" where
  "subtype_text j = (case j of JStr s \<Rightarrow> Inr (Some s) | JList _ \<Rightarrow> Inl WsOther | JObj _ \<Rightarrow> Inl WsOther | _ \<Rightarrow> Inr None)"

definition internal_proxy_type :: "string \<Rightarrow> string" where
  "internal_proxy_type subtype =
     (case map_of SUBTYPE_TO_PROXY_TYPE subtype of Some t \<Rightarrow> t | None \<Rightarrow> ''datacenter'')"

text \<open>The text of a value in an f-string; \<open>show_json\<close> prints what is neither a text nor an integer.\<close>

definition f_text :: "(json \<Rightarrow> string) \<Rightarrow> json \<Rightarrow> string" where
  "f_text show_json j = (case j of JStr s \<Rightarrow> s | JNum n \<Rightarrow> int_str n | _ \<Rightarrow> show_json j)"

text \<open>
  One entry of a page: skipped when a part is missing. A city that is neither empty nor a text is an
  error here; the program fails on it when it writes the row.
\<close>

definition parse_item :: "(json \<Rightarrow> string) \<Rightarrow> string \<Rightarrow> json \<Rightarrow> ws_exn + RawProxy option" where
  "parse_item show_json proxy_type it =
     bindE (as_dict it) (\<lambda>item.
       let host = json_or (jget item ''proxy_address'') (JStr []); port = json_or (jget item ''port'') (JStr []);
           username = json_or (jget item ''username'') (JStr []); password = json_or (jget item ''password'') (JStr [])
       in if \<not> (json_truth host \<and> json_truth port \<and> json_truth username \<and> json_truth password) then Inr None
          else (case json_or (jget item ''country_code'') (JStr []) of
                  JStr c \<Rightarrow>
                    bindE (case json_or (jget item ''city_name'') JNull of
                             JStr city \<Rightarrow> Inr (Some city) | JNull \<Rightarrow> Inr None | _ \<Rightarrow> Inl WsOther) (\<lambda>city.
                    Inr (Some \<lparr>rp_url = ''http://'' @ f_text show_json username @ '':'' @ f_text show_json password
                                   @ ''@'' @ f_text show_json host @ '':'' @ f_text show_json port,
                               rp_country = (let cc = country_code c in if cc = [] then None else Some cc),
                               rp_proxy_type = proxy_type, rp_city = city\<rparr>))
                | _ \<Rightarrow> Inl WsOther))"

fun proxy_pages ::
  "'w ws_get \<Rightarrow> (json \<Rightarrow> string) \<Rightarrow> json \<Rightarrow> string \<Rightarrow> int \<Rightarrow> nat \<Rightarrow> int \<Rightarrow> RawProxy list \<Rightarrow> ('w, ws_exn, RawProxy list) eff" where
  "proxy_pages get show_json plan_id proxy_type page_size 0 page results = sraise WsFuel"
| "proxy_pages get show_json plan_id proxy_type page_size (Suc n) page results =
     sbind (get WEBSHARE_LIST_URL
              [(''mode'', JStr ''direct''), (''page'', JNum page), (''page_size'', JNum page_size), (''plan_id'', plan_id)]) (\<lambda>j.
     sbind (of_sum (as_dict j)) (\<lambda>data.
     sbind (of_sum (bindE (json_iter (get_default data ''results'' (JList []))) (mapE (parse_item show_json proxy_type)))) (\<lambda>new.
     let results' = results @ List.map_filter (\<lambda>x. x) new
     in if \<not> json_truth (jget data ''next'') then sret results'
        else proxy_pages get show_json plan_id proxy_type page_size n (page + 1) results')))"

definition fetch_webshare_proxies_for_plan ::
  "'w ws_get \<Rightarrow> (json \<Rightarrow> string) \<Rightarrow> nat \<Rightarrow> WebsharePlan \<Rightarrow> ('w, ws_exn, RawProxy list) eff" where
  "fetch_webshare_proxies_for_plan get show_json fuel plan =
     sbind (of_sum (subtype_text (wp_proxy_subtype plan))) (\<lambda>subtype.
     case subtype of
       None \<Rightarrow> sret []
     | Some t \<Rightarrow>
         if t \<notin> set DIRECT_CAPABLE_SUBTYPES then sret []
         else proxy_pages get show_json (wp_id plan) (internal_proxy_type t) 100 fuel 1 [])"

text \<open>One proxy into the dictionary: an endpoint seen under two plans is kept as residential.\<close>

definition merge_proxy :: "RawProxy \<Rightarrow> (string \<times> RawProxy) list \<Rightarrow> (string \<times> RawProxy) list" where
  "merge_proxy proxy all_proxies =
     (case dict_get all_proxies (rp_url proxy) of
        None \<Rightarrow> dict_set (rp_url proxy) proxy all_proxies
      | Some existing \<Rightarrow>
          if rp_proxy_type existing \<noteq> ''residential'' \<and> rp_proxy_type proxy = ''residential''
          then dict_set (rp_url proxy) proxy all_proxies else all_proxies)"

fun fetch_plans ::
  "'w ws_get \<Rightarrow> (json \<Rightarrow> string) \<Rightarrow> nat \<Rightarrow> WebsharePlan list \<Rightarrow> (string \<times> RawProxy) list
   \<Rightarrow> ('w, ws_exn, (string \<times> RawProxy) list) eff" where
  "fetch_plans get show_json fuel [] all_proxies w = (Inr all_proxies, w)"
| "fetch_plans get show_json fuel (plan # plans) all_proxies w =
     (case fetch_webshare_proxies_for_plan get show_json fuel plan w of
        (Inr proxies, w') \<Rightarrow> fetch_plans get show_json fuel plans (fold merge_proxy proxies all_proxies) w'
      | (Inl WsHttp, w') \<Rightarrow> fetch_plans get show_json fuel plans all_proxies w'
      | (Inl e, w') \<Rightarrow> (Inl e, w'))"

definition fetch_all_webshare_proxies ::
  "'w ws_get \<Rightarrow> (json \<Rightarrow> string) \<Rightarrow> nat \<Rightarrow> ('w, ws_exn, RawProxy list) eff" where
  "fetch_all_webshare_proxies get show_json fuel =
     sbind (list_webshare_plans get fuel) (\<lambda>plans.
     let active_plans = filter (\<lambda>p. wp_status p = JStr ''active'') plans
     in if active_plans = [] then sret []
        else sbind (fetch_plans get show_json fuel active_plans []) (\<lambda>d. sret (map snd d)))"

section \<open>The synchronisation\<close>

record ProxySyncStats =
  ss_provider :: string
  ss_fetched :: nat
  ss_inserted :: nat
  ss_updated :: nat
  ss_activated :: nat
  ss_deactivated :: nat

text \<open>The tables the service writes.\<close>

record proxy_db =
  db_pools :: "ProxyPool list"
  db_proxies :: proxy_table
  db_events :: "ProxyEvent list"

text \<open>The oldest pool of the provider, or a new one; a name that is taken raises.\<close>

definition ensure_provider_pool :: "uuid \<Rightarrow> datetime \<Rightarrow> string \<Rightarrow> ProxyPool list \<Rightarrow> (ProxyPool \<times> ProxyPool list) option" where
  "ensure_provider_pool pool_id now provider_name pools =
     (case sort_key pp_created_at (filter (\<lambda>p. pp_provider p = provider_name) pools) of
        pool # _ \<Rightarrow> Some (pool, pools)
      | [] \<Rightarrow>
          (let new = new_pool pool_id (provider_name @ ''-pool'') provider_name now
           in if get_by pp_name (pp_name new) pools \<noteq> None then None else Some (new, insert_row new pools)))"

definition PROXY_TYPES :: "string list" where
  "PROXY_TYPES = [''residential'', ''datacenter'', ''mobile'', ''isp'']"

definition sync_row :: "string \<Rightarrow> uuid \<Rightarrow> (string \<Rightarrow> uuid) \<Rightarrow> RawProxy \<Rightarrow> Proxy" where
  "sync_row provider_name pool_id ids proxy = (new_proxy (ids (rp_url proxy)) pool_id (rp_url proxy))\<lparr>
     px_provider := provider_name, px_country := rp_country proxy, px_city := rp_city proxy,
     px_proxy_type := rp_proxy_type proxy\<rparr>"

definition sync_update :: "RawProxy \<Rightarrow> Proxy \<Rightarrow> Proxy" where
  "sync_update proxy r = r\<lparr>px_country := rp_country proxy, px_city := rp_city proxy, px_proxy_type := rp_proxy_type proxy\<rparr>"

definition sync_event :: "string \<Rightarrow> string \<Rightarrow> (string \<times> Proxy) list \<Rightarrow> string \<Rightarrow> ProxyEvent" where
  "sync_event provider_name event_type existing url =
     \<lparr>ev_proxy_id = (case dict_get existing url of Some r \<Rightarrow> px_id r | None \<Rightarrow> 0), ev_type = event_type,
      ev_detail = [(''provider'', provider_name), (''url'', url)]\<rparr>"

text \<open>\<open>ids\<close> gives the key that the database generates for the row of a URL. \<^const>\<open>None\<close>: the transaction raised.\<close>

definition sync_provider ::
  "uuid \<Rightarrow> (string \<Rightarrow> uuid) \<Rightarrow> datetime \<Rightarrow> string \<Rightarrow> RawProxy list \<Rightarrow> proxy_db \<Rightarrow> (ProxySyncStats \<times> proxy_db) option" where
  "sync_provider pool_id ids now name raw_proxies db =
     (let normalized = dict_update [] (map (\<lambda>p. (rp_url p, p)) raw_proxies);
          fetched_urls = map fst normalized
      in case ensure_provider_pool pool_id now name (db_pools db) of
           None \<Rightarrow> None
         | Some (pool, pools) \<Rightarrow>
             (let existing = dict_update [] (map (\<lambda>r. (px_url r, r)) (filter (\<lambda>r. px_provider r = name) (db_proxies db)));
                  mine = (\<lambda>urls r. px_provider r = name \<and> px_url r \<in> set urls);
                  upserted = fold (\<lambda>(u, p). upsert_proxy (sync_update p) (sync_row name (pp_id pool) ids p)) normalized (db_proxies db);
                  moved = update_where (\<lambda>r. mine fetched_urls r \<and> px_pool_id r \<noteq> pp_id pool)
                            (\<lambda>r. r\<lparr>px_pool_id := pp_id pool\<rparr>) upserted;
                  activated_urls = map fst (filter (\<lambda>(u, r). \<not> px_is_active r \<and> u \<in> set fetched_urls) existing);
                  activated = update_where (mine activated_urls) (\<lambda>r. r\<lparr>px_is_active := True\<rparr>) moved;
                  deactivated_urls = map fst (filter (\<lambda>(u, r). px_is_active r \<and> u \<notin> set fetched_urls) existing);
                  deactivated = update_where (mine deactivated_urls) (\<lambda>r. r\<lparr>px_is_active := False\<rparr>) activated;
                  events = db_events db @ map (sync_event name ''activated'' existing) activated_urls
                             @ map (sync_event name ''deactivated'' existing) deactivated_urls
              in if \<exists>(u, p) \<in> set normalized. rp_proxy_type p \<notin> set PROXY_TYPES then None
                 else Some (\<lparr>ss_provider = name, ss_fetched = length fetched_urls,
                     ss_inserted = length (filter (\<lambda>u. u \<notin> fst ` set existing) fetched_urls),
                     ss_updated = length (filter (\<lambda>u. u \<in> fst ` set existing) fetched_urls),
                     ss_activated = length activated_urls, ss_deactivated = length deactivated_urls\<rparr>,
                     \<lparr>db_pools = pools, db_proxies = deactivated, db_events = events\<rparr>)))"

text \<open>The providers in turn; one that raises ends the run, and what was committed stays.\<close>

fun sync_all ::
  "(nat \<Rightarrow> uuid) \<Rightarrow> (nat \<Rightarrow> string \<Rightarrow> uuid) \<Rightarrow> (nat \<Rightarrow> datetime) \<Rightarrow> nat
   \<Rightarrow> (string \<times> ('w \<Rightarrow> RawProxy list option \<times> 'w)) list \<Rightarrow> proxy_db \<Rightarrow> 'w
   \<Rightarrow> ProxySyncStats list option \<times> proxy_db \<times> 'w" where
  "sync_all pool_ids ids now n [] db w = (Some [], db, w)"
| "sync_all pool_ids ids now n ((name, fetch_proxies) # providers) db w =
     (case fetch_proxies w of
        (None, w') \<Rightarrow> (None, db, w')
      | (Some raw, w') \<Rightarrow>
          (case sync_provider (pool_ids n) (ids n) (now n) name raw db of
             None \<Rightarrow> (None, db, w')
           | Some (stats, db') \<Rightarrow>
               (case sync_all pool_ids ids now (n + 1) providers db' w' of
                  (r, db'', w'') \<Rightarrow> (map_option (\<lambda>l. stats # l) r, db'', w''))))"

text \<open>\<^verbatim>\<open>WebshareProvider\<close>.\<close>

definition webshare_provider ::
  "'w ws_get \<Rightarrow> (json \<Rightarrow> string) \<Rightarrow> nat \<Rightarrow> string \<times> ('w \<Rightarrow> RawProxy list option \<times> 'w)" where
  "webshare_provider get show_json fuel =
     (''webshare'', \<lambda>w. case fetch_all_webshare_proxies get show_json fuel w of
                          (Inl _, w') \<Rightarrow> (None, w') | (Inr raw, w') \<Rightarrow> (Some raw, w'))"

section \<open>Facts\<close>

lemma px_key_sync [simp]:
  "px_key (sync_row name pool ids p) = (name, rp_url p)" "px_key (sync_update p r) = px_key r"
  by (simp_all add: px_key_def sync_row_def sync_update_def new_proxy_def)

text \<open>The proxies of a feed, by URL: the last entry for a URL counts.\<close>

definition feed :: "RawProxy list \<Rightarrow> string \<Rightarrow> RawProxy option" where
  "feed raw u = dict_get (map (\<lambda>p. (rp_url p, p)) raw) u"

lemma feed_normalized: "map_of (dict_update [] (map (\<lambda>p. (rp_url p, p)) raw)) u = feed raw u"
  by (simp add: map_of_dict_update feed_def split: option.splits)

lemma distinct_normalized: "distinct (map fst (dict_update [] kvs))"
  by (rule distinct_dict_update) simp

lemma feed_url: "feed raw u = Some p \<Longrightarrow> rp_url p = u \<and> p \<in> set raw"
  unfolding feed_def dict_get_def by (auto dest!: map_of_SomeD)

lemma normalized_entry: "(u, p) \<in> set (dict_update [] (map (\<lambda>p. (rp_url p, p)) raw)) \<longleftrightarrow> feed raw u = Some p"
  by (metis feed_normalized distinct_normalized map_of_eq_Some_iff)

lemma get_by_fold_upsert:
  assumes "distinct (map fst xs)" "\<And>u p. (u, p) \<in> set xs \<Longrightarrow> rp_url p = u"
  shows "get_by px_key (q, u) (fold (\<lambda>(u, p). upsert_proxy (sync_update p) (sync_row name pool ids p)) xs tbl) =
    (case if q = name then map_of xs u else None of
       None \<Rightarrow> get_by px_key (q, u) tbl
     | Some p \<Rightarrow> Some (case get_by px_key (q, u) tbl of Some r \<Rightarrow> sync_update p r | None \<Rightarrow> sync_row name pool ids p))"
  using assms
proof (induction xs arbitrary: tbl)
  case (Cons x xs)
  obtain v p where x: "x = (v, p)" by (cases x)
  let ?t = "upsert_proxy (sync_update p) (sync_row name pool ids p) tbl"
  have v: "rp_url p = v" "v \<notin> fst ` set xs" "distinct (map fst xs)"
    using Cons.prems(2) [of v p] Cons.prems(1) x by simp_all
  have wf: "\<And>u p. (u, p) \<in> set xs \<Longrightarrow> rp_url p = u" using Cons.prems(2) by (meson list.set_intros(2))
  have IH: "get_by px_key (q, u) (fold (\<lambda>(u, p). upsert_proxy (sync_update p) (sync_row name pool ids p)) (x # xs) tbl) =
      (case if q = name then map_of xs u else None of
         None \<Rightarrow> get_by px_key (q, u) ?t
       | Some p \<Rightarrow> Some (case get_by px_key (q, u) ?t of Some r \<Rightarrow> sync_update p r | None \<Rightarrow> sync_row name pool ids p))"
    using Cons.IH [OF v(3) wf, of ?t] x by simp
  show ?case
  proof (cases "q = name \<and> u = v")
    case True
    with v(2) have "map_of xs u = None" by (simp add: map_of_eq_None_iff)
    then show ?thesis unfolding IH using True x v(1) by (simp add: get_by_upsert)
  next
    case False
    then have same: "get_by px_key (q, u) ?t = get_by px_key (q, u) tbl" using v(1) by (auto simp: get_by_upsert)
    show ?thesis unfolding IH same using False x by (cases "q = name") simp_all
  qed
qed simp

lemma unique_fold_upsert:
  "unique_on px_key tbl \<Longrightarrow>
   unique_on px_key (fold (\<lambda>(u, p). upsert_proxy (sync_update p) (sync_row name pool ids p)) xs tbl)"
  by (induction xs arbitrary: tbl) (auto simp: unique_upsert)

lemma length_fold_upsert:
  assumes "distinct (map fst xs)" "\<And>u p. (u, p) \<in> set xs \<Longrightarrow> rp_url p = u"
  shows "length (fold (\<lambda>(u, p). upsert_proxy (sync_update p) (sync_row name pool ids p)) xs tbl)
    = length tbl + length (filter (\<lambda>u. get_by px_key (name, u) tbl = None) (map fst xs))"
  using assms
proof (induction xs arbitrary: tbl)
  case (Cons x xs)
  obtain v p where x: "x = (v, p)" by (cases x)
  let ?t = "upsert_proxy (sync_update p) (sync_row name pool ids p) tbl"
  have v: "rp_url p = v" "v \<notin> fst ` set xs" "distinct (map fst xs)"
    using Cons.prems(2) [of v p] Cons.prems(1) x by simp_all
  have wf: "\<And>u p. (u, p) \<in> set xs \<Longrightarrow> rp_url p = u" using Cons.prems(2) by (meson list.set_intros(2))
  have same: "filter (\<lambda>u. get_by px_key (name, u) ?t = None) (map fst xs) = filter (\<lambda>u. get_by px_key (name, u) tbl = None) (map fst xs)"
    by (rule filter_cong [OF refl]) (use v in \<open>force simp: get_by_upsert\<close>)
  have len: "length ?t = length tbl + (if get_by px_key (name, v) tbl = None then 1 else 0)"
    using v by (simp add: upsert_proxy_def insert_row_def)
  show ?case using Cons.IH [OF v(3) wf, of ?t] x same len by simp
qed simp

text \<open>The rows of the provider, by URL.\<close>

lemma distinct_urls:
  assumes "unique_on px_key tbl"
  shows "distinct (map px_url (filter (\<lambda>r. px_provider r = name) tbl))"
proof -
  have "distinct (map px_key (filter (\<lambda>r. px_provider r = name) tbl))"
    using assms by (simp add: unique_on_def distinct_map_filter)
  also have "map px_key (filter (\<lambda>r. px_provider r = name) tbl) = map (Pair name) (map px_url (filter (\<lambda>r. px_provider r = name) tbl))"
    by (auto simp: px_key_def)
  finally show ?thesis by (simp only: distinct_map)
qed

lemma map_of_existing:
  assumes "unique_on px_key tbl"
  shows "map_of (dict_update [] (map (\<lambda>r. (px_url r, r)) (filter (\<lambda>r. px_provider r = name) tbl))) u = get_by px_key (name, u) tbl"
proof -
  let ?kvs = "map (\<lambda>r. (px_url r, r)) (filter (\<lambda>r. px_provider r = name) tbl)"
  have "distinct (map fst (rev ?kvs))" using distinct_urls [OF assms, of name] by (simp add: comp_def rev_map [symmetric])
  then have mem: "map_of (rev ?kvs) u = Some r \<longleftrightarrow> (u, r) \<in> set (rev ?kvs)" for r by (rule map_of_eq_Some_iff)
  have "dict_get ?kvs u = Some r \<longleftrightarrow> get_by px_key (name, u) tbl = Some r" for r
    unfolding dict_get_def mem get_by_unique [OF assms] by (auto simp: px_key_def)
  then have "dict_get ?kvs u = get_by px_key (name, u) tbl"
    by (cases "get_by px_key (name, u) tbl"; cases "dict_get ?kvs u") auto
  then show ?thesis by (simp add: map_of_dict_update split: option.splits)
qed

lemma existing_entry:
  assumes "unique_on px_key tbl"
  shows "(u, r) \<in> set (dict_update [] (map (\<lambda>r. (px_url r, r)) (filter (\<lambda>r. px_provider r = name) tbl)))
    \<longleftrightarrow> get_by px_key (name, u) tbl = Some r"
  unfolding map_of_existing [OF assms, symmetric] map_of_eq_Some_iff [OF distinct_normalized] ..

text \<open>The table after the four statements, read by key.\<close>

definition synced :: "string \<Rightarrow> uuid \<Rightarrow> (string \<Rightarrow> uuid) \<Rightarrow> RawProxy list \<Rightarrow> string \<Rightarrow> Proxy option \<Rightarrow> Proxy option" where
  "synced name pool_id ids raw u before =
     (case feed raw u of
        Some p \<Rightarrow> Some ((case before of Some r \<Rightarrow> sync_update p r | None \<Rightarrow> sync_row name pool_id ids p)
                   \<lparr>px_pool_id := pool_id, px_is_active := True\<rparr>)
      | None \<Rightarrow> map_option (\<lambda>r. r\<lparr>px_is_active := False\<rparr>) before)"

lemma sync_provider_SomeD:
  assumes "sync_provider pool_id ids now name raw db = Some (stats, db')" "unique_on px_key (db_proxies db)"
  obtains pool where "ensure_provider_pool pool_id now name (db_pools db) = Some (pool, db_pools db')"
    "unique_on px_key (db_proxies db')"
    "\<And>q u. get_by px_key (q, u) (db_proxies db') =
       (if q = name then synced name (pp_id pool) ids raw u (get_by px_key (q, u) (db_proxies db))
        else get_by px_key (q, u) (db_proxies db))"
    "length (db_proxies db') = length (db_proxies db) + ss_inserted stats"
    "ss_fetched stats = ss_inserted stats + ss_updated stats"
    "length (db_events db') = length (db_events db) + ss_activated stats + ss_deactivated stats"
proof -
  let ?tbl = "db_proxies db"
  define norm where "norm = dict_update [] (map (\<lambda>p. (rp_url p, p)) raw)"
  define ex where "ex = dict_update [] (map (\<lambda>r. (px_url r, r)) (filter (\<lambda>r. px_provider r = name) ?tbl))"
  obtain pool pools where pool: "ensure_provider_pool pool_id now name (db_pools db) = Some (pool, pools)"
    using assms(1) by (auto simp: sync_provider_def Let_def split: option.splits)
  let ?fetched = "map fst norm"
  let ?mine = "\<lambda>urls r. px_provider r = name \<and> px_url r \<in> set urls"
  define up where "up = fold (\<lambda>(u, p). upsert_proxy (sync_update p) (sync_row name (pp_id pool) ids p)) norm ?tbl"
  define mv where "mv = update_where (\<lambda>r. ?mine ?fetched r \<and> px_pool_id r \<noteq> pp_id pool) (\<lambda>r. r\<lparr>px_pool_id := pp_id pool\<rparr>) up"
  define on where "on = map fst (filter (\<lambda>(u, r). \<not> px_is_active r \<and> u \<in> set ?fetched) ex)"
  define ac where "ac = update_where (?mine on) (\<lambda>r. r\<lparr>px_is_active := True\<rparr>) mv"
  define off where "off = map fst (filter (\<lambda>(u, r). px_is_active r \<and> u \<notin> set ?fetched) ex)"
  define de where "de = update_where (?mine off) (\<lambda>r. r\<lparr>px_is_active := False\<rparr>) ac"
  have run: "stats = \<lparr>ss_provider = name, ss_fetched = length ?fetched,
        ss_inserted = length (filter (\<lambda>u. u \<notin> fst ` set ex) ?fetched),
        ss_updated = length (filter (\<lambda>u. u \<in> fst ` set ex) ?fetched),
        ss_activated = length on, ss_deactivated = length off\<rparr>"
      "db' = \<lparr>db_pools = pools, db_proxies = de, db_events = db_events db @ map (sync_event name ''activated'' ex) on
         @ map (sync_event name ''deactivated'' ex) off\<rparr>"
    using assms(1) unfolding sync_provider_def Let_def pool option.case prod.case
    by (simp_all add: norm_def ex_def up_def mv_def on_def ac_def off_def de_def split: if_splits)
  have key: "\<And>r x. px_key (r\<lparr>px_pool_id := x\<rparr>) = px_key r" "\<And>r b. px_key (r\<lparr>px_is_active := b\<rparr>) = px_key r"
    by (simp_all add: px_key_def)
  have fe: "u \<in> set ?fetched \<longleftrightarrow> feed raw u \<noteq> None" for u
    unfolding feed_normalized [symmetric] norm_def map_of_eq_None_iff by simp
  have exm: "(u, r) \<in> set ex \<longleftrightarrow> get_by px_key (name, u) ?tbl = Some r" for u r
    unfolding ex_def by (rule existing_entry [OF assms(2)])
  have ex_key: "u \<in> fst ` set ex \<longleftrightarrow> get_by px_key (name, u) ?tbl \<noteq> None" for u
    using exm by (force simp: image_iff)
  have on_iff: "u \<in> set on \<longleftrightarrow> (\<exists>r. get_by px_key (name, u) ?tbl = Some r \<and> \<not> px_is_active r) \<and> feed raw u \<noteq> None" for u
    unfolding on_def using exm fe by (force simp: image_iff)
  have off_iff: "u \<in> set off \<longleftrightarrow> (\<exists>r. get_by px_key (name, u) ?tbl = Some r \<and> px_is_active r) \<and> feed raw u = None" for u
    unfolding off_def using exm fe by (force simp: image_iff)
  have norm: "distinct (map fst norm)" "\<And>u p. (u, p) \<in> set norm \<Longrightarrow> rp_url p = u"
    unfolding norm_def using distinct_normalized normalized_entry feed_url by blast+
  have g_up: "get_by px_key (q, u) up = (case if q = name then feed raw u else None of
       None \<Rightarrow> get_by px_key (q, u) ?tbl
     | Some p \<Rightarrow> Some (case get_by px_key (q, u) ?tbl of Some r \<Rightarrow> sync_update p r | None \<Rightarrow> sync_row name (pp_id pool) ids p))" for q u
  proof -
    have "map_of norm u = feed raw u" by (simp add: norm_def feed_normalized)
    then show ?thesis using get_by_fold_upsert [OF norm, of q u name "pp_id pool" ids ?tbl] unfolding up_def by (cases "q = name") simp_all
  qed
  have g: "get_by px_key (q, u) de = (if q = name then synced name (pp_id pool) ids raw u (get_by px_key (q, u) ?tbl)
      else get_by px_key (q, u) ?tbl)" for q u
  proof (cases "get_by px_key (q, u) up")
    case None
    then have "get_by px_key (q, u) de = None"
      by (simp add: de_def ac_def mv_def get_by_update_where key)
    moreover have "get_by px_key (q, u) ?tbl = None" "q = name \<Longrightarrow> feed raw u = None"
      using None unfolding g_up by (auto split: option.splits if_splits)
    ultimately show ?thesis by (auto simp: synced_def)
  next
    case (Some r1)
    have pu: "px_provider r1 = q" "px_url r1 = u" using get_by_SomeD [OF Some] by (simp_all add: px_key_def)
    have de: "get_by px_key (q, u) de = Some (let r2 = (if q = name \<and> u \<in> set ?fetched then r1\<lparr>px_pool_id := pp_id pool\<rparr> else r1);
          r3 = (if q = name \<and> u \<in> set on then r2\<lparr>px_is_active := True\<rparr> else r2)
        in if q = name \<and> u \<in> set off then r3\<lparr>px_is_active := False\<rparr> else r3)"
      using pu by (auto simp: de_def ac_def mv_def get_by_update_where key Some Let_def)
    show ?thesis
    proof (cases "q = name")
      case True
      note de' = de [unfolded Let_def on_iff off_iff fe]
      show ?thesis
      proof (cases "feed raw u")
        case None
        then have "get_by px_key (name, u) ?tbl = Some r1" using Some True unfolding g_up by simp
        with None True show ?thesis unfolding de' by (cases r1) (auto simp: synced_def)
      next
        case (Some p)
        then have r1: "r1 = (case get_by px_key (name, u) ?tbl of Some r \<Rightarrow> sync_update p r | None \<Rightarrow> sync_row name (pp_id pool) ids p)"
          using \<open>get_by px_key (q, u) up = Some r1\<close> True unfolding g_up by simp
        show ?thesis
        proof (cases "get_by px_key (name, u) ?tbl")
          case None
          then show ?thesis unfolding de' using r1 Some True by (simp add: synced_def sync_row_def new_proxy_def)
        next
          case before: (Some r0)
          have "px_is_active r1 = px_is_active r0" using r1 before by (simp add: sync_update_def)
          then have "r1\<lparr>px_pool_id := pp_id pool, px_is_active := px_is_active r0\<rparr> = r1\<lparr>px_pool_id := pp_id pool\<rparr>" by (cases r1) simp
          then show ?thesis unfolding de' using r1 Some True before by (auto simp: synced_def)
        qed
      qed
    next
      case False
      then show ?thesis using de Some unfolding g_up by simp
    qed
  qed
  show thesis
  proof (rule that [of pool])
    show "ensure_provider_pool pool_id now name (db_pools db) = Some (pool, db_pools db')" using pool run(2) by simp
    show "unique_on px_key (db_proxies db')"
      unfolding run(2) proxy_db.select_convs de_def ac_def mv_def up_def
      by (simp add: unique_on_update_where key unique_fold_upsert assms(2))
    show "length (db_proxies db') = length (db_proxies db) + ss_inserted stats"
      unfolding run proxy_db.select_convs ProxySyncStats.select_convs de_def ac_def mv_def up_def
      by (simp add: length_fold_upsert [OF norm] ex_key)
    show "ss_fetched stats = ss_inserted stats + ss_updated stats"
      using sum_length_filter_compl [of "\<lambda>u. u \<notin> fst ` set ex" ?fetched] by (simp add: run(1))
    show "length (db_events db') = length (db_events db) + ss_activated stats + ss_deactivated stats" by (simp add: run)
  qed (use g run(2) in simp)
qed

lemma ensure_provider_pool_SomeD:
  assumes "ensure_provider_pool pool_id now name pools = Some (pool, pools')"
  shows "pool \<in> set pools' \<and> pp_provider pool = name"
proof (cases "sort_key pp_created_at (filter (\<lambda>p. pp_provider p = name) pools)")
  case Nil
  with assms show ?thesis by (auto simp: ensure_provider_pool_def new_pool_def Let_def split: if_splits)
next
  case (Cons p ps)
  then have "p \<in> set (sort_key pp_created_at (filter (\<lambda>p. pp_provider p = name) pools))" by simp
  then have "p \<in> set pools \<and> pp_provider p = name" by simp
  with assms Cons show ?thesis by (simp add: ensure_provider_pool_def)
qed

section \<open>The merged feed of Webshare\<close>

text \<open>
  The merge keeps one entry per endpoint: one that some plan lists, and a residential one when any plan
  lists it so.
\<close>

definition merged_ok :: "RawProxy list \<Rightarrow> (string \<times> RawProxy) list \<Rightarrow> bool" where
  "merged_ok seen d \<longleftrightarrow> distinct (map fst d) \<and> fst ` set d = rp_url ` set seen
     \<and> (\<forall>(u, p) \<in> set d. rp_url p = u \<and> p \<in> set seen
          \<and> (rp_proxy_type p = ''residential'' \<or> (\<forall>x \<in> set seen. rp_url x = u \<longrightarrow> rp_proxy_type x \<noteq> ''residential'')))"

lemma set_dict_set: "distinct (map fst d) \<Longrightarrow> set (dict_set k v d) = insert (k, v) {x \<in> set d. fst x \<noteq> k}"
  by (induction k v d rule: dict_set.induct) (auto simp: image_iff)

lemma dict_get_eq_map_of: "distinct (map fst d) \<Longrightarrow> dict_get d k = map_of d k"
proof -
  assume d: "distinct (map fst d)"
  then have rd: "distinct (map fst (rev d))" by (simp add: rev_map [symmetric])
  have "map_of (rev d) k = Some v \<longleftrightarrow> map_of d k = Some v" for v
    unfolding map_of_eq_Some_iff [OF rd] map_of_eq_Some_iff [OF d] by simp
  then show ?thesis unfolding dict_get_def by (cases "map_of d k"; cases "map_of (rev d) k") auto
qed

lemma merged_ok_merge:
  assumes "merged_ok seen d"
  shows "merged_ok (seen @ [p]) (merge_proxy p d)"
proof -
  define best where "best u q ps \<longleftrightarrow> rp_url q = u \<and> q \<in> set ps
    \<and> (rp_proxy_type q = ''residential'' \<or> (\<forall>x \<in> set ps. rp_url x = u \<longrightarrow> rp_proxy_type x \<noteq> ''residential''))" for u q and ps :: "RawProxy list"
  have ok: "merged_ok ps e \<longleftrightarrow> distinct (map fst e) \<and> fst ` set e = rp_url ` set ps \<and> (\<forall>(u, q) \<in> set e. best u q ps)" for ps e
    unfolding merged_ok_def best_def ..
  have d: "distinct (map fst d)" "fst ` set d = rp_url ` set seen" "\<And>u q. (u, q) \<in> set d \<Longrightarrow> best u q seen"
    using assms unfolding ok by auto
  have later: "best u q (seen @ [p])" if "best u q seen" "rp_url p \<noteq> u \<or> rp_proxy_type q = ''residential'' \<or> rp_proxy_type p \<noteq> ''residential''" for u q
    using that by (auto simp: best_def)
  have new: "merged_ok (seen @ [p]) (dict_set (rp_url p) p d)" if "best (rp_url p) p (seen @ [p])"
  proof -
    have "best u q (seen @ [p])" if "(u, q) \<in> set (dict_set (rp_url p) p d)" for u q
      using that \<open>best (rp_url p) p (seen @ [p])\<close> later [of u q] d(3) [of u q] by (auto simp: set_dict_set [OF d(1)])
    moreover have "fst ` set (dict_set (rp_url p) p d) = rp_url ` set (seen @ [p])" by (simp add: keys_dict_set d(2))
    ultimately show ?thesis unfolding ok using distinct_dict_set [OF d(1)] by blast
  qed
  show ?thesis
  proof (cases "map_of d (rp_url p)")
    case None
    then have "rp_url p \<notin> rp_url ` set seen" by (simp add: map_of_eq_None_iff d(2))
    then have "\<And>x. x \<in> set seen \<Longrightarrow> rp_url x \<noteq> rp_url p" by (metis imageI)
    then have "best (rp_url p) p (seen @ [p])" by (auto simp: best_def)
    from new [OF this] None show ?thesis by (simp add: merge_proxy_def dict_get_eq_map_of d(1))
  next
    case (Some ex)
    show ?thesis
    proof (cases "rp_proxy_type ex \<noteq> ''residential'' \<and> rp_proxy_type p = ''residential''")
      case True
      then have "best (rp_url p) p (seen @ [p])" by (auto simp: best_def)
      from new [OF this] Some True show ?thesis by (simp add: merge_proxy_def dict_get_eq_map_of d(1))
    next
      case False
      have ex: "(u, q) \<in> set d \<Longrightarrow> u = rp_url p \<Longrightarrow> q = ex" for u q
        using Some d(1) by (metis map_of_eq_Some_iff option.inject)
      have "rp_url p \<in> fst ` set d" using Some by (force dest: map_of_SomeD)
      then have "fst ` set d = rp_url ` set (seen @ [p])" by (auto simp: d(2))
      moreover have "best u q (seen @ [p])" if "(u, q) \<in> set d" for u q
        using later [OF d(3) [OF that]] ex [OF that] False by blast
      ultimately have "merged_ok (seen @ [p]) d" unfolding ok using d(1) by blast
      then show ?thesis using Some False by (auto simp: merge_proxy_def dict_get_eq_map_of d(1))
    qed
  qed
qed

lemma merged_ok_fold: "merged_ok seen d \<Longrightarrow> merged_ok (seen @ ps) (fold merge_proxy ps d)"
proof (induction ps arbitrary: seen d)
  case (Cons p ps)
  from Cons.IH [OF merged_ok_merge [OF Cons.prems]] show ?case by simp
qed simp

lemma merged_ok_plans:
  "fetch_plans get show_json fuel plans d w = (Inr d', w') \<Longrightarrow> merged_ok seen d \<Longrightarrow> \<exists>seen'. merged_ok seen' d'"
proof (induction plans arbitrary: d w seen)
  case (Cons plan plans)
  obtain r w1 where f: "fetch_webshare_proxies_for_plan get show_json fuel plan w = (r, w1)" by fastforce
  show ?case
  proof (cases r)
    case (Inl e)
    with Cons f show ?thesis by (cases e) auto
  next
    case (Inr ps)
    with Cons.prems(1) f have "fetch_plans get show_json fuel plans (fold merge_proxy ps d) w1 = (Inr d', w')" by simp
    from Cons.IH [OF this merged_ok_fold [OF Cons.prems(2)]] show ?thesis .
  qed
qed auto

lemma webshare_feed_distinct:
  assumes "fetch_all_webshare_proxies get show_json fuel w = (Inr raw, w')"
  shows "distinct (map rp_url raw)"
proof (cases "raw = []")
  case False
  with assms obtain plans d w1 where d: "fetch_plans get show_json fuel plans [] w1 = (Inr d, w')" "raw = map snd d"
    by (auto simp: fetch_all_webshare_proxies_def sbind_def sret_def Let_def split: prod.splits sum.splits if_splits)
  have "merged_ok [] []" by (simp add: merged_ok_def)
  with merged_ok_plans [OF d(1)] obtain seen where "merged_ok seen d" by blast
  then have "map rp_url raw = map fst d" "distinct (map fst d)"
    unfolding d(2) by (auto simp: merged_ok_def)
  then show ?thesis by simp
qed simp

section \<open>Properties\<close>

text \<open>
  C25. A synchronisation makes the table mirror the provider's feed. When it commits, there is a pool of
  the provider such that, for every URL: a proxy in the feed has a row that is active, lies in that pool
  and carries the feed's country, city and type, and if the row existed its key, health, failures and
  cooldown are as before; a row whose URL left the feed is inactive and otherwise unchanged; rows of
  other providers are untouched. The constraint on (provider, URL) is kept, the reported numbers are
  those of the rows and events added, and fetched is inserted plus updated.
\<close>

theorem sync_mirrors_provider:
  assumes "sync_provider pool_id ids now name raw db = Some (stats, db')" "unique_on px_key (db_proxies db)"
  shows "\<exists>pool \<in> set (db_pools db'). pp_provider pool = name \<and> unique_on px_key (db_proxies db')
    \<and> (\<forall>q u. get_by px_key (q, u) (db_proxies db') =
         (if q \<noteq> name then get_by px_key (q, u) (db_proxies db)
          else case find (\<lambda>p. rp_url p = u) (rev raw) of
            None \<Rightarrow> map_option (\<lambda>r. r\<lparr>px_is_active := False\<rparr>) (get_by px_key (q, u) (db_proxies db))
          | Some p \<Rightarrow>
              Some ((case get_by px_key (q, u) (db_proxies db) of Some r \<Rightarrow> r | None \<Rightarrow> (new_proxy (ids u) (pp_id pool) u)\<lparr>px_provider := name\<rparr>)
                    \<lparr>px_pool_id := pp_id pool, px_country := rp_country p, px_city := rp_city p,
                     px_proxy_type := rp_proxy_type p, px_is_active := True\<rparr>)))
    \<and> length (db_proxies db') = length (db_proxies db) + ss_inserted stats
    \<and> ss_fetched stats = ss_inserted stats + ss_updated stats
    \<and> length (db_events db') = length (db_events db) + ss_activated stats + ss_deactivated stats"
proof -
  from sync_provider_SomeD [OF assms] obtain pool where
    pool: "ensure_provider_pool pool_id now name (db_pools db) = Some (pool, db_pools db')"
    and rest: "unique_on px_key (db_proxies db')"
      "\<And>q u. get_by px_key (q, u) (db_proxies db') =
         (if q = name then synced name (pp_id pool) ids raw u (get_by px_key (q, u) (db_proxies db))
          else get_by px_key (q, u) (db_proxies db))"
      "length (db_proxies db') = length (db_proxies db) + ss_inserted stats"
      "ss_fetched stats = ss_inserted stats + ss_updated stats"
      "length (db_events db') = length (db_events db) + ss_activated stats + ss_deactivated stats" by blast
  have "map_of (map (\<lambda>p. (rp_url p, p)) xs) u = find (\<lambda>p. rp_url p = u) xs" for xs u
    by (induction xs) simp_all
  then have feed: "feed raw u = find (\<lambda>p. rp_url p = u) (rev raw)" for u
    unfolding feed_def dict_get_def rev_map .
  have row: "synced name (pp_id pool) ids raw u before =
      (case find (\<lambda>p. rp_url p = u) (rev raw) of
         None \<Rightarrow> map_option (\<lambda>r. r\<lparr>px_is_active := False\<rparr>) before
       | Some p \<Rightarrow>
           Some ((case before of Some r \<Rightarrow> r | None \<Rightarrow> (new_proxy (ids u) (pp_id pool) u)\<lparr>px_provider := name\<rparr>)
                 \<lparr>px_pool_id := pp_id pool, px_country := rp_country p, px_city := rp_city p,
                  px_proxy_type := rp_proxy_type p, px_is_active := True\<rparr>))" for u before
  proof (cases "find (\<lambda>p. rp_url p = u) (rev raw)")
    case (Some p)
    then have "rp_url p = u" by (auto simp: find_Some_iff)
    with Some show ?thesis
      by (cases before) (simp_all add: synced_def feed sync_row_def sync_update_def new_proxy_def)
  qed (simp add: synced_def feed)
  show ?thesis
    by (rule bexI [of _ pool]) (use ensure_provider_pool_SomeD [OF pool] rest row in \<open>simp_all\<close>)
qed

definition example_db :: proxy_db where
  "example_db = \<lparr>db_pools = [], db_proxies = [new_proxy 1 9 ''a'', (new_proxy 2 9 ''b'')\<lparr>px_is_active := False\<rparr>], db_events = []\<rparr>"

definition example_feed :: "RawProxy list" where
  "example_feed = [\<lparr>rp_url = ''b'', rp_country = None, rp_proxy_type = ''residential'', rp_city = None\<rparr>,
     \<lparr>rp_url = ''c'', rp_country = Some ''DE'', rp_proxy_type = ''datacenter'', rp_city = None\<rparr>]"

theorem sync_mirrors_provider_witness:
  "\<exists>stats db'. sync_provider 7 (\<lambda>_. 3) 0 ''webshare'' example_feed example_db = Some (stats, db')
     \<and> map_option px_is_active (get_by px_key (''webshare'', ''a'') (db_proxies db')) = Some False
     \<and> map_option px_is_active (get_by px_key (''webshare'', ''b'') (db_proxies db')) = Some True"
proof -
  have "sync_provider 7 (\<lambda>_. 3) 0 ''webshare'' example_feed example_db \<noteq> None" by code_simp
  then obtain stats db' where run: "sync_provider 7 (\<lambda>_. 3) 0 ''webshare'' example_feed example_db = Some (stats, db')" by fastforce
  have un: "unique_on px_key (db_proxies example_db)" by code_simp
  show ?thesis using sync_mirrors_provider [OF run un]
    apply (elim bexE conjE)
    subgoal premises prems for pool
      using prems(4) [rule_format, of "''webshare''" "''a''"] prems(4) [rule_format, of "''webshare''" "''b''"] run
      by (simp add: example_db_def example_feed_def get_by_def px_key_def new_proxy_def)
    done
qed

end
