(* ===== verification/Fetch_Props.thy ===== *)
theory Fetch_Props
  imports Fetch_Facts
begin

text \<open>The properties of the retry loop, with a concrete set of collaborators for the instances.\<close>

section \<open>A concrete run\<close>

text \<open>Collaborators over a world that counts the fetches: the first \<open>k\<close> of them are blocked.\<close>

definition ex_services :: "nat \<Rightarrow> string \<Rightarrow> bool \<Rightarrow> nat services" where
  "ex_services k reason manager =
     \<lparr>sv_manager = manager,
      sv_get_proxy = (\<lambda>rq w. (Inr (find (\<lambda>p. px_id p \<notin> set (rq_exclude_ids rq))
                       [new_proxy 1 9 ''a'', new_proxy 2 9 ''b'', new_proxy 3 9 ''c'']), w)),
      sv_report = (\<lambda>i d ok r w. (Inr (), w)),
      sv_fetch = (\<lambda>e u p h w. (Inr ((fetch_result u (if w < k then 403 else 200))
                    \<lparr>fr_engine := e, fr_blocked := (w < k),
                     fr_block_reason := (if w < k then Some reason else None)\<rparr>), Suc w)),
      sv_sleep = (\<lambda>t w. (Inr (), w)),
      sv_random = (\<lambda>w. (0, w))\<rparr>"

definition ex_args :: "bool option \<Rightarrow> string option \<Rightarrow> DomainPolicy option \<Rightarrow> fetch_args" where
  "ex_args use eng pol =
     \<lparr>fa_url = ''https://a.com/x'', fa_policy = pol, fa_sticky_key = None, fa_trace_id = Some ''t'',
      fa_use_proxy = use, fa_proxy_country = None, fa_proxy_city = None, fa_proxy_type = None,
      fa_requested_engine = eng\<rparr>"

definition ex_fetcher :: fetcher where
  "ex_fetcher = \<lparr>f_engine = ''httpx'', f_engine_name = None\<rparr>"

text \<open>What a run shows without its world: whether it returned, and the tier of each attempt.\<close>

definition run_view :: "(exn + FetchResult) \<times> attempt_log list \<times> 'w \<Rightarrow> string \<times> (int \<times> string \<times> uuid option) list" where
  "run_view x = (case x of (res, as, _) \<Rightarrow>
     ((case res of Inl e \<Rightarrow> exn_str e | Inr r \<Rightarrow> ''ok''),
      map (\<lambda>a. (at_tier a, at_engine a, case at_fetch a of Some (Some p) \<Rightarrow> Some (px_id p) | _ \<Rightarrow> None)) as))"

lemma run_viewE:
  assumes "run_view (fetch_with_retry rd prem sv f a w) = (o1, l)"
  obtains res as w' where "fetch_with_retry rd prem sv f a w = (res, as, w')"
    "l = map (\<lambda>a. (at_tier a, at_engine a, case at_fetch a of Some (Some p) \<Rightarrow> Some (px_id p) | _ \<Rightarrow> None)) as"
    "o1 = (case res of Inl e \<Rightarrow> exn_str e | Inr r \<Rightarrow> ''ok'')"
  using assms by (cases "fetch_with_retry rd prem sv f a w") (auto simp: run_view_def)

lemma ex_run1:
  "run_view (fetch_with_retry id False (ex_services 3 ''cloudflare'' True) ex_fetcher (ex_args None None None) 0)
   = (''ok'', [(0, ''httpx'', None), (1, ''httpx'', Some 1), (1, ''httpx'', Some 2), (2, ''curl_cffi'', Some 1)])"
  by code_simp

section \<open>Properties\<close>

text \<open>
  C4. The retry loop always ends within its ceiling and walks the ladder: a call makes at most
  \<^verbatim>\<open>max_escalation_attempts\<close> attempts (12 when unset), whatever the network, the proxies and the
  clock do; consecutive attempts stay at a tier or rise by exactly one; every attempt runs the
  engine of its tier, on the ladder.
\<close>

theorem attempts_bounded:
  assumes "fetch_with_retry rd prem sv f a w = (res, as, w')" "f_engine_name f = None"
  shows "int (length as) \<le> max 0 (max_attempts_of (fa_policy a))
    \<and> successively (\<lambda>x y. at_tier y = at_tier x \<or> at_tier y = at_tier x + 1) as
    \<and> (\<forall>x \<in> set as. 0 \<le> at_tier x \<and> at_tier x \<le> 6 \<and> at_engine x = t_engine (LADDER ! nat (at_tier x)))"
proof (cases "as = []")
  case False
  with fetch_run [OF assms] obtain d t where run: "start_tier a (effective_max_tier prem) = Inr t"
    "length as \<le> nat (max_attempts_of (fa_policy a))" "ladder_walk as"
    "\<forall>x \<in> set as. attempt_ok (make_cfg a d prem) sv x \<and> t \<le> at_tier x \<and> at_tier x \<le> max t (effective_max_tier prem)"
    by blast
  have "0 \<le> t" "t \<le> 6"
    using start_loop_ok [OF run(1), of d f] by (auto simp: loop_ok_def start_state_def)
  with run effective_max_tier_bounds [of prem] show ?thesis
    by (fastforce simp: ladder_walk_def attempt_ok_def Let_def)
qed simp

lemma ex_run1_obtain:
  obtains res as w' where
    "fetch_with_retry id False (ex_services 3 ''cloudflare'' True) ex_fetcher (ex_args None None None) 0 = (res, as, w')"
    "length as = 4" "\<exists>r. res = Inr r"
proof -
  from ex_run1 obtain res as w' where run:
    "fetch_with_retry id False (ex_services 3 ''cloudflare'' True) ex_fetcher (ex_args None None None) 0 = (res, as, w')"
    "length as = 4" by (rule run_viewE) (use arg_cong [where f = length] in fastforce)
  moreover have "case fst (fetch_with_retry id False (ex_services 3 ''cloudflare'' True) ex_fetcher
      (ex_args None None None) 0) of Inl _ \<Rightarrow> False | Inr _ \<Rightarrow> True" by code_simp
  ultimately show ?thesis using that by (auto split: sum.splits)
qed

theorem attempts_bounded_witness:
  "\<exists>res as w'. fetch_with_retry id False (ex_services 3 ''cloudflare'' True) ex_fetcher (ex_args None None None) 0
      = (res, as, w') \<and> length as = 4
    \<and> successively (\<lambda>x y. at_tier y = at_tier x \<or> at_tier y = at_tier x + 1) as"
proof -
  obtain res as w' where run:
    "fetch_with_retry id False (ex_services 3 ''cloudflare'' True) ex_fetcher (ex_args None None None) 0 = (res, as, w')"
    "length as = 4" by (rule ex_run1_obtain)
  show ?thesis using attempts_bounded [OF run(1)] run by (auto simp: ex_fetcher_def)
qed

text \<open>
  What a returned result says about its run: it was produced by the last attempt, at that
  attempt's tier, its retry count is the number of attempts before it, and it carries the caller's
  trace identifier.
\<close>

lemma result_fields:
  assumes "fetch_with_retry rd prem sv f a w = (Inr r, as, w')" "f_engine_name f = None"
  shows "as \<noteq> [] \<and> fr_tier_used r = at_tier (last as) \<and> fr_retries_used r = int (length as) - 1
    \<and> fr_trace_id r = fa_trace_id a"
  using fetch_run [OF assms] by blast

lemma result_fields_witness:
  "\<exists>r as w'. fetch_with_retry id False (ex_services 3 ''cloudflare'' True) ex_fetcher (ex_args None None None) 0
      = (Inr r, as, w') \<and> fr_retries_used r = 3 \<and> fr_trace_id r = Some ''t''"
proof -
  obtain res as w' where run:
    "fetch_with_retry id False (ex_services 3 ''cloudflare'' True) ex_fetcher (ex_args None None None) 0 = (res, as, w')"
    "length as = 4" "\<exists>r. res = Inr r" by (rule ex_run1_obtain)
  then obtain r where r: "res = Inr r" by blast
  show ?thesis using result_fields [OF run(1) [unfolded r]] run r by (auto simp: ex_fetcher_def ex_args_def)
qed



text \<open>
  C6. No silent fallback: an attempt that is to use a proxy never fetches directly. With a proxy
  manager, a fetch without a proxy is made only where the caller, the ladder and the policy ask for
  none; a caller that forces \<^verbatim>\<open>use_proxy=True\<close> gets a proxied fetch or an error.
\<close>

theorem no_direct_fallback:
  assumes "fetch_with_retry rd prem sv f a w = (res, as, w')" "f_engine_name f = None"
    "sv_manager sv" "x \<in> set as" "at_fetch x = Some None"
  shows "\<not> at_use_proxy x \<and> fa_use_proxy a \<noteq> Some True"
proof -
  have "as \<noteq> []" using assms(4) by auto
  with fetch_run [OF assms(1,2)] assms(4) obtain d where "attempt_ok (make_cfg a d prem) sv x" by blast
  then have "\<not> at_use_proxy x" and use: "at_use_proxy x = tier_use_proxy (make_cfg a d prem)
      (at_tier x > c_max_tier (make_cfg a d prem)) (LADDER ! nat (at_tier x))"
    using assms(3,5) unfolding attempt_ok_def Let_def by blast+
  moreover have "at_use_proxy x" if "fa_use_proxy a = Some True"
    unfolding use using that by (simp add: tier_use_proxy_def make_cfg_def)
  ultimately show ?thesis by blast
qed

theorem no_direct_fallback_witness:
  "\<exists>res as w'. fetch_with_retry id False (ex_services 0 [] True) ex_fetcher (ex_args (Some False) None None) 0
      = (res, as, w') \<and> (\<exists>x \<in> set as. at_fetch x = Some None \<and> \<not> at_use_proxy x)"
proof -
  obtain res as w' where run: "fetch_with_retry id False (ex_services 0 [] True) ex_fetcher
      (ex_args (Some False) None None) 0 = (res, as, w')" by (metis prod_cases3)
  have "map at_fetch (fst (snd (fetch_with_retry id False (ex_services 0 [] True) ex_fetcher
      (ex_args (Some False) None None) 0))) = [Some None]" by code_simp
  with run obtain x where x: "as = [x]" "at_fetch x = Some None" by auto
  have "\<not> at_use_proxy x"
    using no_direct_fallback [OF run, of x] x by (simp add: ex_fetcher_def ex_services_def)
  with run x show ?thesis by auto
qed

text \<open>
  C15. Rotation with the proxy manager: at each tier a proxy is used at most once, since a proxy that
  failed or was blocked is excluded from the later picks of that tier.
\<close>

theorem manager_rotation:
  assumes "fetch_with_retry rd prem sv f a w = (res, as, w')" "f_engine_name f = None"
    "sv_get_proxy sv = manager_pick R env"
  shows "distinct (proxies_at t as)"
  using assms(1)
proof (cases rule: fetch_with_retry_cases)
  case early
  then show ?thesis by (simp add: proxies_at_def map_filter_simps)
next
  case (loop d t0)
  have ok: "loop_ok (make_cfg a d prem) (start_state f t0)" by (rule start_loop_ok) (rule loop(1))
  have plain: "fetcher_plain (start_state f t0)" using assms(2) by (simp add: fetcher_plain_def start_state_def)
  show ?thesis using manager.loop_rotates [OF loop(2) assms(3) ok plain] by blast
qed

text \<open>The manager over an empty Redis and two proxies; every fetch is blocked.\<close>

definition ex_manager_services :: "(keyspace, nat) mgr_world services" where
  "ex_manager_services =
     \<lparr>sv_manager = True,
      sv_get_proxy = manager_pick fun_redis (\<lambda>_. example_env),
      sv_report = manager_report fun_redis default_breaker (\<lambda>_. example_env) (\<lambda>_. ''2026-01-01''),
      sv_fetch = (\<lambda>e u p h w. (Inr ((fetch_result u 403)\<lparr>fr_blocked := True, fr_block_reason := Some ''ip_ban''\<rparr>), w)),
      sv_sleep = (\<lambda>t w. (Inr (), w)),
      sv_random = (\<lambda>w. (0, w))\<rparr>"

definition ex_world :: "(keyspace, nat) mgr_world" where
  "ex_world = \<lparr>mw_redis = (\<lambda>_. None), mw_proxies = [new_proxy 1 9 ''a'', new_proxy 2 9 ''b''],
     mw_events = [], mw_rest = 0\<rparr>"

theorem manager_rotation_witness:
  "\<exists>res as w'. fetch_with_retry id False ex_manager_services ex_fetcher (ex_args (Some True) None None) ex_world
     = (res, as, w') \<and> distinct (proxies_at 0 as)"
proof -
  obtain res as w' where run: "fetch_with_retry id False ex_manager_services ex_fetcher
      (ex_args (Some True) None None) ex_world = (res, as, w')" by (metis prod_cases3)
  show ?thesis
    using manager_rotation [OF run, of fun_redis "\<lambda>_. example_env" 0] run
    by (auto simp: ex_fetcher_def ex_manager_services_def)
qed

text \<open>
  A good answer ends the loop at once: when the first fetch comes back unblocked and its report
  succeeds, that result is returned after one attempt, with the loop's fields filled in.
\<close>

lemma success_returns_at_once:
  assumes "normalize_domain_from_url rd (fa_url a) = Inr d" "fa_requested_engine a = None"
    "f_engine_name f = None" "0 < max_attempts_of (fa_policy a)" "fa_use_proxy a = Some False"
    "sv_random sv w = (u, wa)"
    "sv_fetch sv (t_engine (LADDER ! nat t)) (fa_url a) None (headers_for_domain u (fa_policy a)) wa = (Inr r, wb)"
    "t = min (initial_tier (fa_policy a)) (effective_max_tier prem)" "\<not> fr_blocked r"
  shows "\<exists>x. fetch_with_retry rd prem sv f a w
    = (Inr (r\<lparr>fr_retries_used := 0, fr_trace_id := fa_trace_id a, fr_tier_used := t\<rparr>), [x], wb)"
proof -
  let ?cfg = "make_cfg a d prem" and ?st = "start_state f t"
  have st: "start_tier a (effective_max_tier prem) = Inr t" using assms(2,8) by (simp add: start_tier_def)
  have ok: "loop_ok ?cfg ?st" using st by (rule start_loop_ok)
  have plain: "fetcher_plain ?st" using assms(3) by (simp add: fetcher_plain_def start_state_def)
  obtain n where n: "nat (max_attempts_of (fa_policy a)) = Suc n" using assms(4) by (metis Suc_diff_1 zero_less_nat_eq)
  have "fetch_with_retry rd prem sv f a w = retry_loop ?cfg sv (Suc n) ?st w"
    using assms(1) st n by (simp add: fetch_with_retry_def Let_def start_state_def make_cfg_def)
  also have "\<exists>x. retry_loop ?cfg sv (Suc n) ?st w
      = (Inr (r\<lparr>fr_retries_used := 0, fr_trace_id := fa_trace_id a, fr_tier_used := t\<rparr>), [x], wb)"
    unfolding retry_loop_unfold [OF ok plain] using assms(5,6,7,9)
    by (simp add: Let_def attempt_def pick_phase_def tier_use_proxy_def make_cfg_def start_state_def
        fetch_phase_def report_if_def)
  finally show ?thesis .
qed

lemma success_returns_at_once_witness:
  "\<exists>r x w'. fetch_with_retry id False (ex_services 0 [] False) ex_fetcher (ex_args (Some False) None None) 0
     = (Inr r, [x], w') \<and> fr_status_code r = 200 \<and> fr_trace_id r = Some ''t''"
proof -
  have d: "normalize_domain_from_url id ''https://a.com/x'' = Inr ''a.com''" by code_simp
  show ?thesis
    using success_returns_at_once [of id "ex_args (Some False) None None" "''a.com''" ex_fetcher
        "ex_services 0 [] False" 0 0 0 0 _ 1 False]
    by (auto simp: d ex_args_def ex_fetcher_def ex_services_def max_attempts_of_def or_default_def
        initial_tier_def fetch_result_def)
qed



end
