(* ===== verification/Url_Join.thy ===== *)
theory Url_Join
  imports Url
begin

text \<open>
  \<^verbatim>\<open>urljoin\<close>, \<^verbatim>\<open>urlsplit\<close> and \<^verbatim>\<open>urlunsplit\<close> of Python's \<^verbatim>\<open>urllib.parse\<close>, in the library's own steps, on
  top of the parser of theory Url.
\<close>

record split_url =
  su_scheme :: string
  su_netloc :: string
  su_path :: string
  su_query :: string
  su_fragment :: string

definition uses_netloc :: "string list" where
  "uses_netloc = ['''', ''ftp'', ''http'', ''gopher'', ''nntp'', ''telnet'', ''imap'', ''wais'', ''file'', ''mms'',
     ''https'', ''shttp'', ''snews'', ''prospero'', ''rtsp'', ''rtspu'', ''rsync'', ''svn'', ''svn+ssh'', ''sftp'',
     ''nfs'', ''git'', ''git+ssh'', ''ws'', ''wss'']"

definition uses_relative :: "string list" where
  "uses_relative = ['''', ''ftp'', ''http'', ''gopher'', ''nntp'', ''imap'', ''wais'', ''file'', ''https'', ''shttp'',
     ''mms'', ''prospero'', ''rtsp'', ''rtspu'', ''sftp'', ''svn'', ''svn+ssh'', ''ws'', ''wss'']"

definition uses_params :: "string list" where
  "uses_params = ['''', ''ftp'', ''hdl'', ''prospero'', ''http'', ''imap'', ''https'', ''shttp'', ''rtsp'', ''rtspu'',
     ''sip'', ''sips'', ''mms'', ''sftp'', ''tel'']"

text \<open>\<^verbatim>\<open>urlsplit(url, scheme)\<close>: the fragment is cut off first, then the query.\<close>

definition urlsplit :: "string \<Rightarrow> string \<Rightarrow> url_error + split_url" where
  "urlsplit url scheme =
     bindE (urlparse url) (\<lambda>p.
       let (front, _, fragment) = partition_on CHR ''#'' (pu_rest p);
           (path, _, query) = partition_on CHR ''?'' front
       in Inr \<lparr>su_scheme = (if pu_scheme p = [] then scheme else pu_scheme p), su_netloc = pu_netloc p,
               su_path = path, su_query = query, su_fragment = fragment\<rparr>)"

text \<open>\<^verbatim>\<open>_splitparams\<close>: the parameters follow the first semicolon of the last path segment.\<close>

definition split_params :: "string \<Rightarrow> string \<Rightarrow> string \<times> string" where
  "split_params scheme path =
     (if scheme \<in> set uses_params \<and> CHR '';'' \<in> set path
      then (let seg = after_last CHR ''/'' path; (pre, _, params) = partition_on CHR '';'' seg
            in (take (length path - length seg) path @ pre, params))
      else (path, []))"

definition urlunsplit :: "split_url \<Rightarrow> string" where
  "urlunsplit s =
     (let url = su_path s;
          url = (if su_netloc s \<noteq> [] \<or> (su_scheme s \<noteq> [] \<and> su_scheme s \<in> set uses_netloc \<and> take 2 url \<noteq> ''//'')
                 then ''//'' @ su_netloc s @ (if url \<noteq> [] \<and> take 1 url \<noteq> ''/'' then ''/'' @ url else url)
                 else url);
          url = (if su_scheme s \<noteq> [] then su_scheme s @ '':'' @ url else url);
          url = (if su_query s \<noteq> [] then url @ ''?'' @ su_query s else url)
      in if su_fragment s \<noteq> [] then url @ ''#'' @ su_fragment s else url)"

text \<open>Resolving the dot segments, as the library's loop does it.\<close>

fun resolve_dots :: "string list \<Rightarrow> string list \<Rightarrow> string list" where
  "resolve_dots acc [] = rev acc"
| "resolve_dots acc (seg # segs) =
     (if seg = ''..'' then resolve_dots (drop 1 acc) segs
      else if seg = ''.'' then resolve_dots acc segs
      else resolve_dots (seg # acc) segs)"

fun join_slash :: "string list \<Rightarrow> string" where
  "join_slash [] = []"
| "join_slash [s] = s"
| "join_slash (s # t # ss) = s @ ''/'' @ join_slash (t # ss)"

definition merge_segments :: "string \<Rightarrow> string \<Rightarrow> string list" where
  "merge_segments bpath path =
     (let base_parts = split_on CHR ''/'' bpath;
          base_parts = (if last base_parts \<noteq> [] then butlast base_parts else base_parts)
      in if take 1 path = ''/'' then split_on CHR ''/'' path
         else (let segments = base_parts @ split_on CHR ''/'' path
               in if length segments < 2 then segments
                  else hd segments # filter (\<lambda>s. s \<noteq> []) (butlast (tl segments)) @ [last segments]))"

definition join_path :: "string \<Rightarrow> string \<Rightarrow> string" where
  "join_path bpath path =
     (let segments = merge_segments bpath path;
          resolved = resolve_dots [] segments @ (if last segments \<in> {''.'', ''..''} then [''''] else []);
          joined = join_slash resolved
      in if joined = [] then ''/'' else joined)"

definition with_params :: "string \<Rightarrow> string \<Rightarrow> string" where
  "with_params path params = (if params \<noteq> [] then path @ '';'' @ params else path)"

definition urljoin :: "string \<Rightarrow> string \<Rightarrow> url_error + string" where
  "urljoin base url =
     (if base = [] then Inr url
      else if url = [] then Inr base
      else bindE (urlsplit base []) (\<lambda>b.
           bindE (urlsplit url (su_scheme b)) (\<lambda>u.
             let (bpath, bparams) = split_params (su_scheme b) (su_path b);
                 (path, params) = split_params (su_scheme u) (su_path u)
             in if su_scheme u \<noteq> su_scheme b \<or> su_scheme u \<notin> set uses_relative then Inr url
                else if su_scheme u \<in> set uses_netloc \<and> su_netloc u \<noteq> []
                then Inr (urlunsplit (u\<lparr>su_path := with_params path params\<rparr>))
                else (let netloc = (if su_scheme u \<in> set uses_netloc then su_netloc b else su_netloc u)
                      in if path = [] \<and> params = []
                         then Inr (urlunsplit (u\<lparr>su_netloc := netloc, su_path := with_params bpath bparams,
                                su_query := (if su_query u = [] then su_query b else su_query u)\<rparr>))
                         else Inr (urlunsplit (u\<lparr>su_netloc := netloc,
                                su_path := with_params (join_path bpath path) params\<rparr>))))))"

section \<open>Examples\<close>

text \<open>Cases of RFC 3986, section 5.4, for the base \<^verbatim>\<open>http://a/b/c/d;p?q\<close>.\<close>

lemma urljoin_examples:
  "urljoin ''http://a/b/c/d;p?q'' ''g'' = Inr ''http://a/b/c/g''"
  "urljoin ''http://a/b/c/d;p?q'' ''./g/'' = Inr ''http://a/b/c/g/''"
  "urljoin ''http://a/b/c/d;p?q'' ''/g'' = Inr ''http://a/g''"
  "urljoin ''http://a/b/c/d;p?q'' ''//g'' = Inr ''http://g''"
  "urljoin ''http://a/b/c/d;p?q'' ''?y'' = Inr ''http://a/b/c/d;p?y''"
  "urljoin ''http://a/b/c/d;p?q'' ''g;x?y#s'' = Inr ''http://a/b/c/g;x?y#s''"
  "urljoin ''http://a/b/c/d;p?q'' ''../../g'' = Inr ''http://a/g''"
  "urljoin ''http://a/b/c/d;p?q'' ''../../../g'' = Inr ''http://a/g''"
  "urljoin ''http://a/b/c/d;p?q'' ''..'' = Inr ''http://a/b/''"
  "urljoin ''http://a/b/c/d;p?q'' ''https://x/y'' = Inr ''https://x/y''"
  by code_simp+

end
