(* ===== verification/Fetchers.thy ===== *)
theory Fetchers
  imports Url_Join Ssrf_Guard Block_Detector Content_Decoder
begin

text \<open>
  The four engines of \<^verbatim>\<open>app/services/fetchers/\<close>: \<^verbatim>\<open>httpx_fetcher.py\<close>, \<^verbatim>\<open>curl_fetcher.py\<close>,
  \<^verbatim>\<open>playwright_fetcher.py\<close> and \<^verbatim>\<open>camoufox_fetcher.py\<close>. The HTTP clients, the browsers and the name
  resolution are parameters; the elapsed time is an argument. Beside its result a fetch of the HTTP
  engines gives the list of the URLs it requested, one of the browsers the warnings it logged. Dashes in
  messages are written in ASCII.
\<close>

record http_response =
  hr_status :: int
  hr_headers :: headers
  hr_body :: bytes

text \<open>One GET without redirects, through a proxy or not; the exception is any that the client raises.\<close>

type_synonym 'w http_client = "string \<Rightarrow> string option \<Rightarrow> headers \<Rightarrow> 'w \<Rightarrow> (exn + http_response) \<times> 'w"

definition REDIRECTS :: "int list" where
  "REDIRECTS = [301, 302, 303, 307, 308]"

text \<open>The guard's error becomes a FetchError; a ValueError of the URL parser passes.\<close>

definition guard_exn :: "guard_error + unit \<Rightarrow> exn + unit" where
  "guard_exn r = (case r of
     Inr _ \<Rightarrow> Inr () | Inl (URLGuardError m) \<Rightarrow> Inl (FetchError m) | Inl GuardValueError \<Rightarrow> Inl (OtherError ''ValueError''))"

text \<open>\<^verbatim>\<open>proxy.url\<close>; an empty one counts as no proxy.\<close>

definition proxy_url_of :: "Proxy option \<Rightarrow> string option" where
  "proxy_url_of proxy = (case proxy of None \<Rightarrow> None | Some p \<Rightarrow> if px_url p = [] then None else Some (px_url p))"

definition redirect_msg :: "int \<Rightarrow> string" where
  "redirect_msg status = ''Redirect ('' @ int_str status @ '') with no Location header''"

text \<open>
  The redirect loop of both HTTP engines: guard, request, follow. \<open>guard\<close> is the engine's check of a
  URL, \<open>location\<close> its reading of the Location header; \<open>n\<close> requests are left. The URL of the final
  response comes with it.
\<close>

fun hops ::
  "(string \<Rightarrow> exn + unit) \<Rightarrow> (headers \<Rightarrow> string option) \<Rightarrow> 'w http_client \<Rightarrow> string option \<Rightarrow> headers \<Rightarrow> bool \<Rightarrow> string
   \<Rightarrow> nat \<Rightarrow> string \<Rightarrow> 'w \<Rightarrow> (exn + string \<times> http_response) \<times> string list \<times> 'w" where
  "hops guard location get px hs follow url 0 current w = (Inl (FetchError (''Too many redirects from '' @ url)), [], w)"
| "hops guard location get px hs follow url (Suc n) current w =
     (case guard current of
        Inl e \<Rightarrow> (Inl e, [], w)
      | Inr _ \<Rightarrow>
          (case get current px hs w of
             (Inl e, w') \<Rightarrow> (Inl e, [current], w')
           | (Inr resp, w') \<Rightarrow>
               if hr_status resp \<in> set REDIRECTS \<and> follow
               then (case location (hr_headers resp) of
                       None \<Rightarrow> (Inl (FetchError (redirect_msg (hr_status resp))), [current], w')
                     | Some l \<Rightarrow>
                         if l = [] then (Inl (FetchError (redirect_msg (hr_status resp))), [current], w')
                         else (case urljoin current l of
                                 Inl _ \<Rightarrow> (Inl (OtherError ''ValueError''), [current], w')
                               | Inr next_url \<Rightarrow>
                                   (let (r, urls, w'') = hops guard location get px hs follow url n next_url w'
                                    in (r, current # urls, w''))))
               else (Inr (current, resp), [current], w')))"

section \<open>httpx\<close>

definition engine_result ::
  "string \<Rightarrow> int \<Rightarrow> Proxy option \<Rightarrow> string \<Rightarrow> int \<Rightarrow> headers \<Rightarrow> bytes \<Rightarrow> BlockReason option \<Rightarrow> bytes \<Rightarrow> headers \<Rightarrow> FetchResult" where
  "engine_result engine elapsed_ms proxy url status headers body block_reason raw_body raw_headers =
     (fetch_result url status)\<lparr>fr_headers := headers, fr_body := body, fr_elapsed_ms := elapsed_ms,
        fr_proxy_id := map_option px_id proxy, fr_engine := engine, fr_blocked := (block_reason \<noteq> None),
        fr_block_reason := map_option br_value block_reason, fr_raw_body := raw_body, fr_raw_headers := raw_headers\<rparr>"

definition httpx_fetch ::
  "resolver \<Rightarrow> codecs \<Rightarrow> 'w http_client \<Rightarrow> int \<Rightarrow> string \<Rightarrow> Proxy option \<Rightarrow> headers \<Rightarrow> bool \<Rightarrow> nat \<Rightarrow> 'w
   \<Rightarrow> (exn + FetchResult) \<times> string list \<times> 'w" where
  "httpx_fetch resolve cd get elapsed_ms url proxy headers follow_redirects max_redirects w =
     (let guard = (\<lambda>u. guard_exn (validate_url_async resolve u))
      in case guard url of
           Inl e \<Rightarrow> (Inl e, [], w)
         | Inr _ \<Rightarrow>
             (case hops guard (\<lambda>hs. dict_get hs ''location'') get (proxy_url_of proxy) headers follow_redirects url
                     (max_redirects + 1) url w of
                (Inl e, urls, w') \<Rightarrow> (Inl e, urls, w')
              | (Inr (current_url, resp), urls, w') \<Rightarrow>
                  (let raw_body = hr_body resp; raw_headers = hr_headers resp;
                       decoded_body = (case decode_body cd raw_body (dict_get raw_headers ''content-encoding'') of
                                         Inr (b, _) \<Rightarrow> b | Inl _ \<Rightarrow> raw_body);
                       status_code = hr_status resp;
                       block_reason = detect_block_reason status_code raw_headers
                                        (if status_code = 200 then decoded_body else [])
                   in (Inr (engine_result ''httpx'' elapsed_ms proxy current_url status_code
                              (normalize_headers raw_headers (length decoded_body)) decoded_body block_reason
                              raw_body raw_headers), urls, w'))))"

section \<open>curl_cffi\<close>

definition CHROME_120_UA :: string where
  "CHROME_120_UA = ''Mozilla/5.0 (Windows NT 10.0; Win64; x64) AppleWebKit/537.36 '' @
     ''(KHTML, like Gecko) Chrome/120.0.0.0 Safari/537.36''"

definition curl_headers :: "headers \<Rightarrow> headers" where
  "curl_headers headers = (if headers = [] then [] else dict_set ''User-Agent'' CHROME_120_UA headers)"

text \<open>
  The URL check inside the worker thread raises the guard's own errors, which the surrounding handler
  wraps; the first check runs before and is translated as in httpx. Header names of this client's responses
  are looked up without case, and the first fifty are kept.
\<close>

definition curl_guard :: "guard_error + unit \<Rightarrow> exn + unit" where
  "curl_guard r = (case r of
     Inr _ \<Rightarrow> Inr () | Inl (URLGuardError m) \<Rightarrow> Inl (OtherError m) | Inl GuardValueError \<Rightarrow> Inl (OtherError ''ValueError''))"

definition curl_wrap :: "exn \<Rightarrow> exn" where
  "curl_wrap e = (case e of FetchError m \<Rightarrow> FetchError m | CancelledError \<Rightarrow> CancelledError
     | e \<Rightarrow> FetchError (''curl_cffi fetch failed: '' @ exn_str e))"

definition curl_fetch ::
  "resolver \<Rightarrow> 'w http_client \<Rightarrow> int \<Rightarrow> string \<Rightarrow> Proxy option \<Rightarrow> headers \<Rightarrow> bool \<Rightarrow> nat \<Rightarrow> 'w
   \<Rightarrow> (exn + FetchResult) \<times> string list \<times> 'w" where
  "curl_fetch resolve get elapsed_ms url proxy headers follow_redirects max_redirects w =
     (case guard_exn (validate_url_sync resolve url) of
        Inl e \<Rightarrow> (Inl e, [], w)
      | Inr _ \<Rightarrow>
          (case hops (\<lambda>u. curl_guard (validate_url_sync resolve u)) (\<lambda>hs. map_of (lower_keys hs) ''location'') get
                  (proxy_url_of proxy) (curl_headers headers) follow_redirects url (max_redirects + 1) url w of
             (Inl e, urls, w') \<Rightarrow> (Inl (curl_wrap e), urls, w')
           | (Inr (final_url, resp), urls, w') \<Rightarrow>
               (let resp_headers = take 50 (hr_headers resp); status_code = hr_status resp; body = hr_body resp;
                    is_success = (200 \<le> status_code \<and> status_code < 300);
                    block_reason = detect_block_reason status_code resp_headers (if is_success then body else [])
                in (Inr (engine_result ''curl_cffi'' elapsed_ms proxy final_url status_code resp_headers body block_reason
                           body resp_headers), urls, w'))))"

section \<open>Browsers\<close>

text \<open>
  A page load: the URLs of the responses the page received, its final URL, the navigation response's
  status and headers (\<^const>\<open>None\<close> when the navigation gave no response), and its serialised content.
\<close>

record page_load =
  pg_response_urls :: "string list"
  pg_url :: string
  pg_status :: "int option"
  pg_headers :: "headers option"
  pg_content :: bytes

text \<open>Launch options of the proxy, the extra headers and the URL; the left side is the text of the exception.\<close>

type_synonym 'w browser = "(string \<times> string) list option \<Rightarrow> headers \<Rightarrow> string \<Rightarrow> 'w \<Rightarrow> (string + page_load) \<times> 'w"

text \<open>
  \<^verbatim>\<open>_split_proxy_credentials\<close>. The user name and password are those of \<^verbatim>\<open>urlsplit\<close>'s user info, the part
  of the network location before its last at sign.
\<close>

definition userinfo :: "string \<Rightarrow> string option \<times> string option" where
  "userinfo netloc =
     (let hi = after_last CHR ''@'' netloc; ui = take (length netloc - length hi - 1) netloc;
          (username, have_password, password) = partition_on CHR '':'' ui
      in if CHR ''@'' \<notin> set netloc then (None, None)
         else (Some username, if have_password then Some password else None))"

definition opt_entry :: "string \<Rightarrow> string option \<Rightarrow> (string \<times> string) list" where
  "opt_entry k v = (case v of None \<Rightarrow> [] | Some s \<Rightarrow> if s = [] then [] else [(k, s)])"

definition split_proxy_credentials :: "string \<Rightarrow> url_error + (string \<times> string) list" where
  "split_proxy_credentials proxy_url =
     bindE (urlsplit proxy_url []) (\<lambda>parts.
     bindE (urlparse proxy_url) (\<lambda>p.
     bindE (pu_port p) (\<lambda>port.
       let (username, password) = userinfo (su_netloc parts);
           netloc = (case pu_hostname p of None \<Rightarrow> [] | Some h \<Rightarrow> h);
           netloc = (case port of None \<Rightarrow> netloc | Some n \<Rightarrow> if n = 0 then netloc else netloc @ '':'' @ int_str n)
       in Inr (opt_entry ''username'' username @ opt_entry ''password'' password
               @ [(''server'', urlunsplit (parts\<lparr>su_netloc := netloc\<rparr>))]))))"

text \<open>
  The handler of response events checks each URL, and logs those that the guard refuses: these are the
  warnings. It neither stops the navigation nor changes the result; camoufox's skips an empty URL.
\<close>

definition navigation_warnings :: "resolver \<Rightarrow> page_load \<Rightarrow> string list" where
  "navigation_warnings resolve pg =
     filter (\<lambda>u. case validate_url_async resolve u of Inl (URLGuardError _) \<Rightarrow> True | _ \<Rightarrow> False) (pg_response_urls pg)"

definition browser_error :: "string \<Rightarrow> string \<Rightarrow> string \<Rightarrow> string \<Rightarrow> exn" where
  "browser_error name timed_out url msg =
     (if contains ''ERR_'' msg \<or> contains ''net::'' msg then FetchError (name @ '' network error: '' @ msg)
      else if contains ''timeout'' (lower msg) then FetchError (timed_out @ url)
      else FetchError (name @ '' fetch failed: '' @ msg))"

definition proxy_config :: "Proxy option \<Rightarrow> url_error + (string \<times> string) list option" where
  "proxy_config proxy =
     (case proxy_url_of proxy of
        None \<Rightarrow> Inr None
      | Some u \<Rightarrow> bindE (split_proxy_credentials u) (\<lambda>c. Inr (Some c)))"

text \<open>The proxy's URL is split before the handler is entered: a ValueError of it passes.\<close>

definition playwright_fetch ::
  "resolver \<Rightarrow> bool \<Rightarrow> 'w browser \<Rightarrow> int \<Rightarrow> string \<Rightarrow> Proxy option \<Rightarrow> 'w \<Rightarrow> (exn + FetchResult) \<times> string list \<times> 'w" where
  "playwright_fetch resolve have_pool browse elapsed_ms url proxy w =
     (case guard_exn (validate_url_async resolve url) of
        Inl e \<Rightarrow> (Inl e, [], w)
      | Inr _ \<Rightarrow>
          (case proxy_config proxy of
             Inl _ \<Rightarrow> (Inl (OtherError ''ValueError''), [], w)
           | Inr config \<Rightarrow>
               if \<not> have_pool
               then (Inl (FetchError ''BrowserPool not available -- ensure worker startup completed successfully''), [], w)
               else (case browse config [] url w of
                       (Inl msg, w') \<Rightarrow> (Inl (browser_error ''Playwright'' ''Request timed out: '' url msg), [], w')
                     | (Inr pg, w') \<Rightarrow>
                         (let status_code = (case pg_status pg of None \<Rightarrow> 200 | Some c \<Rightarrow> c); body = pg_content pg;
                              block_reason = detect_block_reason status_code [] body
                          in (Inr (engine_result ''playwright'' elapsed_ms proxy (pg_url pg) status_code [] body
                                     block_reason body []), navigation_warnings resolve pg, w')))))"

text \<open>
  camoufox: the self-check of the worker (\<open>ready\<close>), whether the package is installed, the headers but
  the user agent and the language. The proxy's URL is split outside the handler here too. The
  geolocation options are the browser's own.
\<close>

definition camoufox_headers :: "headers \<Rightarrow> headers" where
  "camoufox_headers headers = filter (\<lambda>(k, v). lower k \<notin> {''user-agent'', ''accept-language''}) headers"

definition camoufox_fetch ::
  "resolver \<Rightarrow> bool option \<Rightarrow> bool \<Rightarrow> 'w browser \<Rightarrow> int \<Rightarrow> string \<Rightarrow> Proxy option \<Rightarrow> headers \<Rightarrow> 'w
   \<Rightarrow> (exn + FetchResult) \<times> string list \<times> 'w" where
  "camoufox_fetch resolve ready installed browse elapsed_ms url proxy headers w =
     (if ready = Some False then (Inl (FetchError ''Camoufox failed self-check at worker startup -- see logs''), [], w)
      else
        (case guard_exn (validate_url_async resolve url) of
           Inl e \<Rightarrow> (Inl e, [], w)
         | Inr _ \<Rightarrow>
             if \<not> installed
             then (Inl (FetchError ''camoufox is not installed -- install crawler-api[browser]''), [], w)
             else
               (case proxy_config proxy of
                  Inl _ \<Rightarrow> (Inl (OtherError ''ValueError''), [], w)
                | Inr config \<Rightarrow>
                    (case browse config (camoufox_headers headers) url w of
                       (Inl msg, w') \<Rightarrow> (Inl (browser_error ''Camoufox'' ''Camoufox request timed out: '' url msg), [], w')
                     | (Inr pg, w') \<Rightarrow>
                         (let status_code = (case pg_status pg of None \<Rightarrow> 200 | Some c \<Rightarrow> c); body = pg_content pg;
                              raw_headers = (case pg_headers pg of None \<Rightarrow> [] | Some hs \<Rightarrow> hs);
                              block_reason = detect_block_reason status_code raw_headers body
                          in (Inr (engine_result ''camoufox'' elapsed_ms proxy (pg_url pg) status_code raw_headers body
                                     block_reason body raw_headers), filter (\<lambda>u. u \<noteq> []) (navigation_warnings resolve pg), w'))))))"

section \<open>The engine by its name\<close>

text \<open>What the engines run on; \<open>ee_pool\<close> and \<open>ee_ready\<close> are what the worker's start-up left in its context.\<close>

record 'w engine_env =
  ee_resolve :: resolver
  ee_codecs :: codecs
  ee_httpx :: "'w http_client"
  ee_curl :: "'w http_client"
  ee_pool :: bool
  ee_playwright :: "'w browser"
  ee_ready :: "bool option"
  ee_installed :: bool
  ee_camoufox :: "'w browser"
  ee_elapsed_ms :: "'w \<Rightarrow> int"

text \<open>
  The call that the retry loop makes of the current engine, with the engines' defaults: redirects are
  followed, ten at most. The second component is the URLs that the program itself asks for: each hop of
  the HTTP engines, and the pages that the browsers are sent to, which \<open>logged\<close> records.
\<close>

definition logged :: "'w browser \<Rightarrow> ('w \<times> string list) browser" where
  "logged browse config hs url wl = (let (w, log) = wl; (r, w') = browse config hs url w in (r, (w', log @ [url])))"

definition engine_fetch ::
  "'w engine_env \<Rightarrow> string \<Rightarrow> string \<Rightarrow> Proxy option \<Rightarrow> headers \<Rightarrow> 'w \<Rightarrow> (exn + FetchResult) \<times> string list \<times> 'w" where
  "engine_fetch E engine url proxy headers w =
     (if engine = ''httpx'' then
        httpx_fetch (ee_resolve E) (ee_codecs E) (ee_httpx E) (ee_elapsed_ms E w) url proxy headers True 10 w
      else if engine = ''curl_cffi'' then
        curl_fetch (ee_resolve E) (ee_curl E) (ee_elapsed_ms E w) url proxy headers True 10 w
      else
        (let (r, _, (w', urls)) =
           (if engine = ''playwright''
            then playwright_fetch (ee_resolve E) (ee_pool E) (logged (ee_playwright E)) (ee_elapsed_ms E w) url proxy (w, [])
            else camoufox_fetch (ee_resolve E) (ee_ready E) (ee_installed E) (logged (ee_camoufox E)) (ee_elapsed_ms E w)
                   url proxy headers (w, []))
         in (r, urls, w')))"

text \<open>
  The services of the retry loop with these engines, over a world that also keeps the log of the URLs
  asked for; every other call leaves the log alone.
\<close>

definition lift_world :: "('w \<Rightarrow> 'a \<times> 'w) \<Rightarrow> 'w \<times> string list \<Rightarrow> 'a \<times> ('w \<times> string list)" where
  "lift_world f wl = (let (a, w') = f (fst wl) in (a, (w', snd wl)))"

definition with_engines :: "'w engine_env \<Rightarrow> 'w services \<Rightarrow> ('w \<times> string list) services" where
  "with_engines E sv =
     \<lparr>sv_manager = sv_manager sv,
      sv_get_proxy = (\<lambda>rq. lift_world (sv_get_proxy sv rq)),
      sv_report = (\<lambda>i d ok reason. lift_world (sv_report sv i d ok reason)),
      sv_fetch = (\<lambda>engine url px hs wl.
        let (r, urls, w') = engine_fetch E engine url px hs (fst wl) in (r, (w', snd wl @ urls))),
      sv_sleep = (\<lambda>t. lift_world (sv_sleep sv t)),
      sv_random = lift_world (sv_random sv)\<rparr>"

end
