(* ===== verification/Fetchers_Props.thy ===== *)
theory Fetchers_Props
  imports Fetchers Fetch_World
begin

text \<open>
  Where the engines go: every URL that the HTTP engines request has passed the URL guard, redirects
  included, and so has every page the browsers are sent to; with the retry loop on top, every URL of a
  whole fetch. What the browsers follow on their own is not guarded: the handler only logs it.
\<close>

section \<open>Allowed targets\<close>

text \<open>What the guard establishes of a URL, for the answers of \<open>resolve\<close>.\<close>

definition allowed_target :: "resolver \<Rightarrow> string \<Rightarrow> bool" where
  "allowed_target resolve u \<longleftrightarrow>
     (\<exists>p host infos port. urlparse u = Inr p \<and> pu_hostname p = Some host
        \<and> lower (pu_scheme p) \<in> set ALLOWED_SCHEMES \<and> port \<in> set ALLOWED_PORTS
        \<and> (\<exists>q. pu_port p = Inr q \<and> port = effective_port p q)
        \<and> lower host \<notin> set BLOCKED_HOSTNAMES \<and> \<not> is_ip_blocked host
        \<and> resolve host = Some infos \<and> (\<forall>ip \<in> set infos. \<not> is_ip_blocked ip))"

lemma guard_allowed:
  "guard_exn (validate_url_async resolve u) = Inr () \<Longrightarrow> allowed_target resolve u"
  "guard_exn (validate_url_sync resolve u) = Inr () \<Longrightarrow> allowed_target resolve u"
  "curl_guard (validate_url_sync resolve u) = Inr () \<Longrightarrow> allowed_target resolve u"
  unfolding allowed_target_def
  by (auto simp: guard_exn_def curl_guard_def split: sum.splits guard_error.splits
      dest: async_guard.accepted_sound sync_guard.accepted_sound)

section \<open>The redirect loop\<close>

lemma hops_spec:
  "hops guard location get px hs follow url n current w = (r, urls, w') \<Longrightarrow>
     list_all (\<lambda>u. guard u = Inr ()) urls \<and> length urls \<le> n
     \<and> (case r of Inl _ \<Rightarrow> True
        | Inr (final, resp) \<Rightarrow> urls \<noteq> [] \<and> last urls = final \<and> (hr_status resp \<in> set REDIRECTS \<longrightarrow> \<not> follow))"
proof (induction n arbitrary: current w r urls w')
  case (Suc n)
  show ?case
  proof (cases "guard current")
    case (Inr u)
    obtain g w1 where get: "get current px hs w = (g, w1)" by fastforce
    have ok: "guard current = Inr ()" using Inr by simp
    show ?thesis
    proof (cases "\<exists>next_url r2 urls2. hops guard location get px hs follow url n next_url w1 = (r2, urls2, w')
        \<and> r = r2 \<and> urls = current # urls2")
      case True
      then obtain next_url r2 urls2 where rec: "hops guard location get px hs follow url n next_url w1 = (r2, urls2, w')"
          "r = r2" "urls = current # urls2" by blast
      with Suc.IH [OF rec(1)] ok show ?thesis by (auto split: sum.splits)
    next
      case False
      with Suc.prems ok get show ?thesis
        by (auto split: sum.splits option.splits if_splits prod.splits)
    qed
  qed (use Suc.prems in auto)
qed auto

section \<open>The contract of an engine\<close>

text \<open>
  An engine that follows redirects by itself: its requests go to allowed targets only, there are at most
  \<open>budget\<close> of them, and a result comes from the last one and is no redirect.
\<close>

locale guarded_engine =
  fixes fetch :: "string \<Rightarrow> Proxy option \<Rightarrow> headers \<Rightarrow> 'w \<Rightarrow> (exn + FetchResult) \<times> string list \<times> 'w"
    and resolve :: resolver and budget :: nat
  assumes targets: "fetch url px hs w = (r, urls, w') \<Longrightarrow> u \<in> set urls \<Longrightarrow> allowed_target resolve u"
    and bounded: "fetch url px hs w = (r, urls, w') \<Longrightarrow> length urls \<le> budget"
    and final: "fetch url px hs w = (Inr res, urls, w') \<Longrightarrow>
      urls \<noteq> [] \<and> fr_url res = last urls \<and> fr_status_code res \<notin> set REDIRECTS"
begin

lemma result_from_allowed: "fetch url px hs w = (Inr res, urls, w') \<Longrightarrow> allowed_target resolve (fr_url res)"
  using final targets last_in_set by metis

text \<open>A blocked literal address, or a host whose name resolves to one, is never asked for.\<close>

lemma blocked_never_requested:
  assumes "fetch url px hs w = (r, urls, w')" "urlparse u = Inr p" "pu_hostname p = Some host"
    "is_ip_blocked host \<or> (\<exists>infos ip. resolve host = Some infos \<and> ip \<in> set infos \<and> is_ip_blocked ip)"
  shows "u \<notin> set urls"
proof
  assume "u \<in> set urls"
  from targets [OF assms(1) this] assms(2-4) show False by (auto simp: allowed_target_def)
qed

end

lemma engine_result_sel [simp]:
  "fr_url (engine_result e t px u st hs b br rb rh) = u" "fr_status_code (engine_result e t px u st hs b br rb rh) = st"
  "fr_body (engine_result e t px u st hs b br rb rh) = b"
  by (simp_all add: engine_result_def fetch_result_def)

interpretation httpx_engine:
  guarded_engine "\<lambda>url px hs. httpx_fetch resolve cd get t url px hs True n" resolve "n + 1"
  for resolve cd get t n
proof unfold_locales
  fix url px hs w r urls w' u
  assume run: "httpx_fetch resolve cd get t url px hs True n w = (r, urls, w')"
  let ?hops = "hops (\<lambda>u. guard_exn (validate_url_async resolve u)) (\<lambda>hs. dict_get hs ''location'') get (proxy_url_of px) hs True url (n + 1) url w"
  obtain q urls2 w2 where h: "?hops = (q, urls2, w2)" by (metis prod_cases3)
  have u: "urls = urls2 \<or> urls = []" using run h by (auto simp: httpx_fetch_def Let_def split: sum.splits prod.splits)
  then show "length urls \<le> n + 1" using hops_spec [OF h] by auto
  show "u \<in> set urls \<Longrightarrow> allowed_target resolve u" using u hops_spec [OF h] by (auto simp: list_all_iff intro: guard_allowed)
next
  fix url px hs w res urls w'
  assume run: "httpx_fetch resolve cd get t url px hs True n w = (Inr res, urls, w')"
  let ?hops = "hops (\<lambda>u. guard_exn (validate_url_async resolve u)) (\<lambda>hs. dict_get hs ''location'') get (proxy_url_of px) hs True url (n + 1) url w"
  obtain q urls2 w2 where h: "?hops = (q, urls2, w2)" by (metis prod_cases3)
  show "urls \<noteq> [] \<and> fr_url res = last urls \<and> fr_status_code res \<notin> set REDIRECTS"
    using run hops_spec [OF h] h by (auto simp: httpx_fetch_def Let_def split: sum.splits prod.splits)
qed

interpretation curl_engine:
  guarded_engine "\<lambda>url px hs. curl_fetch resolve get t url px hs True n" resolve "n + 1"
  for resolve get t n
proof unfold_locales
  fix url px hs w r urls w' u
  assume run: "curl_fetch resolve get t url px hs True n w = (r, urls, w')"
  let ?hops = "hops (\<lambda>u. curl_guard (validate_url_sync resolve u)) (\<lambda>hs. map_of (lower_keys hs) ''location'') get (proxy_url_of px)
    (curl_headers hs) True url (n + 1) url w"
  obtain q urls2 w2 where h: "?hops = (q, urls2, w2)" by (metis prod_cases3)
  have u: "urls = urls2 \<or> urls = []" using run h by (auto simp: curl_fetch_def Let_def split: sum.splits prod.splits)
  then show "length urls \<le> n + 1" using hops_spec [OF h] by auto
  show "u \<in> set urls \<Longrightarrow> allowed_target resolve u" using u hops_spec [OF h] by (auto simp: list_all_iff intro: guard_allowed)
next
  fix url px hs w res urls w'
  assume run: "curl_fetch resolve get t url px hs True n w = (Inr res, urls, w')"
  let ?hops = "hops (\<lambda>u. curl_guard (validate_url_sync resolve u)) (\<lambda>hs. map_of (lower_keys hs) ''location'') get (proxy_url_of px)
    (curl_headers hs) True url (n + 1) url w"
  obtain q urls2 w2 where h: "?hops = (q, urls2, w2)" by (metis prod_cases3)
  show "urls \<noteq> [] \<and> fr_url res = last urls \<and> fr_status_code res \<notin> set REDIRECTS"
    using run hops_spec [OF h] h by (auto simp: curl_fetch_def Let_def split: sum.splits prod.splits)
qed

section \<open>Browsers\<close>

lemma playwright_log:
  assumes "playwright_fetch resolve pool (logged browse) t url px (w, []) = (r, warnings, (w', urls))"
  shows "set urls \<subseteq> {u. guard_exn (validate_url_async resolve u) = Inr ()} \<and> length urls \<le> 1"
  using assms by (auto simp: playwright_fetch_def Let_def logged_def split: sum.splits prod.splits if_splits)

lemma camoufox_log:
  assumes "camoufox_fetch resolve ready inst (logged browse) t url px hs (w, []) = (r, warnings, (w', urls))"
  shows "set urls \<subseteq> {u. guard_exn (validate_url_async resolve u) = Inr ()} \<and> length urls \<le> 1"
  using assms by (auto simp: camoufox_fetch_def Let_def logged_def split: sum.splits prod.splits if_splits)

lemma browser_log_allowed:
  "set urls \<subseteq> {u. guard_exn (validate_url_async resolve u) = Inr ()} \<and> length urls \<le> 1 \<Longrightarrow>
     list_all (allowed_target resolve) urls \<and> length urls \<le> 11"
  by (auto simp: list_all_iff intro: guard_allowed)

section \<open>Any engine, and the loop over them\<close>

lemma engine_fetch_targets:
  assumes run: "engine_fetch E engine url px hs w = (r, urls, w')"
  shows "list_all (allowed_target (ee_resolve E)) urls \<and> length urls \<le> 11"
proof -
  consider (httpx) "engine = ''httpx''" | (curl) "engine \<noteq> ''httpx''" "engine = ''curl_cffi''"
    | (playwright) "engine = ''playwright''" | (camoufox) "engine \<notin> {''httpx'', ''curl_cffi'', ''playwright''}" by blast
  then show ?thesis
  proof cases
    case httpx
    with run have "httpx_fetch (ee_resolve E) (ee_codecs E) (ee_httpx E) (ee_elapsed_ms E w) url px hs True 10 w = (r, urls, w')"
      by (simp add: engine_fetch_def)
    from httpx_engine.targets [OF this] httpx_engine.bounded [OF this] show ?thesis by (simp add: list_all_iff)
  next
    case curl
    with run have "curl_fetch (ee_resolve E) (ee_curl E) (ee_elapsed_ms E w) url px hs True 10 w = (r, urls, w')"
      by (simp add: engine_fetch_def)
    from curl_engine.targets [OF this] curl_engine.bounded [OF this] show ?thesis by (simp add: list_all_iff)
  next
    case playwright
    with run show ?thesis
      by (auto simp: engine_fetch_def split: prod.splits dest!: playwright_log intro: browser_log_allowed [THEN conjunct1])
  next
    case camoufox
    with run show ?thesis
      by (auto simp: engine_fetch_def split: prod.splits dest!: camoufox_log intro: browser_log_allowed [THEN conjunct1])
  qed
qed

text \<open>The log only grows, and by allowed targets.\<close>

definition log_keeps :: "resolver \<Rightarrow> 'w \<times> string list \<Rightarrow> 'w \<times> string list \<Rightarrow> bool" where
  "log_keeps resolve w w' \<longleftrightarrow> (\<exists>new. snd w' = snd w @ new \<and> list_all (allowed_target resolve) new)"

lemma lift_world_log: "lift_world f w = (a, w') \<Longrightarrow> snd w' = snd w"
  by (auto simp: lift_world_def split: prod.splits)

interpretation engines: world_keeper "with_engines E sv" "log_keeps (ee_resolve E)" for E sv
proof unfold_locales
  fix w1 w2 w3 :: "'a \<times> string list"
  assume "log_keeps (ee_resolve E) w1 w2" "log_keeps (ee_resolve E) w2 w3"
  then show "log_keeps (ee_resolve E) w1 w3"
    by (fastforce simp: log_keeps_def)
next
  fix eng url px hs r and w w' :: "'a \<times> string list"
  assume "sv_fetch (with_engines E sv) eng url px hs w = (r, w')"
  then show "log_keeps (ee_resolve E) w w'"
    by (auto simp: with_engines_def log_keeps_def split: prod.splits dest!: engine_fetch_targets)
qed (auto simp: log_keeps_def with_engines_def dest!: lift_world_log)

text \<open>
  C2. Whatever the retry loop does with the engines - attempts, redirects, escalation, proxies - every
  URL that the program asks an HTTP client for or sends a browser to is an allowed target: an http or
  https URL on port 80 or 443 whose host is no blocked name, no blocked address, and resolves to no
  blocked address.
\<close>

theorem fetch_targets_allowed:
  "case fetch_with_retry rd prem (with_engines E sv) f a (w, []) of
     (res, attempts, (w', urls)) \<Rightarrow> list_all (allowed_target (ee_resolve E)) urls"
proof -
  obtain res as w' urls where run: "fetch_with_retry rd prem (with_engines E sv) f a (w, []) = (res, as, (w', urls))"
    by (metis prod_cases4)
  from engines.keep_fetch_with_retry [OF run] show ?thesis by (simp add: run log_keeps_def)
qed

text \<open>
  C40. The page that a browser ends up on is not held to the guard: when a page sent to an allowed URL
  lands on one that the guard refuses, both browser engines return its content; a warning is all.
\<close>

theorem browser_returns_refused_page:
  assumes "validate_url_async resolve url = Inr ()" "pg_url pg \<in> set (pg_response_urls pg)" "pg_url pg \<noteq> []"
    "validate_url_async resolve (pg_url pg) = Inl (URLGuardError m)"
    "\<And>config hs. browse config hs url w = (Inr pg, w')"
  shows "\<exists>r1 r2 v1 v2.
      playwright_fetch resolve True browse t url None w = (Inr r1, v1, w')
    \<and> camoufox_fetch resolve (Some True) True browse t url None hs w = (Inr r2, v2, w')
    \<and> fr_url r1 = pg_url pg \<and> fr_body r1 = pg_content pg \<and> pg_url pg \<in> set v1
    \<and> fr_url r2 = pg_url pg \<and> fr_body r2 = pg_content pg \<and> pg_url pg \<in> set v2"
  using assms
  by (simp add: playwright_fetch_def camoufox_fetch_def guard_exn_def proxy_config_def proxy_url_of_def
      navigation_warnings_def Let_def)

definition ex_metadata_page :: page_load where
  "ex_metadata_page = \<lparr>pg_response_urls = [''https://example.com/'', ''http://169.254.169.254/latest/''],
     pg_url = ''http://169.254.169.254/latest/'', pg_status = Some 200, pg_headers = None, pg_content = ''credentials''\<rparr>"

theorem browser_returns_refused_page_witness:
  "\<exists>r1 r2 v1 v2.
      playwright_fetch (\<lambda>_. Some [''93.184.216.34'']) True (\<lambda>_ _ _ w. (Inr ex_metadata_page, w)) 5 ''https://example.com/'' None ()
        = (Inr r1, v1, ())
    \<and> camoufox_fetch (\<lambda>_. Some [''93.184.216.34'']) (Some True) True (\<lambda>_ _ _ w. (Inr ex_metadata_page, w)) 5
        ''https://example.com/'' None [] () = (Inr r2, v2, ())
    \<and> fr_url r1 = pg_url ex_metadata_page \<and> fr_body r1 = pg_content ex_metadata_page \<and> pg_url ex_metadata_page \<in> set v1
    \<and> fr_url r2 = pg_url ex_metadata_page \<and> fr_body r2 = pg_content ex_metadata_page \<and> pg_url ex_metadata_page \<in> set v2"
proof -
  have "case validate_url_async (\<lambda>_. Some [''93.184.216.34'']) (pg_url ex_metadata_page) of
      Inl (URLGuardError m) \<Rightarrow> True | _ \<Rightarrow> False" by code_simp
  then obtain m where refused: "validate_url_async (\<lambda>_. Some [''93.184.216.34'']) (pg_url ex_metadata_page) = Inl (URLGuardError m)"
    by (auto split: sum.splits guard_error.splits)
  have "validate_url_async (\<lambda>_. Some [''93.184.216.34'']) ''https://example.com/'' = Inr ()" by code_simp
  then show ?thesis
    by (rule browser_returns_refused_page [OF _ _ _ refused]) (simp_all add: ex_metadata_page_def)
qed

text \<open>A run with a redirect: the log has both hops, and the second is the result's URL.\<close>

definition ex_env :: "nat engine_env" where
  "ex_env = \<lparr>ee_resolve = (\<lambda>_. Some [''93.184.216.34'']),
     ee_codecs = \<lparr>cd_brotli = Inr, cd_gzip = Inr, cd_zlib = Inr, cd_inflate_raw = Inr, cd_zstd = Inr,
       cd_sha256 = (\<lambda>b. b)\<rparr>,
     ee_httpx = (\<lambda>u px hs w. (Inr (if w = 0 then \<lparr>hr_status = 302, hr_headers = [(''location'', ''/y'')], hr_body = []\<rparr>
       else \<lparr>hr_status = 200, hr_headers = [], hr_body = ''hi''\<rparr>), Suc w)),
     ee_curl = (\<lambda>_ _ _ w. (Inl (OtherError ''unused''), w)), ee_pool = False, ee_playwright = (\<lambda>_ _ _ w. (Inl [], w)),
     ee_ready = None, ee_installed = False, ee_camoufox = (\<lambda>_ _ _ w. (Inl [], w)), ee_elapsed_ms = (\<lambda>_. 7)\<rparr>"

lemma redirect_followed:
  "case engine_fetch ex_env ''httpx'' ''https://a.com/x'' None [] 0 of
     (Inr r, urls, n) \<Rightarrow> urls = [''https://a.com/x'', ''https://a.com/y''] \<and> fr_url r = ''https://a.com/y''
        \<and> fr_body r = ''hi'' \<and> n = 2
   | _ \<Rightarrow> False"
  by code_simp

lemma redirect_to_metadata_refused:
  "case engine_fetch (ex_env\<lparr>ee_httpx := (\<lambda>_ _ _ w. (Inr \<lparr>hr_status = 302,
        hr_headers = [(''location'', ''http://169.254.169.254/'')], hr_body = []\<rparr>, Suc w))\<rparr>)
      ''httpx'' ''https://a.com/x'' None [] 0 of
     (Inl (FetchError _), urls, n) \<Rightarrow> urls = [''https://a.com/x''] \<and> n = 1 | _ \<Rightarrow> False"
  by code_simp

end
