(* ===== verification/Import_Script.thy ===== *)
theory Import_Script
  imports Proxy_Pools
begin

text \<open>
  \<^verbatim>\<open>scripts/import_proxies.py\<close>: proxies from lines \<^verbatim>\<open>host:port:user:pass:country\<close>. The statement it
  issues names the column \<^verbatim>\<open>url\<close> as the conflict target; the table has no unique constraint on that column
  alone, so the database rejects it before it touches a row. Column widths are not checked.
\<close>

section \<open>Lines\<close>

text \<open>Python's \<^verbatim>\<open>int\<close> of a text: blanks around, a sign, groups of digits with single underscores between.\<close>

definition py_int :: "string \<Rightarrow> int option" where
  "py_int text =
     (let t = strip text; neg = startswith ''-'' t;
          digits = split_on CHR ''_'' (if neg \<or> startswith ''+'' t then drop 1 t else t)
      in if list_all (\<lambda>d. d \<noteq> [] \<and> list_all is_digit d) digits
         then Some (if neg then - decimal (concat digits) else decimal (concat digits)) else None)"

record line_item =
  li_host :: string
  li_port :: int
  li_username :: string
  li_password :: string
  li_country :: string

datatype script_error =
    SystemExit string
  | PortValueError
  | NoMatchingConstraint  \<comment> \<open>no unique constraint matches the ON CONFLICT specification\<close>
  | PoolForeignKey        \<comment> \<open>the pool does not exist\<close>

definition parse_line :: "string \<Rightarrow> int \<Rightarrow> script_error + line_item" where
  "parse_line line lineno =
     (let parts = split_on CHR '':'' (strip line)
      in case parts of
           [host, port, user, password, country] \<Rightarrow>
             (case py_int port of
                None \<Rightarrow> Inl PortValueError
              | Some n \<Rightarrow> Inr \<lparr>li_host = host, li_port = n, li_username = user, li_password = password,
                                li_country = upper country\<rparr>)
         | _ \<Rightarrow> Inl (SystemExit (''line '' @ int_str lineno @ '': expected 5 fields, got '' @ int_str (int (length parts)))))"

fun parse_lines :: "(int \<times> string) list \<Rightarrow> script_error + line_item list" where
  "parse_lines [] = Inr []"
| "parse_lines ((i, line) # rest) =
     (if strip line \<noteq> [] \<and> \<not> startswith ''#'' line
      then bindE (parse_line line i) (\<lambda>item. bindE (parse_lines rest) (\<lambda>items. Inr (item # items)))
      else parse_lines rest)"

section \<open>The statement\<close>

text \<open>The column sets of the unique constraints of \<^verbatim>\<open>proxies\<close>: its primary key and \<^verbatim>\<open>uq_proxy_provider_url\<close>.\<close>

definition PROXY_UNIQUE :: "string list list" where
  "PROXY_UNIQUE = [[''id''], [''provider'', ''url'']]"

definition conflict_target_ok :: "string list \<Rightarrow> bool" where
  "conflict_target_ok columns \<longleftrightarrow> (\<exists>u \<in> set PROXY_UNIQUE. set u = set columns)"

definition line_url :: "line_item \<Rightarrow> string" where
  "line_url item = ''http://'' @ li_username item @ '':'' @ li_password item @ ''@'' @ li_host item @ '':'' @ int_str (li_port item)"

definition line_row :: "uuid \<Rightarrow> uuid \<Rightarrow> line_item \<Rightarrow> Proxy" where
  "line_row i pool_id item = (new_proxy i pool_id (line_url item))\<lparr>px_country := Some (li_country item),
     px_health_score := 1, px_consecutive_failures := 0\<rparr>"

definition line_update :: "line_item \<Rightarrow> Proxy \<Rightarrow> Proxy" where
  "line_update item r = r\<lparr>px_country := Some (li_country item), px_health_score := 1, px_consecutive_failures := 0,
     px_cooldown_until := None\<rparr>"

definition insert_on_conflict ::
  "string list \<Rightarrow> (Proxy \<Rightarrow> bool) \<Rightarrow> (Proxy \<Rightarrow> Proxy) \<Rightarrow> Proxy \<Rightarrow> ProxyPool list \<Rightarrow> proxy_table
   \<Rightarrow> script_error + proxy_table" where
  "insert_on_conflict columns conflicts upd row pools tbl =
     (if \<not> conflict_target_ok columns then Inl NoMatchingConstraint
      else if filter conflicts tbl \<noteq> [] then Inr (update_where conflicts upd tbl)
      else if get_by pp_id (px_pool_id row) pools = None then Inl PoolForeignKey
      else Inr (insert_row row tbl))"

fun import_lines :: "uuid \<Rightarrow> (nat \<Rightarrow> uuid) \<Rightarrow> nat \<Rightarrow> line_item list \<Rightarrow> ProxyPool list \<Rightarrow> proxy_table \<Rightarrow> script_error + proxy_table" where
  "import_lines pool_id ids n [] pools tbl = Inr tbl"
| "import_lines pool_id ids n (item # items) pools tbl =
     bindE (insert_on_conflict [''url''] (\<lambda>r. px_url r = line_url item) (line_update item)
              (line_row (ids n) pool_id item) pools tbl)
       (\<lambda>tbl'. import_lines pool_id ids (n + 1) items pools tbl')"

text \<open>
  The command: \<open>tenant_id\<close> is its option, \<open>random\<close> the identifier drawn without it. The exit status on the
  right; an exception leaves the transaction uncommitted.
\<close>

definition import_main ::
  "uuid option \<Rightarrow> uuid \<Rightarrow> (nat \<Rightarrow> uuid) \<Rightarrow> string list \<Rightarrow> ProxyPool list \<Rightarrow> proxy_table
   \<Rightarrow> (script_error + int) \<times> proxy_table" where
  "import_main tenant_id random ids lines pools tbl =
     (let pool_id = (case tenant_id of None \<Rightarrow> random | Some t \<Rightarrow> t)
      in case parse_lines (zip (map int [1..<length lines + 1]) lines) of
           Inl e \<Rightarrow> (Inl e, tbl)
         | Inr [] \<Rightarrow> (Inr 1, tbl)
         | Inr rows \<Rightarrow> (case import_lines pool_id ids 0 rows pools tbl of
                           Inl e \<Rightarrow> (Inl e, tbl)
                         | Inr tbl' \<Rightarrow> (Inr 0, tbl')))"

section \<open>What it does\<close>

lemma parse_line_example:
  "parse_line '' 10.0.0.1: +80_80 :u:p:de '' 3 = Inr \<lparr>li_host = ''10.0.0.1'', li_port = 8080, li_username = ''u'',
     li_password = ''p'', li_country = ''DE''\<rparr>"
  by code_simp

lemma url_is_no_conflict_target: "\<not> conflict_target_ok [''url'']"
  by (simp add: conflict_target_ok_def PROXY_UNIQUE_def)

lemma parse_lines_zip_comments:
  "parse_lines xs = Inr [] \<longleftrightarrow> (\<forall>(i, line) \<in> set xs. strip line = [] \<or> startswith ''#'' line)"
  by (induction xs rule: parse_lines.induct) (auto simp: bindE_Inr_iff)

text \<open>
  The import script imports nothing: it never changes the table and never reports success, and a file
  whose entries are all well formed ends in the database's error about the conflict target.
\<close>

lemma import_script_imports_nothing:
  assumes "import_main tenant_id random ids lines pools tbl = (r, tbl')"
  shows "tbl' = tbl \<and> r \<noteq> Inr 0
    \<and> (case parse_lines (zip (map int [1..<length lines + 1]) lines) of
         Inl e \<Rightarrow> r = Inl e
       | Inr rows \<Rightarrow> r = (if rows = [] then Inr 1 else Inl NoMatchingConstraint))"
  using assms url_is_no_conflict_target
  by (auto simp: import_main_def insert_on_conflict_def bindE_def Let_def split: sum.splits list.splits)

lemma import_script_imports_nothing_witness:
  "import_main (Some 7) 9 (\<lambda>_. 1) [''# host:port'', ''10.0.0.1:8080:u:p:de''] [new_pool 7 ''p'' ''webshare'' 0] []
   = (Inl NoMatchingConstraint, [])"
proof -
  let ?m = "import_main (Some 7) 9 (\<lambda>_. 1) [''# host:port'', ''10.0.0.1:8080:u:p:de''] [new_pool 7 ''p'' ''webshare'' 0] []"
  have "case parse_lines (zip (map int [1..<length [''# host:port'', ''10.0.0.1:8080:u:p:de''] + 1])
      [''# host:port'', ''10.0.0.1:8080:u:p:de'']) of Inr rows \<Rightarrow> rows \<noteq> [] | _ \<Rightarrow> False" by code_simp
  then show ?thesis
    using import_script_imports_nothing [of "Some 7" 9 "\<lambda>_. 1" "[''# host:port'', ''10.0.0.1:8080:u:p:de'']"
        "[new_pool 7 ''p'' ''webshare'' 0]" "[]" "fst ?m" "snd ?m"]
    by (simp add: prod_eq_iff split: sum.splits)
qed

end
