(* ===== verification/Browser_Pool.thy ===== *)
theory Browser_Pool
  imports Prelude
begin

text \<open>
  \<^verbatim>\<open>app/worker/browser_pool.py\<close>: one Chromium, a fresh context per job, a cap on the jobs inside. The jobs
  run interleaved, and may be switched at every await of \<^verbatim>\<open>context\<close> and \<^verbatim>\<open>start\<close>: each event is what one job does
  between two of them. An exception and a cancellation at an await are the same event. Browsers,
  drivers and contexts are numbered; the library's launch and creation of them are atomic, and Chromium may
  crash at any time.
\<close>

type_synonym job = nat

text \<open>Where a job stands in \<^verbatim>\<open>context\<close>.\<close>

datatype pc =
    Outside
  | Wants_lock       \<comment> \<open>holds a slot of the semaphore\<close>
  | Has_lock         \<comment> \<open>about to check the browser\<close>
  | Starting         \<comment> \<open>in \<^verbatim>\<open>start\<close>, before the driver runs\<close>
  | Launching        \<comment> \<open>in \<^verbatim>\<open>start\<close>, the driver runs\<close>
  | Ready            \<comment> \<open>lock released, about to create its context\<close>
  | Scripting nat    \<comment> \<open>context created, its script not yet added\<close>
  | Using nat        \<comment> \<open>in the caller's block\<close>

record pool =
  bp_sem :: nat
  bp_lock :: "job option"
  bp_pw :: "nat option"
  bp_browser :: "nat option"
  bp_drivers :: "nat list"               \<comment> \<open>drivers that run\<close>
  bp_alive :: "nat list"                 \<comment> \<open>browsers that are connected\<close>
  bp_contexts :: "(nat \<times> nat) list"      \<comment> \<open>open contexts, each with its browser\<close>
  bp_next :: nat
  bp_pc :: "job \<Rightarrow> pc"

definition new_pool_state :: "nat \<Rightarrow> pool" where
  "new_pool_state n = \<lparr>bp_sem = n, bp_lock = None, bp_pw = None, bp_browser = None, bp_drivers = [], bp_alive = [],
     bp_contexts = [], bp_next = 0, bp_pc = (\<lambda>_. Outside)\<rparr>"

definition connected :: "pool \<Rightarrow> bool" where
  "connected s = (case bp_browser s of None \<Rightarrow> False | Some b \<Rightarrow> b \<in> set (bp_alive s))"

definition goto :: "job \<Rightarrow> pc \<Rightarrow> pool \<Rightarrow> pool" where
  "goto j p s = s\<lparr>bp_pc := (bp_pc s)(j := p)\<rparr>"

definition leave :: "job \<Rightarrow> pool \<Rightarrow> pool" where
  "leave j s = goto j Outside (s\<lparr>bp_sem := bp_sem s + 1\<rparr>)"

definition unlock :: "pool \<Rightarrow> pool" where
  "unlock s = s\<lparr>bp_lock := None\<rparr>"

text \<open>The two halves of \<^verbatim>\<open>start\<close>: the driver, then the browser.\<close>

definition start_driver :: "pool \<Rightarrow> pool" where
  "start_driver s = s\<lparr>bp_pw := Some (bp_next s), bp_drivers := bp_next s # bp_drivers s, bp_next := bp_next s + 1\<rparr>"

definition launch_browser :: "pool \<Rightarrow> pool" where
  "launch_browser s = s\<lparr>bp_browser := Some (bp_next s), bp_alive := bp_next s # bp_alive s, bp_next := bp_next s + 1\<rparr>"

text \<open>A browser that goes away takes its contexts along.\<close>

definition browser_gone :: "nat \<Rightarrow> pool \<Rightarrow> pool" where
  "browser_gone b s = s\<lparr>bp_alive := filter (\<lambda>x. x \<noteq> b) (bp_alive s),
     bp_contexts := filter (\<lambda>(_, x). x \<noteq> b) (bp_contexts s)\<rparr>"

definition stop_pool :: "pool \<Rightarrow> pool" where
  "stop_pool s =
     (let s = (case bp_browser s of None \<Rightarrow> s | Some b \<Rightarrow> browser_gone b s)
      in case bp_pw s of None \<Rightarrow> s | Some d \<Rightarrow> s\<lparr>bp_drivers := filter (\<lambda>x. x \<noteq> d) (bp_drivers s)\<rparr>)"

datatype event =
    Enter job | Lock job | Check job | Driver_started job | Launched job
  | Context_created job | Script_added job | Body_left job | Raise job | Crash nat | Stop

text \<open>One event; None when it cannot happen in this state.\<close>

fun pool_step :: "event \<Rightarrow> pool \<Rightarrow> pool option" where
  "pool_step (Enter j) s =
     (if bp_pc s j = Outside \<and> bp_sem s > 0 then Some (goto j Wants_lock (s\<lparr>bp_sem := bp_sem s - 1\<rparr>)) else None)"
| "pool_step (Lock j) s =
     (if bp_pc s j = Wants_lock \<and> bp_lock s = None then Some (goto j Has_lock (s\<lparr>bp_lock := Some j\<rparr>)) else None)"
| "pool_step (Check j) s =
     (if bp_pc s j = Has_lock
      then Some (if connected s then goto j Ready (unlock s) else goto j Starting s) else None)"
| "pool_step (Driver_started j) s =
     (if bp_pc s j = Starting then Some (goto j Launching (start_driver s)) else None)"
| "pool_step (Launched j) s =
     (if bp_pc s j = Launching then Some (goto j Ready (unlock (launch_browser s))) else None)"
| "pool_step (Context_created j) s =
     (if bp_pc s j = Ready \<and> connected s
      then Some (goto j (Scripting (bp_next s))
             (s\<lparr>bp_contexts := (bp_next s, the (bp_browser s)) # bp_contexts s, bp_next := bp_next s + 1\<rparr>))
      else None)"
| "pool_step (Script_added j) s =
     (case bp_pc s j of Scripting c \<Rightarrow> Some (goto j (Using c) s) | _ \<Rightarrow> None)"
| "pool_step (Body_left j) s =
     (case bp_pc s j of
        Using c \<Rightarrow> Some (leave j (s\<lparr>bp_contexts := filter (\<lambda>(x, _). x \<noteq> c) (bp_contexts s)\<rparr>)) | _ \<Rightarrow> None)"
| "pool_step (Raise j) s =
     (case bp_pc s j of
        Outside \<Rightarrow> None | Using _ \<Rightarrow> None
      | Has_lock \<Rightarrow> Some (leave j (unlock s)) | Starting \<Rightarrow> Some (leave j (unlock s))
      | Launching \<Rightarrow> Some (leave j (unlock s))
      | _ \<Rightarrow> Some (leave j s))"
| "pool_step (Crash b) s = Some (browser_gone b s)"
| "pool_step Stop s = Some (stop_pool s)"

text \<open>The worker's start-up runs \<^verbatim>\<open>start\<close> once before it takes jobs.\<close>

definition started_pool :: "nat \<Rightarrow> pool" where
  "started_pool n = launch_browser (start_driver (new_pool_state n))"

inductive pool_reachable :: "nat \<Rightarrow> pool \<Rightarrow> bool" for n where
  lazy: "pool_reachable n (new_pool_state n)"
| eager: "pool_reachable n (started_pool n)"
| step: "pool_reachable n s \<Longrightarrow> pool_step e s = Some s' \<Longrightarrow> pool_reachable n s'"

fun run_events :: "event list \<Rightarrow> pool \<Rightarrow> pool option" where
  "run_events [] s = Some s"
| "run_events (e # es) s = (case pool_step e s of None \<Rightarrow> None | Some s' \<Rightarrow> run_events es s')"

lemma run_events_reachable: "run_events es s = Some s' \<Longrightarrow> pool_reachable n s \<Longrightarrow> pool_reachable n s'"
  by (induction es arbitrary: s) (auto split: option.splits intro: pool_reachable.step)

section \<open>The invariant\<close>

definition locking :: "pc \<Rightarrow> bool" where
  "locking p \<longleftrightarrow> p \<in> {Has_lock, Starting, Launching}"

fun ctx_of :: "pc \<Rightarrow> nat option" where
  "ctx_of (Scripting c) = Some c"
| "ctx_of (Using c) = Some c"
| "ctx_of _ = None"

definition inside :: "pool \<Rightarrow> job set" where
  "inside s = {j. bp_pc s j \<noteq> Outside}"

text \<open>
  The slots of the semaphore are those not held by the jobs inside; the lock is held by the job that checks or
  starts the browser; the connected browser is the one in the pool's field; a job that launches one has seen
  that there is none; numbers in use are below the next; and no two jobs share a context.
\<close>

definition pool_inv :: "nat \<Rightarrow> pool \<Rightarrow> bool" where
  "pool_inv n s \<longleftrightarrow>
     finite (inside s) \<and> bp_sem s + card (inside s) = n
     \<and> (\<forall>j. locking (bp_pc s j) \<longleftrightarrow> bp_lock s = Some j)
     \<and> distinct (bp_alive s) \<and> set (bp_alive s) \<subseteq> set_option (bp_browser s)
     \<and> (\<forall>j. bp_pc s j \<in> {Starting, Launching} \<longrightarrow> bp_alive s = [])
     \<and> (\<forall>(c, b) \<in> set (bp_contexts s). c < bp_next s \<and> b \<in> set (bp_alive s)) \<and> distinct (map fst (bp_contexts s))
     \<and> (\<forall>j c. ctx_of (bp_pc s j) = Some c \<longrightarrow> c < bp_next s)
     \<and> (\<forall>j k c. ctx_of (bp_pc s j) = Some c \<longrightarrow> ctx_of (bp_pc s k) = Some c \<longrightarrow> j = k)
     \<and> set_option (bp_browser s) \<subseteq> {..< bp_next s}"

lemma pc_goto [simp]: "bp_pc (goto j p s) = (bp_pc s)(j := p)"
  "bp_sem (goto j p s) = bp_sem s" "bp_lock (goto j p s) = bp_lock s" "bp_browser (goto j p s) = bp_browser s"
  "bp_alive (goto j p s) = bp_alive s" "bp_contexts (goto j p s) = bp_contexts s" "bp_next (goto j p s) = bp_next s"
  by (simp_all add: goto_def)

lemma inside_goto: "inside (goto j p s) = (if p = Outside then inside s - {j} else insert j (inside s))"
  by (auto simp: inside_def goto_def)

lemma inside_same [simp]:
  "inside (s\<lparr>bp_sem := a\<rparr>) = inside s" "inside (s\<lparr>bp_lock := l\<rparr>) = inside s" "inside (s\<lparr>bp_contexts := c\<rparr>) = inside s"
  "inside (s\<lparr>bp_contexts := c, bp_next := k\<rparr>) = inside s" "inside (unlock s) = inside s"
  "inside (start_driver s) = inside s" "inside (launch_browser s) = inside s" "inside (browser_gone b s) = inside s"
  "inside (stop_pool s) = inside s"
  by (simp_all add: inside_def unlock_def start_driver_def launch_browser_def browser_gone_def stop_pool_def Let_def
      split: option.splits)

text \<open>The slots, event by event.\<close>

definition slots_ok :: "nat \<Rightarrow> pool \<Rightarrow> bool" where
  "slots_ok n s \<longleftrightarrow> finite (inside s) \<and> bp_sem s + card (inside s) = n"

lemma slots_enter:
  assumes "slots_ok n s" "bp_pc s j = Outside" "bp_sem s > 0" "p \<noteq> Outside"
  shows "slots_ok n (goto j p (s\<lparr>bp_sem := bp_sem s - Suc 0\<rparr>))"
proof -
  have "j \<notin> inside s" using assms(2) by (simp add: inside_def)
  with assms show ?thesis by (auto simp: slots_ok_def inside_goto)
qed

lemma slots_leave:
  assumes "slots_ok n s" "bp_pc s j \<noteq> Outside" shows "slots_ok n (leave j s)"
proof -
  have "j \<in> inside s" using assms(2) by (simp add: inside_def)
  then have "0 < card (inside s)" using assms(1) by (auto simp: slots_ok_def card_gt_0_iff)
  with assms \<open>j \<in> inside s\<close> show ?thesis by (simp add: slots_ok_def leave_def inside_goto)
qed

lemma slots_move:
  "slots_ok n s \<Longrightarrow> bp_pc s j \<noteq> Outside \<Longrightarrow> p \<noteq> Outside \<Longrightarrow> inside s' = inside s \<Longrightarrow> bp_sem s' = bp_sem s \<Longrightarrow>
     slots_ok n (goto j p s')"
  by (simp add: slots_ok_def inside_goto insert_absorb) (simp add: inside_def insert_absorb)

lemma sem_same [simp]:
  "bp_sem (unlock s) = bp_sem s" "bp_sem (start_driver s) = bp_sem s" "bp_sem (launch_browser s) = bp_sem s"
  "bp_sem (browser_gone b s) = bp_sem s" "bp_sem (stop_pool s) = bp_sem s"
  by (simp_all add: unlock_def start_driver_def launch_browser_def browser_gone_def stop_pool_def Let_def
      split: option.splits)

lemma pc_same [simp]:
  "bp_pc (unlock s) = bp_pc s" "bp_pc (start_driver s) = bp_pc s" "bp_pc (launch_browser s) = bp_pc s"
  "bp_pc (browser_gone b s) = bp_pc s" "bp_pc (stop_pool s) = bp_pc s"
  by (simp_all add: unlock_def start_driver_def launch_browser_def browser_gone_def stop_pool_def Let_def
      split: option.splits)

lemma slots_cong: "slots_ok n s \<Longrightarrow> inside s' = inside s \<Longrightarrow> bp_sem s' = bp_sem s \<Longrightarrow> slots_ok n s'"
  by (simp add: slots_ok_def)

lemma slots_step:
  assumes "pool_step e s = Some s'" "slots_ok n s" shows "slots_ok n s'"
proof (cases e)
  case (Enter j)
  with assms show ?thesis by (auto intro!: slots_enter split: if_splits)
next
  case (Body_left j)
  with assms show ?thesis
    by (auto intro!: slots_leave intro: slots_cong split: pc.splits)
next
  case (Raise j)
  with assms show ?thesis
    by (auto intro!: slots_leave intro: slots_cong split: pc.splits)
qed (use assms in \<open>auto intro!: slots_move intro: slots_cong split: if_splits pc.splits\<close>)

section \<open>The rest, event by event\<close>

definition rest_ok :: "pool \<Rightarrow> bool" where
  "rest_ok s \<longleftrightarrow>
     (\<forall>j. locking (bp_pc s j) \<longleftrightarrow> bp_lock s = Some j)
     \<and> distinct (bp_alive s) \<and> set (bp_alive s) \<subseteq> set_option (bp_browser s)
     \<and> (\<forall>j. bp_pc s j \<in> {Starting, Launching} \<longrightarrow> bp_alive s = [])
     \<and> (\<forall>(c, b) \<in> set (bp_contexts s). c < bp_next s \<and> b \<in> set (bp_alive s)) \<and> distinct (map fst (bp_contexts s))
     \<and> (\<forall>j c. ctx_of (bp_pc s j) = Some c \<longrightarrow> c < bp_next s)
     \<and> (\<forall>j k c. ctx_of (bp_pc s j) = Some c \<longrightarrow> ctx_of (bp_pc s k) = Some c \<longrightarrow> j = k)
     \<and> set_option (bp_browser s) \<subseteq> {..< bp_next s}"

lemma pool_inv_parts: "pool_inv n s \<longleftrightarrow> slots_ok n s \<and> rest_ok s"
  by (auto simp: pool_inv_def slots_ok_def rest_ok_def)

lemma alive_connected: "rest_ok s \<Longrightarrow> \<not> connected s \<Longrightarrow> bp_alive s = []"
  by (cases "bp_alive s") (auto simp: rest_ok_def connected_def split: option.splits)

lemma locking_simps [simp]:
  "\<not> locking Outside" "\<not> locking Wants_lock" "\<not> locking Ready" "\<not> locking (Scripting c)" "\<not> locking (Using c)"
  "locking Has_lock" "locking Starting" "locking Launching"
  by (simp_all add: locking_def)

lemma rest_gone: "rest_ok s \<Longrightarrow> rest_ok (browser_gone b s)"
  unfolding rest_ok_def browser_gone_def by (auto simp: distinct_map_filter)

lemma rest_stop: "rest_ok s \<Longrightarrow> rest_ok (stop_pool s)"
  using rest_gone [of s "the (bp_browser s)"]
  by (auto simp: stop_pool_def Let_def rest_ok_def split: option.splits)

text \<open>A job that moves without touching browsers and contexts, and may take or free the lock.\<close>

lemma rest_move:
  assumes "rest_ok s" "bp_browser s' = bp_browser s" "bp_alive s' = bp_alive s" "bp_next s' = bp_next s"
    "bp_pc s' = (bp_pc s)(j := p)" "set (bp_contexts s') \<subseteq> set (bp_contexts s)" "distinct (map fst (bp_contexts s'))"
    "bp_lock s' = (if locking p then Some j else if locking (bp_pc s j) then None else bp_lock s)"
    "locking p \<longrightarrow> locking (bp_pc s j) \<or> bp_lock s = None"
    "p \<in> {Starting, Launching} \<longrightarrow> bp_alive s = []"
    "ctx_of p = None \<or> ctx_of p = ctx_of (bp_pc s j)"
  shows "rest_ok s'"
proof -
  have lock: "\<forall>k. locking (bp_pc s' k) \<longleftrightarrow> bp_lock s' = Some k"
    using assms(1,5,8,9) unfolding rest_ok_def by (auto split: if_splits)
  have ctx: "\<forall>k c. ctx_of (bp_pc s' k) = Some c \<longrightarrow> ctx_of (bp_pc s k) = Some c" using assms(5,11) by auto
  have launching: "\<forall>k. bp_pc s' k \<in> {Starting, Launching} \<longrightarrow> bp_alive s' = []"
    using assms(1,3,5,10) unfolding rest_ok_def by auto
  show ?thesis
    using assms(1-4,6,7) lock ctx launching unfolding rest_ok_def by (simp add: subset_iff) blast
qed

lemma rest_driver: "rest_ok s \<Longrightarrow> rest_ok (start_driver s)"
  unfolding rest_ok_def start_driver_def by (auto simp: less_Suc_eq)

lemma rest_launch:
  assumes "rest_ok s" "bp_lock s = None" "bp_alive s = []"
  shows "rest_ok (launch_browser s)"
proof -
  have "bp_contexts s = []" using assms(1,3) by (cases "bp_contexts s") (auto simp: rest_ok_def)
  moreover have "\<forall>j. \<not> locking (bp_pc s j)" using assms(1,2) by (simp add: rest_ok_def)
  ultimately show ?thesis
    using assms unfolding rest_ok_def launch_browser_def by (auto simp: locking_def less_Suc_eq)
qed

lemma launch_commutes: "goto j p (unlock (launch_browser s)) = launch_browser (goto j p (unlock s))"
  by (simp add: goto_def unlock_def launch_browser_def)

lemma rest_context:
  assumes "rest_ok s" "connected s" "bp_pc s j = Ready"
  shows "rest_ok (goto j (Scripting (bp_next s))
    (s\<lparr>bp_contexts := (bp_next s, the (bp_browser s)) # bp_contexts s, bp_next := bp_next s + 1\<rparr>))"
proof -
  have owners: "\<forall>k c. ctx_of (bp_pc s k) = Some c \<longrightarrow> c \<noteq> bp_next s" using assms(1) unfolding rest_ok_def by blast
  have fresh: "bp_next s \<notin> fst ` set (bp_contexts s)" using assms(1) unfolding rest_ok_def by force
  have lock: "bp_lock s \<noteq> Some j" using assms(1,3) unfolding rest_ok_def by (metis locking_simps(3))
  show ?thesis
    using assms owners fresh lock unfolding rest_ok_def connected_def
    by (auto simp: less_Suc_eq split: option.splits if_splits)
qed

lemma rest_step:
  assumes step: "pool_step e s = Some s'" and ok: "rest_ok s"
  shows "rest_ok s'"
proof -
  have holds: "bp_lock s = Some j" if "locking (bp_pc s j)" for j using ok that by (simp add: rest_ok_def)
  have dist: "distinct (map fst (bp_contexts s))" using ok by (simp add: rest_ok_def)
  show ?thesis
  proof (cases e)
    case (Enter j)
    with step show ?thesis by (auto intro!: rest_move [OF ok] simp: dist split: if_splits)
  next
    case (Lock j)
    with step show ?thesis by (auto intro!: rest_move [OF ok] simp: dist split: if_splits)
  next
    case (Check j)
    with step show ?thesis
      by (auto intro!: rest_move [OF ok] simp: dist unlock_def holds alive_connected [OF ok] split: if_splits)
  next
    case (Driver_started j)
    then have p: "bp_pc s j = Starting" and s': "s' = goto j Launching (start_driver s)" using step by (auto split: if_splits)
    have "bp_alive s = []" using ok p by (auto simp: rest_ok_def)
    then show ?thesis unfolding s'
      by (intro rest_move [OF rest_driver [OF ok]]) (auto simp: p holds dist start_driver_def)
  next
    case (Launched j)
    then have p: "bp_pc s j = Launching" and s': "s' = launch_browser (goto j Ready (unlock s))"
      using step by (auto simp: launch_commutes split: if_splits)
    have "rest_ok (goto j Ready (unlock s))"
      by (rule rest_move [OF ok]) (auto simp: p dist unlock_def)
    moreover have "bp_alive s = []" using ok p by (auto simp: rest_ok_def)
    ultimately show ?thesis unfolding s' by (intro rest_launch) (simp_all add: unlock_def)
  next
    case (Context_created j)
    with step show ?thesis by (auto intro: rest_context [OF ok, simplified] split: if_splits)
  next
    case (Script_added j)
    with step show ?thesis by (auto intro!: rest_move [OF ok] simp: dist split: pc.splits)
  next
    case (Body_left j)
    with step show ?thesis
      by (auto intro!: rest_move [OF ok] simp: dist leave_def distinct_map_filter split: pc.splits)
  next
    case (Raise j)
    with step show ?thesis
      by (auto intro!: rest_move [OF ok] simp: dist leave_def unlock_def split: pc.splits)
  next
    case (Crash b)
    with step rest_gone [OF ok] show ?thesis by auto
  next
    case Stop
    with step rest_stop [OF ok] show ?thesis by simp
  qed
qed

lemma pool_inv_reachable:
  assumes "pool_reachable n s" shows "pool_inv n s"
  using assms
proof induction
  case lazy
  show ?case by (simp add: pool_inv_def new_pool_state_def inside_def locking_def)
next
  case eager
  show ?case
    by (simp add: pool_inv_def started_pool_def launch_browser_def start_driver_def new_pool_state_def inside_def locking_def)
next
  case (step s e s')
  then show ?case unfolding pool_inv_parts using slots_step rest_step by blast
qed

section \<open>Properties\<close>

text \<open>A job moves on without an exception.\<close>

definition advances :: "job \<Rightarrow> pool \<Rightarrow> bool" where
  "advances j s \<longleftrightarrow> (\<exists>e \<in> {Lock j, Check j, Driver_started j, Launched j, Context_created j, Script_added j, Body_left j}.
     pool_step e s \<noteq> None)"

lemma locking_advances: "locking (bp_pc s j) \<Longrightarrow> advances j s"
  by (auto simp: advances_def locking_def)

lemma inside_advances:
  assumes "pool_inv n s" "bp_pc s j \<noteq> Outside"
  shows "advances j s \<or> (bp_pc s j = Wants_lock \<and> (\<exists>k. bp_lock s = Some k \<and> advances k s))
    \<or> (bp_pc s j = Ready \<and> \<not> connected s)"
proof (cases "bp_pc s j")
  case Wants_lock
  show ?thesis
  proof (cases "bp_lock s")
    case (Some k)
    then have "locking (bp_pc s k)" using assms(1) by (simp add: pool_inv_def)
    with Wants_lock Some show ?thesis by (auto intro: locking_advances)
  qed (use Wants_lock in \<open>auto simp: advances_def\<close>)
qed (use assms(2) in \<open>auto simp: advances_def locking_def\<close>)

text \<open>
  C17. The pool over every interleaving of its jobs, with exceptions, cancellations and crashes of Chromium at
  any point: at most \<open>n\<close> jobs hold a context and no two hold the same one, at most one Chromium is
  connected, at most one job starts it, a slot is given back on every way out, and no job is stuck: it moves
  on, waits for a job that does, or raises because its browser crashed.
\<close>

theorem browser_pool_safe:
  assumes "pool_reachable n s"
  shows "card {j. ctx_of (bp_pc s j) \<noteq> None} \<le> n \<and> inj_on (\<lambda>j. ctx_of (bp_pc s j)) {j. ctx_of (bp_pc s j) \<noteq> None}
    \<and> length (bp_alive s) \<le> 1 \<and> card {j. bp_pc s j \<in> {Starting, Launching}} \<le> 1
    \<and> bp_sem s + card (inside s) = n
    \<and> (\<forall>j \<in> inside s. advances j s \<or> (bp_pc s j = Wants_lock \<and> (\<exists>k. bp_lock s = Some k \<and> advances k s))
         \<or> (bp_pc s j = Ready \<and> \<not> connected s))"
proof (intro conjI)
  note inv = pool_inv_reachable [OF assms]
  have sub: "{j. ctx_of (bp_pc s j) \<noteq> None} \<subseteq> inside s" by (auto simp: inside_def)
  show "card {j. ctx_of (bp_pc s j) \<noteq> None} \<le> n"
    using card_mono [OF _ sub] inv by (auto simp: pool_inv_def)
  show "inj_on (\<lambda>j. ctx_of (bp_pc s j)) {j. ctx_of (bp_pc s j) \<noteq> None}"
    using inv unfolding pool_inv_def by (auto intro!: inj_onI)
  have "set (bp_alive s) \<subseteq> set_option (bp_browser s)" "distinct (bp_alive s)" using inv by (auto simp: pool_inv_def)
  then have "length (bp_alive s) \<le> card (set_option (bp_browser s))"
    using card_mono [of "set_option (bp_browser s)" "set (bp_alive s)"] by (cases "bp_browser s") (auto simp: distinct_card)
  then show "length (bp_alive s) \<le> 1" by (cases "bp_browser s") auto
  have "{j. bp_pc s j \<in> {Starting, Launching}} \<subseteq> set_option (bp_lock s)"
    using inv by (auto simp: pool_inv_def locking_def)
  then have "card {j. bp_pc s j \<in> {Starting, Launching}} \<le> card (set_option (bp_lock s))" by (intro card_mono) auto
  then show "card {j. bp_pc s j \<in> {Starting, Launching}} \<le> 1" by (cases "bp_lock s") auto
  show "bp_sem s + card (inside s) = n" using inv by (simp add: pool_inv_def)
  show "\<forall>j \<in> inside s. advances j s \<or> (bp_pc s j = Wants_lock \<and> (\<exists>k. bp_lock s = Some k \<and> advances k s))
      \<or> (bp_pc s j = Ready \<and> \<not> connected s)"
    using inside_advances [OF inv] by (auto simp: inside_def)
qed

definition ex_events :: "event list" where
  "ex_events = [Enter 4, Lock 4, Enter 7, Check 4, Lock 7, Crash 1, Check 7, Raise 4, Enter 5, Driver_started 7, Launched 7,
     Context_created 7, Lock 5, Script_added 7, Check 5, Context_created 5]"

theorem browser_pool_safe_witness:
  "case run_events ex_events (started_pool 2) of
     Some s \<Rightarrow> bp_contexts s = [(5, 3), (4, 3)] \<and> length (bp_alive s) \<le> 1 \<and> bp_sem s + card (inside s) = 2
   | None \<Rightarrow> False"
proof -
  have "case run_events ex_events (started_pool 2) of Some s \<Rightarrow> bp_contexts s = [(5, 3), (4, 3)] | None \<Rightarrow> False" by code_simp
  then obtain s where run: "run_events ex_events (started_pool 2) = Some s" and ctx: "bp_contexts s = [(5, 3), (4, 3)]"
    by (auto split: option.splits)
  have "pool_reachable 2 s" using run_events_reachable [OF run pool_reachable.eager] .
  from browser_pool_safe [OF this] run ctx show ?thesis by simp
qed

text \<open>
  What the pool does not give back. A context is created before the block that closes it is entered: when
  its script cannot be added, it stays open and its slot is free again. A relaunch after a crash starts another
  driver over the old one, which nothing stops any more.
\<close>

lemma idle_state:
  assumes "pool_reachable (Suc n) s" "inside s = {}"
  shows "bp_pc s j = Outside" "bp_lock s = None" "bp_sem s = Suc n"
proof -
  note inv = pool_inv_reachable [OF assms(1)]
  show pc: "bp_pc s j = Outside" for j using assms(2) by (auto simp: inside_def)
  show "bp_lock s = None" using inv pc by (cases "bp_lock s") (auto simp: pool_inv_def locking_def)
  show "bp_sem s = Suc n" using inv assms(2) by (simp add: pool_inv_def)
qed

lemma context_leak:
  assumes "pool_reachable (Suc n) s" "inside s = {}" "connected s"
  shows "\<exists>s'. pool_reachable (Suc n) s' \<and> inside s' = {} \<and> connected s' \<and> length (bp_contexts s') = Suc (length (bp_contexts s))"
proof -
  let ?es = "[Enter 0, Lock 0, Check 0, Context_created 0, Raise 0]"
  have "\<exists>s'. run_events ?es s = Some s' \<and> inside s' = {} \<and> connected s' \<and> length (bp_contexts s') = Suc (length (bp_contexts s))"
    using idle_state [OF assms(1,2)] assms(2,3)
    by (simp add: goto_def unlock_def leave_def connected_def inside_def split: option.splits)
  then show ?thesis using run_events_reachable [OF _ assms(1)] by blast
qed

lemma driver_leak:
  assumes "pool_reachable (Suc n) s" "inside s = {}" "bp_browser s = Some b" "bp_pw s = Some d" "set (bp_drivers s) \<subseteq> {..< bp_next s}"
  shows "\<exists>s' b' d'. pool_reachable (Suc n) s' \<and> inside s' = {} \<and> bp_browser s' = Some b' \<and> bp_pw s' = Some d'
    \<and> bp_drivers s' = d' # bp_drivers s \<and> d' \<notin> set (bp_drivers s) \<and> set (bp_drivers s') \<subseteq> {..< bp_next s'}"
proof -
  let ?es = "[Crash b, Enter 0, Lock 0, Check 0, Driver_started 0, Launched 0, Raise 0]"
  have "\<exists>s' b' d'. run_events ?es s = Some s' \<and> inside s' = {} \<and> bp_browser s' = Some b' \<and> bp_pw s' = Some d'
    \<and> bp_drivers s' = d' # bp_drivers s \<and> d' \<notin> set (bp_drivers s) \<and> set (bp_drivers s') \<subseteq> {..< bp_next s'}"
    using idle_state [OF assms(1,2)] assms(2-5)
    by (auto simp: goto_def unlock_def leave_def connected_def inside_def browser_gone_def start_driver_def launch_browser_def)
  then show ?thesis using run_events_reachable [OF _ assms(1)] by blast
qed

text \<open>
  The leaks are unbounded: whatever the cap and for every \<open>k\<close>, the pool can reach a state with nobody
  inside and \<open>k\<close> contexts open, and one in which \<open>k\<close> drivers are left running after \<^verbatim>\<open>stop\<close>.
\<close>

lemma browser_pool_leaks:
  "(\<exists>s. pool_reachable (Suc n) s \<and> inside s = {} \<and> length (bp_contexts s) = k)
   \<and> (\<exists>s s'. pool_reachable (Suc n) s \<and> inside s = {} \<and> pool_step Stop s = Some s' \<and> length (bp_drivers s') = k)"
proof
  have "\<exists>s. pool_reachable (Suc n) s \<and> inside s = {} \<and> connected s \<and> length (bp_contexts s) = k"
  proof (induction k)
    case 0
    show ?case
      using pool_reachable.eager [of "Suc n"]
      by (intro exI [of _ "started_pool (Suc n)"])
        (auto simp: started_pool_def new_pool_state_def launch_browser_def start_driver_def inside_def connected_def)
  next
    case (Suc k)
    then show ?case using context_leak by metis
  qed
  then show "\<exists>s. pool_reachable (Suc n) s \<and> inside s = {} \<and> length (bp_contexts s) = k" by blast
  have "\<exists>s b d ds. pool_reachable (Suc n) s \<and> inside s = {} \<and> bp_browser s = Some b \<and> bp_pw s = Some d
      \<and> bp_drivers s = d # ds \<and> d \<notin> set ds \<and> length ds = k \<and> set (bp_drivers s) \<subseteq> {..< bp_next s}"
  proof (induction k)
    case 0
    show ?case
      using pool_reachable.eager [of "Suc n"]
      by (intro exI [of _ "started_pool (Suc n)"] exI)
        (auto simp: started_pool_def new_pool_state_def launch_browser_def start_driver_def inside_def)
  next
    case (Suc k)
    then obtain s b d ds where s: "pool_reachable (Suc n) s" "inside s = {}" "bp_browser s = Some b" "bp_pw s = Some d"
      "set (bp_drivers s) \<subseteq> {..< bp_next s}" "bp_drivers s = d # ds" "length ds = k" by blast
    from driver_leak [OF s(1-5)] show ?case using s(6,7) by fastforce
  qed
  then obtain s b d ds where s: "pool_reachable (Suc n) s" "inside s = {}" "bp_browser s = Some b" "bp_pw s = Some d"
    "bp_drivers s = d # ds" "d \<notin> set ds" "length ds = k" by blast
  have "filter (\<lambda>x. x \<noteq> d) ds = ds" using s(6) by (auto simp: filter_id_conv)
  then have "length (bp_drivers (stop_pool s)) = k"
    using s(3-7) by (simp add: stop_pool_def Let_def browser_gone_def)
  then show "\<exists>s s'. pool_reachable (Suc n) s \<and> inside s = {} \<and> pool_step Stop s = Some s' \<and> length (bp_drivers s') = k"
    using s(1,2) by auto
qed

end
