(* ===== verification/Lifecycle.thy ===== *)
theory Lifecycle
  imports Browser_Pool Fetchers Proxy_Sync
begin

text \<open>
  What starts and stops around the jobs: the start-up and shut-down of the worker
  (\<^verbatim>\<open>app/worker/tasks/fetch_task.py\<close>, \<^verbatim>\<open>browser_pool.py\<close>, \<^verbatim>\<open>camoufox_check.py\<close>), its cron task
  (\<^verbatim>\<open>tasks/proxy_sync.py\<close>), the background initialisation of the API (\<^verbatim>\<open>app/main.py\<close>), the health endpoints and the
  counters of archived records (\<^verbatim>\<open>observability.py\<close>). The outcomes of launching a browser, of connecting and
  of creating the storage are arguments. Dashes in messages are written in ASCII.
\<close>

section \<open>The browsers\<close>

datatype start_error = ChromiumMissingError string | StartError string

text \<open>Chromium on this machine: the path, whether a file is there, and what a launch gives.\<close>

record chromium =
  ch_path :: string
  ch_is_file :: bool
  ch_launch :: "start_error + string"

definition verify_chromium :: "chromium \<Rightarrow> start_error + string" where
  "verify_chromium ch =
     (if \<not> ch_is_file ch
      then Inl (ChromiumMissingError (''PLAYWRIGHT_CHROMIUM_MISSING: no executable at '' @ ch_path ch @
             ''; rebuild the worker image (playwright install --with-deps chromium)''))
      else ch_launch ch)"

definition browser_pool_start :: "chromium \<Rightarrow> pool \<Rightarrow> (start_error + unit) \<times> pool" where
  "browser_pool_start ch p =
     (let p = start_driver p
      in if \<not> ch_is_file ch
         then (Inl (ChromiumMissingError (''PLAYWRIGHT_CHROMIUM_MISSING: no executable at '' @ ch_path ch)), p)
         else (case ch_launch ch of Inl e \<Rightarrow> (Inl e, p) | Inr _ \<Rightarrow> (Inr (), launch_browser p)))"

definition default_ua :: "string option \<Rightarrow> string" where
  "default_ua version =
     (let major = (case version of None \<Rightarrow> ''131'' | Some v \<Rightarrow> hd (split_on CHR ''.'' v))
      in ''Mozilla/5.0 (X11; Linux x86_64) AppleWebKit/537.36 (KHTML, like Gecko) '' @
         ''Chrome/'' @ major @ ''.0.0.0 Safari/537.36'')"

text \<open>A launch of Camoufox within its twenty seconds: its version, the timeout, or the type and text of an exception.\<close>

datatype launch_tick = Version string | TimedOut | Raised string string

definition verify_camoufox :: "bool \<Rightarrow> launch_tick \<Rightarrow> string + string" where
  "verify_camoufox installed tick =
     (if \<not> installed
      then Inl (''CAMOUFOX_FIREFOX_MISSING: camoufox package not installed; '' @ ''rebuild worker image with camoufox fetch'')
      else (case tick of
              Version v \<Rightarrow> Inr v
            | TimedOut \<Rightarrow> Inl (''CAMOUFOX_FIREFOX_MISSING: launch timed out after 20.0s; '' @ ''rebuild worker image with camoufox fetch'')
            | Raised ty msg \<Rightarrow> Inl (''CAMOUFOX_FIREFOX_MISSING: '' @ ty @ '': '' @ msg @ ''; '' @
                ''rebuild worker image with camoufox fetch'')))"

section \<open>The worker\<close>

text \<open>What the start-up leaves in the context of the jobs, beside settings, Redis and the proxy manager.\<close>

record worker_ctx =
  wc_warc_storage :: bool
  wc_browser_pool :: bool
  wc_browser_ready :: "bool option"
  wc_camoufox_ready :: "bool option"

definition empty_ctx :: worker_ctx where
  "empty_ctx = \<lparr>wc_warc_storage = False, wc_browser_pool = False, wc_browser_ready = None, wc_camoufox_ready = None\<rparr>"

text \<open>An error on the left stops the worker; the context and the pool are those at that point.\<close>

definition check_chromium :: "chromium \<Rightarrow> worker_ctx \<Rightarrow> pool \<Rightarrow> (start_error + unit) \<times> worker_ctx \<times> pool" where
  "check_chromium ch ctx p =
     (let (r, p') = (case verify_chromium ch of Inl e \<Rightarrow> (Inl e, p) | Inr _ \<Rightarrow> browser_pool_start ch p)
      in case r of
           Inr _ \<Rightarrow> (Inr (), ctx\<lparr>wc_browser_pool := True, wc_browser_ready := Some True\<rparr>, p')
         | Inl (ChromiumMissingError m) \<Rightarrow> (Inl (ChromiumMissingError m), ctx\<lparr>wc_browser_ready := Some False\<rparr>, p')
         | Inl (StartError m) \<Rightarrow> (Inl (StartError m), ctx, p'))"

definition startup ::
  "(start_error + unit) \<Rightarrow> chromium \<Rightarrow> bool \<Rightarrow> launch_tick \<Rightarrow> pool \<Rightarrow> (start_error + unit) \<times> worker_ctx \<times> pool" where
  "startup warc ch installed tick p =
     (case warc of
        Inl e \<Rightarrow> (Inl e, empty_ctx, p)
      | Inr _ \<Rightarrow>
          (case check_chromium ch (empty_ctx\<lparr>wc_warc_storage := True\<rparr>) p of
             (Inl e, ctx, p') \<Rightarrow> (Inl e, ctx, p')
           | (Inr _, ctx, p') \<Rightarrow>
               (Inr (), ctx\<lparr>wc_camoufox_ready := Some (case verify_camoufox installed tick of Inl _ \<Rightarrow> False | Inr _ \<Rightarrow> True)\<rparr>, p')))"

text \<open>The shut-down goes through its four steps whatever each of them raises.\<close>

definition quietly :: "bool \<Rightarrow> ('w \<Rightarrow> (exn + unit) \<times> 'w) \<Rightarrow> 'w \<Rightarrow> 'w" where
  "quietly present f w = (if present then snd (f w) else w)"

definition shutdown ::
  "worker_ctx \<Rightarrow> bool \<Rightarrow> ('w \<Rightarrow> (exn + unit) \<times> 'w) \<Rightarrow> ('w \<Rightarrow> (exn + unit) \<times> 'w) \<Rightarrow> ('w \<Rightarrow> (exn + unit) \<times> 'w)
   \<Rightarrow> ('w \<Rightarrow> (exn + unit) \<times> 'w) \<Rightarrow> 'w \<Rightarrow> 'w" where
  "shutdown ctx have_redis stop_browser flush shutdown_executor close_redis w =
     quietly have_redis close_redis
       (quietly True shutdown_executor (quietly (wc_warc_storage ctx) flush (quietly (wc_browser_pool ctx) stop_browser w)))"

text \<open>The cron task: without an API key it does nothing.\<close>

definition sync_proxies ::
  "string option \<Rightarrow> (string \<Rightarrow> 'w ws_get) \<Rightarrow> (json \<Rightarrow> string) \<Rightarrow> nat \<Rightarrow> (nat \<Rightarrow> uuid) \<Rightarrow> (nat \<Rightarrow> string \<Rightarrow> uuid) \<Rightarrow> (nat \<Rightarrow> datetime)
   \<Rightarrow> proxy_db \<Rightarrow> 'w \<Rightarrow> ProxySyncStats list option \<times> proxy_db \<times> 'w" where
  "sync_proxies api_key get show_json fuel pool_ids ids now db w =
     (case api_key of
        None \<Rightarrow> (Some [], db, w)
      | Some k \<Rightarrow> if k = [] then (Some [], db, w)
                  else sync_all pool_ids ids now 0 [webshare_provider (get k) show_json fuel] db w)"

section \<open>The API\<close>

record app_state =
  as_redis :: bool
  as_rate_limiter :: bool
  as_proxy_manager :: bool
  as_warc_storage :: "bool option"  \<comment> \<open>with whether it has its S3 client\<close>
  as_archive_reader :: bool

definition empty_state :: app_state where
  "empty_state = \<lparr>as_redis = False, as_rate_limiter = False, as_proxy_manager = False, as_warc_storage = None,
     as_archive_reader = False\<rparr>"

text \<open>The background task: an exception ends it and leaves what was set before.\<close>

definition init_services :: "bool \<Rightarrow> bool option \<Rightarrow> app_state \<Rightarrow> app_state" where
  "init_services redis_url_ok warc st =
     (if \<not> redis_url_ok then st
      else (let st = st\<lparr>as_rate_limiter := True, as_redis := True, as_proxy_manager := True\<rparr>
            in case warc of None \<Rightarrow> st | Some s3 \<Rightarrow> st\<lparr>as_warc_storage := Some s3, as_archive_reader := True\<rparr>))"

record readiness =
  rd_status_code :: int
  rd_ready :: bool
  rd_db :: bool
  rd_redis :: bool
  rd_s3 :: bool

definition readyz :: "bool \<Rightarrow> bool \<Rightarrow> app_state \<Rightarrow> readiness" where
  "readyz db_ok ping_ok st =
     (let redis = (as_redis st \<and> ping_ok); s3 = (as_warc_storage st = Some True); healthy = (db_ok \<and> redis \<and> s3)
      in \<lparr>rd_status_code = (if healthy then 200 else 503), rd_ready = healthy, rd_db = db_ok, rd_redis = redis, rd_s3 = s3\<rparr>)"

section \<open>The counters of archived records\<close>

record archive_metrics =
  am_total :: nat
  am_revisit :: nat
  am_bytes_response :: nat
  am_bytes_revisit :: nat

definition dedup_ratio :: "archive_metrics \<Rightarrow> real" where
  "dedup_ratio m = (if am_total m > 0 then real (am_revisit m) / real (am_total m) else 0)"

definition record_archive_metrics :: "nat \<Rightarrow> bool \<Rightarrow> archive_metrics \<Rightarrow> archive_metrics" where
  "record_archive_metrics bytes_written is_revisit m =
     (let m = (if is_revisit then m\<lparr>am_bytes_revisit := am_bytes_revisit m + bytes_written\<rparr>
               else m\<lparr>am_bytes_response := am_bytes_response m + bytes_written\<rparr>);
          m = m\<lparr>am_total := am_total m + 1\<rparr>
      in if is_revisit then m\<lparr>am_revisit := am_revisit m + 1\<rparr> else m)"

lemma dedup_ratio_range:
  assumes "m = fold (\<lambda>(b, r). record_archive_metrics b r) rs \<lparr>am_total = 0, am_revisit = 0, am_bytes_response = 0, am_bytes_revisit = 0\<rparr>"
  shows "am_total m = length rs \<and> am_revisit m = length (filter snd rs) \<and> 0 \<le> dedup_ratio m \<and> dedup_ratio m \<le> 1"
proof -
  have "am_total (fold (\<lambda>(b, r). record_archive_metrics b r) rs m0) = am_total m0 + length rs
    \<and> am_revisit (fold (\<lambda>(b, r). record_archive_metrics b r) rs m0) = am_revisit m0 + length (filter snd rs)" for m0
    by (induction rs arbitrary: m0) (auto simp: record_archive_metrics_def Let_def)
  with assms have *: "am_total m = length rs" "am_revisit m = length (filter snd rs)" by simp_all
  moreover have "length (filter snd rs) \<le> length rs" by (rule length_filter_le)
  ultimately show ?thesis by (auto simp: dedup_ratio_def divide_le_eq_1)
qed

section \<open>Properties\<close>

text \<open>A worker environment with what the start-up left in the context, as the retry loop hands it to the engines.\<close>

definition worker_env :: "worker_ctx \<Rightarrow> 'w engine_env \<Rightarrow> 'w engine_env" where
  "worker_env ctx E = E\<lparr>ee_pool := wc_browser_pool ctx, ee_ready := wc_camoufox_ready ctx\<rparr>"

text \<open>
  A worker that starts takes jobs only with a running Chromium in a pool that satisfies its invariant, and
  knows whether Camoufox works: the playwright engine never fails for want of a pool, and with Camoufox
  missing its engine fails at once, asking for nothing. Without Chromium the worker does not start.
\<close>

lemma startup_outcome:
  "case startup warc ch installed tick (new_pool_state n) of
     (Inl e, ctx, p) \<Rightarrow> (\<exists>e. warc = Inl e) \<or> \<not> ch_is_file ch \<or> (\<exists>e. ch_launch ch = Inl e)
   | (Inr _, ctx, p) \<Rightarrow>
       ch_is_file ch \<and> p = started_pool n \<and> pool_reachable n p \<and> wc_warc_storage ctx
       \<and> ee_pool (worker_env ctx E)
       \<and> ee_ready (worker_env ctx E) = Some (case tick of Version _ \<Rightarrow> installed | _ \<Rightarrow> False)
       \<and> (if ee_ready (worker_env ctx E) = Some False
          then engine_fetch (worker_env ctx E) ''camoufox'' url px hs w
            = (Inl (FetchError ''Camoufox failed self-check at worker startup -- see logs''), [], w)
          else True)"
  by (auto simp: startup_def check_chromium_def verify_chromium_def browser_pool_start_def verify_camoufox_def worker_env_def
      started_pool_def empty_ctx_def engine_fetch_def camoufox_fetch_def Let_def
      intro: pool_reachable.eager [unfolded started_pool_def] split: sum.splits start_error.splits launch_tick.splits if_splits prod.splits)

text \<open>The resources are released whatever fails: each step runs on the world the step before left.\<close>

lemma shutdown_runs_all:
  assumes "wc_warc_storage ctx" "wc_browser_pool ctx"
  shows "shutdown ctx True (\<lambda>w. (r1, w @ [1])) (\<lambda>w. (r2, w @ [2])) (\<lambda>w. (r3, w @ [3])) (\<lambda>w. (r4, w @ [4])) w = w @ [1, 2, 3, 4 :: int]"
  using assms by (simp add: shutdown_def quietly_def)

text \<open>The API reports ready only after its background task went through, with the database and Redis answering.\<close>

lemma readyz_spec:
  "rd_status_code (readyz db_ok ping_ok (init_services redis_url_ok warc empty_state)) = 200
     \<longleftrightarrow> db_ok \<and> ping_ok \<and> redis_url_ok \<and> warc = Some True"
  by (auto simp: readyz_def init_services_def empty_state_def Let_def split: option.splits)

end
