(* ===== verification/Bootstrap.thy ===== *)
theory Bootstrap
  imports Auth
begin

text \<open>
  The project endpoints (\<^verbatim>\<open>app/api/v1/endpoints/projects.py\<close>), tenants under another name, and
  \<^verbatim>\<open>scripts/bootstrap_dev.py\<close>, which makes a tenant, an application and a key with every scope. Identifiers
  and times that the database generates are arguments.
\<close>

definition create_project :: "datetime \<Rightarrow> uuid \<Rightarrow> string \<Rightarrow> Tenant list \<Rightarrow> (api_error + Tenant) \<times> Tenant list" where
  "create_project now i name tenants =
     (if get_by tn_name name tenants \<noteq> None then (Inl (ConflictError ''Project name already exists''), tenants)
      else (let row = \<lparr>tn_id = i, tn_name = name, tn_is_active = True, tn_created_at = now\<rparr> in (Inr row, insert_row row tenants)))"

definition list_projects :: "Tenant list \<Rightarrow> Tenant list" where
  "list_projects tenants = sort_key (\<lambda>r. - tn_created_at r) tenants"

definition ensure_tenant :: "datetime \<Rightarrow> uuid \<Rightarrow> Tenant list \<Rightarrow> Tenant \<times> Tenant list" where
  "ensure_tenant now i tenants =
     (case get_by tn_name ''dev-tenant'' tenants of
        Some t \<Rightarrow> (t, tenants)
      | None \<Rightarrow> (let t = \<lparr>tn_id = i, tn_name = ''dev-tenant'', tn_is_active = True, tn_created_at = now\<rparr>
                 in (t, insert_row t tenants)))"

definition ensure_app :: "datetime \<Rightarrow> uuid \<Rightarrow> Tenant \<Rightarrow> Application list \<Rightarrow> Application \<times> Application list" where
  "ensure_app now i tenant apps =
     (case find (\<lambda>a. app_tenant_id a = tn_id tenant \<and> app_name a = ''dev-app'') apps of
        Some a \<Rightarrow> (a, apps)
      | None \<Rightarrow> (let a = \<lparr>app_id = i, app_tenant_id = tn_id tenant, app_name = ''dev-app'', app_is_active = True,
                         app_created_at = now, app_owner_label = None\<rparr>
                 in (a, insert_row a apps)))"

text \<open>The raw key is printed; an error of the key service ends the script.\<close>

definition bootstrap ::
  "argon \<Rightarrow> (nat \<Rightarrow> key_rand) \<Rightarrow> datetime \<Rightarrow> uuid \<Rightarrow> uuid \<Rightarrow> uuid \<Rightarrow> Tenant list \<Rightarrow> Application list \<Rightarrow> key_table
   \<Rightarrow> (api_error + string) \<times> Tenant list \<times> Application list \<times> key_table" where
  "bootstrap ar rnd now tid aid kid tenants apps keys =
     (let (tenant, tenants') = ensure_tenant now tid tenants;
          (app, apps') = ensure_app now aid tenant apps;
          (r, keys') = svc_create_api_key ar rnd now kid (app_id app) [''fetch'', ''archive'', ''admin'', ''keys''] ''live'' None None keys
      in (case r of Inl e \<Rightarrow> Inl e | Inr (_, raw_key) \<Rightarrow> Inr raw_key, tenants', apps', keys'))"

lemma ensure_tenant_again: "ensure_tenant now i tenants = (t, tenants') \<Longrightarrow> ensure_tenant now2 i2 tenants' = (t, tenants')"
  by (auto simp: ensure_tenant_def Let_def split: option.splits)

lemma ensure_app_again: "ensure_app now i t apps = (a, apps') \<Longrightarrow> ensure_app now2 i2 t apps' = (a, apps')"
proof -
  have "find P xs = None \<Longrightarrow> P y \<Longrightarrow> find P (insert_row y xs) = Some y" for P :: "Application \<Rightarrow> bool" and xs y
    by (induction xs) (auto simp: insert_row_def split: if_splits)
  then show "ensure_app now i t apps = (a, apps') \<Longrightarrow> ensure_app now2 i2 t apps' = (a, apps')"
    by (auto simp: ensure_app_def Let_def split: option.splits)
qed

text \<open>A second run finds the tenant and the application of the first and adds a key only.\<close>

lemma bootstrap_idempotent:
  assumes "bootstrap ar rnd now tid aid kid tenants apps keys = (r, tenants', apps', keys')"
  shows "\<exists>r2 keys2. bootstrap ar rnd2 now2 tid2 aid2 kid2 tenants' apps' keys' = (r2, tenants', apps', keys2)"
proof -
  obtain t a where t: "ensure_tenant now tid tenants = (t, tenants')" and a: "ensure_app now aid t apps = (a, apps')"
    using assms by (auto simp: bootstrap_def Let_def split: prod.splits)
  show ?thesis
    by (simp add: bootstrap_def Let_def ensure_tenant_again [OF t] ensure_app_again [OF a] split: prod.split)
qed

end
