(* ===== verification/Result_Store.thy ===== *)
theory Result_Store
  imports Batch
begin

text \<open>
  The PostgreSQL half of \<^verbatim>\<open>app/services/storage.py\<close> on the table \<^verbatim>\<open>crawl_results\<close>
  (\<^verbatim>\<open>app/models/legacy_crawl_result.py\<close>), whose index on the job is not unique. The values have the types of
  their columns; the row's identifier and time are arguments.
\<close>

definition CRAWL_FIELDS :: "string list" where
  "CRAWL_FIELDS = [''job_id'', ''project_id'', ''batch_id'', ''url'', ''status_code'', ''content_type'', ''response_time_ms'',
     ''body'', ''body_encoding'', ''markdown'', ''extracted'', ''headers_trunc'', ''error_type'', ''error_message'']"

record CrawlResult =
  cr_id :: uuid
  cr_values :: "(string \<times> json) list"
  cr_crawled_at :: "datetime option"

datatype store_error = NotNullViolation | MultipleResultsFound

text \<open>A failed INSERT is rolled back and raised again.\<close>

definition save_result_to_db ::
  "uuid \<Rightarrow> datetime \<Rightarrow> (string \<times> json) list \<Rightarrow> CrawlResult list \<Rightarrow> (store_error + unit) \<times> CrawlResult list" where
  "save_result_to_db i now result_data tbl =
     (let record = \<lparr>cr_id = i, cr_values = map (\<lambda>f. (f, jget result_data f)) CRAWL_FIELDS, cr_crawled_at = Some now\<rparr>
      in if jget result_data ''job_id'' = JNull \<or> jget result_data ''url'' = JNull then (Inl NotNullViolation, tbl)
         else (Inr (), insert_row record tbl))"

definition get_result_from_db ::
  "string \<Rightarrow> CrawlResult list \<Rightarrow> store_error + (string \<times> json) list option" where
  "get_result_from_db job_id tbl =
     (case filter (\<lambda>r. jget (cr_values r) ''job_id'' = JStr job_id) tbl of
        [] \<Rightarrow> Inr None
      | [r] \<Rightarrow> Inr (Some (cr_values r
                 @ [(''crawled_at'', case cr_crawled_at r of None \<Rightarrow> JNull | Some t \<Rightarrow> JStr (isoformat t))]))
      | _ \<Rightarrow> Inl MultipleResultsFound)"

lemma jget_fields: "f \<in> set CRAWL_FIELDS \<Longrightarrow> jget (map (\<lambda>f. (f, jget d f)) CRAWL_FIELDS) f = jget d f"
proof -
  have "map_of (rev (map (\<lambda>f. (f, jget d f)) xs)) f = (if f \<in> set xs then Some (jget d f) else None)" for xs
    by (induction xs rule: rev_induct) auto
  then show "f \<in> set CRAWL_FIELDS \<Longrightarrow> jget (map (\<lambda>f. (f, jget d f)) CRAWL_FIELDS) f = jget d f"
    by (simp add: jget_def [of "map _ _"] dict_get_def)
qed

text \<open>What is saved once is read back; a second save of the job makes every read of it fail.\<close>

lemma save_then_get:
  assumes "jget d ''job_id'' = JStr j" "jget d ''url'' \<noteq> JNull" "get_result_from_db j tbl = Inr None"
    "save_result_to_db i now d tbl = (r, tbl')"
  shows "r = Inr () \<and> get_result_from_db j tbl'
    = Inr (Some (map (\<lambda>f. (f, jget d f)) CRAWL_FIELDS @ [(''crawled_at'', JStr (isoformat now))]))"
proof -
  have none: "filter (\<lambda>r. jget (cr_values r) ''job_id'' = JStr j) tbl = []"
    using assms(3) by (auto simp: get_result_from_db_def split: list.splits)
  have "''job_id'' \<in> set CRAWL_FIELDS" by (simp add: CRAWL_FIELDS_def)
  with assms none show ?thesis
    by (auto simp: save_result_to_db_def Let_def get_result_from_db_def insert_row_def jget_fields)
qed

lemma saved_twice_unreadable:
  assumes "jget d ''job_id'' = JStr j" "jget d ''url'' \<noteq> JNull" "jget d2 ''job_id'' = JStr j" "jget d2 ''url'' \<noteq> JNull"
    "get_result_from_db j tbl = Inr None"
  shows "get_result_from_db j (snd (save_result_to_db i2 now2 d2 (snd (save_result_to_db i now d tbl)))) = Inl MultipleResultsFound"
proof -
  have none: "filter (\<lambda>r. jget (cr_values r) ''job_id'' = JStr j) tbl = []"
    using assms(5) by (auto simp: get_result_from_db_def split: list.splits)
  have "''job_id'' \<in> set CRAWL_FIELDS" by (simp add: CRAWL_FIELDS_def)
  with assms none show ?thesis
    by (auto simp: save_result_to_db_def Let_def get_result_from_db_def insert_row_def jget_fields)
qed

end
