(* ===== verification/System.thy ===== *)
theory System
  imports Job_Props Fetch_Task_Props
begin

text \<open>
  The composition of the API and the worker: a request that the endpoint accepts, the task that it puts
  in the queue, the run of that task and what a poll reads before and after it. The two processes share
  the keys of the jobs in Redis and nothing else.
\<close>

section \<open>Instances\<close>

definition ex_accepted :: "(fetch_exn + fetch_response) \<times> keyspace \<times> task_args list" where
  "ex_accepted = create_fetch (ex_env 1 3) (ex_body\<lparr>jc_callback_url := Some ''https://cb.example/''\<rparr>) ex_caller
     ((\<lambda>_. None), [])"

definition ex_started :: "(keyspace, nat) mgr_world worker" where
  "ex_started = \<lparr>wk_world = \<lparr>mw_redis = fst (snd ex_accepted), mw_proxies = [], mw_events = [], mw_rest = 0\<rparr>,
     wk_policies = [], wk_usage = [], wk_callbacks = []\<rparr>"

section \<open>Properties\<close>



end
