(* ===== verification/Schema.thy ===== *)
theory Schema
  imports Datetime Redis
begin

text \<open>
  Database schemas, typed rows and the schema operations that the migrations of
  \<^verbatim>\<open>src/alembic/versions\<close> use, as PostgreSQL documents them. An operation is a value; \<open>exec_op\<close> runs it
  on a database and answers with the error of the server or with the new database. The last section
  shows that no operation leaves a row that does not fit its table.
\<close>

section \<open>Types, values and columns\<close>

datatype sql_type = UuidT | VarChar nat | VarCharAny | TextT | BooleanT | TimestampTZ | DateT | IntegerT | BigIntT
  | FloatT | JsonbT | JsonT | TextArray | EnumT string

datatype sql_value = NullV | UuidV uuid | StrV string | BoolV bool | IntV int | RealV real | TimeV datetime
  | DateV date | JsonV json | ListV "string list"

datatype on_delete = Cascade | SetNull

datatype sql_default = GenRandomUuid | Now | Const sql_value | Identity

record column =
  col_name :: string
  col_type :: sql_type
  col_nullable :: bool
  col_default :: "sql_default option"
  col_fk :: "(string \<times> string \<times> on_delete) option"
  col_primary :: bool
  col_unique :: bool

type_synonym row = "(string \<times> sql_value) list"

text \<open>A partitioned table has a key column and its partitions by name, first and first excluded instant.\<close>

record sql_table =
  st_columns :: "column list"
  st_uniques :: "(string \<times> string list) list"
  st_indexes :: "(string \<times> string list \<times> bool) list"
  st_partitions :: "(string \<times> (string \<times> datetime \<times> datetime) list) option"
  st_rows :: "row list"

record sql_db =
  db_tables :: "(string \<times> sql_table) list"
  db_enums :: "(string \<times> string list) list"

definition empty_db :: sql_db where
  "empty_db = \<lparr>db_tables = [], db_enums = []\<rparr>"

fun has_type :: "(string \<times> string list) list \<Rightarrow> sql_type \<Rightarrow> sql_value \<Rightarrow> bool" where
  "has_type enums UuidT v = (case v of UuidV _ \<Rightarrow> True | _ \<Rightarrow> False)"
| "has_type enums (VarChar n) v = (case v of StrV s \<Rightarrow> length s \<le> n | _ \<Rightarrow> False)"
| "has_type enums VarCharAny v = (case v of StrV _ \<Rightarrow> True | _ \<Rightarrow> False)"
| "has_type enums TextT v = (case v of StrV _ \<Rightarrow> True | _ \<Rightarrow> False)"
| "has_type enums BooleanT v = (case v of BoolV _ \<Rightarrow> True | _ \<Rightarrow> False)"
| "has_type enums TimestampTZ v = (case v of TimeV _ \<Rightarrow> True | _ \<Rightarrow> False)"
| "has_type enums DateT v = (case v of DateV _ \<Rightarrow> True | _ \<Rightarrow> False)"
| "has_type enums IntegerT v = (case v of IntV i \<Rightarrow> - (2 ^ 31) \<le> i \<and> i < 2 ^ 31 | _ \<Rightarrow> False)"
| "has_type enums BigIntT v = (case v of IntV i \<Rightarrow> - (2 ^ 63) \<le> i \<and> i < 2 ^ 63 | _ \<Rightarrow> False)"
| "has_type enums FloatT v = (case v of RealV _ \<Rightarrow> True | _ \<Rightarrow> False)"
| "has_type enums JsonbT v = (case v of JsonV _ \<Rightarrow> True | _ \<Rightarrow> False)"
| "has_type enums JsonT v = (case v of JsonV _ \<Rightarrow> True | _ \<Rightarrow> False)"
| "has_type enums TextArray v = (case v of ListV _ \<Rightarrow> True | _ \<Rightarrow> False)"
| "has_type enums (EnumT e) v =
     (case v of StrV s \<Rightarrow> (case map_of enums e of Some labels \<Rightarrow> s \<in> set labels | None \<Rightarrow> False) | _ \<Rightarrow> False)"

definition value_ok :: "(string \<times> string list) list \<Rightarrow> column \<Rightarrow> sql_value \<Rightarrow> bool" where
  "value_ok enums c v = (if v = NullV then col_nullable c else has_type enums (col_type c) v)"

definition row_ok :: "(string \<times> string list) list \<Rightarrow> column list \<Rightarrow> row \<Rightarrow> bool" where
  "row_ok enums cols r = list_all2 (\<lambda>c p. fst p = col_name c \<and> value_ok enums c (snd p)) cols r"

definition sql_get :: "row \<Rightarrow> string \<Rightarrow> sql_value" where
  "sql_get r n = (case map_of r n of Some v \<Rightarrow> v | None \<Rightarrow> NullV)"

text \<open>A unique constraint: rows without a null among its columns differ in one of them.\<close>

definition complete :: "string list \<Rightarrow> row \<Rightarrow> bool" where
  "complete ns r = list_all (\<lambda>n. sql_get r n \<noteq> NullV) ns"

definition unique_rows :: "row list \<Rightarrow> string list \<Rightarrow> bool" where
  "unique_rows rows ns = distinct (map (\<lambda>r. map (sql_get r) ns) (filter (complete ns) rows))"

definition has_columns :: "sql_table \<Rightarrow> string list \<Rightarrow> bool" where
  "has_columns t ns = list_all (\<lambda>n. n \<in> set (map col_name (st_columns t))) ns"

definition table_ok :: "(string \<times> string list) list \<Rightarrow> sql_table \<Rightarrow> bool" where
  "table_ok enums t \<longleftrightarrow> distinct (map col_name (st_columns t)) \<and> list_all (row_ok enums (st_columns t)) (st_rows t)
     \<and> list_all (\<lambda>u. has_columns t (snd u) \<and> unique_rows (st_rows t) (snd u)) (st_uniques t)
     \<and> list_all (\<lambda>x. has_columns t (fst (snd x))) (st_indexes t)"

definition db_ok :: "sql_db \<Rightarrow> bool" where
  "db_ok db \<longleftrightarrow> distinct (map fst (db_tables db)) \<and> list_all (\<lambda>p. table_ok (db_enums db) (snd p)) (db_tables db)"

text \<open>The ways a column is declared. A primary key is not null.\<close>

definition sa_column :: "string \<Rightarrow> sql_type \<Rightarrow> column" where
  "sa_column n t = \<lparr>col_name = n, col_type = t, col_nullable = True, col_default = None, col_fk = None,
     col_primary = False, col_unique = False\<rparr>"

definition not_null :: "column \<Rightarrow> column" where
  "not_null c = c\<lparr>col_nullable := False\<rparr>"

definition primary_key :: "column \<Rightarrow> column" where
  "primary_key c = c\<lparr>col_primary := True, col_nullable := False\<rparr>"

definition unique_col :: "column \<Rightarrow> column" where
  "unique_col c = c\<lparr>col_unique := True\<rparr>"

definition server_default :: "sql_default \<Rightarrow> column \<Rightarrow> column" where
  "server_default d c = c\<lparr>col_default := Some d\<rparr>"

definition references :: "string \<Rightarrow> on_delete \<Rightarrow> column \<Rightarrow> column" where
  "references target act c = c\<lparr>col_fk := Some (target, ''id'', act)\<rparr>"

section \<open>Operations\<close>

datatype ddl =
    CreateTable string "column list" "(string \<times> string list) list" "string option"
  | CreatePartition string string datetime datetime
  | DropTable string
  | DropTableIfExists string
  | AddColumn string column
  | DropColumn string string
  | CreateIndex string string "string list"
  | DropIndex string string
  | CreateUnique string string "string list"
  | DropConstraint string string
  | CreateEnum string "string list"
  | DropEnum string
  | AddEnumValue string string
  | DeleteWhereIn string string "string list"

definition table_of :: "sql_db \<Rightarrow> string \<Rightarrow> sql_table option" where
  "table_of db n = map_of (db_tables db) n"

definition set_table :: "string \<Rightarrow> sql_table \<Rightarrow> sql_db \<Rightarrow> sql_db" where
  "set_table n t db = db\<lparr>db_tables := map (\<lambda>p. if fst p = n then (n, t) else p) (db_tables db)\<rparr>"

text \<open>Tables, partitions, indexes and constraints share a name space.\<close>

definition table_names :: "string \<times> sql_table \<Rightarrow> string list" where
  "table_names p = fst p # map fst (st_uniques (snd p)) @ map fst (st_indexes (snd p))
     @ (case st_partitions (snd p) of Some (_, ps) \<Rightarrow> map fst ps | None \<Rightarrow> [])"

definition fresh_name :: "string \<Rightarrow> sql_db \<Rightarrow> bool" where
  "fresh_name n db = list_all (\<lambda>p. n \<notin> set (table_names p)) (db_tables db)"

definition refers_to :: "string \<Rightarrow> column \<Rightarrow> bool" where
  "refers_to n c = (case col_fk c of Some (t, _, _) \<Rightarrow> t = n | None \<Rightarrow> False)"

definition refers_to_column :: "string \<Rightarrow> string \<Rightarrow> column \<Rightarrow> bool" where
  "refers_to_column n m c = (case col_fk c of Some (t, ref, _) \<Rightarrow> t = n \<and> ref = m | None \<Rightarrow> False)"

definition referenced :: "string \<Rightarrow> sql_db \<Rightarrow> bool" where
  "referenced n db = list_ex (\<lambda>p. fst p \<noteq> n \<and> list_ex (refers_to n) (st_columns (snd p))) (db_tables db)"

definition uses_enum :: "string \<Rightarrow> sql_table \<Rightarrow> bool" where
  "uses_enum e t = list_ex (\<lambda>c. col_type c = EnumT e) (st_columns t)"

definition known_type :: "sql_db \<Rightarrow> column \<Rightarrow> bool" where
  "known_type db c = (case col_type c of EnumT e \<Rightarrow> map_of (db_enums db) e \<noteq> None | _ \<Rightarrow> True)"

text \<open>The primary key and the columns that are declared unique get constraints with generated names.\<close>

definition implicit_uniques :: "string \<Rightarrow> column list \<Rightarrow> (string \<times> string list) list" where
  "implicit_uniques n cols =
     (let ks = map col_name (filter col_primary cols)
      in (if ks = [] then [] else [(n @ ''_pkey'', ks)])
         @ map (\<lambda>c. (n @ ''_'' @ col_name c @ ''_key'', [col_name c])) (filter col_unique cols))"

text \<open>What a new column holds in the rows that exist: a constant, the next number, or null.\<close>

definition fill_value :: "column \<Rightarrow> nat \<Rightarrow> sql_value" where
  "fill_value c i = (case col_default c of Some (Const v) \<Rightarrow> v | Some Identity \<Rightarrow> IntV (int i + 1) | _ \<Rightarrow> NullV)"

definition filled :: "column \<Rightarrow> row list \<Rightarrow> row list" where
  "filled c rows = map (\<lambda>(i, r). r @ [(col_name c, fill_value c i)]) (enumerate 0 rows)"

text \<open>What deleting rows of a table does to a row that refers to them, when its columns say \<^verbatim>\<open>SET NULL\<close>.\<close>

definition nulled :: "string \<Rightarrow> row list \<Rightarrow> column list \<Rightarrow> row \<Rightarrow> row" where
  "nulled n gone cols r =
     map (\<lambda>(c, p). case col_fk c of
         Some (t, ref, SetNull) \<Rightarrow> if t = n \<and> snd p \<in> set (map (\<lambda>g. sql_get g ref) gone) then (fst p, NullV) else p
       | _ \<Rightarrow> p) (zip cols r)"

definition nulled_table :: "string \<Rightarrow> row list \<Rightarrow> sql_table \<Rightarrow> sql_table" where
  "nulled_table n gone t = t\<lparr>st_rows := map (nulled n gone (st_columns t)) (st_rows t)\<rparr>"

definition cascades :: "string \<Rightarrow> sql_db \<Rightarrow> bool" where
  "cascades n db = list_ex (\<lambda>p. list_ex (\<lambda>c. case col_fk c of Some (t, _, Cascade) \<Rightarrow> t = n | _ \<Rightarrow> False) (st_columns (snd p)))
     (db_tables db)"

definition on_table :: "sql_db \<Rightarrow> string \<Rightarrow> (sql_table \<Rightarrow> string + sql_db) \<Rightarrow> string + sql_db" where
  "on_table db n f = (case table_of db n of None \<Rightarrow> Inl ''relation does not exist'' | Some t \<Rightarrow> f t)"

definition remove_table :: "string \<Rightarrow> sql_db \<Rightarrow> sql_db" where
  "remove_table n db = db\<lparr>db_tables := filter (\<lambda>p. fst p \<noteq> n) (db_tables db)\<rparr>"

text \<open>A partition is dropped with its rows.\<close>

definition remove_partition :: "string \<Rightarrow> sql_table \<Rightarrow> sql_table" where
  "remove_partition n t =
     (case st_partitions t of
        None \<Rightarrow> t
      | Some (key, ps) \<Rightarrow>
          t\<lparr>st_partitions := Some (key, filter (\<lambda>p. fst p \<noteq> n) ps),
            st_rows := filter (\<lambda>r. \<not> list_ex (\<lambda>(m, lo, hi). m = n \<and>
                (case sql_get r key of TimeV x \<Rightarrow> lo \<le> x \<and> x < hi | _ \<Rightarrow> False)) ps) (st_rows t)\<rparr>)"

definition drop_table :: "string \<Rightarrow> sql_db \<Rightarrow> string + sql_db" where
  "drop_table n db =
     (if referenced n db then Inl ''other objects depend on it'' else Inr (remove_table n db))"

fun exec_op :: "ddl \<Rightarrow> sql_db \<Rightarrow> string + sql_db" where
  "exec_op (CreateTable n cols uniques part) db =
     (let t = \<lparr>st_columns = cols, st_uniques = implicit_uniques n cols @ uniques, st_indexes = [],
               st_partitions = map_option (\<lambda>k. (k, [])) part, st_rows = []\<rparr>
      in if \<not> list_all (\<lambda>m. fresh_name m db) (table_names (n, t)) then Inl ''relation already exists''
         else if \<not> distinct (map col_name cols) then Inl ''column specified more than once''
         else if \<not> list_all (known_type db) cols then Inl ''type does not exist''
         else if \<not> list_all (\<lambda>u. has_columns t (snd u)) uniques then Inl ''column does not exist''
         else if list_ex (\<lambda>c. case col_fk c of Some (m, _, _) \<Rightarrow> m \<noteq> n \<and> table_of db m = None | None \<Rightarrow> False) cols
         then Inl ''relation does not exist''
         else Inr (db\<lparr>db_tables := db_tables db @ [(n, t)]\<rparr>))"
| "exec_op (CreatePartition n parent lo hi) db =
     on_table db parent (\<lambda>t.
       if \<not> fresh_name n db then Inl ''relation already exists''
       else (case st_partitions t of
          None \<Rightarrow> Inl ''table is not partitioned''
        | Some (key, ps) \<Rightarrow>
            if list_ex (\<lambda>(_, lo', hi'). lo < hi' \<and> lo' < hi) ps then Inl ''partition would overlap''
            else Inr (set_table parent (t\<lparr>st_partitions := Some (key, ps @ [(n, lo, hi)])\<rparr>) db)))"
| "exec_op (DropTable n) db = on_table db n (\<lambda>_. drop_table n db)"
| "exec_op (DropTableIfExists n) db =
     (if table_of db n \<noteq> None then drop_table n db
      else Inr (db\<lparr>db_tables := map (\<lambda>p. (fst p, remove_partition n (snd p))) (db_tables db)\<rparr>))"
| "exec_op (AddColumn n c) db =
     on_table db n (\<lambda>t.
       if col_name c \<in> set (map col_name (st_columns t)) then Inl ''column already exists''
       else if col_primary c \<or> col_unique c \<or> col_fk c \<noteq> None then Inl ''constraints on a new column are not modelled''
       else if \<not> known_type db c then Inl ''type does not exist''
       else if \<not> list_all (\<lambda>i. value_ok (db_enums db) c (fill_value c i)) [0..<length (st_rows t)]
       then Inl ''column contains null values''
       else Inr (set_table n (t\<lparr>st_columns := st_columns t @ [c], st_rows := filled c (st_rows t)\<rparr>) db))"
| "exec_op (DropColumn n m) db =
     on_table db n (\<lambda>t.
       if m \<notin> set (map col_name (st_columns t)) then Inl ''column does not exist''
       else if list_ex (\<lambda>p. list_ex (refers_to_column n m) (st_columns (snd p))) (db_tables db)
       then Inl ''other objects depend on it''
       else Inr (set_table n
         (t\<lparr>st_columns := filter (\<lambda>c. col_name c \<noteq> m) (st_columns t),
            st_uniques := filter (\<lambda>u. m \<notin> set (snd u)) (st_uniques t),
            st_indexes := filter (\<lambda>(_, ns, _). m \<notin> set ns) (st_indexes t),
            st_rows := map (filter (\<lambda>p. fst p \<noteq> m)) (st_rows t)\<rparr>) db))"
| "exec_op (CreateIndex i n ns) db =
     on_table db n (\<lambda>t.
       if \<not> fresh_name i db then Inl ''relation already exists''
       else if \<not> has_columns t ns then Inl ''column does not exist''
       else Inr (set_table n (t\<lparr>st_indexes := st_indexes t @ [(i, ns, False)]\<rparr>) db))"
| "exec_op (DropIndex i n) db =
     on_table db n (\<lambda>t.
       if i \<notin> set (map fst (st_indexes t)) then Inl ''index does not exist''
       else Inr (set_table n (t\<lparr>st_indexes := filter (\<lambda>x. fst x \<noteq> i) (st_indexes t)\<rparr>) db))"
| "exec_op (CreateUnique i n ns) db =
     on_table db n (\<lambda>t.
       if \<not> fresh_name i db then Inl ''relation already exists''
       else if \<not> has_columns t ns then Inl ''column does not exist''
       else if \<not> unique_rows (st_rows t) ns then Inl ''could not create unique index''
       else Inr (set_table n (t\<lparr>st_uniques := st_uniques t @ [(i, ns)]\<rparr>) db))"
| "exec_op (DropConstraint i n) db =
     on_table db n (\<lambda>t.
       if i \<notin> set (map fst (st_uniques t)) then Inl ''constraint does not exist''
       else Inr (set_table n (t\<lparr>st_uniques := filter (\<lambda>u. fst u \<noteq> i) (st_uniques t)\<rparr>) db))"
| "exec_op (CreateEnum e labels) db =
     Inr (if map_of (db_enums db) e \<noteq> None then db else db\<lparr>db_enums := db_enums db @ [(e, labels)]\<rparr>)"
| "exec_op (DropEnum e) db =
     (if list_ex (\<lambda>p. uses_enum e (snd p)) (db_tables db) then Inl ''other objects depend on it''
      else Inr (db\<lparr>db_enums := filter (\<lambda>x. fst x \<noteq> e) (db_enums db)\<rparr>))"
| "exec_op (AddEnumValue e label) db =
     (case map_of (db_enums db) e of
        None \<Rightarrow> Inl ''type does not exist''
      | Some labels \<Rightarrow>
          Inr (if label \<in> set labels then db
               else db\<lparr>db_enums := map (\<lambda>x. if fst x = e then (e, labels @ [label]) else x) (db_enums db)\<rparr>))"
| "exec_op (DeleteWhereIn n m vals) db =
     on_table db n (\<lambda>t.
       if m \<notin> set (map col_name (st_columns t)) then Inl ''column does not exist''
       else (let hit = (\<lambda>r. sql_get r m \<in> set (map StrV vals));
                 gone = filter hit (st_rows t);
                 db' = set_table n (t\<lparr>st_rows := filter (\<lambda>r. \<not> hit r) (st_rows t)\<rparr>) db;
                 db'' = db'\<lparr>db_tables := map (\<lambda>p. (fst p, nulled_table n gone (snd p))) (db_tables db')\<rparr>
             in if cascades n db then Inl ''cascading deletes are not modelled''
                else if \<not> list_all (\<lambda>p. list_all (row_ok (db_enums db) (st_columns (snd p))) (st_rows (snd p))) (db_tables db'')
                then Inl ''null value violates not-null constraint''
                else Inr db''))"

fun run_ops :: "ddl list \<Rightarrow> sql_db \<Rightarrow> string + sql_db" where
  "run_ops [] db = Inr db"
| "run_ops (x # xs) db = bindE (exec_op x db) (run_ops xs)"

section \<open>Rows keep fitting their tables\<close>

lemma row_okD:
  assumes "row_ok enums cols r"
  shows "map fst r = map col_name cols" "length r = length cols"
  using assms by (auto simp: row_ok_def list_all2_conv_all_nth intro!: nth_equalityI)

lemma table_okI:
  assumes "distinct (map col_name (st_columns t))" "\<And>r. r \<in> set (st_rows t) \<Longrightarrow> row_ok enums (st_columns t) r"
    "\<And>u. u \<in> set (st_uniques t) \<Longrightarrow> has_columns t (snd u)" "\<And>u. u \<in> set (st_uniques t) \<Longrightarrow> unique_rows (st_rows t) (snd u)"
    "\<And>x. x \<in> set (st_indexes t) \<Longrightarrow> has_columns t (fst (snd x))"
  shows "table_ok enums t"
  using assms by (auto simp: table_ok_def list_all_iff)

lemma table_okD:
  assumes "table_ok enums t"
  shows "distinct (map col_name (st_columns t))" "r \<in> set (st_rows t) \<Longrightarrow> row_ok enums (st_columns t) r"
    "u \<in> set (st_uniques t) \<Longrightarrow> has_columns t (snd u)" "u \<in> set (st_uniques t) \<Longrightarrow> unique_rows (st_rows t) (snd u)"
    "x \<in> set (st_indexes t) \<Longrightarrow> has_columns t (fst (snd x))"
  using assms by (auto simp: table_ok_def list_all_iff)

text \<open>A constraint that held keeps holding for fewer rows and for rows that agree on its columns.\<close>

lemma unique_rows_map:
  assumes u: "unique_rows rows ns"
    and agree: "\<And>r n. r \<in> set rows \<Longrightarrow> n \<in> set ns \<Longrightarrow> sql_get (f r) n = sql_get r n \<or> sql_get (f r) n = NullV"
  shows "unique_rows (map f (filter P rows)) ns"
  using u agree
proof (induction rows)
  case (Cons r rows)
  have tail: "unique_rows rows ns" using Cons.prems(1) by (auto simp: unique_rows_def split: if_splits)
  have IH: "unique_rows (map f (filter P rows)) ns" using Cons.IH [OF tail] Cons.prems(2) by simp
  have same: "map (sql_get (f x)) ns = map (sql_get x) ns \<and> complete ns x" if "x \<in> set (r # rows)" "complete ns (f x)" for x
    using that Cons.prems(2) [OF that(1)] by (fastforce simp: complete_def list_all_iff)
  show ?case
  proof (cases "P r \<and> complete ns (f r)")
    case True
    with same have r: "map (sql_get (f r)) ns = map (sql_get r) ns" "complete ns r" by auto
    have "map (sql_get (f x)) ns \<noteq> map (sql_get (f r)) ns" if "x \<in> set rows" "complete ns (f x)" for x
    proof -
      have x: "map (sql_get (f x)) ns = map (sql_get x) ns" "complete ns x" using same [of x] that by auto
      have "map (sql_get r) ns \<notin> (\<lambda>r. map (sql_get r) ns) ` set (filter (complete ns) rows)"
        using Cons.prems(1) r(2) by (simp add: unique_rows_def)
      then have "map (sql_get r) ns \<noteq> map (sql_get x) ns" using x(2) that(1) by auto
      then show ?thesis using r(1) x(1) by metis
    qed
    then have "map (sql_get (f r)) ns \<notin> set (map (\<lambda>r. map (sql_get r) ns) (filter (complete ns) (map f (filter P rows))))"
      by (auto simp del: map_eq_conv simp: eq_commute [of "map (sql_get (f r)) ns"])
    with True IH show ?thesis by (simp add: unique_rows_def del: set_map set_filter)
  qed (use IH in \<open>auto simp: unique_rows_def\<close>)
qed (simp add: unique_rows_def)

lemma unique_rows_filter: "unique_rows rows ns \<Longrightarrow> unique_rows (filter P rows) ns"
  using unique_rows_map [of rows ns id P] by simp

lemma map_of_set_table:
  "table_of (set_table n t db) m = (if m = n \<and> table_of db n \<noteq> None then Some t else table_of db m)"
proof -
  have "map_of (map (\<lambda>p. if fst p = n then (n, t) else p) xs) m =
      (if m = n \<and> map_of xs n \<noteq> None then Some t else map_of xs m)" for xs :: "(string \<times> sql_table) list"
    by (induction xs) auto
  then show ?thesis by (simp add: table_of_def set_table_def)
qed

lemma db_ok_set_table: "db_ok db \<Longrightarrow> table_ok (db_enums db) t \<Longrightarrow> db_ok (set_table n t db)"
proof -
  have "fst \<circ> (\<lambda>p. if fst p = n then (n, t) else p) = fst" by auto
  then show "db_ok db \<Longrightarrow> table_ok (db_enums db) t \<Longrightarrow> ?thesis" by (auto simp: db_ok_def set_table_def list_all_iff)
qed

lemma db_ok_table: "db_ok db \<Longrightarrow> table_of db n = Some t \<Longrightarrow> table_ok (db_enums db) t"
  by (auto simp: db_ok_def table_of_def list_all_iff dest!: map_of_SomeD)

lemma on_table_Inr: "on_table db n f = Inr db' \<longleftrightarrow> (\<exists>t. table_of db n = Some t \<and> f t = Inr db')"
  by (auto simp: on_table_def split: option.split)

text \<open>Types.\<close>

lemma table_ok_mono:
  assumes "table_ok enums t"
    and "\<And>c v. c \<in> set (st_columns t) \<Longrightarrow> has_type enums (col_type c) v \<Longrightarrow> has_type enums' (col_type c) v"
  shows "table_ok enums' t"
proof (rule table_okI)
  fix r assume "r \<in> set (st_rows t)"
  then have "row_ok enums (st_columns t) r" using table_okD [OF assms(1)] by simp
  then show "row_ok enums' (st_columns t) r"
    using assms(2) by (auto simp: row_ok_def list_all2_conv_all_nth value_ok_def split: if_splits)
qed (use table_okD [OF assms(1)] in simp_all)

lemma has_type_enums:
  assumes "has_type enums ty v"
    and "\<And>e labels. ty = EnumT e \<Longrightarrow> map_of enums e = Some labels \<Longrightarrow>
      \<exists>labels'. map_of enums' e = Some labels' \<and> set labels \<subseteq> set labels'"
  shows "has_type enums' ty v"
  using assms by (cases ty) (fastforce split: sql_value.splits option.splits)+

lemma db_ok_enums:
  assumes "db_ok db" and "\<And>p c e labels. p \<in> set (db_tables db) \<Longrightarrow> c \<in> set (st_columns (snd p)) \<Longrightarrow> col_type c = EnumT e \<Longrightarrow>
      map_of (db_enums db) e = Some labels \<Longrightarrow> \<exists>labels'. map_of enums' e = Some labels' \<and> set labels \<subseteq> set labels'"
  shows "db_ok (db\<lparr>db_enums := enums'\<rparr>)"
proof -
  have "table_ok enums' t" if "(n, t) \<in> set (db_tables db)" for n t
  proof (rule table_ok_mono)
    show "table_ok (db_enums db) t" using assms(1) that by (auto simp: db_ok_def list_all_iff)
    show "has_type enums' (col_type c) v" if "c \<in> set (st_columns t)" "has_type (db_enums db) (col_type c) v" for c v
      using assms(2) [of "(n, t)"] \<open>(n, t) \<in> _\<close> that by (auto intro: has_type_enums)
  qed
  then show ?thesis using assms(1) by (auto simp: db_ok_def list_all_iff)
qed

lemma map_of_map_snd: "map_of (map (\<lambda>x. if fst x = k then (k, f (snd x)) else x) xs) m =
    (if m = k then map_option f (map_of xs k) else map_of xs m)"
  by (induction xs) auto

text \<open>A new column.\<close>

lemma sql_get_append:
  "n \<noteq> fst p \<Longrightarrow> sql_get (r @ [p]) n = sql_get r n"
  by (cases p) (simp add: sql_get_def map_add_def split: option.split)

lemma filled_rows: "r \<in> set (filled c rows) \<Longrightarrow> \<exists>i q. i < length rows \<and> q \<in> set rows \<and> r = q @ [(col_name c, fill_value c i)]"
  by (fastforce simp: filled_def in_set_enumerate_eq)

lemma unique_rows_cong:
  assumes "list_all2 (\<lambda>r r'. map (sql_get r) ns = map (sql_get r') ns) rows rows'"
  shows "unique_rows rows ns = unique_rows rows' ns"
proof -
  have comp: "complete ns r = complete ns r'" if "map (sql_get r) ns = map (sql_get r') ns" for r r'
    using that by (auto simp: complete_def list_all_iff)
  have "map (\<lambda>r. map (sql_get r) ns) (filter (complete ns) rows) = map (\<lambda>r. map (sql_get r) ns) (filter (complete ns) rows')"
    using assms
  proof (induction rule: list_all2_induct)
    case (Cons r rs r' rs')
    with comp [OF Cons.hyps(1)] show ?case by (simp del: map_eq_conv)
  qed simp
  then show ?thesis by (simp add: unique_rows_def)
qed

lemma unique_rows_filled:
  assumes "col_name c \<notin> set ns"
  shows "unique_rows (filled c rows) ns = unique_rows rows ns"
proof -
  have "list_all2 (\<lambda>r r'. map (sql_get r) ns = map (sql_get r') ns) rows (filled c rows)"
    using assms by (auto simp: list_all2_conv_all_nth filled_def nth_enumerate_eq intro!: sql_get_append [symmetric])
  from unique_rows_cong [OF this] show ?thesis by simp
qed

lemma table_ok_add_column:
  assumes ok: "table_ok enums t" and new: "col_name c \<notin> set (map col_name (st_columns t))"
    and fill: "list_all (\<lambda>i. value_ok enums c (fill_value c i)) [0..<length (st_rows t)]"
  shows "table_ok enums (t\<lparr>st_columns := st_columns t @ [c], st_rows := filled c (st_rows t)\<rparr>)"
proof (rule table_okI)
  let ?t = "t\<lparr>st_columns := st_columns t @ [c], st_rows := filled c (st_rows t)\<rparr>"
  show "distinct (map col_name (st_columns ?t))" using table_okD(1) [OF ok] new by simp
  show "row_ok enums (st_columns ?t) r" if "r \<in> set (st_rows ?t)" for r
  proof -
    from that obtain i q where "i < length (st_rows t)" "q \<in> set (st_rows t)" "r = q @ [(col_name c, fill_value c i)]"
      using filled_rows [of r c "st_rows t"] by auto
    moreover have "row_ok enums (st_columns t) q" using table_okD(2) [OF ok] calculation(2) by simp
    ultimately show ?thesis using fill by (auto simp: row_ok_def list_all_iff intro!: list_all2_appendI)
  qed
  show "has_columns ?t (fst (snd x))" if "x \<in> set (st_indexes ?t)" for x
    using table_okD(5) [OF ok, of x] that by (auto simp: has_columns_def list_all_iff)
  fix u assume u: "u \<in> set (st_uniques ?t)"
  with table_okD(3) [OF ok, of u] show cols: "has_columns ?t (snd u)" by (auto simp: has_columns_def list_all_iff)
  have "col_name c \<notin> set (snd u)"
    using table_okD(3) [OF ok, of u] u new by (auto simp: has_columns_def list_all_iff)
  then show "unique_rows (st_rows ?t) (snd u)" using table_okD(4) [OF ok, of u] u by (simp add: unique_rows_filled)
qed

text \<open>A column less.\<close>

lemma list_all2_filter:
  "list_all2 P xs ys \<Longrightarrow> (\<And>x y. P x y \<Longrightarrow> Q x = R y) \<Longrightarrow> list_all2 P (filter Q xs) (filter R ys)"
  by (induction rule: list_all2_induct) auto

lemma sql_get_filter: "n \<noteq> m \<Longrightarrow> sql_get (filter (\<lambda>p. fst p \<noteq> m) r) n = sql_get r n"
  by (induction r) (auto simp: sql_get_def)

lemma table_ok_drop_column:
  assumes ok: "table_ok enums t"
  shows "table_ok enums (t\<lparr>st_columns := filter (\<lambda>c. col_name c \<noteq> m) (st_columns t),
            st_uniques := filter (\<lambda>u. m \<notin> set (snd u)) (st_uniques t), st_indexes := filter (\<lambda>(_, ns, _). m \<notin> set ns) (st_indexes t),
            st_rows := map (filter (\<lambda>p. fst p \<noteq> m)) (st_rows t)\<rparr>)" (is "table_ok enums ?t")
proof (rule table_okI)
  show "distinct (map col_name (st_columns ?t))" using table_okD(1) [OF ok] by (simp add: distinct_map_filter)
  show "row_ok enums (st_columns ?t) r" if "r \<in> set (st_rows ?t)" for r
    using that table_okD(2) [OF ok] by (auto simp: row_ok_def intro!: list_all2_filter)
  show "has_columns ?t (fst (snd x))" if "x \<in> set (st_indexes ?t)" for x
    using table_okD(5) [OF ok, of x] that by (cases x) (fastforce simp: has_columns_def list_all_iff)
  fix u assume u: "u \<in> set (st_uniques ?t)"
  with table_okD(3) [OF ok, of u] show "has_columns ?t (snd u)" by (auto simp: has_columns_def list_all_iff)
  from u have t: "u \<in> set (st_uniques t)" "m \<notin> set (snd u)" by auto
  have "unique_rows (map (filter (\<lambda>p. fst p \<noteq> m)) (filter (\<lambda>_. True) (st_rows t))) (snd u)"
  proof (rule unique_rows_map [OF table_okD(4) [OF ok t(1)]])
    fix r n assume "n \<in> set (snd u)"
    with t(2) show "sql_get (filter (\<lambda>p. fst p \<noteq> m) r) n = sql_get r n \<or> sql_get (filter (\<lambda>p. fst p \<noteq> m) r) n = NullV"
      by (metis sql_get_filter)
  qed
  then show "unique_rows (st_rows ?t) (snd u)" by simp
qed

text \<open>References set to null.\<close>

lemma map_fst_nulled: "length r = length cols \<Longrightarrow> map fst (nulled n gone cols r) = map fst r"
  by (rule nth_equalityI) (auto simp: nulled_def split: option.splits on_delete.splits prod.splits)

lemma sql_get_nulled:
  assumes "length r = length cols"
  shows "sql_get (nulled n gone cols r) m = sql_get r m \<or> sql_get (nulled n gone cols r) m = NullV"
  using assms
proof (induction cols r rule: list_induct2')
  case (4 c cols p r)
  let ?f = "\<lambda>p. case col_fk c of
         Some (t, ref, SetNull) \<Rightarrow> if t = n \<and> snd p \<in> set (map (\<lambda>g. sql_get g ref) gone) then (fst p, NullV) else p
       | _ \<Rightarrow> p"
  have n: "nulled n gone (c # cols) (p # r) = ?f p # nulled n gone cols r" by (simp add: nulled_def)
  have f: "?f p = p \<or> ?f p = (fst p, NullV)" by (auto split: option.splits on_delete.splits)
  show ?case
  proof (cases "fst p = m")
    case True
    with f show ?thesis unfolding n by (cases p) (auto simp: sql_get_def)
  next
    case False
    with f have "sql_get (?f p # nulled n gone cols r) m = sql_get (nulled n gone cols r) m"
      by (cases p) (auto simp: sql_get_def)
    with False 4 show ?thesis unfolding n by (cases p) (auto simp: sql_get_def)
  qed
qed (auto simp: nulled_def)

lemma table_ok_nulled:
  assumes ok: "table_ok enums t" and rows: "list_all (row_ok enums (st_columns t)) (st_rows (nulled_table n gone t))"
  shows "table_ok enums (nulled_table n gone t)"
proof (rule table_okI)
  fix u assume "u \<in> set (st_uniques (nulled_table n gone t))"
  then have u: "u \<in> set (st_uniques t)" by (simp add: nulled_table_def)
  have "unique_rows (map (nulled n gone (st_columns t)) (filter (\<lambda>_. True) (st_rows t))) (snd u)"
    using table_okD(2) [OF ok] row_okD(2)
    by (intro unique_rows_map [OF table_okD(4) [OF ok u]] sql_get_nulled) blast
  then show "unique_rows (st_rows (nulled_table n gone t)) (snd u)" by (simp add: nulled_table_def)
  show "has_columns (nulled_table n gone t) (snd u)"
    using table_okD(3) [OF ok u] by (simp add: nulled_table_def has_columns_def)
qed (use rows table_okD(1,5) [OF ok] in \<open>auto simp: nulled_table_def list_all_iff has_columns_def\<close>)

lemma table_ok_filter_rows: "table_ok enums t \<Longrightarrow> table_ok enums (t\<lparr>st_rows := filter P (st_rows t)\<rparr>)"
  by (auto simp: table_ok_def list_all_iff has_columns_def unique_rows_filter)

text \<open>Fields that do not matter.\<close>

lemma table_ok_uniques: "table_ok enums t \<Longrightarrow> set us \<subseteq> set (st_uniques t) \<Longrightarrow> table_ok enums (t\<lparr>st_uniques := us\<rparr>)"
  by (auto simp: table_ok_def list_all_iff has_columns_def)

lemma table_ok_new_unique:
  "table_ok enums t \<Longrightarrow> has_columns t ns \<Longrightarrow> unique_rows (st_rows t) ns \<Longrightarrow> table_ok enums (t\<lparr>st_uniques := st_uniques t @ [(i, ns)]\<rparr>)"
  by (auto simp: table_ok_def list_all_iff has_columns_def)

lemma table_ok_new_index:
  "table_ok enums t \<Longrightarrow> has_columns t ns \<Longrightarrow> table_ok enums (t\<lparr>st_indexes := st_indexes t @ [(i, ns, b)]\<rparr>)"
  by (auto simp: table_ok_def list_all_iff has_columns_def)

lemma table_ok_indexes: "table_ok enums t \<Longrightarrow> set ix \<subseteq> set (st_indexes t) \<Longrightarrow> table_ok enums (t\<lparr>st_indexes := ix\<rparr>)"
  by (auto simp: table_ok_def list_all_iff has_columns_def)

lemma table_ok_partitions [simp]:
  "table_ok enums (t\<lparr>st_partitions := ps\<rparr>) = table_ok enums t"
  by (auto simp: table_ok_def has_columns_def)

lemma table_ok_remove_partition: "table_ok enums t \<Longrightarrow> table_ok enums (remove_partition n t)"
proof -
  assume ok: "table_ok enums t"
  have "table_ok enums (t\<lparr>st_partitions := ps, st_rows := filter P (st_rows t)\<rparr>)" for ps P
    using table_ok_filter_rows [of enums "t\<lparr>st_partitions := ps\<rparr>" P] ok by simp
  with ok show ?thesis by (auto simp: remove_partition_def split: option.split)
qed

lemma table_ok_new:
  assumes "distinct (map col_name cols)" "list_all (\<lambda>u. set (snd u) \<subseteq> set (map col_name cols)) us"
  shows "table_ok enums \<lparr>st_columns = cols, st_uniques = implicit_uniques n cols @ us, st_indexes = [],
    st_partitions = ps, st_rows = []\<rparr>"
  using assms by (auto simp: table_ok_def list_all_iff has_columns_def unique_rows_def implicit_uniques_def Let_def)

lemma db_ok_map_tables:
  assumes "db_ok db" "\<And>t. table_ok (db_enums db) t \<Longrightarrow> table_ok (db_enums db) (f t)"
  shows "db_ok (db\<lparr>db_tables := map (\<lambda>p. (fst p, f (snd p))) (db_tables db)\<rparr>)"
  using assms by (auto simp: db_ok_def list_all_iff comp_def)

lemma drop_table_ok: "drop_table n db = Inr db' \<Longrightarrow> db_ok db \<Longrightarrow> db_ok db'"
  by (fastforce simp: drop_table_def remove_table_def db_ok_def list_all_iff distinct_map_filter split: if_splits)

lemma delete_ok:
  assumes ok: "db_ok db" and run: "exec_op (DeleteWhereIn n m vals) db = Inr db'"
  shows "db_ok db'"
proof -
  from run obtain t where t: "table_of db n = Some t" by (auto simp: on_table_Inr)
  define hit where "hit = (\<lambda>r. sql_get r m \<in> set (map StrV vals))"
  define gone where "gone = filter hit (st_rows t)"
  define db1 where "db1 = set_table n (t\<lparr>st_rows := filter (\<lambda>r. \<not> hit r) (st_rows t)\<rparr>) db"
  from run t have rows: "list_all (\<lambda>p. list_all (row_ok (db_enums db) (st_columns (snd p))) (st_rows (snd p)))
      (map (\<lambda>p. (fst p, nulled_table n gone (snd p))) (db_tables db1))"
    and db': "db' = db1\<lparr>db_tables := map (\<lambda>p. (fst p, nulled_table n gone (snd p))) (db_tables db1)\<rparr>"
    by (auto simp: on_table_Inr Let_def hit_def gone_def db1_def split: if_splits)
  have ok1: "db_ok db1"
    unfolding db1_def by (intro db_ok_set_table ok table_ok_filter_rows db_ok_table [OF ok t])
  have enums: "db_enums db1 = db_enums db" by (simp add: db1_def set_table_def)
  have "table_ok (db_enums db) (nulled_table n gone t')" if "p \<in> set (db_tables db1)" "t' = snd p" for p t'
  proof (rule table_ok_nulled)
    show "table_ok (db_enums db) t'" using ok1 that by (auto simp: db_ok_def list_all_iff enums)
    show "list_all (row_ok (db_enums db) (st_columns t')) (st_rows (nulled_table n gone t'))"
      using rows that by (fastforce simp: list_all_iff nulled_table_def)
  qed
  with ok1 show ?thesis by (auto simp: db' db_ok_def list_all_iff comp_def enums)
qed

lemma exec_op_ok: "exec_op x db = Inr db' \<Longrightarrow> db_ok db \<Longrightarrow> db_ok db'"
proof (cases x)
  case (CreateTable n cols us part)
  assume run: "exec_op x db = Inr db'" and ok: "db_ok db"
  let ?t = "\<lparr>st_columns = cols, st_uniques = implicit_uniques n cols @ us, st_indexes = [],
               st_partitions = map_option (\<lambda>k. (k, [])) part, st_rows = []\<rparr>"
  from run CreateTable have new: "fresh_name n db" "distinct (map col_name cols)"
      "list_all (\<lambda>u. set (snd u) \<subseteq> set (map col_name cols)) us" "db' = db\<lparr>db_tables := db_tables db @ [(n, ?t)]\<rparr>"
    by (auto simp: Let_def list_all_iff has_columns_def table_names_def split: if_splits)
  have "n \<notin> fst ` set (db_tables db)" using new(1) by (auto simp: fresh_name_def table_names_def list_all_iff)
  with ok table_ok_new [OF new(2,3)] new(4) show ?thesis by (auto simp: db_ok_def list_all_iff)
next
  case (CreatePartition n parent lo hi)
  assume "exec_op x db = Inr db'" and ok: "db_ok db"
  with CreatePartition obtain t ps where "table_of db parent = Some t" "db' = set_table parent (t\<lparr>st_partitions := ps\<rparr>) db"
    by (auto simp: on_table_Inr split: if_splits option.splits)
  with db_ok_table [OF ok] show ?thesis by (simp add: db_ok_set_table [OF ok])
next
  case (DropTable n)
  then show "exec_op x db = Inr db' \<Longrightarrow> db_ok db \<Longrightarrow> ?thesis" by (auto simp: on_table_Inr intro: drop_table_ok)
next
  case (DropTableIfExists n)
  then show "exec_op x db = Inr db' \<Longrightarrow> db_ok db \<Longrightarrow> ?thesis"
    by (auto intro: drop_table_ok intro!: db_ok_map_tables table_ok_remove_partition split: if_splits)
next
  case (AddColumn n c)
  then show "exec_op x db = Inr db' \<Longrightarrow> db_ok db \<Longrightarrow> ?thesis"
    by (auto simp: on_table_Inr simp del: set_map split: if_splits intro!: db_ok_set_table table_ok_add_column dest: db_ok_table)
next
  case (DropColumn n m)
  then show "exec_op x db = Inr db' \<Longrightarrow> db_ok db \<Longrightarrow> ?thesis"
    by (auto simp: on_table_Inr simp del: set_map split: if_splits intro!: db_ok_set_table table_ok_drop_column dest: db_ok_table)
next
  case (CreateIndex i n ns)
  then show "exec_op x db = Inr db' \<Longrightarrow> db_ok db \<Longrightarrow> ?thesis"
    by (auto simp: on_table_Inr split: if_splits intro!: db_ok_set_table table_ok_new_index dest: db_ok_table)
next
  case (DropIndex i n)
  then show "exec_op x db = Inr db' \<Longrightarrow> db_ok db \<Longrightarrow> ?thesis"
    by (auto simp: on_table_Inr split: if_splits intro!: db_ok_set_table table_ok_new_index table_ok_indexes dest: db_ok_table)
next
  case (CreateUnique i n ns)
  then show "exec_op x db = Inr db' \<Longrightarrow> db_ok db \<Longrightarrow> ?thesis"
    by (auto simp: on_table_Inr split: if_splits intro!: db_ok_set_table table_ok_new_unique dest: db_ok_table)
next
  case (DropConstraint i n)
  then show "exec_op x db = Inr db' \<Longrightarrow> db_ok db \<Longrightarrow> ?thesis"
    by (auto simp: on_table_Inr split: if_splits intro!: db_ok_set_table table_ok_uniques dest: db_ok_table)
next
  case (CreateEnum e labels)
  then show "exec_op x db = Inr db' \<Longrightarrow> db_ok db \<Longrightarrow> ?thesis"
    by (auto split: if_splits intro!: db_ok_enums simp: map_add_def)
next
  case (DropEnum e)
  have drop: "map_of (filter (\<lambda>x. fst x \<noteq> e) xs) k = (if k = e then None else map_of xs k)" for k and xs :: "(string \<times> string list) list"
    by (induction xs) auto
  from DropEnum show "exec_op x db = Inr db' \<Longrightarrow> db_ok db \<Longrightarrow> ?thesis"
    by (auto split: if_splits intro!: db_ok_enums simp: drop list_ex_iff uses_enum_def)
next
  case (AddEnumValue e label)
  have add: "map_of (map (\<lambda>x. if fst x = e then (e, labels @ [label]) else x) xs) k =
      (if k = e \<and> map_of xs e \<noteq> None then Some (labels @ [label]) else map_of xs k)" for k labels and xs :: "(string \<times> string list) list"
    by (induction xs) auto
  from AddEnumValue show "exec_op x db = Inr db' \<Longrightarrow> db_ok db \<Longrightarrow> ?thesis"
    by (auto split: if_splits option.splits intro!: db_ok_enums simp: add)
next
  case (DeleteWhereIn n m vals)
  then show "exec_op x db = Inr db' \<Longrightarrow> db_ok db \<Longrightarrow> ?thesis" using delete_ok by blast
qed

lemma run_ops_ok: "run_ops xs db = Inr db' \<Longrightarrow> db_ok db \<Longrightarrow> db_ok db'"
  by (induction xs arbitrary: db) (auto simp: bindE_Inr_iff dest: exec_op_ok)

lemma run_ops_append: "run_ops (xs @ ys) db = bindE (run_ops xs db) (run_ops ys)"
  by (induction xs arbitrary: db) (auto simp: bindE_def split: sum.split)

section \<open>Adding columns and dropping them again\<close>

lemma set_table_same: "table_of db n = Some t \<Longrightarrow> distinct (map fst (db_tables db)) \<Longrightarrow> set_table n t (set_table n t' db) = db"
proof -
  assume "table_of db n = Some t" and d: "distinct (map fst (db_tables db))"
  then have "(if fst (if fst p = n then (n, t') else p) = n then (n, t) else (if fst p = n then (n, t') else p)) = p"
    if "p \<in> set (db_tables db)" for p
    using that d \<open>table_of db n = Some t\<close> by (cases p) (auto simp: table_of_def dest: map_of_SomeD eq_key_imp_eq_value)
  then show ?thesis by (simp add: set_table_def comp_def map_idI)
qed

lemma filter_filled:
  assumes "\<And>r. r \<in> set rows \<Longrightarrow> col_name c \<notin> set (map fst r)"
  shows "map (filter (\<lambda>p. fst p \<noteq> col_name c)) (filled c rows) = rows"
proof (rule nth_equalityI)
  fix i assume "i < length (map (filter (\<lambda>p. fst p \<noteq> col_name c)) (filled c rows))"
  then have i: "i < length rows" by (simp add: filled_def)
  then have "filter (\<lambda>p. fst p \<noteq> col_name c) (rows ! i) = rows ! i" using assms [of "rows ! i"] by (force simp: filter_id_conv)
  with i show "map (filter (\<lambda>p. fst p \<noteq> col_name c)) (filled c rows) ! i = rows ! i" by (simp add: filled_def nth_enumerate_eq)
qed (simp add: filled_def)

lemma drop_added_column:
  assumes ok: "db_ok db" and add: "exec_op (AddColumn n c) db = Inr db1" and drop: "exec_op (DropColumn n (col_name c)) db1 = Inr db2"
  shows "db2 = db"
proof -
  from add obtain t where t: "table_of db n = Some t" "col_name c \<notin> set (map col_name (st_columns t))"
    and db1: "db1 = set_table n (t\<lparr>st_columns := st_columns t @ [c], st_rows := filled c (st_rows t)\<rparr>) db"
    by (auto simp: on_table_Inr simp del: set_map split: if_splits)
  note tok = db_ok_table [OF ok t(1)]
  let ?m = "col_name c"
  have "\<forall>x \<in> set (st_columns t). col_name x \<noteq> ?m" using t(2) by (metis imageI set_map)
  then have cols: "filter (\<lambda>x. col_name x \<noteq> ?m) (st_columns t @ [c]) = st_columns t" by (simp add: filter_id_conv)
  have us: "filter (\<lambda>u. ?m \<notin> set (snd u)) (st_uniques t) = st_uniques t"
    using table_okD(3) [OF tok] t(2) by (fastforce simp: filter_id_conv has_columns_def list_all_iff)
  have ix: "filter (\<lambda>(_, ns, _). ?m \<notin> set ns) (st_indexes t) = st_indexes t"
    using table_okD(5) [OF tok] t(2) by (fastforce simp: filter_id_conv has_columns_def list_all_iff)
  have rows: "map (filter (\<lambda>p. fst p \<noteq> ?m)) (filled c (st_rows t)) = st_rows t"
    using table_okD(2) [OF tok] t(2) row_okD(1) by (intro filter_filled) metis
  from drop t(1) have "db2 = set_table n t db1"
    by (simp add: db1 on_table_Inr map_of_set_table us ix rows cols del: filter_append split: if_splits)
  with set_table_same [OF t(1)] ok show ?thesis by (simp add: db1 db_ok_def)
qed

text \<open>Columns that are added to a table and dropped in the opposite order leave no trace, whatever rows it has.\<close>

lemma drop_added_columns:
  assumes "db_ok db" "run_ops (map (AddColumn n) cs @ map (DropColumn n \<circ> col_name) (rev cs)) db = Inr db'"
  shows "db' = db"
  using assms
proof (induction cs arbitrary: db db')
  case (Cons c cs)
  from Cons.prems(2) obtain db1 db2 where add: "exec_op (AddColumn n c) db = Inr db1"
    and mid: "run_ops (map (AddColumn n) cs @ map (DropColumn n \<circ> col_name) (rev cs)) db1 = Inr db2"
    and drop: "exec_op (DropColumn n (col_name c)) db2 = Inr db'"
    by (fastforce simp del: exec_op.simps simp: bindE_Inr_iff run_ops_append comp_def)
  from Cons.IH [OF exec_op_ok [OF add Cons.prems(1)] mid] drop have "exec_op (DropColumn n (col_name c)) db1 = Inr db'" by simp
  with drop_added_column [OF Cons.prems(1) add] show ?case by blast
qed simp

end
