(* ===== verification/Migrations.thy ===== *)
theory Migrations
  imports Schema
begin

text \<open>
  The migrations of \<^verbatim>\<open>src/alembic/versions\<close>, each as the list of its operations, the way
  \<^verbatim>\<open>src/alembic/env.py\<close> runs them (one transaction for all), and the tables as the model classes of
  \<^verbatim>\<open>src/app/models\<close> declare them; what they amount to is in \<open>Migrations_Props\<close>. The bounds of the partitions are read as instants in UTC.
\<close>

section \<open>The revisions\<close>

record revision =
  rv_id :: string
  rv_down :: "string option"
  rv_upgrade :: "ddl list"
  rv_downgrade :: "ddl list"

definition new_year :: "int \<Rightarrow> datetime" where
  "new_year y = (ymd2ord (y, 1, 1) - 719163) * day_us"

definition id_column :: column where
  "id_column = server_default GenRandomUuid (primary_key (sa_column ''id'' UuidT))"

definition stamp_column :: "string \<Rightarrow> column" where
  "stamp_column n = server_default Now (not_null (sa_column n TimestampTZ))"

definition create_tenants :: "ddl list" where
  "create_tenants =
    [CreateTable ''tenants''
       [id_column,
        not_null (unique_col (sa_column ''name'' (VarChar 255))),
        server_default (Const (BoolV True)) (not_null (sa_column ''is_active'' BooleanT)),
        stamp_column ''created_at'',
        stamp_column ''updated_at'']
       [] None,
     CreateIndex ''ix_tenants_is_active'' ''tenants'' [''is_active'']]"

definition create_applications :: "ddl list" where
  "create_applications =
    [CreateTable ''applications''
       [id_column,
        not_null (references ''tenants'' Cascade (sa_column ''tenant_id'' UuidT)),
        not_null (sa_column ''name'' (VarChar 255)),
        server_default (Const (BoolV True)) (not_null (sa_column ''is_active'' BooleanT)),
        stamp_column ''created_at'']
       [(''uq_application_tenant_name'', [''tenant_id'', ''name''])] None,
     CreateIndex ''ix_applications_tenant_id'' ''applications'' [''tenant_id''],
     CreateIndex ''ix_applications_is_active'' ''applications'' [''is_active'']]"

definition create_api_keys :: "ddl list" where
  "create_api_keys =
    [CreateTable ''api_keys''
       [id_column,
        not_null (references ''applications'' Cascade (sa_column ''application_id'' UuidT)),
        not_null (unique_col (sa_column ''prefix'' (VarChar 8))),
        not_null (sa_column ''hashed_key'' TextT),
        server_default (Const (ListV [])) (not_null (sa_column ''scopes'' TextArray)),
        not_null (sa_column ''mode'' (VarChar 8)),
        server_default (Const (BoolV True)) (not_null (sa_column ''is_active'' BooleanT)),
        sa_column ''last_used_at'' TimestampTZ,
        sa_column ''expires_at'' TimestampTZ,
        stamp_column ''created_at'',
        sa_column ''revoked_at'' TimestampTZ]
       [] None,
     CreateIndex ''ix_api_keys_prefix'' ''api_keys'' [''prefix''],
     CreateIndex ''ix_api_keys_application_id'' ''api_keys'' [''application_id''],
     CreateIndex ''ix_api_keys_is_active_expires_at'' ''api_keys'' [''is_active'', ''expires_at'']]"

definition create_proxy_pools :: "ddl list" where
  "create_proxy_pools =
    [CreateTable ''proxy_pools''
       [id_column,
        not_null (unique_col (sa_column ''name'' (VarChar 255))),
        not_null (sa_column ''provider'' (VarChar 64)),
        server_default (Const (BoolV True)) (not_null (sa_column ''is_active'' BooleanT)),
        stamp_column ''created_at'']
       [] None]"

definition create_proxies :: "ddl list" where
  "create_proxies =
    [CreateTable ''proxies''
       [id_column,
        not_null (references ''proxy_pools'' Cascade (sa_column ''pool_id'' UuidT)),
        not_null (sa_column ''url'' (VarChar 1024)),
        sa_column ''country'' (VarChar 2),
        server_default (Const (RealV 1)) (not_null (sa_column ''health_score'' FloatT)),
        server_default (Const (IntV 0)) (not_null (sa_column ''consecutive_failures'' BigIntT)),
        sa_column ''cooldown_until'' TimestampTZ,
        server_default (Const (IntV 0)) (not_null (sa_column ''total_requests'' BigIntT)),
        server_default (Const (IntV 0)) (not_null (sa_column ''total_errors'' BigIntT)),
        stamp_column ''created_at'',
        stamp_column ''updated_at'']
       [] None,
     CreateIndex ''ix_proxy_pool_health'' ''proxies'' [''pool_id'', ''health_score''],
     CreateIndex ''ix_proxy_cooldown'' ''proxies'' [''cooldown_until''],
     CreateIndex ''ix_proxy_country'' ''proxies'' [''country'']]"

definition create_domain_policies :: "ddl list" where
  "create_domain_policies =
    [CreateTable ''domain_policies''
       [id_column,
        not_null (unique_col (sa_column ''domain'' (VarChar 255))),
        references ''proxy_pools'' SetNull (sa_column ''proxy_pool_id'' UuidT),
        server_default (Const (StrV ''httpx'')) (not_null (sa_column ''engine'' (VarChar 16))),
        server_default (Const (RealV 1)) (not_null (sa_column ''rate_limit_rps'' FloatT)),
        server_default (Const (IntV 500)) (not_null (sa_column ''min_delay_ms'' IntegerT)),
        server_default (Const (IntV 2000)) (not_null (sa_column ''max_delay_ms'' IntegerT)),
        server_default (Const (IntV 3)) (not_null (sa_column ''max_retries'' IntegerT)),
        server_default (Const (BoolV True)) (not_null (sa_column ''respect_robots'' BooleanT)),
        sa_column ''header_profile'' JsonbT,
        server_default (Const (BoolV False)) (not_null (sa_column ''sticky_session'' BooleanT)),
        server_default (Const (BoolV True)) (not_null (sa_column ''is_active'' BooleanT)),
        stamp_column ''created_at'',
        stamp_column ''updated_at'']
       [] None,
     CreateIndex ''ix_domain_policies_domain'' ''domain_policies'' [''domain''],
     CreateIndex ''ix_domain_policies_is_active'' ''domain_policies'' [''is_active'']]"

definition create_request_log :: "ddl list" where
  "create_request_log =
    [CreateTable ''request_log''
       [primary_key (sa_column ''id'' UuidT),
        references ''api_keys'' SetNull (sa_column ''api_key_id'' UuidT),
        references ''applications'' SetNull (sa_column ''application_id'' UuidT),
        not_null (sa_column ''domain'' (VarChar 255)),
        not_null (sa_column ''url'' TextT),
        server_default (Const (StrV ''GET'')) (not_null (sa_column ''method'' (VarChar 8))),
        sa_column ''status_code'' IntegerT,
        references ''proxies'' SetNull (sa_column ''proxy_id'' UuidT),
        not_null (sa_column ''engine'' (VarChar 16)),
        sa_column ''duration_ms'' IntegerT,
        sa_column ''bytes_received'' BigIntT,
        server_default (Const (BoolV False)) (not_null (sa_column ''blocked'' BooleanT)),
        sa_column ''error'' TextT,
        sa_column ''trace_id'' (VarChar 64),
        primary_key (sa_column ''requested_at'' TimestampTZ)]
       [] (Some ''requested_at''),
     CreatePartition ''request_log_y2026'' ''request_log'' (new_year 2026) (new_year 2027),
     CreatePartition ''request_log_y2027'' ''request_log'' (new_year 2027) (new_year 2028),
     CreateIndex ''ix_reqlog_app_time'' ''request_log'' [''application_id'', ''requested_at''],
     CreateIndex ''ix_reqlog_domain_time'' ''request_log'' [''domain'', ''requested_at''],
     CreateIndex ''ix_reqlog_apikey_time'' ''request_log'' [''api_key_id'', ''requested_at'']]"

definition create_usage_counters :: "ddl list" where
  "create_usage_counters =
    [CreateTable ''usage_counters''
       [id_column,
        not_null (references ''applications'' Cascade (sa_column ''application_id'' UuidT)),
        not_null (sa_column ''period_month'' DateT),
        server_default (Const (IntV 0)) (not_null (sa_column ''request_count'' BigIntT)),
        server_default (Const (IntV 0)) (not_null (sa_column ''bytes_received'' BigIntT)),
        server_default (Const (IntV 0)) (not_null (sa_column ''cost_eur_cents'' IntegerT)),
        stamp_column ''updated_at'']
       [(''uq_usage_app_period'', [''application_id'', ''period_month''])] None,
     CreateIndex ''ix_usage_app_period'' ''usage_counters'' [''application_id'', ''period_month'']]"

definition create_warc_index :: "ddl list" where
  "create_warc_index =
    [CreateTable ''warc_index''
       [id_column,
        sa_column ''request_log_id'' UuidT,
        not_null (sa_column ''url'' TextT),
        not_null (sa_column ''warc_filename'' (VarChar 512)),
        not_null (sa_column ''offset'' BigIntT),
        not_null (sa_column ''length'' BigIntT),
        not_null (sa_column ''sha256'' (VarChar 64)),
        server_default (Const (BoolV False)) (not_null (sa_column ''is_revisit'' BooleanT)),
        sa_column ''content_type'' (VarChar 255),
        sa_column ''status_code'' IntegerT,
        not_null (sa_column ''captured_at'' TimestampTZ)]
       [] None,
     CreateIndex ''ix_warc_sha256'' ''warc_index'' [''sha256''],
     CreateIndex ''ix_warc_url_time'' ''warc_index'' [''url'', ''captured_at''],
     CreateIndex ''ix_warc_filename_offset'' ''warc_index'' [''warc_filename'', ''offset''],
     CreateIndex ''ix_warc_captured_at'' ''warc_index'' [''captured_at'']]"

definition upgrade_0001 :: "ddl list" where
  "upgrade_0001 =
     create_tenants
     @ create_applications
     @ create_api_keys
     @ create_proxy_pools
     @ create_proxies
     @ create_domain_policies
     @ create_request_log
     @ create_usage_counters
     @ create_warc_index"

definition downgrade_0001 :: "ddl list" where
  "downgrade_0001 =
    [DropTable ''warc_index'',
     DropTable ''usage_counters'',
     DropTableIfExists ''request_log_y2026'',
     DropTableIfExists ''request_log_y2027'',
     DropTableIfExists ''request_log'',
     DropTable ''domain_policies'',
     DropTable ''proxies'',
     DropTable ''proxy_pools'',
     DropTable ''api_keys'',
     DropTable ''applications'',
     DropTable ''tenants'']"

definition revision_0001 :: revision where
  "revision_0001 = \<lparr>rv_id = ''0001'', rv_down = None,
     rv_upgrade = upgrade_0001, rv_downgrade = downgrade_0001\<rparr>"

definition upgrade_f95d1ecc169c :: "ddl list" where
  "upgrade_f95d1ecc169c =
    [DropConstraint ''api_keys_prefix_key'' ''api_keys'']"

definition downgrade_f95d1ecc169c :: "ddl list" where
  "downgrade_f95d1ecc169c =
    [CreateUnique ''api_keys_prefix_key'' ''api_keys'' [''prefix'']]"

definition revision_f95d1ecc169c :: revision where
  "revision_f95d1ecc169c = \<lparr>rv_id = ''f95d1ecc169c'', rv_down = Some ''0001'',
     rv_upgrade = upgrade_f95d1ecc169c, rv_downgrade = downgrade_f95d1ecc169c\<rparr>"

definition upgrade_a7c55bf575f3 :: "ddl list" where
  "upgrade_a7c55bf575f3 =
    [DeleteWhereIn ''api_keys'' ''prefix'' [''crw_live'', ''crw_test''],
     CreateUnique ''api_keys_prefix_key'' ''api_keys'' [''prefix'']]"

definition downgrade_a7c55bf575f3 :: "ddl list" where
  "downgrade_a7c55bf575f3 =
    [DropConstraint ''api_keys_prefix_key'' ''api_keys'']"

definition revision_a7c55bf575f3 :: revision where
  "revision_a7c55bf575f3 = \<lparr>rv_id = ''a7c55bf575f3'', rv_down = Some ''f95d1ecc169c'',
     rv_upgrade = upgrade_a7c55bf575f3, rv_downgrade = downgrade_a7c55bf575f3\<rparr>"

definition upgrade_0002 :: "ddl list" where
  "upgrade_0002 =
    [AddColumn ''api_keys'' (sa_column ''issuer_key_id'' UuidT),
     AddColumn ''applications'' (sa_column ''owner_label'' (VarChar 255))]"

definition downgrade_0002 :: "ddl list" where
  "downgrade_0002 =
    [DropColumn ''api_keys'' ''issuer_key_id'',
     DropColumn ''applications'' ''owner_label'']"

definition revision_0002 :: revision where
  "revision_0002 = \<lparr>rv_id = ''0002'', rv_down = Some ''a7c55bf575f3'',
     rv_upgrade = upgrade_0002, rv_downgrade = downgrade_0002\<rparr>"

definition upgrade_0003 :: "ddl list" where
  "upgrade_0003 =
    [AddColumn ''domain_policies'' (server_default (Const (BoolV False)) (not_null (sa_column ''use_proxy'' BooleanT))),
     AddColumn ''domain_policies'' (sa_column ''proxy_country'' (VarChar 2))]"

definition downgrade_0003 :: "ddl list" where
  "downgrade_0003 =
    [DropColumn ''domain_policies'' ''proxy_country'',
     DropColumn ''domain_policies'' ''use_proxy'']"

definition revision_0003 :: revision where
  "revision_0003 = \<lparr>rv_id = ''0003'', rv_down = Some ''0002'',
     rv_upgrade = upgrade_0003, rv_downgrade = downgrade_0003\<rparr>"

definition upgrade_0004 :: "ddl list" where
  "upgrade_0004 =
    [CreateEnum ''proxy_type_enum'' [''residential'', ''datacenter''],
     AddColumn ''proxies'' (server_default (Const (StrV ''datacenter'')) (not_null (sa_column ''proxy_type'' (EnumT ''proxy_type_enum''))))]"

definition downgrade_0004 :: "ddl list" where
  "downgrade_0004 =
    [DropColumn ''proxies'' ''proxy_type'',
     DropEnum ''proxy_type_enum'']"

definition revision_0004 :: revision where
  "revision_0004 = \<lparr>rv_id = ''0004'', rv_down = Some ''0003'',
     rv_upgrade = upgrade_0004, rv_downgrade = downgrade_0004\<rparr>"

definition upgrade_0005 :: "ddl list" where
  "upgrade_0005 =
    [AddEnumValue ''proxy_type_enum'' ''mobile'',
     AddEnumValue ''proxy_type_enum'' ''isp'',
     AddColumn ''domain_policies'' (sa_column ''antibot_type'' (VarChar 32)),
     AddColumn ''domain_policies'' (sa_column ''proxy_type'' (VarChar 16)),
     AddColumn ''domain_policies'' (server_default (Const (IntV 0)) (not_null (sa_column ''escalation_tier'' IntegerT))),
     AddColumn ''domain_policies'' (server_default (Const (BoolV False)) (not_null (sa_column ''tier_locked'' BooleanT))),
     AddColumn ''domain_policies'' (sa_column ''last_success_at'' TimestampTZ),
     AddColumn ''domain_policies'' (sa_column ''last_block_reason'' (VarChar 32)),
     AddColumn ''domain_policies'' (server_default (Const (IntV 0)) (not_null (sa_column ''consecutive_blocks'' IntegerT))),
     AddColumn ''domain_policies'' (server_default (Const (IntV 12)) (not_null (sa_column ''max_escalation_attempts'' IntegerT)))]"

definition downgrade_0005 :: "ddl list" where
  "downgrade_0005 =
    [DropColumn ''domain_policies'' ''max_escalation_attempts'',
     DropColumn ''domain_policies'' ''consecutive_blocks'',
     DropColumn ''domain_policies'' ''last_block_reason'',
     DropColumn ''domain_policies'' ''last_success_at'',
     DropColumn ''domain_policies'' ''tier_locked'',
     DropColumn ''domain_policies'' ''escalation_tier'',
     DropColumn ''domain_policies'' ''proxy_type'',
     DropColumn ''domain_policies'' ''antibot_type'']"

definition revision_0005 :: revision where
  "revision_0005 = \<lparr>rv_id = ''0005'', rv_down = Some ''0004'',
     rv_upgrade = upgrade_0005, rv_downgrade = downgrade_0005\<rparr>"

definition upgrade_0006 :: "ddl list" where
  "upgrade_0006 =
    [AddColumn ''proxies'' (server_default (Const (StrV ''webshare'')) (not_null (sa_column ''provider'' (VarChar 64)))),
     AddColumn ''proxies'' (server_default (Const (BoolV True)) (not_null (sa_column ''is_active'' BooleanT))),
     CreateUnique ''uq_proxy_provider_url'' ''proxies'' [''provider'', ''url''],
     CreateTable ''proxy_events''
       [id_column,
        not_null (references ''proxies'' Cascade (sa_column ''proxy_id'' UuidT)),
        not_null (sa_column ''event_type'' (VarChar 32)),
        sa_column ''detail'' JsonbT,
        stamp_column ''created_at'']
       [] None,
     CreateIndex ''ix_proxy_events_proxy_time'' ''proxy_events'' [''proxy_id'', ''created_at'']]"

definition downgrade_0006 :: "ddl list" where
  "downgrade_0006 =
    [DropIndex ''ix_proxy_events_proxy_time'' ''proxy_events'',
     DropTable ''proxy_events'',
     DropConstraint ''uq_proxy_provider_url'' ''proxies'',
     DropColumn ''proxies'' ''is_active'',
     DropColumn ''proxies'' ''provider'']"

definition revision_0006 :: revision where
  "revision_0006 = \<lparr>rv_id = ''0006'', rv_down = Some ''0005'',
     rv_upgrade = upgrade_0006, rv_downgrade = downgrade_0006\<rparr>"

definition upgrade_d96e3566e6ba :: "ddl list" where
  "upgrade_d96e3566e6ba =
    [AddColumn ''proxy_events'' (not_null (server_default Identity (sa_column ''seq'' BigIntT))),
     CreateUnique ''uq_proxy_events_seq'' ''proxy_events'' [''seq'']]"

definition downgrade_d96e3566e6ba :: "ddl list" where
  "downgrade_d96e3566e6ba =
    [DropConstraint ''uq_proxy_events_seq'' ''proxy_events'',
     DropColumn ''proxy_events'' ''seq'']"

definition revision_d96e3566e6ba :: revision where
  "revision_d96e3566e6ba = \<lparr>rv_id = ''d96e3566e6ba'', rv_down = Some ''0006'',
     rv_upgrade = upgrade_d96e3566e6ba, rv_downgrade = downgrade_d96e3566e6ba\<rparr>"

definition upgrade_0007 :: "ddl list" where
  "upgrade_0007 =
    [AddColumn ''proxies'' (sa_column ''city'' (VarChar 128))]"

definition downgrade_0007 :: "ddl list" where
  "downgrade_0007 =
    [DropColumn ''proxies'' ''city'']"

definition revision_0007 :: revision where
  "revision_0007 = \<lparr>rv_id = ''0007'', rv_down = Some ''d96e3566e6ba'',
     rv_upgrade = upgrade_0007, rv_downgrade = downgrade_0007\<rparr>"

definition REVISIONS :: "revision list" where
  "REVISIONS = [revision_0001, revision_0002, revision_0003, revision_0004, revision_0005, revision_0006, revision_0007,
     revision_a7c55bf575f3, revision_d96e3566e6ba, revision_f95d1ecc169c]"

section \<open>Running them\<close>

text \<open>The revisions above a version, found by the version that each one follows.\<close>

fun path_from :: "nat \<Rightarrow> string option \<Rightarrow> revision list" where
  "path_from 0 v = []"
| "path_from (Suc n) v =
     (case find (\<lambda>r. rv_down r = v) REVISIONS of None \<Rightarrow> [] | Some r \<Rightarrow> r # path_from n (Some (rv_id r)))"

definition upgrade_path :: "string option \<Rightarrow> revision list" where
  "upgrade_path v = path_from (length REVISIONS) v"

definition version_after :: "string option \<Rightarrow> revision list \<Rightarrow> string option" where
  "version_after v rs = (if rs = [] then v else Some (rv_id (last rs)))"

text \<open>
  \<^verbatim>\<open>do_run_migrations\<close>: all revisions run in one transaction, so a failure leaves version and database as
  they were. The state is the stored version with the database.
\<close>

definition do_run_migrations ::
  "(string option \<Rightarrow> revision list \<times> string option) \<Rightarrow> (revision \<Rightarrow> ddl list) \<Rightarrow> string option \<times> sql_db
   \<Rightarrow> (string + unit) \<times> string option \<times> sql_db" where
  "do_run_migrations plan ops s =
     (let (rs, v) = plan (fst s)
      in case run_ops (concat (map ops rs)) (snd s) of Inl e \<Rightarrow> (Inl e, s) | Inr db \<Rightarrow> (Inr (), (v, db)))"

definition alembic_upgrade :: "string option \<times> sql_db \<Rightarrow> (string + unit) \<times> string option \<times> sql_db" where
  "alembic_upgrade = do_run_migrations (\<lambda>v. (upgrade_path v, version_after v (upgrade_path v))) rv_upgrade"

text \<open>Down to a version: the revisions above it and up to the present one, newest first.\<close>

definition downgrade_path :: "string option \<Rightarrow> string option \<Rightarrow> revision list" where
  "downgrade_path target v =
     (let up = upgrade_path target in rev (take (length up - length (upgrade_path v)) up))"

definition alembic_downgrade :: "string option \<Rightarrow> string option \<times> sql_db \<Rightarrow> (string + unit) \<times> string option \<times> sql_db" where
  "alembic_downgrade target = do_run_migrations (\<lambda>v. (downgrade_path target v, target)) rv_downgrade"

text \<open>\<^verbatim>\<open>get_database_url\<close> refuses to run without a URL.\<close>

definition get_database_url :: "string option \<Rightarrow> string + string" where
  "get_database_url url =
     (case url of
        None \<Rightarrow> Inl ''DATABASE_URL environment variable is required for migrations. Set it in your .env file or environment before running alembic.''
      | Some u \<Rightarrow>
          if u = []
          then Inl ''DATABASE_URL environment variable is required for migrations. Set it in your .env file or environment before running alembic.''
          else Inr u)"

section \<open>The tables of the model classes\<close>

text \<open>A column with \<^verbatim>\<open>index=True\<close> has an index of its own, a unique one when it is declared unique as well.\<close>

definition model_table ::
  "string \<Rightarrow> column list \<Rightarrow> (string \<times> string list) list \<Rightarrow> (string \<times> string list \<times> bool) list \<Rightarrow> string option
   \<Rightarrow> string \<times> sql_table" where
  "model_table n cols us ix part =
     (n, \<lparr>st_columns = cols, st_uniques = implicit_uniques n cols @ us, st_indexes = ix,
          st_partitions = map_option (\<lambda>k. (k, [])) part, st_rows = []\<rparr>)"

definition tenant_model :: "string \<times> sql_table" where
  "tenant_model = model_table ''tenants''
    [id_column,
     not_null (unique_col (sa_column ''name'' (VarChar 255))),
     not_null (sa_column ''is_active'' BooleanT),
     stamp_column ''created_at'',
     stamp_column ''updated_at'']
    []
    [(''ix_tenants_is_active'', [''is_active''], False)] None"

definition application_model :: "string \<times> sql_table" where
  "application_model = model_table ''applications''
    [id_column,
     not_null (references ''tenants'' Cascade (sa_column ''tenant_id'' UuidT)),
     not_null (sa_column ''name'' (VarChar 255)),
     not_null (sa_column ''is_active'' BooleanT),
     stamp_column ''created_at'',
     sa_column ''owner_label'' (VarChar 255)]
    [(''uq_application_tenant_name'', [''tenant_id'', ''name''])]
    [(''ix_applications_tenant_id'', [''tenant_id''], False),
     (''ix_applications_is_active'', [''is_active''], False)] None"

definition api_key_model :: "string \<times> sql_table" where
  "api_key_model = model_table ''api_keys''
    [id_column,
     not_null (references ''applications'' Cascade (sa_column ''application_id'' UuidT)),
     not_null (unique_col (sa_column ''prefix'' (VarChar 8))),
     not_null (sa_column ''hashed_key'' TextT),
     not_null (sa_column ''scopes'' TextArray),
     not_null (sa_column ''mode'' (VarChar 8)),
     not_null (sa_column ''is_active'' BooleanT),
     sa_column ''last_used_at'' TimestampTZ,
     sa_column ''expires_at'' TimestampTZ,
     stamp_column ''created_at'',
     sa_column ''revoked_at'' TimestampTZ,
     sa_column ''issuer_key_id'' UuidT]
    []
    [(''ix_api_keys_prefix'', [''prefix''], False),
     (''ix_api_keys_application_id'', [''application_id''], False),
     (''ix_api_keys_is_active_expires_at'', [''is_active'', ''expires_at''], False)] None"

definition proxy_pool_model :: "string \<times> sql_table" where
  "proxy_pool_model = model_table ''proxy_pools''
    [id_column,
     not_null (unique_col (sa_column ''name'' (VarChar 255))),
     not_null (sa_column ''provider'' (VarChar 64)),
     not_null (sa_column ''is_active'' BooleanT),
     stamp_column ''created_at'']
    []
    [] None"

definition proxy_model :: "string \<times> sql_table" where
  "proxy_model = model_table ''proxies''
    [id_column,
     not_null (references ''proxy_pools'' Cascade (sa_column ''pool_id'' UuidT)),
     server_default (Const (StrV ''webshare'')) (not_null (sa_column ''provider'' (VarChar 64))),
     not_null (sa_column ''url'' (VarChar 1024)),
     sa_column ''country'' (VarChar 2),
     sa_column ''city'' (VarChar 128),
     server_default (Const (StrV ''datacenter'')) (not_null (sa_column ''proxy_type'' (EnumT ''proxy_type_enum''))),
     not_null (sa_column ''health_score'' FloatT),
     not_null (sa_column ''consecutive_failures'' BigIntT),
     sa_column ''cooldown_until'' TimestampTZ,
     not_null (sa_column ''total_requests'' BigIntT),
     not_null (sa_column ''total_errors'' BigIntT),
     server_default (Const (BoolV True)) (not_null (sa_column ''is_active'' BooleanT)),
     stamp_column ''created_at'',
     stamp_column ''updated_at'']
    [(''uq_proxy_provider_url'', [''provider'', ''url''])]
    [(''ix_proxy_pool_health'', [''pool_id'', ''health_score''], False),
     (''ix_proxy_cooldown'', [''cooldown_until''], False),
     (''ix_proxy_country'', [''country''], False)] None"

definition domain_policy_model :: "string \<times> sql_table" where
  "domain_policy_model = model_table ''domain_policies''
    [id_column,
     not_null (sa_column ''domain'' (VarChar 255)),
     references ''proxy_pools'' SetNull (sa_column ''proxy_pool_id'' UuidT),
     not_null (sa_column ''engine'' (VarChar 16)),
     not_null (sa_column ''rate_limit_rps'' FloatT),
     not_null (sa_column ''min_delay_ms'' IntegerT),
     not_null (sa_column ''max_delay_ms'' IntegerT),
     not_null (sa_column ''max_retries'' IntegerT),
     not_null (sa_column ''respect_robots'' BooleanT),
     sa_column ''header_profile'' JsonbT,
     not_null (sa_column ''sticky_session'' BooleanT),
     not_null (sa_column ''use_proxy'' BooleanT),
     sa_column ''proxy_country'' (VarChar 2),
     not_null (sa_column ''is_active'' BooleanT),
     sa_column ''antibot_type'' (VarChar 32),
     sa_column ''proxy_type'' (VarChar 16),
     not_null (sa_column ''escalation_tier'' IntegerT),
     not_null (sa_column ''tier_locked'' BooleanT),
     sa_column ''last_success_at'' TimestampTZ,
     sa_column ''last_block_reason'' (VarChar 32),
     not_null (sa_column ''consecutive_blocks'' IntegerT),
     not_null (sa_column ''max_escalation_attempts'' IntegerT),
     stamp_column ''created_at'',
     stamp_column ''updated_at'']
    []
    [(''ix_domain_policies_domain'', [''domain''], True),
     (''ix_domain_policies_is_active'', [''is_active''], False)] None"

definition request_log_model :: "string \<times> sql_table" where
  "request_log_model = model_table ''request_log''
    [primary_key (sa_column ''id'' UuidT),
     references ''api_keys'' SetNull (sa_column ''api_key_id'' UuidT),
     references ''applications'' SetNull (sa_column ''application_id'' UuidT),
     not_null (sa_column ''domain'' (VarChar 255)),
     not_null (sa_column ''url'' TextT),
     not_null (sa_column ''method'' (VarChar 8)),
     sa_column ''status_code'' IntegerT,
     references ''proxies'' SetNull (sa_column ''proxy_id'' UuidT),
     not_null (sa_column ''engine'' (VarChar 16)),
     sa_column ''duration_ms'' IntegerT,
     sa_column ''bytes_received'' BigIntT,
     not_null (sa_column ''blocked'' BooleanT),
     sa_column ''error'' TextT,
     sa_column ''trace_id'' (VarChar 64),
     primary_key (sa_column ''requested_at'' TimestampTZ)]
    []
    [(''ix_reqlog_app_time'', [''application_id'', ''requested_at''], False),
     (''ix_reqlog_domain_time'', [''domain'', ''requested_at''], False),
     (''ix_reqlog_apikey_time'', [''api_key_id'', ''requested_at''], False)] (Some ''requested_at'')"

definition usage_counter_model :: "string \<times> sql_table" where
  "usage_counter_model = model_table ''usage_counters''
    [id_column,
     not_null (references ''applications'' Cascade (sa_column ''application_id'' UuidT)),
     not_null (sa_column ''period_month'' DateT),
     not_null (sa_column ''request_count'' BigIntT),
     not_null (sa_column ''bytes_received'' BigIntT),
     not_null (sa_column ''cost_eur_cents'' IntegerT),
     stamp_column ''updated_at'']
    [(''uq_usage_app_period'', [''application_id'', ''period_month''])]
    [(''ix_usage_app_period'', [''application_id'', ''period_month''], False)] None"

definition warc_index_model :: "string \<times> sql_table" where
  "warc_index_model = model_table ''warc_index''
    [id_column,
     sa_column ''request_log_id'' UuidT,
     not_null (sa_column ''url'' TextT),
     not_null (sa_column ''warc_filename'' (VarChar 512)),
     not_null (sa_column ''offset'' BigIntT),
     not_null (sa_column ''length'' BigIntT),
     not_null (sa_column ''sha256'' (VarChar 64)),
     not_null (sa_column ''is_revisit'' BooleanT),
     sa_column ''content_type'' (VarChar 255),
     sa_column ''status_code'' IntegerT,
     not_null (sa_column ''captured_at'' TimestampTZ)]
    []
    [(''ix_warc_sha256'', [''sha256''], False),
     (''ix_warc_url_time'', [''url'', ''captured_at''], False),
     (''ix_warc_filename_offset'', [''warc_filename'', ''offset''], False),
     (''ix_warc_captured_at'', [''captured_at''], False)] None"

definition proxy_event_model :: "string \<times> sql_table" where
  "proxy_event_model = model_table ''proxy_events''
    [id_column,
     not_null (unique_col (server_default Identity (sa_column ''seq'' BigIntT))),
     not_null (references ''proxies'' Cascade (sa_column ''proxy_id'' UuidT)),
     not_null (sa_column ''event_type'' (VarChar 32)),
     sa_column ''detail'' JsonbT,
     stamp_column ''created_at'']
    []
    [] None"

definition crawl_result_model :: "string \<times> sql_table" where
  "crawl_result_model = model_table ''crawl_results''
    [primary_key (sa_column ''id'' (VarChar 36)),
     not_null (sa_column ''job_id'' (VarChar 36)),
     sa_column ''project_id'' (VarChar 32),
     sa_column ''batch_id'' (VarChar 36),
     not_null (sa_column ''url'' TextT),
     sa_column ''status_code'' IntegerT,
     sa_column ''content_type'' (VarChar 255),
     sa_column ''response_time_ms'' IntegerT,
     sa_column ''body'' TextT,
     sa_column ''body_encoding'' (VarChar 32),
     sa_column ''markdown'' TextT,
     sa_column ''extracted'' JsonT,
     sa_column ''headers_trunc'' JsonT,
     sa_column ''error_type'' (VarChar 128),
     sa_column ''error_message'' TextT,
     not_null (sa_column ''crawled_at'' TimestampTZ)]
    []
    [(''ix_crawl_results_job_id'', [''job_id''], False),
     (''ix_crawl_results_project_id'', [''project_id''], False),
     (''ix_crawl_results_batch_id'', [''batch_id''], False)] None"

definition project_model :: "string \<times> sql_table" where
  "project_model = model_table ''projects''
    [primary_key (sa_column ''id'' VarCharAny),
     not_null (sa_column ''name'' (VarChar 255)),
     not_null (sa_column ''api_key'' (VarChar 64)),
     not_null (sa_column ''is_active'' BooleanT),
     not_null (sa_column ''created_at'' TimestampTZ)]
    []
    [(''ix_projects_api_key'', [''api_key''], True)] None"

definition model_tables :: "(string \<times> sql_table) list" where
  "model_tables = [tenant_model, application_model, api_key_model, proxy_pool_model, proxy_model, domain_policy_model,
     request_log_model, usage_counter_model, warc_index_model, proxy_event_model, crawl_result_model, project_model]"

text \<open>
  What a database must have to serve a model class: the same columns with type, nullability and foreign
  key, the same unique sets of columns, the indexes and the same partition key. Defaults
  that only the client fills are not compared.
\<close>

definition column_sig :: "column \<Rightarrow> string \<times> sql_type \<times> bool \<times> (string \<times> string \<times> on_delete) option" where
  "column_sig c = (col_name c, col_type c, col_nullable c, col_fk c)"

definition unique_sets :: "sql_table \<Rightarrow> string list set" where
  "unique_sets t = set (map snd (st_uniques t)) \<union> set (map (fst \<circ> snd) (filter (snd \<circ> snd) (st_indexes t)))"

definition index_sig :: "sql_table \<Rightarrow> (string \<times> string list) set" where
  "index_sig t = set (map (\<lambda>(i, ns, _). (i, ns)) (st_indexes t))"

definition serves :: "sql_db \<Rightarrow> string \<times> sql_table \<Rightarrow> bool" where
  "serves db m =
     (case table_of db (fst m) of
        None \<Rightarrow> False
      | Some t \<Rightarrow> set (map column_sig (st_columns t)) = set (map column_sig (st_columns (snd m)))
          \<and> unique_sets t = unique_sets (snd m) \<and> index_sig (snd m) \<subseteq> index_sig t
          \<and> map_option fst (st_partitions t) = map_option fst (st_partitions (snd m)))"

end
