(* ===== verification/Migrations_Props.thy ===== *)
theory Migrations_Props
  imports Migrations
begin

text \<open>
  What the migrations amount to: the schema after the last one against the model classes, the way back,
  and what they do to the rows of a populated database.
\<close>

section \<open>The schema after the last revision\<close>

definition head_table ::
  "column list \<Rightarrow> (string \<times> string list) list \<Rightarrow> (string \<times> string list) list
   \<Rightarrow> (string \<times> (string \<times> datetime \<times> datetime) list) option \<Rightarrow> sql_table" where
  "head_table cols us ix part =
     \<lparr>st_columns = cols, st_uniques = us, st_indexes = map (\<lambda>(i, ns). (i, ns, False)) ix, st_partitions = part, st_rows = []\<rparr>"

definition head_tenants :: sql_table where
  "head_tenants = head_table
    [id_column,
     not_null (unique_col (sa_column ''name'' (VarChar 255))),
     server_default (Const (BoolV True)) (not_null (sa_column ''is_active'' BooleanT)),
     stamp_column ''created_at'',
     stamp_column ''updated_at'']
    [(''tenants_pkey'', [''id'']), (''tenants_name_key'', [''name''])]
    [(''ix_tenants_is_active'', [''is_active''])]
    None"

definition head_applications :: sql_table where
  "head_applications = head_table
    [id_column,
     not_null (references ''tenants'' Cascade (sa_column ''tenant_id'' UuidT)),
     not_null (sa_column ''name'' (VarChar 255)),
     server_default (Const (BoolV True)) (not_null (sa_column ''is_active'' BooleanT)),
     stamp_column ''created_at'',
     sa_column ''owner_label'' (VarChar 255)]
    [(''applications_pkey'', [''id'']), (''uq_application_tenant_name'', [''tenant_id'', ''name''])]
    [(''ix_applications_tenant_id'', [''tenant_id'']),
     (''ix_applications_is_active'', [''is_active''])]
    None"

definition head_api_keys :: sql_table where
  "head_api_keys = head_table
    [id_column,
     not_null (references ''applications'' Cascade (sa_column ''application_id'' UuidT)),
     not_null (unique_col (sa_column ''prefix'' (VarChar 8))),
     not_null (sa_column ''hashed_key'' TextT),
     server_default (Const (ListV [])) (not_null (sa_column ''scopes'' TextArray)),
     not_null (sa_column ''mode'' (VarChar 8)),
     server_default (Const (BoolV True)) (not_null (sa_column ''is_active'' BooleanT)),
     sa_column ''last_used_at'' TimestampTZ,
     sa_column ''expires_at'' TimestampTZ,
     stamp_column ''created_at'',
     sa_column ''revoked_at'' TimestampTZ,
     sa_column ''issuer_key_id'' UuidT]
    [(''api_keys_pkey'', [''id'']), (''api_keys_prefix_key'', [''prefix''])]
    [(''ix_api_keys_prefix'', [''prefix'']),
     (''ix_api_keys_application_id'', [''application_id'']),
     (''ix_api_keys_is_active_expires_at'', [''is_active'', ''expires_at''])]
    None"

definition head_proxy_pools :: sql_table where
  "head_proxy_pools = head_table
    [id_column,
     not_null (unique_col (sa_column ''name'' (VarChar 255))),
     not_null (sa_column ''provider'' (VarChar 64)),
     server_default (Const (BoolV True)) (not_null (sa_column ''is_active'' BooleanT)),
     stamp_column ''created_at'']
    [(''proxy_pools_pkey'', [''id'']), (''proxy_pools_name_key'', [''name''])]
    []
    None"

definition head_proxies :: sql_table where
  "head_proxies = head_table
    [id_column,
     not_null (references ''proxy_pools'' Cascade (sa_column ''pool_id'' UuidT)),
     not_null (sa_column ''url'' (VarChar 1024)),
     sa_column ''country'' (VarChar 2),
     server_default (Const (RealV 1)) (not_null (sa_column ''health_score'' FloatT)),
     server_default (Const (IntV 0)) (not_null (sa_column ''consecutive_failures'' BigIntT)),
     sa_column ''cooldown_until'' TimestampTZ,
     server_default (Const (IntV 0)) (not_null (sa_column ''total_requests'' BigIntT)),
     server_default (Const (IntV 0)) (not_null (sa_column ''total_errors'' BigIntT)),
     stamp_column ''created_at'',
     stamp_column ''updated_at'',
     server_default (Const (StrV ''datacenter'')) (not_null (sa_column ''proxy_type'' (EnumT ''proxy_type_enum''))),
     server_default (Const (StrV ''webshare'')) (not_null (sa_column ''provider'' (VarChar 64))),
     server_default (Const (BoolV True)) (not_null (sa_column ''is_active'' BooleanT)),
     sa_column ''city'' (VarChar 128)]
    [(''proxies_pkey'', [''id'']), (''uq_proxy_provider_url'', [''provider'', ''url''])]
    [(''ix_proxy_pool_health'', [''pool_id'', ''health_score'']),
     (''ix_proxy_cooldown'', [''cooldown_until'']),
     (''ix_proxy_country'', [''country''])]
    None"

definition head_domain_policies :: sql_table where
  "head_domain_policies = head_table
    [id_column,
     not_null (unique_col (sa_column ''domain'' (VarChar 255))),
     references ''proxy_pools'' SetNull (sa_column ''proxy_pool_id'' UuidT),
     server_default (Const (StrV ''httpx'')) (not_null (sa_column ''engine'' (VarChar 16))),
     server_default (Const (RealV 1)) (not_null (sa_column ''rate_limit_rps'' FloatT)),
     server_default (Const (IntV 500)) (not_null (sa_column ''min_delay_ms'' IntegerT)),
     server_default (Const (IntV 2000)) (not_null (sa_column ''max_delay_ms'' IntegerT)),
     server_default (Const (IntV 3)) (not_null (sa_column ''max_retries'' IntegerT)),
     server_default (Const (BoolV True)) (not_null (sa_column ''respect_robots'' BooleanT)),
     sa_column ''header_profile'' JsonbT,
     server_default (Const (BoolV False)) (not_null (sa_column ''sticky_session'' BooleanT)),
     server_default (Const (BoolV True)) (not_null (sa_column ''is_active'' BooleanT)),
     stamp_column ''created_at'',
     stamp_column ''updated_at'',
     server_default (Const (BoolV False)) (not_null (sa_column ''use_proxy'' BooleanT)),
     sa_column ''proxy_country'' (VarChar 2),
     sa_column ''antibot_type'' (VarChar 32),
     sa_column ''proxy_type'' (VarChar 16),
     server_default (Const (IntV 0)) (not_null (sa_column ''escalation_tier'' IntegerT)),
     server_default (Const (BoolV False)) (not_null (sa_column ''tier_locked'' BooleanT)),
     sa_column ''last_success_at'' TimestampTZ,
     sa_column ''last_block_reason'' (VarChar 32),
     server_default (Const (IntV 0)) (not_null (sa_column ''consecutive_blocks'' IntegerT)),
     server_default (Const (IntV 12)) (not_null (sa_column ''max_escalation_attempts'' IntegerT))]
    [(''domain_policies_pkey'', [''id'']), (''domain_policies_domain_key'', [''domain''])]
    [(''ix_domain_policies_domain'', [''domain'']),
     (''ix_domain_policies_is_active'', [''is_active''])]
    None"

definition head_request_log :: sql_table where
  "head_request_log = head_table
    [primary_key (sa_column ''id'' UuidT),
     references ''api_keys'' SetNull (sa_column ''api_key_id'' UuidT),
     references ''applications'' SetNull (sa_column ''application_id'' UuidT),
     not_null (sa_column ''domain'' (VarChar 255)),
     not_null (sa_column ''url'' TextT),
     server_default (Const (StrV ''GET'')) (not_null (sa_column ''method'' (VarChar 8))),
     sa_column ''status_code'' IntegerT,
     references ''proxies'' SetNull (sa_column ''proxy_id'' UuidT),
     not_null (sa_column ''engine'' (VarChar 16)),
     sa_column ''duration_ms'' IntegerT,
     sa_column ''bytes_received'' BigIntT,
     server_default (Const (BoolV False)) (not_null (sa_column ''blocked'' BooleanT)),
     sa_column ''error'' TextT,
     sa_column ''trace_id'' (VarChar 64),
     primary_key (sa_column ''requested_at'' TimestampTZ)]
    [(''request_log_pkey'', [''id'', ''requested_at''])]
    [(''ix_reqlog_app_time'', [''application_id'', ''requested_at'']),
     (''ix_reqlog_domain_time'', [''domain'', ''requested_at'']),
     (''ix_reqlog_apikey_time'', [''api_key_id'', ''requested_at''])]
    (Some (''requested_at'', [(''request_log_y2026'', new_year 2026, new_year 2027), (''request_log_y2027'', new_year 2027, new_year 2028)]))"

definition head_usage_counters :: sql_table where
  "head_usage_counters = head_table
    [id_column,
     not_null (references ''applications'' Cascade (sa_column ''application_id'' UuidT)),
     not_null (sa_column ''period_month'' DateT),
     server_default (Const (IntV 0)) (not_null (sa_column ''request_count'' BigIntT)),
     server_default (Const (IntV 0)) (not_null (sa_column ''bytes_received'' BigIntT)),
     server_default (Const (IntV 0)) (not_null (sa_column ''cost_eur_cents'' IntegerT)),
     stamp_column ''updated_at'']
    [(''usage_counters_pkey'', [''id'']), (''uq_usage_app_period'', [''application_id'', ''period_month''])]
    [(''ix_usage_app_period'', [''application_id'', ''period_month''])]
    None"

definition head_warc_index :: sql_table where
  "head_warc_index = head_table
    [id_column,
     sa_column ''request_log_id'' UuidT,
     not_null (sa_column ''url'' TextT),
     not_null (sa_column ''warc_filename'' (VarChar 512)),
     not_null (sa_column ''offset'' BigIntT),
     not_null (sa_column ''length'' BigIntT),
     not_null (sa_column ''sha256'' (VarChar 64)),
     server_default (Const (BoolV False)) (not_null (sa_column ''is_revisit'' BooleanT)),
     sa_column ''content_type'' (VarChar 255),
     sa_column ''status_code'' IntegerT,
     not_null (sa_column ''captured_at'' TimestampTZ)]
    [(''warc_index_pkey'', [''id''])]
    [(''ix_warc_sha256'', [''sha256'']),
     (''ix_warc_url_time'', [''url'', ''captured_at'']),
     (''ix_warc_filename_offset'', [''warc_filename'', ''offset'']),
     (''ix_warc_captured_at'', [''captured_at''])]
    None"

definition head_proxy_events :: sql_table where
  "head_proxy_events = head_table
    [id_column,
     not_null (references ''proxies'' Cascade (sa_column ''proxy_id'' UuidT)),
     not_null (sa_column ''event_type'' (VarChar 32)),
     sa_column ''detail'' JsonbT,
     stamp_column ''created_at'',
     not_null (server_default Identity (sa_column ''seq'' BigIntT))]
    [(''proxy_events_pkey'', [''id'']), (''uq_proxy_events_seq'', [''seq''])]
    [(''ix_proxy_events_proxy_time'', [''proxy_id'', ''created_at''])]
    None"

definition head_db :: sql_db where
  "head_db =
     \<lparr>db_tables = [(''tenants'', head_tenants),
        (''applications'', head_applications),
        (''api_keys'', head_api_keys),
        (''proxy_pools'', head_proxy_pools),
        (''proxies'', head_proxies),
        (''domain_policies'', head_domain_policies),
        (''request_log'', head_request_log),
        (''usage_counters'', head_usage_counters),
        (''warc_index'', head_warc_index),
        (''proxy_events'', head_proxy_events)],
      db_enums = [(''proxy_type_enum'', [''residential'', ''datacenter'', ''mobile'', ''isp''])]\<rparr>"

text \<open>
  A walk up the path: for every revision its identifier, the database before it, and what its downgrade
  makes of the database after it.
\<close>

fun up_and_back :: "revision list \<Rightarrow> sql_db \<Rightarrow> (string \<times> sql_db \<times> (string + sql_db)) list" where
  "up_and_back [] db = []"
| "up_and_back (r # rs) db =
     (case run_ops (rv_upgrade r) db of
        Inl _ \<Rightarrow> []
      | Inr db' \<Rightarrow> (rv_id r, db, run_ops (rv_downgrade r) db') # up_and_back rs db')"

text \<open>Whether a downgrade restores the tables, and whether it restores the enumerated types.\<close>

definition restores :: "string \<times> sql_db \<times> (string + sql_db) \<Rightarrow> string \<times> (bool \<times> bool) option" where
  "restores = (\<lambda>(i, db, back).
     (i, case back of Inl _ \<Rightarrow> None | Inr db' \<Rightarrow> Some (db_tables db' = db_tables db, db_enums db' = db_enums db)))"

lemma upgrade_path_ids: "map rv_id (upgrade_path None) =
   [''0001'', ''f95d1ecc169c'', ''a7c55bf575f3'', ''0002'', ''0003'', ''0004'', ''0005'', ''0006'', ''d96e3566e6ba'', ''0007'']"
  by code_simp

lemma upgrade_to_head: "alembic_upgrade (None, empty_db) = (Inr (), Some ''0007'', head_db)"
  by code_simp

lemma unserved_models: "map fst (filter (\<lambda>m. \<not> serves head_db m) model_tables) = [''crawl_results'', ''projects'']"
  by code_simp

lemma steps_back:
  "map restores (up_and_back (upgrade_path None) empty_db) =
     [(''0001'', Some (True, True)), (''f95d1ecc169c'', Some (True, True)), (''a7c55bf575f3'', Some (True, True)),
      (''0002'', Some (True, True)), (''0003'', Some (True, True)), (''0004'', Some (True, True)), (''0005'', Some (True, False)),
      (''0006'', Some (True, True)), (''d96e3566e6ba'', Some (True, True)), (''0007'', Some (True, True))]"
  by code_simp

text \<open>Migration 0006 on a populated table.\<close>

lemma fresh_name_set_table:
  assumes "table_of db n = Some t" "distinct (map fst (db_tables db))" "table_names (n, t') = table_names (n, t)"
  shows "fresh_name i (set_table n t' db) = fresh_name i db"
proof -
  have "table_names (if fst p = n then (n, t') else p) = table_names p" if "p \<in> set (db_tables db)" for p
    using assms that by (cases p) (auto simp: table_of_def dest: map_of_SomeD eq_key_imp_eq_value)
  then show ?thesis by (simp add: fresh_name_def set_table_def list.pred_map comp_def cong: list.pred_cong)
qed

lemma sql_get_last: "n \<notin> set (map fst r) \<Longrightarrow> sql_get (r @ [(n, v)]) n = v"
  by (induction r) (auto simp: sql_get_def)

lemma constant_fill_distinct:
  assumes "col_default c = Some (Const v)" "v \<noteq> NullV" "m \<noteq> col_name c"
    and "\<And>r. r \<in> set rows \<Longrightarrow> col_name c \<notin> set (map fst r)"
  shows "unique_rows (filled c rows) [col_name c, m] = unique_rows rows [m]"
proof -
  have filled: "filled c rows = map (\<lambda>r. r @ [(col_name c, v)]) rows"
    using assms(1) by (auto simp: filled_def fill_value_def nth_enumerate_eq intro!: nth_equalityI)
  have new: "sql_get (r @ [(col_name c, v)]) (col_name c) = v" "sql_get (r @ [(col_name c, v)]) m = sql_get r m"
    if "r \<in> set rows" for r
    using sql_get_last [OF assms(4) [OF that]] sql_get_append assms(3) by simp_all
  have "filter (complete [col_name c, m]) (filled c rows) = map (\<lambda>r. r @ [(col_name c, v)]) (filter (complete [m]) rows)"
  proof -
    have "filter (complete [col_name c, m] \<circ> (\<lambda>r. r @ [(col_name c, v)])) rows = filter (complete [m]) rows"
      by (rule filter_cong) (use assms(2) new in \<open>simp_all add: complete_def\<close>)
    then show ?thesis by (simp add: filled filter_map)
  qed
  then have "map (\<lambda>r. map (sql_get r) [col_name c, m]) (filter (complete [col_name c, m]) (filled c rows))
      = map (\<lambda>r. v # map (sql_get r) [m]) (filter (complete [m]) rows)"
    using new by simp
  then show ?thesis by (simp add: unique_rows_def distinct_map inj_on_def del: list.map)
qed

definition provider_column :: column where
  "provider_column = server_default (Const (StrV ''webshare'')) (not_null (sa_column ''provider'' (VarChar 64)))"

definition active_column :: column where
  "active_column = server_default (Const (BoolV True)) (not_null (sa_column ''is_active'' BooleanT))"

lemmas column_defs = server_default_def not_null_def sa_column_def primary_key_def unique_col_def references_def

lemma downgrade_to_base: "alembic_downgrade None (Some ''0007'', head_db) = (Inr (), None, empty_db)"
  by code_simp

text \<open>The revisions that only add columns to one table are undone without a trace on any data.\<close>

lemma column_migrations_undone:
  assumes "db_ok db" "r \<in> {revision_0003, revision_0007}" "run_ops (rv_upgrade r @ rv_downgrade r) db = Inr db'"
  shows "db' = db"
proof -
  have "rv_upgrade revision_0003 @ rv_downgrade revision_0003 =
      map (AddColumn ''domain_policies'') [server_default (Const (BoolV False)) (not_null (sa_column ''use_proxy'' BooleanT)),
        sa_column ''proxy_country'' (VarChar 2)]
      @ map (DropColumn ''domain_policies'' \<circ> col_name) (rev [server_default (Const (BoolV False)) (not_null (sa_column ''use_proxy'' BooleanT)),
        sa_column ''proxy_country'' (VarChar 2)])"
    by (simp add: revision_0003_def upgrade_0003_def downgrade_0003_def column_defs)
  moreover have "rv_upgrade revision_0007 @ rv_downgrade revision_0007 =
      map (AddColumn ''proxies'') [sa_column ''city'' (VarChar 128)]
      @ map (DropColumn ''proxies'' \<circ> col_name) (rev [sa_column ''city'' (VarChar 128)])"
    by (simp add: revision_0007_def upgrade_0007_def downgrade_0007_def column_defs)
  ultimately show ?thesis using assms drop_added_columns by (metis insertE singletonD)
qed

lemma do_run_migrations_ok:
  assumes "db_ok (snd s)" "do_run_migrations plan ops s = (res, s')"
  shows "db_ok (snd s') \<and> (\<forall>e. res = Inl e \<longrightarrow> s' = s)"
  using assms by (auto simp: do_run_migrations_def Let_def split: prod.splits sum.splits intro: run_ops_ok)

section \<open>Properties\<close>

text \<open>
  C20. The migrations build what the code expects. The ten revisions form one chain; from an empty
  database they run without an error to the last one, and the database that results serves every model
  class with the columns, nullability, foreign keys, unique sets and indexes that the class declares,
  except the two legacy classes: no migration creates \<^verbatim>\<open>crawl_results\<close> or \<^verbatim>\<open>projects\<close>. It has no further
  table, and the labels of the enumerated type are those of \<^verbatim>\<open>ProxyType\<close>.
\<close>

theorem migrations_match_models:
  "map rv_id (upgrade_path None) =
     [''0001'', ''f95d1ecc169c'', ''a7c55bf575f3'', ''0002'', ''0003'', ''0004'', ''0005'', ''0006'', ''d96e3566e6ba'', ''0007'']
   \<and> alembic_upgrade (None, empty_db) = (Inr (), Some ''0007'', head_db)
   \<and> map fst (filter (\<lambda>m. \<not> serves head_db m) model_tables) = [''crawl_results'', ''projects'']
   \<and> set (map fst (db_tables head_db)) \<union> {''crawl_results'', ''projects''} = set (map fst model_tables)
   \<and> db_enums head_db = [(''proxy_type_enum'', [''residential'', ''datacenter'', ''mobile'', ''isp''])]"
proof -
  have "set (map fst (db_tables head_db)) \<union> {''crawl_results'', ''projects''} = set (map fst model_tables)" by code_simp
  then show ?thesis
    unfolding upgrade_path_ids upgrade_to_head unserved_models by (simp add: head_db_def)
qed



text \<open>A database with one table of proxies, known by their URLs.\<close>

definition proxy_urls :: "string list \<Rightarrow> sql_db" where
  "proxy_urls us = \<lparr>db_tables = [(''proxies'', \<lparr>st_columns = [not_null (sa_column ''url'' (VarChar 1024))], st_uniques = [],
     st_indexes = [], st_partitions = None, st_rows = map (\<lambda>u. [(''url'', StrV u)]) us\<rparr>)], db_enums = []\<rparr>"


text \<open>
  Migration 0006 makes the provider and the URL of a proxy unique without looking at the rows: on a
  database whose rows fit their tables and whose proxies have neither of its new columns, its steps
  on the table of proxies succeed if and only if no two rows have the same URL. Nothing before it kept
  two pools from holding the same proxy.
\<close>

lemma provider_migration:
  assumes ok: "db_ok db" and t: "table_of db ''proxies'' = Some t"
    and cols: "''provider'' \<notin> set (map col_name (st_columns t))" "''is_active'' \<notin> set (map col_name (st_columns t))"
      "''url'' \<in> set (map col_name (st_columns t))"
    and fresh: "fresh_name ''uq_proxy_provider_url'' db"
  shows "(\<exists>db'. run_ops (take 3 upgrade_0006) db = Inr db') \<longleftrightarrow> unique_rows (st_rows t) [''url'']"
proof -
  let ?t1 = "t\<lparr>st_columns := st_columns t @ [provider_column], st_rows := filled provider_column (st_rows t)\<rparr>"
  let ?t2 = "?t1\<lparr>st_columns := st_columns ?t1 @ [active_column], st_rows := filled active_column (st_rows ?t1)\<rparr>"
  note tok = db_ok_table [OF ok t]
  have names: "map fst r = map col_name (st_columns t)" if "r \<in> set (st_rows t)" for r
    using table_okD(2) [OF tok that] row_okD(1) by blast
  have take: "take 3 upgrade_0006 = [AddColumn ''proxies'' provider_column, AddColumn ''proxies'' active_column,
      CreateUnique ''uq_proxy_provider_url'' ''proxies'' [''provider'', ''url'']]"
    by (simp add: upgrade_0006_def provider_column_def active_column_def)
  have add1: "exec_op (AddColumn ''proxies'' provider_column) db = Inr (set_table ''proxies'' ?t1 db)"
    using t cols(1) by (simp add: on_table_def known_type_def provider_column_def column_defs value_ok_def fill_value_def list_all_iff)
  have t1: "table_of (set_table ''proxies'' ?t1 db) ''proxies'' = Some ?t1" using t by (simp add: map_of_set_table)
  have add2: "exec_op (AddColumn ''proxies'' active_column) (set_table ''proxies'' ?t1 db)
      = Inr (set_table ''proxies'' ?t2 (set_table ''proxies'' ?t1 db))"
    using t1 cols(2)
    by (simp add: on_table_def known_type_def active_column_def provider_column_def column_defs value_ok_def fill_value_def list_all_iff)
  let ?db2 = "set_table ''proxies'' ?t2 (set_table ''proxies'' ?t1 db)"
  have t2: "table_of ?db2 ''proxies'' = Some ?t2" using t1 t by (simp add: map_of_set_table)
  have "distinct (map fst (db_tables db))" using ok by (simp add: db_ok_def)
  moreover have "distinct (map fst (db_tables (set_table ''proxies'' ?t1 db)))"
    using exec_op_ok [OF add1 ok] by (simp add: db_ok_def)
  ultimately have fresh2: "fresh_name ''uq_proxy_provider_url'' ?db2"
    using fresh_name_set_table [OF t] fresh_name_set_table [OF t1] fresh by (simp add: table_names_def)
  have "unique_rows (st_rows ?t2) [''provider'', ''url''] = unique_rows (filled provider_column (st_rows t)) [''provider'', ''url'']"
    by (simp add: unique_rows_filled active_column_def column_defs)
  also have "\<dots> = unique_rows (st_rows t) [''url'']"
    using constant_fill_distinct [of provider_column "StrV ''webshare''" "''url''" "st_rows t"] names cols(1)
    by (simp add: provider_column_def column_defs)
  finally have u: "unique_rows (st_rows ?t2) [''provider'', ''url''] = unique_rows (st_rows t) [''url'']" .
  have "has_columns ?t2 [''provider'', ''url'']" using cols(3) by (simp add: has_columns_def provider_column_def column_defs)
  then have "(\<exists>db'. exec_op (CreateUnique ''uq_proxy_provider_url'' ''proxies'' [''provider'', ''url'']) ?db2 = Inr db')
      \<longleftrightarrow> unique_rows (st_rows t) [''url'']"
    using fresh2 t2 u by (auto simp: on_table_def)
  then show ?thesis by (simp add: take add1 add2 bindE_Inr_iff del: exec_op.simps)
qed

lemma provider_migration_witness:
  "(\<forall>db. run_ops (take 3 upgrade_0006) (proxy_urls [''http://a'', ''http://a'']) \<noteq> Inr db)
   \<and> (\<exists>db. run_ops (take 3 upgrade_0006) (proxy_urls [''http://a'', ''http://b'']) = Inr db)"
proof -
  have iff: "(\<exists>db. run_ops (take 3 upgrade_0006) (proxy_urls us) = Inr db) \<longleftrightarrow> distinct us"
    if "us \<in> {[''http://a'', ''http://a''], [''http://a'', ''http://b'']}" for us
  proof -
    obtain t where t: "table_of (proxy_urls us) ''proxies'' = Some t" "st_rows t = map (\<lambda>u. [(''url'', StrV u)]) us"
        "st_columns t = [not_null (sa_column ''url'' (VarChar 1024))]"
      by (simp add: table_of_def proxy_urls_def)
    have "db_ok (proxy_urls [''http://a'', ''http://a''])" "db_ok (proxy_urls [''http://a'', ''http://b''])" by code_simp+
    then have ok: "db_ok (proxy_urls us)" using that by auto
    have "fresh_name ''uq_proxy_provider_url'' (proxy_urls us)" by (simp add: fresh_name_def table_names_def proxy_urls_def)
    from provider_migration [OF ok t(1) _ _ _ this] t(2,3)
    show ?thesis by (simp add: column_defs unique_rows_def complete_def sql_get_def distinct_map inj_on_def comp_def)
  qed
  show ?thesis using iff [of "[''http://a'', ''http://a'']"] iff [of "[''http://a'', ''http://b'']"] by simp
qed

end
