(* ===== verification/Row_Types.thy ===== *)
theory Row_Types
  imports Migrations_Props Policy_Learner Auth Proxy_Sync Fetch_Task
begin

text \<open>
  The rows that the operations write, as values of the columns that the migrations create: policies,
  keys, proxy events and usage counters. A row that does not fit would be an error of the database. Times
  that the database fills in are arguments of the rows.
\<close>

section \<open>Rows\<close>

definition opt :: "('a \<Rightarrow> sql_value) \<Rightarrow> 'a option \<Rightarrow> sql_value" where
  "opt f v = (case v of None \<Rightarrow> NullV | Some x \<Rightarrow> f x)"

definition policy_row :: "datetime \<Rightarrow> datetime \<Rightarrow> DomainPolicy \<Rightarrow> row" where
  "policy_row created updated r =
     [(''id'', UuidV (dp_id r)), (''domain'', StrV (dp_domain r)), (''proxy_pool_id'', opt UuidV (dp_proxy_pool_id r)),
      (''engine'', StrV (dp_engine r)), (''rate_limit_rps'', RealV (dp_rate_limit_rps r)),
      (''min_delay_ms'', IntV (dp_min_delay_ms r)), (''max_delay_ms'', IntV (dp_max_delay_ms r)),
      (''max_retries'', IntV (dp_max_retries r)), (''respect_robots'', BoolV (dp_respect_robots r)),
      (''header_profile'', opt (\<lambda>h. JsonV (JObj (map (\<lambda>(k, v). (k, JStr v)) h))) (dp_header_profile r)),
      (''sticky_session'', BoolV (dp_sticky_session r)), (''is_active'', BoolV (dp_is_active r)),
      (''created_at'', TimeV created), (''updated_at'', TimeV updated),
      (''use_proxy'', BoolV (dp_use_proxy r)), (''proxy_country'', opt StrV (dp_proxy_country r)),
      (''antibot_type'', opt StrV (dp_antibot_type r)), (''proxy_type'', opt StrV (dp_proxy_type r)),
      (''escalation_tier'', IntV (dp_escalation_tier r)), (''tier_locked'', BoolV (dp_tier_locked r)),
      (''last_success_at'', opt TimeV (dp_last_success_at r)), (''last_block_reason'', opt StrV (dp_last_block_reason r)),
      (''consecutive_blocks'', IntV (dp_consecutive_blocks r)),
      (''max_escalation_attempts'', IntV (dp_max_escalation_attempts r))]"

definition key_row :: "ApiKey \<Rightarrow> row" where
  "key_row r =
     [(''id'', UuidV (k_id r)), (''application_id'', UuidV (k_application_id r)), (''prefix'', StrV (k_prefix r)),
      (''hashed_key'', StrV (k_hashed_key r)), (''scopes'', ListV (k_scopes r)), (''mode'', StrV (k_mode r)),
      (''is_active'', BoolV (k_is_active r)), (''last_used_at'', opt TimeV (k_last_used_at r)),
      (''expires_at'', opt TimeV (k_expires_at r)), (''created_at'', TimeV (k_created_at r)),
      (''revoked_at'', opt TimeV (k_revoked_at r)), (''issuer_key_id'', opt UuidV (k_issuer_key_id r))]"

definition event_row :: "uuid \<Rightarrow> nat \<Rightarrow> datetime \<Rightarrow> ProxyEvent \<Rightarrow> row" where
  "event_row i seq created e =
     [(''id'', UuidV i), (''proxy_id'', UuidV (ev_proxy_id e)), (''event_type'', StrV (ev_type e)),
      (''detail'', JsonV (JObj (map (\<lambda>(k, v). (k, JStr v)) (ev_detail e)))), (''created_at'', TimeV created),
      (''seq'', IntV (int seq + 1))]"

definition usage_counter_row :: "UsageCounter \<Rightarrow> row" where
  "usage_counter_row r =
     [(''id'', UuidV (uc_id r)), (''application_id'', UuidV (uc_application_id r)), (''period_month'', DateV (uc_period_month r)),
      (''request_count'', IntV (uc_request_count r)), (''bytes_received'', IntV (uc_bytes_received r)),
      (''cost_eur_cents'', IntV (uc_cost_eur_cents r)), (''updated_at'', TimeV (uc_updated_at r))]"

text \<open>Fitting the columns of a table of the migrated database.\<close>

definition fits :: "string \<Rightarrow> row \<Rightarrow> bool" where
  "fits n r = (case table_of head_db n of None \<Rightarrow> False | Some t \<Rightarrow> row_ok (db_enums head_db) (st_columns t) r)"

lemma head_tables:
  "table_of head_db ''domain_policies'' = Some head_domain_policies" "table_of head_db ''api_keys'' = Some head_api_keys"
  "table_of head_db ''proxy_events'' = Some head_proxy_events" "table_of head_db ''usage_counters'' = Some head_usage_counters"
  by (simp_all add: table_of_def head_db_def)

lemmas row_defs = fits_def head_tables row_ok_def head_table_def id_column_def stamp_column_def column_defs

definition short :: "nat \<Rightarrow> string option \<Rightarrow> bool" where
  "short n v = (case v of None \<Rightarrow> True | Some s \<Rightarrow> length s \<le> n)"

abbreviation int32 :: "int \<Rightarrow> bool" where
  "int32 i \<equiv> - (2 ^ 31) \<le> i \<and> i < 2 ^ 31"

text \<open>A value of a column by its constructor, and the values of a nullable column.\<close>

lemma value_ok_constructors:
  "value_ok enums c (UuidV u) = has_type enums (col_type c) (UuidV u)" "value_ok enums c (StrV s) = has_type enums (col_type c) (StrV s)"
  "value_ok enums c (BoolV b) = has_type enums (col_type c) (BoolV b)" "value_ok enums c (IntV i) = has_type enums (col_type c) (IntV i)"
  "value_ok enums c (RealV x) = has_type enums (col_type c) (RealV x)" "value_ok enums c (TimeV t) = has_type enums (col_type c) (TimeV t)"
  "value_ok enums c (DateV d) = has_type enums (col_type c) (DateV d)" "value_ok enums c (JsonV j) = has_type enums (col_type c) (JsonV j)"
  "value_ok enums c (ListV l) = has_type enums (col_type c) (ListV l)"
  by (simp_all add: value_ok_def)

lemma value_ok_nullable:
  assumes "col_nullable c"
  shows "col_type c = VarChar n \<Longrightarrow> value_ok enums c (opt StrV v) = short n v"
    "col_type c = UuidT \<Longrightarrow> value_ok enums c (opt UuidV u)" "col_type c = TimestampTZ \<Longrightarrow> value_ok enums c (opt TimeV t)"
    "col_type c = JsonbT \<Longrightarrow> value_ok enums c (opt (\<lambda>x. JsonV (f x)) j)"
  using assms by (simp_all add: value_ok_def opt_def short_def split: option.split)

lemma key_row_fits: "fits ''api_keys'' (key_row r) \<longleftrightarrow> length (k_prefix r) \<le> 8 \<and> length (k_mode r) \<le> 8"
  by (auto simp: row_defs value_ok_constructors value_ok_nullable head_api_keys_def key_row_def)

lemma policy_row_fits:
  "fits ''domain_policies'' (policy_row created updated r) \<longleftrightarrow>
     length (dp_domain r) \<le> 255 \<and> length (dp_engine r) \<le> 16 \<and> int32 (dp_min_delay_ms r) \<and> int32 (dp_max_delay_ms r)
     \<and> int32 (dp_max_retries r) \<and> short 2 (dp_proxy_country r) \<and> short 32 (dp_antibot_type r) \<and> short 16 (dp_proxy_type r)
     \<and> int32 (dp_escalation_tier r) \<and> short 32 (dp_last_block_reason r) \<and> int32 (dp_consecutive_blocks r)
     \<and> int32 (dp_max_escalation_attempts r)"
  by (auto simp: row_defs value_ok_constructors value_ok_nullable head_domain_policies_def policy_row_def)

lemma usage_counter_row_fits:
  "fits ''usage_counters'' (usage_counter_row r) \<longleftrightarrow>
     - (2 ^ 63) \<le> uc_request_count r \<and> uc_request_count r < 2 ^ 63 \<and> - (2 ^ 63) \<le> uc_bytes_received r
     \<and> uc_bytes_received r < 2 ^ 63 \<and> int32 (uc_cost_eur_cents r)"
  by (auto simp: row_defs value_ok_constructors value_ok_nullable head_usage_counters_def usage_counter_row_def)

lemma event_row_fits:
  "fits ''proxy_events'' (event_row i seq created e) \<longleftrightarrow> length (ev_type e) \<le> 32 \<and> int seq + 1 < 2 ^ 63"
  by (auto simp: row_defs value_ok_constructors value_ok_nullable head_proxy_events_def event_row_def)

section \<open>Policies over every history\<close>

text \<open>What every operation keeps of the texts and numbers of a policy, beside the counters of \<^const>\<open>policy_ok\<close>.\<close>

definition narrow :: "DomainPolicy \<Rightarrow> bool" where
  "narrow r \<longleftrightarrow> length (dp_domain r) \<le> 255 \<and> length (dp_engine r) \<le> 16 \<and> 0 \<le> dp_min_delay_ms r \<and> dp_min_delay_ms r \<le> 60000
     \<and> 0 \<le> dp_max_delay_ms r \<and> dp_max_delay_ms r \<le> 60000 \<and> short 2 (dp_proxy_country r) \<and> short 32 (dp_antibot_type r)
     \<and> short 16 (dp_proxy_type r)"

lemma short_simps [simp]: "short n None" "short n (Some s) \<longleftrightarrow> length s \<le> n"
  by (simp_all add: short_def)

lemma engine_width: "e \<in> set ENGINE_TYPES \<Longrightarrow> length e \<le> 16"
  by (auto simp: ENGINE_TYPES_def)

lemma antibot_width: "opt_in ANTIBOT_TYPES v \<Longrightarrow> short 32 v"
  by (auto simp: ANTIBOT_TYPES_def opt_in_def short_def split: option.splits)

lemma proxy_type_width: "opt_in POLICY_PROXY_TYPES v \<Longrightarrow> short 16 v"
  by (auto simp: POLICY_PROXY_TYPES_def opt_in_def short_def split: option.splits)

lemma vendor_width: "short 32 (detect_vendor status headers cookies body)"
  by (simp add: detect_vendor_def Let_def)

lemma country_width: "short 2 (country_for sfx d)"
proof -
  have "list_all (\<lambda>p. length (snd p) \<le> 2) COUNTRY_OVERRIDES" "list_all (\<lambda>p. length (snd p) \<le> 2) TLD_TO_COUNTRY" by code_simp+
  then show ?thesis by (fastforce simp: country_for_def short_def list_all_iff dest: map_of_SomeD split: option.splits)
qed

lemma br_value_width: "length (br_value b) \<le> 32"
  by (cases b) simp_all

lemma length_normalize_domain:
  assumes "\<forall>h. length (rd h) \<le> length h"
  shows "length (normalize_domain rd d) \<le> length d"
proof -
  have "length (removeprefix ''www.'' (lower d)) \<le> length d" by (simp add: removeprefix_def lower_def)
  with assms [rule_format, of "removeprefix ''www.'' (lower d)"] show ?thesis by (auto simp: normalize_domain_def Let_def)
qed

lemma narrow_new: "length d \<le> 255 \<Longrightarrow> narrow (new_policy i d)"
  by (simp add: narrow_def new_policy_def)

lemma narrow_seed: "length d \<le> 255 \<Longrightarrow> narrow (seed_row sfx i d)"
  by (simp add: narrow_def seed_row_def new_policy_def country_width)

lemma narrow_create: "valid_create b \<Longrightarrow> narrow r \<Longrightarrow> narrow (create_updates b r)"
  by (auto simp: narrow_def create_updates_def valid_create_def engine_width antibot_width proxy_type_width)

lemma or_keep_width:
  "opt_range lo hi v \<Longrightarrow> lo \<le> x \<Longrightarrow> x \<le> hi \<Longrightarrow> lo \<le> or_keep v x \<and> or_keep v x \<le> hi"
  "opt_in ENGINE_TYPES e \<Longrightarrow> length y \<le> 16 \<Longrightarrow> length (or_keep e y) \<le> 16"
  "short n w \<Longrightarrow> short n z \<Longrightarrow> short n (or_keep_opt w z)"
  by (auto simp: opt_range_def or_keep_def or_keep_opt_def opt_in_def engine_width split: option.splits)

lemma narrow_patch: "valid_update b \<Longrightarrow> narrow r \<Longrightarrow> narrow (patch_updates b r)"
  using or_keep_width(1) [of 0 60000 "pp_min_delay_ms b" "dp_min_delay_ms r"]
    or_keep_width(1) [of 0 60000 "pp_max_delay_ms b" "dp_max_delay_ms r"]
  by (simp add: narrow_def patch_updates_def valid_update_def or_keep_width(2,3) antibot_width proxy_type_width)

lemma narrow_learn: "narrow r \<Longrightarrow> narrow (learn_row result (detect_vendor st h c b) t now r)"
  using vendor_width [of st h c b] by (auto simp: narrow_def learn_row_def Let_def split: option.splits)

definition narrow_table :: "policy_table \<Rightarrow> bool" where
  "narrow_table tbl \<longleftrightarrow> (\<forall>r \<in> set tbl. narrow r)"

lemma narrow_table_insert: "narrow_table tbl \<Longrightarrow> narrow r \<Longrightarrow> narrow_table (insert_row r tbl)"
  by (simp add: narrow_table_def insert_row_def)

lemma narrow_table_update:
  "(\<And>r. narrow r \<Longrightarrow> narrow (f r)) \<Longrightarrow> narrow_table tbl \<Longrightarrow> narrow_table (update_where P f tbl)"
  by (auto simp: narrow_table_def set_update_where)

lemma narrow_table_seed_loop:
  assumes "seed_loop sfx dry ds tbl a b = Inr (a', b', tbl')" "narrow_table tbl"
  shows "narrow_table tbl'"
  using assms
proof (induction ds arbitrary: tbl a b)
  case (Cons x ds)
  obtain i d where x: "x = (i, d)" by (cases x)
  show ?case
  proof (cases "\<not> dry \<and> length d \<le> 255 \<and> get_by dp_domain d tbl = None")
    case True
    with Cons.prems(1) x have "seed_loop sfx dry ds (insert_row (seed_row sfx i d) tbl) (a + 1) b = Inr (a', b', tbl')" by simp
    then show ?thesis by (rule Cons.IH) (simp add: True Cons.prems(2) narrow_table_insert narrow_seed)
  next
    case False
    with Cons.prems(1) x obtain a2 b2 where "seed_loop sfx dry ds tbl a2 b2 = Inr (a', b', tbl')" by (auto split: if_splits)
    then show ?thesis using Cons.prems(2) by (rule Cons.IH)
  qed
qed simp

lemma narrow_table_upsert:
  assumes "narrow_table tbl" "valid_create b" "\<forall>h. length (rd h) \<le> length h" "length d \<le> 255"
  shows "narrow_table (upsert_policy rd i d (create_updates b) tbl)"
proof (cases "get_by dp_domain (normalize_domain rd d) tbl")
  case None
  have "length (normalize_domain rd d) \<le> 255" using length_normalize_domain [OF assms(3), of d] assms(4) by linarith
  with None assms(1,2) show ?thesis
    by (simp add: upsert_policy_def Let_def narrow_table_insert narrow_create narrow_new)
next
  case (Some r)
  with assms(1,2) show ?thesis by (simp add: upsert_policy_def Let_def narrow_table_update narrow_create)
qed

lemma narrow_table_step:
  assumes "policy_step rd tbl tbl'" "narrow_table tbl" and rd: "\<forall>h. length (rd h) \<le> length h"
  shows "narrow_table tbl'"
  using assms(1)
proof cases
  case (create body i)
  have "length (normalize_domain rd (pc_domain body)) \<le> 255"
    using length_normalize_domain [OF rd, of "pc_domain body"] create by (simp add: valid_create_def)
  with create assms(2) rd show ?thesis by (simp add: create_domain_policy_def Let_def narrow_table_upsert)
next
  case (patch body pid)
  with assms(2) show ?thesis
    by (simp add: update_domain_policy_def narrow_table_update narrow_patch split: option.splits)
next
  case (delete pid)
  with assms(2) show ?thesis by (auto simp: delete_domain_policy_def delete_where_def narrow_table_def)
next
  case (pin pid tier locked)
  with assms(2) show ?thesis
    by (auto simp: pin_escalation_tier_def Let_def narrow_def split: option.splits intro!: narrow_table_update)
next
  case (seed ds sfx engine_ok dry_run database_url)
  with assms(2) narrow_table_seed_loop show ?thesis by (auto simp: seed_def split: sum.splits)
next
  case (learn tier_used db result policy now)
  with assms(2) show ?thesis
    by (simp add: record_outcome_def Let_def narrow_table_update narrow_learn split: option.splits db_outcome.splits)
qed

section \<open>Keys over every history\<close>

definition short_prefixes :: "key_table \<Rightarrow> bool" where
  "short_prefixes keys \<longleftrightarrow> (\<forall>r \<in> set keys. length (k_prefix r) \<le> 8)"

lemma short_prefixes_insert:
  "short_prefixes keys \<Longrightarrow> short_prefixes (insert_row (new_key created i app (take 8 raw) h scopes mode issuer expires) keys)"
  by (simp add: short_prefixes_def insert_row_def new_key_def)

lemma short_prefixes_update:
  "(\<And>r. k_prefix (f r) = k_prefix r) \<Longrightarrow> short_prefixes keys \<Longrightarrow> short_prefixes (update_where P f keys)"
  by (auto simp: short_prefixes_def set_update_where)

lemma short_prefixes_mint:
  "short_prefixes keys \<Longrightarrow> short_prefixes (snd (svc_create_api_key ar rnd created i app scopes mode issuer expires keys))"
  by (auto simp: svc_create_api_key_def Let_def short_prefixes_insert split: option.splits prod.splits)

lemma short_prefixes_rotate:
  assumes "short_prefixes keys"
  shows "short_prefixes (snd (svc_rotate_api_key ar rnd i now h key_id issuer keys))"
proof (cases "svc_rotate_api_key ar rnd i now h key_id issuer keys")
  case (Pair res keys')
  from svc_rotate_cases [OF Pair] assms Pair show ?thesis
    by (auto simp: Let_def short_prefixes_insert intro!: short_prefixes_update)
qed

lemma short_prefixes_step:
  assumes "key_step ar keys keys'" "short_prefixes keys"
  shows "short_prefixes keys'"
  using assms
proof cases
  case mint
  with assms show ?thesis by (simp add: short_prefixes_mint)
next
  case create
  with assms show ?thesis by (auto simp: create_api_key_def short_prefixes_mint split: sum.splits)
next
  case rotate
  with assms show ?thesis by (auto simp: rotate_api_key_endpoint_def short_prefixes_rotate split: option.splits)
next
  case revoke
  with assms show ?thesis
    by (auto simp: revoke_api_key_def Let_def split: option.splits sum.splits intro!: short_prefixes_update)
next
  case used
  with assms show ?thesis by (auto simp: update_last_used_def intro!: short_prefixes_update)
qed

text \<open>The mode of a request is any text; one of more than eight characters is an error of the database.\<close>

lemma long_mode_unfit: "\<not> fits ''api_keys'' (key_row (new_key created i app p h scopes ''production'' issuer expires))"
  by (simp add: key_row_fits new_key_def)

section \<open>Whole tables\<close>

lemma unique_rows_key:
  assumes "\<And>r. sql_get (row r) n = f (key r)" "inj f" "\<And>k. f k \<noteq> NullV" "unique_on key tbl"
  shows "unique_rows (map row tbl) [n]"
proof -
  have "filter (complete [n]) (map row tbl) = map row tbl" using assms(1,3) by (auto simp: filter_id_conv complete_def)
  moreover have "inj_on (\<lambda>r. [sql_get (row r) n]) (set tbl) \<and> distinct tbl"
    using assms by (auto simp: unique_on_def distinct_map inj_on_def)
  ultimately show ?thesis by (simp add: unique_rows_def distinct_map comp_def)
qed

lemma table_ok_with_rows:
  assumes "table_ok (db_enums head_db) t" "table_of head_db n = Some t" "\<And>r. r \<in> set tbl \<Longrightarrow> fits n (row r)"
    "\<forall>u \<in> set (st_uniques t). unique_rows (map row tbl) (snd u)"
  shows "table_ok (db_enums head_db) (t\<lparr>st_rows := map row tbl\<rparr>)"
  using assms by (auto simp: table_ok_def fits_def list_all_iff has_columns_def)

lemma head_tables_ok:
  "table_ok (db_enums head_db) head_domain_policies" "table_ok (db_enums head_db) head_api_keys"
  by code_simp+

lemma policies_reachable:
  assumes "(policy_step rd)\<^sup>*\<^sup>* [] tbl" "\<forall>h. length (rd h) \<le> length h"
  shows "policies_ok tbl" "narrow_table tbl"
  using assms
  by (induction rule: rtranclp_induct)
    (simp_all add: policies_ok_def [of "[]"] narrow_table_def [of "[]"] unique_on_def [of _ "[]"] policies_ok_step narrow_table_step)

lemma keys_reachable:
  assumes "(key_step ar)\<^sup>*\<^sup>* [] ks"
  shows "keys_ok ks" "short_prefixes ks"
  using assms
  by (induction rule: rtranclp_induct)
    (simp_all add: keys_ok_def [of "[]"] short_prefixes_def [of "[]"] unique_on_def [of _ "[]"] keys_ok_step short_prefixes_step)

section \<open>Properties\<close>


definition ex_policies :: policy_table where
  "ex_policies = snd (pin_escalation_tier 7 (Some 5) True
     (snd (seed (\<lambda>_. ''de'') (\<lambda>_. True) False [] [(7, ''amazon.de''), (8, ''otto.de'')] [])))"

definition ex_keys :: key_table where
  "ex_keys = snd (svc_create_api_key ex_argon ex_rnd 0 1 7 [''fetch''] ''live'' None None [])"


end
