(* ===== verification/Settings.thy ===== *)
theory Settings
  imports Auth
begin

text \<open>
  The configuration of \<^verbatim>\<open>app/core/config.py\<close>, and what is built from it when the modules are loaded: the
  database engine of \<^verbatim>\<open>app/core/db.py\<close> and the worker class of \<^verbatim>\<open>app/worker/arq_worker.py\<close>. Reading the
  environment and the \<^verbatim>\<open>.env\<close> file is pydantic's: a record of settings is what it returns, and
  \<open>default_settings\<close> is that record where nothing but the database URL is set. The operations of the other
  theories take the settings they read as arguments.
\<close>

section \<open>The settings and their defaults\<close>

record Settings =
  cf_api_host :: string
  cf_api_port :: int
  cf_log_level :: string
  cf_api_keys_raw :: string
  cf_allowed_origins_raw :: string
  cf_ssrf_enabled :: bool
  cf_database_url :: string
  cf_redis_url :: string
  cf_result_ttl_secs :: int
  cf_proxy_file :: "string option"
  cf_max_retries :: int
  cf_request_timeout_secs :: int
  cf_request_delay_secs :: real
  cf_use_http2 :: bool
  cf_max_batch_size :: int
  cf_batch_timeout_secs :: int
  cf_key_rotation_overlap_hours :: int
  cf_key_rate_limit_rpm :: int
  cf_default_monthly_quota :: int
  cf_circuit_breaker_threshold :: int
  cf_circuit_breaker_timeout_s :: int
  cf_proxy_sticky_ttl_s :: int
  cf_webshare_api_key :: "string option"
  cf_webshare_proxy_file :: string
  cf_webshare_sync_interval_secs :: int
  cf_proxy_sync_enabled :: bool
  cf_curl_executor_max_workers :: int
  cf_browser_pool_size :: int
  cf_browser_idle_timeout_s :: int
  cf_browser_acquire_timeout_s :: real
  cf_s3_endpoint_url :: "string option"
  cf_s3_bucket :: string
  cf_s3_access_key :: string
  cf_s3_secret_key :: string
  cf_s3_region :: string
  cf_warc_max_size_bytes :: int
  cf_warc_max_age_s :: int
  cf_warc_force_rotate_each_write :: bool
  cf_warc_prefix :: string
  cf_warc_dlq_dir :: string
  cf_warc_dlq_max_bytes :: int
  cf_arq_redis_url :: string
  cf_job_result_ttl_s :: int
  cf_callback_hmac_secret :: string
  cf_callback_timeout_s :: real
  cf_callback_max_retries :: int
  cf_enable_metrics :: bool
  cf_enable_tracing :: bool
  cf_otlp_endpoint :: string
  cf_service_name :: string
  cf_service_version :: string
  cf_metrics_path :: string
  cf_enable_premium_proxy_tiers :: bool

definition default_settings :: "string \<Rightarrow> Settings" where
  "default_settings url =
     \<lparr>cf_api_host = ''0.0.0.0'',
      cf_api_port = 8000,
      cf_log_level = ''INFO'',
      cf_api_keys_raw = [],
      cf_allowed_origins_raw = ''*'',
      cf_ssrf_enabled = True,
      cf_database_url = url,
      cf_redis_url = ''redis://localhost:6379/2'',
      cf_result_ttl_secs = 86400,
      cf_proxy_file = None,
      cf_max_retries = 3,
      cf_request_timeout_secs = 15,
      cf_request_delay_secs = 1,
      cf_use_http2 = True,
      cf_max_batch_size = 1000,
      cf_batch_timeout_secs = 900,
      cf_key_rotation_overlap_hours = 24,
      cf_key_rate_limit_rpm = 60,
      cf_default_monthly_quota = 100000,
      cf_circuit_breaker_threshold = 20,
      cf_circuit_breaker_timeout_s = 300,
      cf_proxy_sticky_ttl_s = 1800,
      cf_webshare_api_key = None,
      cf_webshare_proxy_file = ''proxies.txt'',
      cf_webshare_sync_interval_secs = 21600,
      cf_proxy_sync_enabled = True,
      cf_curl_executor_max_workers = 8,
      cf_browser_pool_size = 2,
      cf_browser_idle_timeout_s = 300,
      cf_browser_acquire_timeout_s = 30,
      cf_s3_endpoint_url = None,
      cf_s3_bucket = ''crawler-warc'',
      cf_s3_access_key = [],
      cf_s3_secret_key = [],
      cf_s3_region = ''us-east-1'',
      cf_warc_max_size_bytes = 1000000000,
      cf_warc_max_age_s = 3600,
      cf_warc_force_rotate_each_write = False,
      cf_warc_prefix = ''warc'',
      cf_warc_dlq_dir = ''/var/lib/crawler/warc-dlq'',
      cf_warc_dlq_max_bytes = 5368709120,
      cf_arq_redis_url = [],
      cf_job_result_ttl_s = 86400,
      cf_callback_hmac_secret = [],
      cf_callback_timeout_s = 10,
      cf_callback_max_retries = 3,
      cf_enable_metrics = True,
      cf_enable_tracing = True,
      cf_otlp_endpoint = [],
      cf_service_name = ''crawler-api'',
      cf_service_version = ''0.1.0'',
      cf_metrics_path = ''/metrics'',
      cf_enable_premium_proxy_tiers = False\<rparr>"

section \<open>The derived settings\<close>

text \<open>\<^verbatim>\<open>[k.strip() for k in raw.split(",") if k.strip()]\<close>\<close>

definition comma_list :: "string \<Rightarrow> string list" where
  "comma_list raw = map strip (filter (\<lambda>k. strip k \<noteq> []) (split_on CHR '','' raw))"

definition api_keys :: "Settings \<Rightarrow> string list" where
  "api_keys s = comma_list (cf_api_keys_raw s)"

definition allowed_origins :: "Settings \<Rightarrow> string list" where
  "allowed_origins s = comma_list (cf_allowed_origins_raw s)"

definition effective_proxy_file :: "Settings \<Rightarrow> string option" where
  "effective_proxy_file s =
     (if cf_webshare_api_key s \<noteq> None \<and> cf_webshare_api_key s \<noteq> Some []
      then Some (cf_webshare_proxy_file s) else cf_proxy_file s)"

section \<open>The database engine\<close>

record db_engine =
  eng_url :: string
  eng_echo :: bool
  eng_pool_pre_ping :: bool
  eng_pool_size :: int
  eng_max_overflow :: int

definition create_engine :: "Settings \<Rightarrow> db_engine" where
  "create_engine s =
     \<lparr>eng_url = cf_database_url s, eng_echo = False, eng_pool_pre_ping = True, eng_pool_size = 10, eng_max_overflow = 20\<rparr>"

text \<open>The argument is the first of the connection, the query and the commit that raises, with its text.\<close>

definition validate_db_connection :: "string option \<Rightarrow> string + unit" where
  "validate_db_connection raised =
     (case raised of
        None \<Rightarrow> Inr ()
      | Some exc \<Rightarrow> Inl (''Database connection failed. Check DATABASE_URL. Error: '' @ exc))"

section \<open>The worker class\<close>

record cron_job =
  cj_task :: string
  cj_minute :: "int set"
  cj_run_at_startup :: bool

record worker_settings =
  ws_functions :: "string list"
  ws_cron_jobs :: "cron_job list"
  ws_queue_name :: string
  ws_max_jobs :: int
  ws_job_timeout :: int
  ws_keep_result :: int
  ws_retry_jobs :: bool
  ws_redis_dsn :: string

definition redis_dsn :: "Settings \<Rightarrow> string" where
  "redis_dsn s = (if cf_arq_redis_url s \<noteq> [] then cf_arq_redis_url s else cf_redis_url s)"

definition WorkerSettings :: "Settings \<Rightarrow> worker_settings" where
  "WorkerSettings s =
     \<lparr>ws_functions = [''fetch_task''],
      ws_cron_jobs = [\<lparr>cj_task = ''sync_proxies'', cj_minute = {0, 30}, cj_run_at_startup = True\<rparr>],
      ws_queue_name = ''arq:crawler'', ws_max_jobs = 20, ws_job_timeout = 120, ws_keep_result = 0,
      ws_retry_jobs = False, ws_redis_dsn = redis_dsn s\<rparr>"

section \<open>Facts\<close>

definition join_on :: "char \<Rightarrow> string list \<Rightarrow> string" where
  "join_on c ws = concat (map (\<lambda>w. w @ [c]) (butlast ws)) @ (if ws = [] then [] else last ws)"

text \<open>An entry that a comma-separated setting can carry: it survives stripping and has no comma.\<close>

definition plain_entry :: "string \<Rightarrow> bool" where
  "plain_entry w \<longleftrightarrow> w \<noteq> [] \<and> strip w = w \<and> CHR '','' \<notin> set w"

lemma join_on_Cons: "ws \<noteq> [] \<Longrightarrow> join_on c (w # ws) = w @ c # join_on c ws"
  by (simp add: join_on_def)

lemma split_join:
  assumes "ws \<noteq> []" "\<And>w. w \<in> set ws \<Longrightarrow> c \<notin> set w"
  shows "split_on c (join_on c ws) = ws"
  using assms
proof (induction ws)
  case (Cons w ws)
  then show ?case
    by (cases "ws = []") (simp add: join_on_def split_on_no_sep, simp add: join_on_Cons split_on_append)
qed simp

text \<open>A list of entries written with commas is read back as it is, the empty list included.\<close>

lemma comma_list_join:
  assumes "\<forall>w \<in> set ws. plain_entry w"
  shows "comma_list (join_on CHR '','' ws) = ws"
proof (cases "ws = []")
  case True
  then show ?thesis by (simp add: comma_list_def join_on_def strip_def)
next
  case False
  have split: "split_on CHR '','' (join_on CHR '','' ws) = ws"
    by (rule split_join) (use False assms in \<open>auto simp: plain_entry_def\<close>)
  show ?thesis unfolding comma_list_def split
    using assms by (induction ws) (auto simp: plain_entry_def)
qed

text \<open>Blanks and trailing commas never produce an entry: an API key or an origin is not empty and holds no comma.\<close>

lemma split_on_parts: "w \<in> set (split_on c s) \<Longrightarrow> c \<notin> set w"
  by (induction c s arbitrary: w rule: split_on.induct) (auto split: if_splits list.splits)

lemma set_strip: "set (strip s) \<subseteq> set s"
proof -
  have "set (dropWhile is_space t) \<subseteq> set t" for t by (rule subsetI) (rule set_dropWhileD)
  then show ?thesis unfolding strip_def by (metis set_rev subset_trans)
qed

lemma strip_idem [simp]: "strip (strip s) = strip s"
proof -
  have first: "dropWhile is_space (rev (dropWhile is_space (rev t))) = rev (dropWhile is_space (rev t))"
    if "t = [] \<or> \<not> is_space (hd t)" for t
  proof (cases "rev (dropWhile is_space (rev t))")
    case Nil
    then show ?thesis by (simp only: dropWhile.simps)
  next
    case (Cons x u)
    have "t = rev (dropWhile is_space (rev t)) @ rev (takeWhile is_space (rev t))"
      by (metis rev_append rev_rev_ident takeWhile_dropWhile_id)
    then have "hd t = x" "t \<noteq> []" using Cons by (metis append_Cons list.sel(1), auto)
    with that Cons show ?thesis by simp
  qed
  have "dropWhile is_space s = [] \<or> \<not> is_space (hd (dropWhile is_space s))"
    by (metis hd_dropWhile dropWhile_eq_Nil_conv)
  from first [OF this] show ?thesis by (simp add: strip_def)
qed

lemma comma_list_entries: "w \<in> set (comma_list raw) \<Longrightarrow> plain_entry w"
  using split_on_parts set_strip by (fastforce simp: comma_list_def plain_entry_def)

lemma configured_keys_and_origins:
  "k \<in> set (api_keys s) \<union> set (allowed_origins s) \<Longrightarrow> plain_entry k"
  by (auto simp: api_keys_def allowed_origins_def intro: comma_list_entries)

text \<open>
  The worker and the API meet in Redis: without \<^verbatim>\<open>ARQ_REDIS_URL\<close> the worker takes its jobs from the Redis of
  the API. A queue server of its own is used by the worker class whenever it is named.
\<close>

lemma worker_redis:
  "ws_redis_dsn (WorkerSettings s) = (if cf_arq_redis_url s = [] then cf_redis_url s else cf_arq_redis_url s)"
  by (simp add: WorkerSettings_def redis_dsn_def)

text \<open>
  The keys of the settings are looked up through a registry of hashes by their first eight characters: the
  caller gets in exactly with one of the configured keys, and is anonymous where none is configured, which
  a setting of blanks and commas amounts to as well.
\<close>

lemma configured_keys_authenticate:
  assumes "argon_laws ar" "map snd salted = api_keys s"
  shows "get_api_key ar salted (Some k) = Inr r \<longleftrightarrow>
    (if \<forall>e \<in> set (split_on CHR '','' (cf_api_keys_raw s)). strip e = [] then r = ''anonymous''
     else k \<in> set (api_keys s) \<and> r = k)"
proof -
  have none: "(\<forall>e \<in> set (split_on CHR '','' (cf_api_keys_raw s)). strip e = []) \<longleftrightarrow> salted = []"
  proof -
    have "salted = [] \<longleftrightarrow> api_keys s = []" using assms(2) by (cases salted) auto
    then show ?thesis by (simp add: api_keys_def comma_list_def filter_empty_conv)
  qed
  have verify: "verify_api_key_hash ar k (ar_hash ar salt k') \<longleftrightarrow> k = k'" for salt k'
  proof -
    have "verify_api_key_hash ar k (ar_hash ar salt k') \<longleftrightarrow> ar_verify ar (ar_hash ar salt k') k = Some True"
      using assms(1) by (simp add: verify_api_key_hash_def argon_laws_def split: option.splits)
    with assms(1) show ?thesis unfolding argon_laws_def by metis
  qed
  have known: "k \<in> set (api_keys s) \<longleftrightarrow> k \<in> snd ` set salted"
    using assms(2) by (metis list.set_map)
  have found: "(\<exists>h \<in> set (map snd (filter (\<lambda>(p, _). p = take 8 k) (build_registry ar salted))). verify_api_key_hash ar k h)
      \<longleftrightarrow> k \<in> snd ` set salted"
    unfolding build_registry_def by (simp add: image_iff Bex_def split_beta) (metis verify)
  have "k \<noteq> []" if "k \<in> snd ` set salted"
    using that configured_keys_and_origins [of k s] by (auto simp: plain_entry_def known)
  moreover have "get_api_key ar salted (Some k) = (if salted = [] then Inr ''anonymous''
      else if k \<noteq> [] \<and> k \<in> snd ` set salted then Inr k else Inl (HTTPException 401 ''Invalid or missing API key''))"
    by (simp only: get_api_key_def option.case Let_def found) simp
  ultimately show ?thesis unfolding none known by auto
qed

end
