(* ===== verification/Routing.thy ===== *)
theory Routing
  imports Settings Uuid
begin

text \<open>
  The HTTP surface: the routes of \<^verbatim>\<open>app/api/v1/endpoints\<close> with the dependency that guards each handler, their
  assembly in \<^verbatim>\<open>app/api/v1/router.py\<close> and \<^verbatim>\<open>app/main.py\<close>, the exception handler and the settings of the CORS
  middleware there, the middleware of \<^verbatim>\<open>app/middleware/correlation_id.py\<close> and the publisher of
  \<^verbatim>\<open>app/services/events.py\<close>. The handlers are in the theories of their components; here a handler is its name.

  The framework matches paths as documented: routes are tried in their order, a parameter in braces
  stands for one segment that is not empty, a dependency runs before its handler. What it answers by itself
  (no such path or method, a redirect for a slash too many, its own documentation pages) runs no handler.
\<close>

section \<open>Routes\<close>

datatype guard = Open | AnyKey | Needs string

record route =
  rt_method :: string
  rt_path :: string
  rt_guard :: guard
  rt_handler :: string

definition route :: "string \<Rightarrow> string \<Rightarrow> guard \<Rightarrow> string \<Rightarrow> route" where
  "route m p g h = \<lparr>rt_method = m, rt_path = p, rt_guard = g, rt_handler = h\<rparr>"

text \<open>\<^verbatim>\<open>APIRouter(prefix=...)\<close>\<close>

definition under :: "string \<Rightarrow> route list \<Rightarrow> route list" where
  "under prefix rs = map (\<lambda>r. r\<lparr>rt_path := prefix @ rt_path r\<rparr>) rs"

definition health_routes :: "route list" where
  "health_routes = under []
    [route ''GET'' ''/healthz'' Open ''healthz'',
     route ''GET'' ''/readyz'' Open ''readyz'']"

definition jobs_routes :: "route list" where
  "jobs_routes = under []
    [route ''POST'' ''/v1/fetch'' (Needs SCOPE_FETCH) ''create_fetch'',
     route ''GET'' ''/v1/jobs/{job_id}'' AnyKey ''get_job'']"

definition batches_routes :: "route list" where
  "batches_routes = under ''/batches''
    [route ''POST'' ''/'' (Needs SCOPE_FETCH) ''create_crawl_batch'',
     route ''GET'' ''/{batch_id}/status'' (Needs SCOPE_FETCH) ''get_batch_status'',
     route ''GET'' ''/{batch_id}/results'' (Needs SCOPE_FETCH) ''get_batch_results'']"

definition projects_routes :: "route list" where
  "projects_routes = under ''/projects''
    [route ''POST'' ''/'' (Needs SCOPE_ADMIN) ''create_project'',
     route ''GET'' ''/'' (Needs SCOPE_ADMIN) ''list_projects'']"

definition proxy_routes :: "route list" where
  "proxy_routes = under ''/proxy''
    [route ''GET'' ''/pools'' AnyKey ''list_pools'',
     route ''GET'' ''/pools/{pool_id}/stats'' AnyKey ''get_pool_stats'',
     route ''GET'' ''/proxies'' (Needs SCOPE_ADMIN) ''list_proxies'',
     route ''GET'' ''/proxies/{proxy_id}/events'' (Needs SCOPE_ADMIN) ''get_proxy_events'',
     route ''POST'' ''/health'' (Needs SCOPE_ADMIN) ''report_proxy_health'',
     route ''POST'' ''/reset/{proxy_id}'' (Needs SCOPE_ADMIN) ''reset_proxy'',
     route ''DELETE'' ''/circuit-breaker/{domain}'' (Needs SCOPE_ADMIN) ''reset_circuit_breaker'',
     route ''POST'' ''/admin/proxies'' (Needs SCOPE_ADMIN) ''import_proxies'']"

definition auth_keys_routes :: "route list" where
  "auth_keys_routes = under []
    [route ''POST'' ''/v1/keys'' (Needs SCOPE_KEYS) ''create_api_key'',
     route ''GET'' ''/v1/keys'' AnyKey ''list_api_keys'',
     route ''DELETE'' ''/v1/keys/{key_id}'' (Needs SCOPE_KEYS) ''revoke_api_key'',
     route ''POST'' ''/v1/keys/{key_id}/rotate'' (Needs SCOPE_KEYS) ''rotate_api_key_endpoint'',
     route ''POST'' ''/v1/tenants'' (Needs SCOPE_ADMIN) ''create_tenant'',
     route ''POST'' ''/v1/applications'' (Needs SCOPE_ADMIN) ''create_application'',
     route ''GET'' ''/v1/tenants'' (Needs SCOPE_ADMIN) ''list_tenants'',
     route ''GET'' ''/v1/tenants/{tenant_id}'' (Needs SCOPE_ADMIN) ''get_tenant'',
     route ''GET'' ''/v1/applications'' AnyKey ''list_applications'',
     route ''GET'' ''/v1/applications/{app_id}'' AnyKey ''get_application'',
     route ''PATCH'' ''/v1/applications/{app_id}'' (Needs SCOPE_ADMIN) ''update_application'']"

definition archive_routes :: "route list" where
  "archive_routes = under ''/v1/archive''
    [route ''GET'' ''/{entry_id}'' (Needs SCOPE_ARCHIVE) ''get_archive_by_request'',
     route ''GET'' ''/'' (Needs SCOPE_ARCHIVE) ''list_archives'']"

definition usage_routes :: "route list" where
  "usage_routes = under ''/v1/usage''
    [route ''GET'' ''/'' AnyKey ''get_my_usage'',
     route ''GET'' ''/applications/{application_id}'' (Needs SCOPE_ADMIN) ''get_app_usage'']"

definition admin_routes :: "route list" where
  "admin_routes = under ''/admin''
    [route ''POST'' ''/domain-policies'' (Needs SCOPE_ADMIN) ''create_domain_policy'',
     route ''GET'' ''/domain-policies'' (Needs SCOPE_ADMIN) ''list_domain_policies'',
     route ''GET'' ''/domain-policies/{policy_id}'' (Needs SCOPE_ADMIN) ''get_domain_policy'',
     route ''PATCH'' ''/domain-policies/{policy_id}'' (Needs SCOPE_ADMIN) ''update_domain_policy'',
     route ''DELETE'' ''/domain-policies/{policy_id}'' (Needs SCOPE_ADMIN) ''delete_domain_policy'',
     route ''POST'' ''/domain-policies/{policy_id}/pin-tier'' (Needs SCOPE_ADMIN) ''pin_escalation_tier'',
     route ''POST'' ''/proxy-pools'' (Needs SCOPE_ADMIN) ''create_proxy_pool'',
     route ''POST'' ''/proxy-pools/{pool_id}/proxies'' (Needs SCOPE_ADMIN) ''add_proxy_to_pool'']"

text \<open>The routers in the order of the \<^verbatim>\<open>include_router\<close> calls.\<close>

definition api_router :: "route list" where
  "api_router = jobs_routes @ batches_routes @ projects_routes @ proxy_routes @ auth_keys_routes @ archive_routes
     @ usage_routes @ admin_routes"

definition app_routes :: "Settings \<Rightarrow> route list" where
  "app_routes s = health_routes @ api_router @ [route ''GET'' (cf_metrics_path s) Open ''metrics'']"

section \<open>Matching and dispatch\<close>

definition is_param :: "string \<Rightarrow> bool" where
  "is_param seg \<longleftrightarrow> seg \<noteq> [] \<and> hd seg = CHR ''{''"

definition path_matches :: "string \<Rightarrow> string \<Rightarrow> bool" where
  "path_matches template path =
     list_all2 (\<lambda>t p. if is_param t then p \<noteq> [] else t = p) (split_on CHR ''/'' template) (split_on CHR ''/'' path)"

definition find_route :: "route list \<Rightarrow> string \<Rightarrow> string \<Rightarrow> route option" where
  "find_route rs m path = find (\<lambda>r. rt_method r = m \<and> path_matches (rt_path r) path) rs"

text \<open>The dependency of a handler, with the \<^verbatim>\<open>X-API-Key\<close> header of the request, which it requires.\<close>

definition authorize :: "argon \<Rightarrow> datetime \<Rightarrow> key_table \<Rightarrow> guard \<Rightarrow> string option \<Rightarrow> api_error + ApiKey option" where
  "authorize ar now keys g x_api_key =
     (case g of
        Open \<Rightarrow> Inr None
      | AnyKey \<Rightarrow> (case x_api_key of
            None \<Rightarrow> Inl (HTTPException 422 ''Field required'')
          | Some x \<Rightarrow> bindE (resolve_api_key ar now x keys) (\<lambda>k. Inr (Some k)))
      | Needs scope \<Rightarrow> (case x_api_key of
            None \<Rightarrow> Inl (HTTPException 422 ''Field required'')
          | Some x \<Rightarrow> bindE (require_scope ar scope now x keys) (\<lambda>k. Inr (Some k))))"

text \<open>The handler that runs and the key it runs with, the refusal, or \<^const>\<open>None\<close> where the framework answers itself.\<close>

definition dispatch ::
  "Settings \<Rightarrow> argon \<Rightarrow> datetime \<Rightarrow> key_table \<Rightarrow> string \<Rightarrow> string \<Rightarrow> string option \<Rightarrow> (api_error + string \<times> ApiKey option) option" where
  "dispatch s ar now keys m path x_api_key =
     (case find_route (app_routes s) m path of
        None \<Rightarrow> None
      | Some r \<Rightarrow> Some (bindE (authorize ar now keys (rt_guard r) x_api_key) (\<lambda>k. Inr (rt_handler r, k))))"

section \<open>Responses\<close>

record response =
  rs_status :: nat
  rs_headers :: "string \<rightharpoonup> string"  \<comment> \<open>by the name in lower case\<close>
  rs_error :: string
  rs_detail :: string

text \<open>\<^verbatim>\<open>detail\<close> of an exception that was raised without a text of its own.\<close>

fun error_detail :: "api_error \<Rightarrow> string" where
  "error_detail AuthenticationError = ''Invalid or missing API key''"
| "error_detail KeyExpiredError = ''API key has expired''"
| "error_detail KeyRevokedError = ''API key has been revoked''"
| "error_detail (AuthorizationError d) = d"
| "error_detail (ScopeError d) = d"
| "error_detail (NotFoundError d) = d"
| "error_detail (ConflictError d) = d"
| "error_detail (ProxyPoolUnavailableError d) = d"
| "error_detail (ProxyPoolExhaustedError d) = d"
| "error_detail (HTTPException _ d) = d"
| "error_detail (RuntimeError d) = d"

text \<open>The handler is registered for the classes of \<^verbatim>\<open>errors.py\<close>, which are those with an error code.\<close>

definition crawler_api_error_handler :: "api_error \<Rightarrow> response option" where
  "crawler_api_error_handler exc =
     map_option (\<lambda>code. \<lparr>rs_status = status_code exc, rs_headers = Map.empty, rs_error = code, rs_detail = error_detail exc\<rparr>)
       (error_code exc)"

text \<open>
  \<^verbatim>\<open>CorrelationIdMiddleware.dispatch\<close>: \<open>call_next\<close> gives the response of the rest of the application, or
  \<^const>\<open>None\<close> where it raises.
\<close>

definition correlation_dispatch :: "uuid \<Rightarrow> (string \<rightharpoonup> string) \<Rightarrow> ((string \<rightharpoonup> string) \<Rightarrow> response option) \<Rightarrow> response option" where
  "correlation_dispatch fresh headers call_next =
     (let correlation_id = (case headers (lower ''X-Correlation-ID'') of None \<Rightarrow> uuid_str fresh | Some v \<Rightarrow> v)
      in map_option (\<lambda>response. response\<lparr>rs_headers := (rs_headers response)(lower ''X-Correlation-ID'' \<mapsto> correlation_id)\<rparr>)
           (call_next headers))"

record cors =
  co_allow_origins :: "string list"
  co_allow_credentials :: bool
  co_allow_methods :: "string list"
  co_allow_headers :: "string list"

definition cors_middleware :: "Settings \<Rightarrow> cors" where
  "cors_middleware s =
     \<lparr>co_allow_origins = allowed_origins s, co_allow_credentials = False, co_allow_methods = [''*''], co_allow_headers = [''*'']\<rparr>"

section \<open>Events\<close>

text \<open>
  \<^verbatim>\<open>publish_event\<close>: the client is made from its URL, the payload serialised (\<^const>\<open>None\<close> where it is not
  serialisable) and one entry added to the stream; whatever raises is logged. The result says whether it was published.
\<close>

definition publish_event ::
  "bool \<Rightarrow> (string \<Rightarrow> (string \<times> string) list \<Rightarrow> int \<Rightarrow> 'w \<Rightarrow> bool \<times> 'w) \<Rightarrow> string \<Rightarrow> string \<Rightarrow> string option \<Rightarrow> 'w \<Rightarrow> bool \<times> 'w" where
  "publish_event client_ok xadd stream event_type payload w =
     (if \<not> client_ok then (False, w)
      else (case payload of
              None \<Rightarrow> (False, w)
            | Some p \<Rightarrow> xadd (''events:'' @ stream) [(''type'', event_type), (''payload'', p)] 100000 w))"

section \<open>Facts\<close>

text \<open>What each handler demands of the key, read off the routes: every write needs a scope.\<close>

definition open_handlers :: "string list" where
  "open_handlers = [''healthz'', ''readyz'', ''metrics'']"

definition write_scope :: "string \<Rightarrow> string" where
  "write_scope h =
     (if h \<in> set [''create_fetch'', ''create_crawl_batch''] then SCOPE_FETCH
      else if h \<in> set [''create_api_key'', ''revoke_api_key'', ''rotate_api_key_endpoint''] then SCOPE_KEYS
      else SCOPE_ADMIN)"

definition guarded :: "route \<Rightarrow> bool" where
  "guarded r \<longleftrightarrow> (rt_guard r = Open \<longrightarrow> rt_handler r \<in> set open_handlers)
     \<and> (rt_method r \<noteq> ''GET'' \<longrightarrow> rt_guard r = Needs (write_scope (rt_handler r)))"

lemmas route_tables = health_routes_def jobs_routes_def batches_routes_def projects_routes_def proxy_routes_def
  auth_keys_routes_def archive_routes_def usage_routes_def admin_routes_def api_router_def

lemma api_routes_guarded: "list_all guarded (health_routes @ api_router)"
  by code_simp

lemma app_routes_guarded: "r \<in> set (app_routes s) \<Longrightarrow> guarded r"
  using api_routes_guarded by (auto simp: app_routes_def list_all_iff guarded_def route_def open_handlers_def)

text \<open>
  Two templates overlap when some path matches both: where one has a fixed segment, the other has the same or a
  parameter that takes it.
\<close>

definition overlap :: "string \<Rightarrow> string \<Rightarrow> bool" where
  "overlap a b =
     list_all2 (\<lambda>t u. if is_param t then is_param u \<or> u \<noteq> [] else if is_param u then t \<noteq> [] else t = u)
       (split_on CHR ''/'' a) (split_on CHR ''/'' b)"

lemma overlap_if_both_match:
  assumes "path_matches a p" "path_matches b p"
  shows "overlap a b"
  using assms by (fastforce simp: path_matches_def overlap_def list_all2_conv_all_nth)

fun pairwise_apart :: "route list \<Rightarrow> bool" where
  "pairwise_apart [] = True"
| "pairwise_apart (r # rs) =
     (list_all (\<lambda>q. \<not> (rt_method q = rt_method r \<and> overlap (rt_path q) (rt_path r))) rs \<and> pairwise_apart rs)"

lemma routes_apart: "pairwise_apart (health_routes @ api_router @ [route ''GET'' ''/metrics'' Open ''metrics''])"
  by code_simp

lemma find_unique:
  assumes "pairwise_apart rs" "r \<in> set rs" "path_matches (rt_path r) p"
  shows "find_route rs (rt_method r) p = Some r"
  using assms
proof (induction rs)
  case (Cons q rs)
  show ?case
  proof (cases "r = q")
    case False
    then have "\<not> (rt_method q = rt_method r \<and> path_matches (rt_path q) p)"
      using Cons.prems overlap_if_both_match by (fastforce simp: list_all_iff)
    then show ?thesis using False Cons by (auto simp: find_route_def)
  qed (use Cons.prems in \<open>simp add: find_route_def\<close>)
qed simp

text \<open>No route hides another: with the default path of the metrics each handler answers every path of its template.\<close>

lemma every_route_reached:
  assumes "r \<in> set (app_routes s)" "cf_metrics_path s = ''/metrics''" "path_matches (rt_path r) p"
  shows "find_route (app_routes s) (rt_method r) p = Some r"
  using find_unique [OF _ assms(1,3)] routes_apart assms(2) by (simp add: app_routes_def)

section \<open>Properties\<close>

text \<open>
  C8. Access control over the whole surface: every handler but the two health endpoints and the metrics runs
  only with a key that the request presented and that is a live row of the key table, and every handler that
  is not a GET runs only with the scope of its group: fetch for jobs and batches, keys for the key endpoints,
  admin for everything else.
\<close>

theorem surface_guarded:
  assumes "dispatch s ar now keys m path x_api_key = Some (Inr (h, caller))" "h \<notin> set open_handlers"
  shows "\<exists>x k. x_api_key = Some x \<and> caller = Some k \<and> k \<in> set keys \<and> k_is_active k \<and> k_revoked_at k = None
    \<and> (\<forall>t. k_expires_at k = Some t \<longrightarrow> now \<le> t) \<and> verify_api_key_hash ar x (k_hashed_key k)
    \<and> (m = ''GET'' \<or> write_scope h \<in> set (k_scopes k))"
proof -
  from assms(1) obtain r where r: "find_route (app_routes s) m path = Some r" "rt_handler r = h"
    "authorize ar now keys (rt_guard r) x_api_key = Inr caller"
    by (auto simp: dispatch_def bindE_Inr_iff split: option.splits)
  have "guarded r" "rt_method r = m"
    using r(1) by (auto simp: find_route_def find_Some_iff intro: app_routes_guarded nth_mem)
  with r(2) assms(2) have g: "rt_guard r \<noteq> Open" "m = ''GET'' \<or> rt_guard r = Needs (write_scope h)"
    by (auto simp: guarded_def)
  with r(3) obtain x k where k: "x_api_key = Some x" "caller = Some k" "resolve_api_key ar now x keys = Inr k"
    "\<And>scope. rt_guard r = Needs scope \<Longrightarrow> scope \<in> set (k_scopes k)"
    by (auto simp: authorize_def require_scope_def bindE_Inr_iff split: guard.splits option.splits if_splits)
  with resolve_InrD [OF k(3)] g(2) show ?thesis by blast
qed

theorem surface_guarded_witness:
  "ex_caller \<in> set [ex_admin_key, ex_caller] \<and> SCOPE_KEYS \<in> set (k_scopes ex_caller)"
proof -
  have "dispatch (default_settings ''db'') ex_argon 5 [ex_admin_key, ex_caller] ''POST'' ''/v1/keys'' (Some ''crwlkeys-raw'')
      = Some (Inr (''create_api_key'', Some ex_caller))" by code_simp
  from surface_guarded [OF this] show ?thesis by (simp add: open_handlers_def write_scope_def)
qed

text \<open>
  A refusal of the application is a JSON response with its status, its code and the text of the exception, and
  carries the correlation identifier of the request, or a fresh one; an exception that passes the handler
  leaves the middleware without a response to put it on.
\<close>

lemma error_response_correlated:
  "correlation_dispatch fresh headers (\<lambda>_. crawler_api_error_handler exc)
    = (case error_code exc of
         None \<Rightarrow> None
       | Some code \<Rightarrow> Some \<lparr>rs_status = status_code exc,
           rs_headers = [lower ''X-Correlation-ID'' \<mapsto> (case headers (lower ''X-Correlation-ID'') of None \<Rightarrow> uuid_str fresh | Some v \<Rightarrow> v)],
           rs_error = code, rs_detail = error_detail exc\<rparr>)"
  by (simp add: correlation_dispatch_def crawler_api_error_handler_def Let_def split: option.splits)

lemma refusal_status: "error_code exc = Some code \<Longrightarrow> status_code exc \<in> {401, 403, 404, 409, 502}"
  by (cases exc) auto

end
