(* ===== verification/Observability.thy ===== *)
theory Observability
  imports Fetch_Task Lifecycle Settings
begin

text \<open>
  The metrics and the tracing of \<^verbatim>\<open>app/core/observability.py\<close> with the places that feed them, and the lifespan of
  the API that starts the tracing. The Prometheus client is not part of the program: a module declares metrics
  with their label names, an operation is modelled by the calls it makes on them, and \<open>accepted\<close> is what the client
  documents a call to need. Two of the places (the block and the cost metric of \<^verbatim>\<open>fetch_task.py\<close>) have no
  \<^verbatim>\<open>try\<close> around them, so a rejected call would turn a fetched page into a failed job: that no call is ever
  rejected is what lets the other theories leave the metrics out.
\<close>

section \<open>The declared metrics\<close>

datatype metric_kind = Counter | Gauge | Histogram "int list"  \<comment> \<open>the finite bounds of the buckets\<close>

record metric =
  mt_kind :: metric_kind
  mt_name :: string
  mt_labels :: "string list"

definition metric :: "metric_kind \<Rightarrow> string \<Rightarrow> string list \<Rightarrow> metric" where
  "metric k n ls = \<lparr>mt_kind = k, mt_name = n, mt_labels = ls\<rparr>"

definition REQUEST_LATENCY_MS :: metric where
  "REQUEST_LATENCY_MS = metric (Histogram [10, 25, 50, 100, 250, 500, 1000, 2500, 5000, 10000])
     ''crawler_request_latency_ms'' [''component'', ''endpoint'', ''method'', ''status_code'']"

definition BLOCK_RATE_TOTAL :: metric where
  "BLOCK_RATE_TOTAL = metric Counter ''crawler_block_rate_total'' [''domain'', ''engine'', ''reason'']"

definition QUEUE_DEPTH :: metric where
  "QUEUE_DEPTH = metric Gauge ''crawler_queue_depth'' [''queue_name'']"

definition PROXY_HEALTH :: metric where
  "PROXY_HEALTH = metric Gauge ''crawler_proxy_health_score'' [''proxy_id'', ''pool_id'', ''country'']"

definition WARC_BYTES_TOTAL :: metric where
  "WARC_BYTES_TOTAL = metric Counter ''crawler_warc_bytes_total'' [''warc_type'']"

definition DEDUP_RATIO :: metric where
  "DEDUP_RATIO = metric Gauge ''crawler_dedup_ratio'' []"

definition PROXY_COST_EUR_TOTAL :: metric where
  "PROXY_COST_EUR_TOTAL = metric Counter ''crawler_proxy_cost_eur_total'' [''provider'']"

definition RATE_LIMIT_HITS_TOTAL :: metric where
  "RATE_LIMIT_HITS_TOTAL = metric Counter ''crawler_rate_limit_hits_total'' [''layer'']"

definition WARC_DLQ_ENTRIES :: metric where
  "WARC_DLQ_ENTRIES = metric Gauge ''crawler_warc_dlq_entries'' []"

definition ESCALATION_TIER_CURRENT :: metric where
  "ESCALATION_TIER_CURRENT = metric Gauge ''crawler_escalation_tier_current'' [''domain'']"

definition FETCH_ATTEMPTS_BY_TIER :: metric where
  "FETCH_ATTEMPTS_BY_TIER = metric Counter ''crawler_fetch_attempts_by_tier_total'' [''tier'', ''engine'']"

definition VENDOR_DETECTED_TOTAL :: metric where
  "VENDOR_DETECTED_TOTAL = metric Counter ''crawler_vendor_detected_total'' [''vendor'']"

definition CONSECUTIVE_BLOCKS_GAUGE :: metric where
  "CONSECUTIVE_BLOCKS_GAUGE = metric Gauge ''crawler_consecutive_blocks'' [''domain'']"

text \<open>Everything that the module registers, in its order.\<close>

definition REGISTRY :: "metric list" where
  "REGISTRY =
    [REQUEST_LATENCY_MS, BLOCK_RATE_TOTAL, QUEUE_DEPTH, PROXY_HEALTH, WARC_BYTES_TOTAL, DEDUP_RATIO, PROXY_COST_EUR_TOTAL,
     RATE_LIMIT_HITS_TOTAL, WARC_DLQ_ENTRIES, ESCALATION_TIER_CURRENT, FETCH_ATTEMPTS_BY_TIER, VENDOR_DETECTED_TOTAL,
     CONSECUTIVE_BLOCKS_GAUGE]"

section \<open>Calls on a metric\<close>

datatype update = Inc real | SetTo real | Observe real

record metric_call =
  mc_metric :: metric
  mc_labels :: "(string \<times> string) list"
  mc_update :: update

definition call :: "metric \<Rightarrow> (string \<times> string) list \<Rightarrow> update \<Rightarrow> metric_call" where
  "call m ls u = \<lparr>mc_metric = m, mc_labels = ls, mc_update = u\<rparr>"

text \<open>
  A call goes through when the metric is registered, every label name of the declaration has exactly one value,
  the method is one of the metric's kind, and a counter does not go down.
\<close>

definition accepted :: "metric_call \<Rightarrow> bool" where
  "accepted c \<longleftrightarrow> mc_metric c \<in> set REGISTRY
     \<and> distinct (map fst (mc_labels c)) \<and> set (map fst (mc_labels c)) = set (mt_labels (mc_metric c))
     \<and> (case mc_update c of
          Inc x \<Rightarrow> mt_kind (mc_metric c) = Counter \<and> 0 \<le> x
        | SetTo x \<Rightarrow> mt_kind (mc_metric c) = Gauge
        | Observe x \<Rightarrow> (\<exists>bs. mt_kind (mc_metric c) = Histogram bs))"

section \<open>The helpers of the module\<close>

definition get_metrics_response :: "Settings \<Rightarrow> string \<Rightarrow> string" where
  "get_metrics_response s generated = (if \<not> cf_enable_metrics s then [] else generated)"

text \<open>The argument is the answer to \<^verbatim>\<open>LLEN\<close>, \<^const>\<open>None\<close> where the command raises.\<close>

definition queue_key :: "string \<Rightarrow> string" where
  "queue_key queue_name = ''arq:queue:'' @ queue_name"

definition observe_queue_depth :: "(string \<Rightarrow> int option) \<Rightarrow> string \<Rightarrow> metric_call list" where
  "observe_queue_depth llen queue_name =
     (case llen (queue_key queue_name) of
        None \<Rightarrow> []
      | Some depth \<Rightarrow> [call QUEUE_DEPTH [(''queue_name'', queue_name)] (SetTo (of_int depth))])"

definition update_proxy_health_metric :: "Proxy \<Rightarrow> metric_call list" where
  "update_proxy_health_metric proxy =
     [call PROXY_HEALTH
        [(''proxy_id'', uuid_str (px_id proxy)), (''pool_id'', uuid_str (px_pool_id proxy)),
         (''country'', case px_country proxy of None \<Rightarrow> ''unknown'' | Some c \<Rightarrow> if c = [] then ''unknown'' else c)]
        (SetTo (px_health_score proxy))]"

text \<open>The calls of \<open>record_archive_metrics\<close>, whose counters are in theory Lifecycle.\<close>

definition archive_calls :: "nat \<Rightarrow> bool \<Rightarrow> archive_metrics \<Rightarrow> metric_call list" where
  "archive_calls bytes_written is_revisit m =
     [call WARC_BYTES_TOTAL [(''warc_type'', if is_revisit then ''revisit'' else ''response'')] (Inc (real bytes_written)),
      call DEDUP_RATIO [] (SetTo (dedup_ratio (record_archive_metrics bytes_written is_revisit m)))]"

section \<open>The places that feed them\<close>

definition record_latency :: "string \<Rightarrow> int \<Rightarrow> metric_call list" where
  "record_latency status elapsed =
     [call REQUEST_LATENCY_MS
        [(''component'', ''worker''), (''endpoint'', ''fetch_task''), (''method'', ''ARQ''), (''status_code'', status)]
        (Observe (of_int elapsed))]"

definition api_latency :: "int \<Rightarrow> metric_call list" where
  "api_latency elapsed_ms =
     [call REQUEST_LATENCY_MS
        [(''component'', ''api''), (''endpoint'', ''/v1/fetch''), (''method'', ''POST''), (''status_code'', ''202'')]
        (Observe (of_int elapsed_ms))]"

definition block_metric :: "string \<Rightarrow> FetchResult \<Rightarrow> metric_call list" where
  "block_metric domain result =
     (if fr_blocked result
      then [call BLOCK_RATE_TOTAL
              [(''domain'', domain), (''engine'', fr_engine result),
               (''reason'', case fr_block_reason result of None \<Rightarrow> ''unknown'' | Some r \<Rightarrow> if r = [] then ''unknown'' else r)]
              (Inc 1)]
      else [])"

definition cost_metric :: "FetchResult \<Rightarrow> metric_call list" where
  "cost_metric result =
     (if fr_proxy_id result \<noteq> None
      then [call PROXY_COST_EUR_TOTAL [(''provider'', ''webshare'')] (Inc (bytes_to_eur_cost (length (fr_body result))))]
      else [])"

definition attempt_metric :: "int \<Rightarrow> metric_call list" where
  "attempt_metric tier =
     (case py_index LADDER tier of
        None \<Rightarrow> []
      | Some t \<Rightarrow> [call FETCH_ATTEMPTS_BY_TIER [(''tier'', int_str tier), (''engine'', t_engine t)] (Inc 1)])"

definition learner_metrics :: "DomainPolicy \<Rightarrow> string option \<Rightarrow> metric_call list" where
  "learner_metrics row vendor =
     [call ESCALATION_TIER_CURRENT [(''domain'', dp_domain row)] (SetTo (of_int (dp_escalation_tier row))),
      call CONSECUTIVE_BLOCKS_GAUGE [(''domain'', dp_domain row)] (SetTo (of_int (dp_consecutive_blocks row)))] @
     (case vendor of None \<Rightarrow> [] | Some v \<Rightarrow> [call VENDOR_DETECTED_TOTAL [(''vendor'', v)] (Inc 1)])"

text \<open>
  One run of the task, in the order of its calls: the block metric on what the fetch returned, the archive where
  there was an index row (its size and whether it is a revisit), the cost of the decoded body, the latency. A run that
  fails records the calls up to its failure and a latency of its own.
\<close>

definition completed_metrics ::
  "string \<Rightarrow> FetchResult \<Rightarrow> bytes \<Rightarrow> (nat \<times> bool) option \<Rightarrow> archive_metrics \<Rightarrow> int \<Rightarrow> metric_call list" where
  "completed_metrics domain result api_body archived m elapsed =
     block_metric domain result
     @ (case archived of None \<Rightarrow> [] | Some (bytes_written, is_revisit) \<Rightarrow> archive_calls bytes_written is_revisit m)
     @ cost_metric (result\<lparr>fr_body := api_body\<rparr>)
     @ record_latency ''completed'' elapsed"

definition failed_metrics ::
  "nat \<Rightarrow> string \<Rightarrow> FetchResult \<Rightarrow> bytes \<Rightarrow> (nat \<times> bool) option \<Rightarrow> archive_metrics \<Rightarrow> int \<Rightarrow> metric_call list" where
  "failed_metrics n domain result api_body archived m elapsed =
     take n (completed_metrics domain result api_body archived m elapsed) @ record_latency ''failed'' elapsed"

section \<open>Tracing and the lifespan of the API\<close>

datatype exporter = OTLPSpanExporter string | ConsoleSpanExporter

record tracing =
  tr_resource :: "(string \<times> string) list"
  tr_exporter :: exporter
  tr_instrumented :: "string list"

text \<open>
  \<^verbatim>\<open>setup_tracing\<close>: \<^const>\<open>None\<close> is no tracer provider. The arguments say whether each instrumentation works; the
  first failure ends the block, with a warning.
\<close>

definition setup_tracing :: "Settings \<Rightarrow> bool \<Rightarrow> bool \<Rightarrow> tracing option" where
  "setup_tracing s fastapi_ok httpx_ok =
     (if \<not> cf_enable_tracing s then None
      else Some \<lparr>tr_resource = [(''service.name'', cf_service_name s), (''service.version'', cf_service_version s)],
             tr_exporter = (if cf_otlp_endpoint s \<noteq> [] then OTLPSpanExporter (cf_otlp_endpoint s) else ConsoleSpanExporter),
             tr_instrumented = (if \<not> fastapi_ok then [] else if \<not> httpx_ok then [''fastapi''] else [''fastapi'', ''httpx''])\<rparr>)"

text \<open>
  \<^verbatim>\<open>lifespan\<close>: before the server takes requests the tracing is set up and the services are initialised beside it; when
  it stops, the storage is flushed, where there is one, and a failure of that is swallowed.
\<close>

definition lifespan_start :: "Settings \<Rightarrow> bool \<Rightarrow> bool \<Rightarrow> bool \<Rightarrow> bool option \<Rightarrow> tracing option \<times> app_state" where
  "lifespan_start s fastapi_ok httpx_ok redis_url_ok warc =
     (setup_tracing s fastapi_ok httpx_ok, init_services redis_url_ok warc empty_state)"

definition lifespan_stop :: "app_state \<Rightarrow> ('w \<Rightarrow> (exn + unit) \<times> 'w) \<Rightarrow> 'w \<Rightarrow> 'w" where
  "lifespan_stop st shutdown_flush w = quietly (as_warc_storage st \<noteq> None) shutdown_flush w"

section \<open>Facts\<close>

lemmas metric_defs = REQUEST_LATENCY_MS_def BLOCK_RATE_TOTAL_def QUEUE_DEPTH_def PROXY_HEALTH_def WARC_BYTES_TOTAL_def
  DEDUP_RATIO_def PROXY_COST_EUR_TOTAL_def RATE_LIMIT_HITS_TOTAL_def WARC_DLQ_ENTRIES_def ESCALATION_TIER_CURRENT_def
  FETCH_ATTEMPTS_BY_TIER_def VENDOR_DETECTED_TOTAL_def CONSECUTIVE_BLOCKS_GAUGE_def metric_def

text \<open>The names under which the client exports a metric, as it documents them: a counter loses \<^verbatim>\<open>_total\<close> and gets it back.\<close>

definition series :: "metric \<Rightarrow> string list" where
  "series m =
     (case mt_kind m of
        Counter \<Rightarrow> (let base = (if endswith ''_total'' (mt_name m) then take (length (mt_name m) - 6) (mt_name m) else mt_name m)
                    in [base, base @ ''_total'', base @ ''_created''])
      | Gauge \<Rightarrow> [mt_name m]
      | Histogram _ \<Rightarrow> [mt_name m, mt_name m @ ''_bucket'', mt_name m @ ''_sum'', mt_name m @ ''_count'', mt_name m @ ''_created''])"

text \<open>Importing the module registers every metric: no two of them export the same series, which the client refuses.\<close>

lemma registry_distinct: "distinct (concat (map series REGISTRY))"
  by code_simp

lemma accepted_call:
  "accepted (call m ls u) \<longleftrightarrow> m \<in> set REGISTRY \<and> distinct (map fst ls) \<and> set (map fst ls) = set (mt_labels m)
     \<and> (case u of Inc x \<Rightarrow> mt_kind m = Counter \<and> 0 \<le> x | SetTo x \<Rightarrow> mt_kind m = Gauge
        | Observe x \<Rightarrow> (\<exists>bs. mt_kind m = Histogram bs))"
  by (cases u) (simp_all add: accepted_def call_def)

lemma registered [simp]:
  "REQUEST_LATENCY_MS \<in> set REGISTRY" "BLOCK_RATE_TOTAL \<in> set REGISTRY" "QUEUE_DEPTH \<in> set REGISTRY"
  "PROXY_HEALTH \<in> set REGISTRY" "WARC_BYTES_TOTAL \<in> set REGISTRY" "DEDUP_RATIO \<in> set REGISTRY"
  "PROXY_COST_EUR_TOTAL \<in> set REGISTRY" "ESCALATION_TIER_CURRENT \<in> set REGISTRY"
  "FETCH_ATTEMPTS_BY_TIER \<in> set REGISTRY" "VENDOR_DETECTED_TOTAL \<in> set REGISTRY"
  "CONSECUTIVE_BLOCKS_GAUGE \<in> set REGISTRY"
  by (simp_all only: REGISTRY_def list.set insert_iff simp_thms)

lemma metric_fields [simp]:
  "mt_kind REQUEST_LATENCY_MS = Histogram [10, 25, 50, 100, 250, 500, 1000, 2500, 5000, 10000]" "mt_labels REQUEST_LATENCY_MS = [''component'', ''endpoint'', ''method'', ''status_code'']"
  "mt_kind BLOCK_RATE_TOTAL = Counter" "mt_labels BLOCK_RATE_TOTAL = [''domain'', ''engine'', ''reason'']"
  "mt_kind QUEUE_DEPTH = Gauge" "mt_labels QUEUE_DEPTH = [''queue_name'']"
  "mt_kind PROXY_HEALTH = Gauge" "mt_labels PROXY_HEALTH = [''proxy_id'', ''pool_id'', ''country'']"
  "mt_kind WARC_BYTES_TOTAL = Counter" "mt_labels WARC_BYTES_TOTAL = [''warc_type'']"
  "mt_kind DEDUP_RATIO = Gauge" "mt_labels DEDUP_RATIO = []"
  "mt_kind PROXY_COST_EUR_TOTAL = Counter" "mt_labels PROXY_COST_EUR_TOTAL = [''provider'']"
  "mt_kind ESCALATION_TIER_CURRENT = Gauge" "mt_labels ESCALATION_TIER_CURRENT = [''domain'']"
  "mt_kind FETCH_ATTEMPTS_BY_TIER = Counter" "mt_labels FETCH_ATTEMPTS_BY_TIER = [''tier'', ''engine'']"
  "mt_kind VENDOR_DETECTED_TOTAL = Counter" "mt_labels VENDOR_DETECTED_TOTAL = [''vendor'']"
  "mt_kind CONSECUTIVE_BLOCKS_GAUGE = Gauge" "mt_labels CONSECUTIVE_BLOCKS_GAUGE = [''domain'']"
  by (simp_all only: metric_defs metric.simps)

lemmas accepted_simps = accepted_call list.pred_inject list_all_append

lemma record_latency_accepted: "list_all accepted (record_latency status elapsed)"
  by (simp add: record_latency_def accepted_simps)

lemma completed_accepted: "list_all accepted (completed_metrics domain result api_body archived m elapsed)"
proof -
  have "list_all accepted (block_metric domain result)"
    by (simp add: block_metric_def accepted_simps)
  moreover have "list_all accepted (archive_calls b r m)" for b r
    by (simp add: archive_calls_def accepted_simps)
  moreover have "list_all accepted (cost_metric r)" for r
    by (simp add: cost_metric_def accepted_simps bytes_to_eur_cost_def COST_EUR_PER_GB_def)
  ultimately show ?thesis
    by (simp add: completed_metrics_def record_latency_accepted split: option.splits prod.splits)
qed

lemma failed_accepted: "list_all accepted (failed_metrics n domain result api_body archived m elapsed)"
  unfolding failed_metrics_def list_all_append
  using record_latency_accepted completed_accepted by (auto simp: list_all_iff dest: in_set_takeD)

lemma service_calls_accepted:
  "list_all accepted (attempt_metric tier)" "list_all accepted (learner_metrics row vendor)"
  "list_all accepted (update_proxy_health_metric proxy)" "list_all accepted (observe_queue_depth llen queue_name)"
  "list_all accepted (api_latency elapsed)"
  by (simp_all add: attempt_metric_def learner_metrics_def update_proxy_health_metric_def observe_queue_depth_def
      api_latency_def accepted_simps split: option.splits)

text \<open>
  What the counters of the archive add up to, and the last ratio set: the samples after a history of archived records
  are the totals of theory Lifecycle, so the ratio on the page is the share of the revisits, never above one.
\<close>

fun archive_history :: "(nat \<times> bool) list \<Rightarrow> archive_metrics \<Rightarrow> metric_call list" where
  "archive_history [] m = []"
| "archive_history ((b, r) # rs) m = archive_calls b r m @ archive_history rs (record_archive_metrics b r m)"

definition counted :: "metric \<Rightarrow> (string \<times> string) list \<Rightarrow> metric_call list \<Rightarrow> real" where
  "counted k ls cs = sum_list (map (\<lambda>c. if mc_metric c = k \<and> mc_labels c = ls
     then (case mc_update c of Inc x \<Rightarrow> x | _ \<Rightarrow> 0) else 0) cs)"

lemma counted_archive_calls:
  "counted WARC_BYTES_TOTAL [(''warc_type'', ''revisit'')] (archive_calls b r m) = (if r then real b else 0)"
  by (simp add: counted_def archive_calls_def call_def metric_defs)

lemma revisit_bytes_counted:
  "counted WARC_BYTES_TOTAL [(''warc_type'', ''revisit'')] (archive_history rs m)
     = real (am_bytes_revisit (fold (\<lambda>(b, r). record_archive_metrics b r) rs m)) - real (am_bytes_revisit m)"
proof (induction rs m rule: archive_history.induct)
  case (2 b r rs m)
  have "counted k ls (xs @ ys) = counted k ls xs + counted k ls ys" for k ls xs ys by (simp add: counted_def)
  with 2 show ?case by (simp add: counted_archive_calls) (simp add: record_archive_metrics_def Let_def)
qed (simp add: counted_def)

text \<open>
  The gauge of the queue never rises: it asks for the length of a list under a key of its own making, while the jobs
  wait in the sorted set that has the name of the queue, and a list that is not there has length 0.
\<close>

lemma queue_depth_stays_zero:
  assumes "\<And>k. view k = None \<Longrightarrow> llen k = Some 0" "view (queue_key (ws_queue_name (WorkerSettings s))) = None"
  shows "observe_queue_depth llen (ws_queue_name (WorkerSettings s))
    = [call QUEUE_DEPTH [(''queue_name'', ''arq:crawler'')] (SetTo 0)] \<and> queue_key (ws_queue_name (WorkerSettings s)) \<noteq> ws_queue_name (WorkerSettings s)"
  using assms by (simp add: observe_queue_depth_def queue_key_def WorkerSettings_def)

section \<open>Properties\<close>

text \<open>
  C22. No metric call of the program is rejected by the client: every call that a run of the task makes, completed or
  failing at any point, and every call of the retry loop, the policy learner, the proxy manager, the queue
  and the API names a registered metric with exactly its labels, uses a method of its kind and never takes a
  counter down.
\<close>

theorem metrics_accepted:
  "list_all accepted
     (completed_metrics domain result api_body archived m elapsed
      @ failed_metrics n domain result api_body archived m elapsed
      @ attempt_metric tier @ learner_metrics row vendor @ update_proxy_health_metric proxy
      @ observe_queue_depth llen queue_name @ api_latency elapsed)"
  by (simp add: completed_accepted failed_accepted service_calls_accepted)

end
