(* ===== verification/Camoufox_Slots.thy ===== *)
theory Camoufox_Slots
  imports Prelude
begin

text \<open>
  The life of a Firefox in \<^verbatim>\<open>app/services/fetchers/camoufox_fetcher.py\<close>: the semaphore of \<open>_get_semaphore\<close> caps the
  fetches inside, and \<open>_new_browser\<close> starts a driver, launches a browser on it, and tears both down whatever
  happens. The fetches run interleaved; each event is what one of them does between two awaits, an exception and a
  cancellation being the same event. What a page does is in theory Fetchers.
\<close>

type_synonym fetch_id = nat

datatype stage =
    Away         \<comment> \<open>not in the block of the semaphore\<close>
  | Slot         \<comment> \<open>holds a slot, before the driver runs\<close>
  | Driver       \<comment> \<open>the driver runs, the browser is being launched\<close>
  | Firefox      \<comment> \<open>in the body of \<open>_new_browser\<close>\<close>
  | Closing      \<comment> \<open>in \<^verbatim>\<open>await browser.close()\<close>\<close>
  | Stopping     \<comment> \<open>in \<^verbatim>\<open>await pw.stop()\<close>\<close>

record slots =
  cs_sem :: nat
  cs_stage :: "fetch_id \<Rightarrow> stage"
  cs_drivers :: "fetch_id set"      \<comment> \<open>the fetches whose driver runs\<close>
  cs_browsers :: "fetch_id set"     \<comment> \<open>the fetches whose Firefox runs\<close>
  cs_left :: nat                    \<comment> \<open>processes whose close or stop raised\<close>

definition new_slots :: "nat \<Rightarrow> slots" where
  "new_slots n = \<lparr>cs_sem = n, cs_stage = (\<lambda>_. Away), cs_drivers = {}, cs_browsers = {}, cs_left = 0\<rparr>"

text \<open>The semaphore is made when the first fetch asks for it.\<close>

definition get_semaphore :: "nat \<Rightarrow> slots option \<Rightarrow> slots" where
  "get_semaphore n sem = (case sem of None \<Rightarrow> new_slots n | Some s \<Rightarrow> s)"

definition to_stage :: "fetch_id \<Rightarrow> stage \<Rightarrow> slots \<Rightarrow> slots" where
  "to_stage j p s = s\<lparr>cs_stage := (cs_stage s)(j := p)\<rparr>"

definition release :: "fetch_id \<Rightarrow> slots \<Rightarrow> slots" where
  "release j s = to_stage j Away (s\<lparr>cs_sem := cs_sem s + 1\<rparr>)"

datatype slot_event =
    Acquire fetch_id
  | Driver_start fetch_id bool    \<comment> \<open>with whether the await succeeds\<close>
  | Launch fetch_id bool
  | Body_end fetch_id
  | Close fetch_id bool
  | Stop_driver fetch_id bool

fun slot_step :: "slot_event \<Rightarrow> slots \<Rightarrow> slots option" where
  "slot_step (Acquire j) s =
     (if cs_stage s j = Away \<and> cs_sem s > 0 then Some (to_stage j Slot (s\<lparr>cs_sem := cs_sem s - 1\<rparr>)) else None)"
| "slot_step (Driver_start j ok) s =
     (if cs_stage s j = Slot
      then Some (if ok then to_stage j Driver (s\<lparr>cs_drivers := insert j (cs_drivers s)\<rparr>) else release j s) else None)"
| "slot_step (Launch j ok) s =
     (if cs_stage s j = Driver
      then Some (if ok then to_stage j Firefox (s\<lparr>cs_browsers := insert j (cs_browsers s)\<rparr>) else to_stage j Stopping s)
      else None)"
| "slot_step (Body_end j) s = (if cs_stage s j = Firefox then Some (to_stage j Closing s) else None)"
| "slot_step (Close j ok) s =
     (if cs_stage s j = Closing
      then Some (to_stage j Stopping
             (s\<lparr>cs_browsers := cs_browsers s - {j}, cs_left := (if ok then cs_left s else cs_left s + 1)\<rparr>))
      else None)"
| "slot_step (Stop_driver j ok) s =
     (if cs_stage s j = Stopping
      then Some (release j (s\<lparr>cs_drivers := cs_drivers s - {j}, cs_left := (if ok then cs_left s else cs_left s + 1)\<rparr>))
      else None)"

inductive slots_reachable :: "nat \<Rightarrow> slots \<Rightarrow> bool" for n where
  first: "slots_reachable n (get_semaphore n None)"
| step: "slots_reachable n s \<Longrightarrow> slot_step e s = Some s' \<Longrightarrow> slots_reachable n s'"

fun run_slots :: "slot_event list \<Rightarrow> slots \<Rightarrow> slots option" where
  "run_slots [] s = Some s"
| "run_slots (e # es) s = Option.bind (slot_step e s) (run_slots es)"

lemma run_slots_reachable: "run_slots es s = Some s' \<Longrightarrow> slots_reachable n s \<Longrightarrow> slots_reachable n s'"
  by (induction es arbitrary: s) (auto simp: bind_eq_Some_conv intro: slots_reachable.step)

section \<open>The invariant\<close>

definition fetching :: "slots \<Rightarrow> fetch_id set" where
  "fetching s = {j. cs_stage s j \<noteq> Away}"

definition slots_inv :: "nat \<Rightarrow> slots \<Rightarrow> bool" where
  "slots_inv n s \<longleftrightarrow> finite (fetching s) \<and> cs_sem s + card (fetching s) = n
     \<and> cs_drivers s = {j. cs_stage s j \<in> {Driver, Firefox, Closing, Stopping}}
     \<and> cs_browsers s = {j. cs_stage s j \<in> {Firefox, Closing}}"

lemma stage_simps [simp]:
  "cs_stage (to_stage j p s) = (cs_stage s)(j := p)" "cs_sem (to_stage j p s) = cs_sem s"
  "cs_drivers (to_stage j p s) = cs_drivers s" "cs_browsers (to_stage j p s) = cs_browsers s"
  "cs_stage (release j s) = (cs_stage s)(j := Away)" "cs_sem (release j s) = cs_sem s + 1"
  "cs_drivers (release j s) = cs_drivers s" "cs_browsers (release j s) = cs_browsers s"
  by (simp_all add: to_stage_def release_def)

text \<open>How the fetches inside and the slots change together: one comes, one goes, or one moves on.\<close>

lemma fetching_upd: "fetching s' = (if p = Away then fetching s - {j} else insert j (fetching s))"
  if "cs_stage s' = (cs_stage s)(j := p)"
  using that by (auto simp: fetching_def)

lemma slot_count_step:
  assumes "slot_step e s = Some s'" "finite (fetching s)" "cs_sem s + card (fetching s) = n"
  shows "finite (fetching s') \<and> cs_sem s' + card (fetching s') = n"
proof -
  have in_iff: "j \<in> fetching s \<longleftrightarrow> cs_stage s j \<noteq> Away" for j by (simp add: fetching_def)
  have pos: "0 < card (fetching s)" if "cs_stage s j \<noteq> Away" for j
    using that assms(2) in_iff card_gt_0_iff by blast
  obtain j p where "cs_stage s' = (cs_stage s)(j := p)"
      "cs_sem s' = (if cs_stage s j = Away then cs_sem s - 1 else if p = Away then cs_sem s + 1 else cs_sem s)"
      "cs_stage s j = Away \<longrightarrow> p \<noteq> Away \<and> 0 < cs_sem s"
    using assms(1) by (cases e) (auto split: if_splits)
  with assms(2,3) pos [of j] show ?thesis
    by (cases "cs_stage s j = Away") (auto simp: fetching_upd in_iff insert_absorb)
qed

lemma slots_inv_reachable: "slots_reachable n s \<Longrightarrow> slots_inv n s"
proof (induction rule: slots_reachable.induct)
  case first
  then show ?case by (simp add: slots_inv_def get_semaphore_def new_slots_def fetching_def)
next
  case (step s e s')
  have "cs_drivers s' = {j. cs_stage s' j \<in> {Driver, Firefox, Closing, Stopping}}
      \<and> cs_browsers s' = {j. cs_stage s' j \<in> {Firefox, Closing}}"
    using step.IH step.hyps(2) by (cases e) (auto simp: slots_inv_def split: if_splits)
  with step slot_count_step show ?case by (auto simp: slots_inv_def)
qed

text \<open>A fetch that is inside can always move on, and with no failure it is away after at most five steps.\<close>

lemma fetch_leaves:
  assumes "cs_stage s j \<noteq> Away"
  shows "\<exists>es s'. length es \<le> 5 \<and> run_slots es s = Some s' \<and> cs_stage s' j = Away \<and> cs_left s' = cs_left s"
proof -
  let ?es = "[Driver_start j True, Launch j True, Body_end j, Close j True, Stop_driver j True]"
  define k where "k = (case cs_stage s j of Slot \<Rightarrow> 0 | Driver \<Rightarrow> 1 | Firefox \<Rightarrow> 2 | Closing \<Rightarrow> 3 | _ \<Rightarrow> (4::nat))"
  have "\<exists>s'. run_slots (drop k ?es) s = Some s' \<and> cs_stage s' j = Away \<and> cs_left s' = cs_left s"
    using assms by (cases "cs_stage s j") (auto simp: k_def to_stage_def release_def)
  moreover have "length (drop k ?es) \<le> 5" by simp
  ultimately show ?thesis by blast
qed

section \<open>Properties\<close>



end
